(* ===== verification/Prelude.thy ===== *)
theory Prelude
  imports Main "HOL-Library.Word" "HOL-Library.Sublist" "HOL-Library.Multiset"
begin

text \<open>
  Shared vocabulary of the development: the shape of a Go computation, the weakest-precondition
  rules that carry the component proofs, and generic facts on lists and maps.

  A Go function with effects is a state transformer that ends in an \<^emph>\<open>outcome\<close>: it returns a
  value, the process exits (\<^verbatim>\<open>os.Exit\<close>, \<^verbatim>\<open>logrus.Fatal\<close>), or the goroutine panics. Go's error
  values are ordinary results: a call that returns \<^verbatim>\<open>(v, err)\<close> is a sum \<open>goerr + 'v\<close>, a call that
  returns only \<^verbatim>\<open>err\<close> is a \<open>goerr option\<close>.

  Everything outside the process (API server, pods, file system, third-party packages) is reached
  through \<open>call_ext\<close>: it applies a parameter of the model to the opaque external world \<open>ext\<close> and
  appends one event to the trace \<open>calls\<close>. The trace is an instrument of the proofs: the program
  never reads it.
\<close>

named_theorems go_run \<open>how the primitive computations run\<close>
named_theorems wp_simps \<open>weakest preconditions of the combinators, as equations\<close>

section \<open>Error values\<close>

text \<open>
  \<open>ApiStatus\<close> is an error of the Kubernetes API machinery with its reason, \<open>Errorf\<close> one made by
  \<^verbatim>\<open>fmt.Errorf\<close> or \<^verbatim>\<open>errors.New\<close>, \<open>WithMessage\<close> one that carries a cause, \<open>External\<close> any other
  error of a third-party package.
\<close>

datatype goerr =
    Errorf string
  | WithMessage goerr string
  | ApiStatus string string
  | External string

primrec Error :: "goerr \<Rightarrow> string" where
  "Error (Errorf m) = m"
| "Error (WithMessage e m) = m @ '': '' @ Error e"
| "Error (ApiStatus r m) = m"
| "Error (External m) = m"

section \<open>Go computations\<close>

datatype halt = Exit int | Panic

datatype 'a outcome = Ret 'a | Halt halt

type_synonym ('s, 'a) go = "'s \<Rightarrow> 'a outcome \<times> 's"

definition ret :: "'a \<Rightarrow> ('s, 'a) go" where
  "ret a s = (Ret a, s)"

definition halting :: "halt \<Rightarrow> ('s, 'a) go" where
  "halting h s = (Halt h, s)"

definition gobind :: "('s, 'a) go \<Rightarrow> ('a \<Rightarrow> ('s, 'b) go) \<Rightarrow> ('s, 'b) go" where
  "gobind m f s = (case m s of (Ret a, s') \<Rightarrow> f a s' | (Halt h, s') \<Rightarrow> (Halt h, s'))"

definition gets :: "('s \<Rightarrow> 'a) \<Rightarrow> ('s, 'a) go" where
  "gets f s = (Ret (f s), s)"

definition modify :: "('s \<Rightarrow> 's) \<Rightarrow> ('s, unit) go" where
  "modify f s = (Ret (), f s)"

text \<open>
  A deferred function runs when the surrounding function returns or panics; \<^verbatim>\<open>os.Exit\<close> ends the
  process without running it.
\<close>

definition defer_to :: "('s, unit) go \<Rightarrow> ('s, 'a) go \<Rightarrow> ('s, 'a) go" where
  "defer_to d m s =
     (case m s of
        (Halt (Exit n), s') \<Rightarrow> (Halt (Exit n), s')
      | (r, s') \<Rightarrow> (case d s' of (Ret _, s'') \<Rightarrow> (r, s'') | (Halt h, s'') \<Rightarrow> (Halt h, s'')))"

text \<open>A loop over a slice whose body may leave the surrounding function with a result.\<close>

fun loop :: "('a \<Rightarrow> ('s, 'r option) go) \<Rightarrow> 'a list \<Rightarrow> ('s, 'r option) go" where
  "loop body [] = ret None"
| "loop body (x # xs) =
     gobind (body x) (\<lambda>r. case r of Some v \<Rightarrow> ret (Some v) | None \<Rightarrow> loop body xs)"

text \<open>The same loop over a body that threads the function's local variables.\<close>

fun foldG :: "('a \<Rightarrow> 'l \<Rightarrow> ('s, 'e + 'l) go) \<Rightarrow> 'a list \<Rightarrow> 'l \<Rightarrow> ('s, 'e + 'l) go" where
  "foldG body [] l = ret (Inr l)"
| "foldG body (x # xs) l =
     gobind (body x l) (\<lambda>r. case r of Inl e \<Rightarrow> ret (Inl e) | Inr l' \<Rightarrow> foldG body xs l')"

section \<open>The external world\<close>

record ('w, 'c) world =
  ext :: 'w
  calls :: "'c list"

definition call_ext :: "('a \<Rightarrow> 'c) \<Rightarrow> ('w \<Rightarrow> 'a \<times> 'w) \<Rightarrow> (('w, 'c, 'x) world_scheme, 'a) go" where
  "call_ext ev f s =
     (let (r, w') = f (ext s) in (Ret r, s\<lparr>ext := w', calls := calls s @ [ev r]\<rparr>))"

lemma ret_run [go_run]: "ret a s = (Ret a, s)"
  and halting_run [go_run]: "halting h s = (Halt h, s)"
  and gets_run [go_run]: "gets f s = (Ret (f s), s)"
  and modify_run [go_run]: "modify g s = (Ret (), g s)"
  by (simp_all add: ret_def halting_def gets_def modify_def)

lemma gobind_run [go_run]:
  "gobind m f s = (case m s of (Ret a, s') \<Rightarrow> f a s' | (Halt h, s') \<Rightarrow> (Halt h, s'))"
  by (simp add: gobind_def)

lemma call_ext_run [go_run]:
  "call_ext ev f s =
     (Ret (fst (f (ext s))),
      s\<lparr>ext := snd (f (ext s)), calls := calls s @ [ev (fst (f (ext s)))]\<rparr>)"
  by (simp add: call_ext_def case_prod_beta)

lemma gobind_ret [simp]: "gobind (ret a) f = f a"
  by (rule ext) (simp add: gobind_def ret_def)

lemma gobind_assoc: "gobind (gobind m f) g = gobind m (\<lambda>a. gobind (f a) g)"
  by (rule ext) (simp add: gobind_def split: prod.splits outcome.splits)

section \<open>Weakest preconditions\<close>

text \<open>
  \<open>wp m Q s\<close>: running \<open>m\<close> from \<open>s\<close> ends in an outcome and a state that satisfy \<open>Q\<close>. Every
  computation of the model is total, so this is total correctness. An external call is
  demonic: \<open>wp_call_ext\<close> asks for \<open>Q\<close> at every answer and every next external world.
\<close>

definition wp :: "('s, 'a) go \<Rightarrow> ('a outcome \<Rightarrow> 's \<Rightarrow> bool) \<Rightarrow> 's \<Rightarrow> bool" where
  "wp m Q s \<longleftrightarrow> (case m s of (r, s') \<Rightarrow> Q r s')"

lemma wp_ret [wp_simps]: "wp (ret a) Q s = Q (Ret a) s"
  and wp_halting [wp_simps]: "wp (halting h) Q s = Q (Halt h) s"
  and wp_gets [wp_simps]: "wp (gets f) Q s = Q (Ret (f s)) s"
  and wp_modify [wp_simps]: "wp (modify g) R s = R (Ret ()) (g s)"
  by (simp_all add: wp_def go_run)

lemma wp_gobind [wp_simps]:
  "wp (gobind m f) Q s =
     wp m (\<lambda>r s'. case r of Ret a \<Rightarrow> wp (f a) Q s' | Halt h \<Rightarrow> Q (Halt h) s') s"
  by (simp add: wp_def gobind_def split: prod.splits outcome.splits)

lemma wp_call_ext:
  assumes "\<And>r w. Q (Ret r) (s\<lparr>ext := w, calls := calls s @ [ev r]\<rparr>)"
  shows "wp (call_ext ev f) Q s"
  using assms by (simp add: wp_def call_ext_run)

lemma wp_conseq: "wp m P s \<Longrightarrow> (\<And>r t. P r t \<Longrightarrow> Q r t) \<Longrightarrow> wp m Q s"
  by (auto simp: wp_def)

lemma wp_conj: "wp m P s \<Longrightarrow> wp m Q s \<Longrightarrow> wp m (\<lambda>r t. P r t \<and> Q r t) s"
  by (auto simp: wp_def)

lemma wp_runD: "wp m Q s \<Longrightarrow> m s = (r, s') \<Longrightarrow> Q r s'"
  by (simp add: wp_def)

lemma wp_defer_to:
  assumes "wp m (\<lambda>r s'. case r of
             Halt (Exit n) \<Rightarrow> Q r s'
           | _ \<Rightarrow> wp d (\<lambda>d' s''. case d' of Ret _ \<Rightarrow> Q r s'' | Halt h \<Rightarrow> Q (Halt h) s'') s') s"
  shows "wp (defer_to d m) Q s"
  using assms
  by (auto simp: wp_def defer_to_def split: prod.splits outcome.splits halt.splits)

text \<open>The invariant rules of the two loops.\<close>

lemma wp_loop:
  assumes inv: "I [] s"
    and step: "\<And>xs x ys t. zs = xs @ x # ys \<Longrightarrow> I xs t \<Longrightarrow>
      wp (body x) (\<lambda>r t'. case r of Ret None \<Rightarrow> I (xs @ [x]) t' | _ \<Rightarrow> Q r t') t"
    and fin: "\<And>t. I zs t \<Longrightarrow> Q (Ret None) t"
  shows "wp (loop body zs) Q s"
proof -
  have "wp (loop body ys) Q t" if "zs = xs @ ys" "I xs t" for xs ys t
    using that
  proof (induction ys arbitrary: xs t)
    case Nil
    then show ?case by (simp add: wp_simps fin)
  next
    case (Cons y ys)
    from step [OF Cons.prems] show ?case
      unfolding loop.simps wp_gobind
      by (rule wp_conseq)
        (auto simp: wp_simps Cons.prems(1) intro: Cons.IH [of "xs @ [y]"]
              split: outcome.splits option.splits)
  qed
  from this [of "[]" zs s] inv show ?thesis by simp
qed

lemma wp_foldG:
  assumes inv: "I [] l s"
    and step: "\<And>xs x ys t k. zs = xs @ x # ys \<Longrightarrow> I xs k t \<Longrightarrow>
      wp (body x k) (\<lambda>r t'. case r of Ret (Inr k') \<Rightarrow> I (xs @ [x]) k' t' | _ \<Rightarrow> Q r t') t"
    and fin: "\<And>t k. I zs k t \<Longrightarrow> Q (Ret (Inr k)) t"
  shows "wp (foldG body zs l) Q s"
proof -
  have "wp (foldG body ys k) Q t" if "zs = xs @ ys" "I xs k t" for xs ys t k
    using that
  proof (induction ys arbitrary: xs t k)
    case Nil
    then show ?case by (simp add: wp_simps fin)
  next
    case (Cons y ys)
    from step [OF Cons.prems] show ?case
      unfolding foldG.simps wp_gobind
      by (rule wp_conseq)
        (auto simp: wp_simps Cons.prems(1) intro: Cons.IH [of "xs @ [y]"]
              split: outcome.splits sum.splits)
  qed
  from this [of "[]" zs l s] inv show ?thesis by simp
qed

end
