(* ===== verification/GoStd.thy ===== *)
theory GoStd
  imports Prelude
begin

text \<open>
  What the program uses of Go's standard library: \<^verbatim>\<open>strings\<close> (Contains, Split, Join, ToUpper,
  TrimSpace), \<^verbatim>\<open>strconv.Itoa\<close>, \<^verbatim>\<open>fmt.Sprintf\<close> with \<^verbatim>\<open>%s\<close>, \<^verbatim>\<open>%d\<close> and \<^verbatim>\<open>%v\<close>, and
  \<^verbatim>\<open>path/filepath\<close> (Clean, Join) on a Unix system. Strings are byte strings; ToUpper and
  TrimSpace are modelled on the ASCII range, the range of every constant they are compared with.
\<close>

section \<open>strings\<close>

abbreviation newline :: char where "newline \<equiv> CHR 0x0A"

fun HasPrefix :: "string \<Rightarrow> string \<Rightarrow> bool" where
  "HasPrefix s [] = True"
| "HasPrefix [] (p # ps) = False"
| "HasPrefix (c # cs) (p # ps) = (c = p \<and> HasPrefix cs ps)"

fun Contains :: "string \<Rightarrow> string \<Rightarrow> bool" where
  "Contains [] sub = (sub = [])"
| "Contains (c # cs) sub = (HasPrefix (c # cs) sub \<or> Contains cs sub)"

fun Split :: "string \<Rightarrow> char \<Rightarrow> string list" where
  "Split [] c = [[]]"
| "Split (x # xs) c =
     (if x = c then [] # Split xs c
      else (case Split xs c of [] \<Rightarrow> [[x]] | y # ys \<Rightarrow> (x # y) # ys))"

fun Join_str :: "string list \<Rightarrow> string \<Rightarrow> string" where
  "Join_str [] sep = []"
| "Join_str [x] sep = x"
| "Join_str (x # y # ys) sep = x @ sep @ Join_str (y # ys) sep"

definition ToUpper_char :: "char \<Rightarrow> char" where
  "ToUpper_char c =
     (if 97 \<le> (of_char c :: nat) \<and> (of_char c :: nat) \<le> 122
      then char_of ((of_char c :: nat) - 32) else c)"

definition ToUpper :: "string \<Rightarrow> string" where
  "ToUpper s = map ToUpper_char s"

definition is_space :: "char \<Rightarrow> bool" where
  "is_space c = (c \<in> {CHR '' '', CHR 0x09, CHR 0x0A, CHR 0x0B, CHR 0x0C, CHR 0x0D})"

definition TrimSpace :: "string \<Rightarrow> string" where
  "TrimSpace s = rev (dropWhile is_space (rev (dropWhile is_space s)))"

text \<open>Every line of a text ends in a newline.\<close>

definition unlines :: "string list \<Rightarrow> string" where
  "unlines ls = concat (map (\<lambda>l. l @ [newline]) ls)"

lemma HasPrefix_prefix: "HasPrefix s p = prefix p s"
  by (induction s p rule: HasPrefix.induct) auto

lemma Contains_sublist: "Contains s sub = sublist sub s"
  by (induction s sub rule: Contains.induct)
    (auto simp: HasPrefix_prefix sublist_Cons_right)

lemma Contains_empty [simp]: "Contains s []"
  by (cases s) auto

lemma Split_nonempty [simp]: "Split s c \<noteq> []"
  by (induction s) (auto split: list.splits)

lemma Split_no_sep: "c \<notin> set s \<Longrightarrow> Split s c = [s]"
  by (induction s) auto

lemma Split_parts: "x \<in> set (Split s c) \<Longrightarrow> c \<notin> set x"
proof (induction s arbitrary: x)
  case Nil
  then show ?case by simp
next
  case (Cons a s)
  then show ?case by (cases "Split s c") (auto split: if_splits)
qed

lemma Split_append_sep: "c \<notin> set x \<Longrightarrow> Split (x @ c # s) c = x # Split s c"
  by (induction x) auto

text \<open>Split undoes Join on parts that do not hold the separator, and Join always undoes Split.\<close>

lemma Split_Join: "xs \<noteq> [] \<Longrightarrow> (\<And>x. x \<in> set xs \<Longrightarrow> c \<notin> set x) \<Longrightarrow> Split (Join_str xs [c]) c = xs"
proof (induction xs "[c]" rule: Join_str.induct)
  case (3 x y ys)
  then show ?case by (simp add: Split_append_sep)
qed (simp_all add: Split_no_sep)

lemma Join_Cons: "xs \<noteq> [] \<Longrightarrow> Join_str (x # xs) sep = x @ sep @ Join_str xs sep"
  by (cases xs) auto

lemma Join_str_Cons_part: "Join_str ((a # x) # xs) sep = a # Join_str (x # xs) sep"
  by (cases xs) auto

lemma Join_Split: "Join_str (Split s c) [c] = s"
proof (induction s)
  case Nil
  then show ?case by simp
next
  case (Cons a s)
  then show ?case
    by (cases "Split s c") (auto simp: Join_str_Cons_part)
qed

lemma hd_Split_tag: "c \<notin> set s \<Longrightarrow> Split s c ! 0 = s"
  by (simp add: Split_no_sep)

lemma TrimSpace_empty: "TrimSpace s = [] \<longleftrightarrow> (\<forall>c \<in> set s. is_space c)"
  by (simp add: TrimSpace_def) (induction s; simp)

lemma dropWhile_hd: "xs \<noteq> [] \<Longrightarrow> \<not> P (hd xs) \<Longrightarrow> dropWhile P xs = xs"
  by (cases xs) auto

lemma TrimSpace_id: "s \<noteq> [] \<Longrightarrow> \<not> is_space (hd s) \<Longrightarrow> \<not> is_space (last s) \<Longrightarrow> TrimSpace s = s"
  by (simp add: TrimSpace_def dropWhile_hd hd_rev)

lemma TrimSpace_append_newline:
  "s \<noteq> [] \<Longrightarrow> \<not> is_space (hd s) \<Longrightarrow> \<not> is_space (last s) \<Longrightarrow> TrimSpace (s @ [newline]) = s"
proof -
  assume s: "s \<noteq> []" "\<not> is_space (hd s)" "\<not> is_space (last s)"
  have "is_space newline" by (simp add: is_space_def)
  with s show ?thesis by (simp add: TrimSpace_def dropWhile_hd hd_rev)
qed

lemma ToUpper_char_idem: "ToUpper_char (ToUpper_char c) = ToUpper_char c"
proof (cases "97 \<le> (of_char c :: nat) \<and> (of_char c :: nat) \<le> 122")
  case True
  then have "((of_char c :: nat) - 32) mod 256 = (of_char c :: nat) - 32"
    by (intro mod_less) linarith
  moreover from True have "\<not> 97 \<le> (of_char c :: nat) - 32" by linarith
  ultimately show ?thesis using True by (simp add: ToUpper_char_def)
qed (auto simp: ToUpper_char_def)

lemma ToUpper_idem [simp]: "ToUpper (ToUpper s) = ToUpper s"
  by (simp add: ToUpper_def ToUpper_char_idem)

section \<open>strconv and fmt\<close>

fun nat_digits :: "nat \<Rightarrow> string" where
  "nat_digits n =
     (if n < 10 then [char_of (48 + n)] else nat_digits (n div 10) @ [char_of (48 + n mod 10)])"

declare nat_digits.simps [simp del]

definition Itoa :: "int \<Rightarrow> string" where
  "Itoa i = (if i < 0 then CHR ''-'' # nat_digits (nat (- i)) else nat_digits (nat i))"

text \<open>
  \<^verbatim>\<open>fmt.Sprintf\<close> with its operands already in text form: each of the verbs \<^verbatim>\<open>%s\<close>, \<^verbatim>\<open>%d\<close>, \<^verbatim>\<open>%v\<close>
  takes the next operand. A verb without an operand and operands without a verb leave the
  diagnostics that the package documents; the operands of the program are strings.
\<close>

definition is_verb :: "char \<Rightarrow> bool" where
  "is_verb c = (c \<in> {CHR ''s'', CHR ''d'', CHR ''v''})"

fun extra_operands :: "string list \<Rightarrow> string" where
  "extra_operands [] = []"
| "extra_operands xs = ''%!(EXTRA '' @ Join_str (map (\<lambda>x. ''string='' @ x) xs) '', '' @ '')''"

fun Sprintf :: "string \<Rightarrow> string list \<Rightarrow> string" where
  "Sprintf [] xs = extra_operands xs"
| "Sprintf [c] xs = c # extra_operands xs"
| "Sprintf (c # v # f) xs =
     (if c = CHR ''%'' \<and> is_verb v
      then (case xs of
              [] \<Rightarrow> ''%!'' @ v # ''(MISSING)'' @ Sprintf f []
            | x # xs' \<Rightarrow> x @ Sprintf f xs')
      else c # Sprintf (v # f) xs)"

fun verbs :: "string \<Rightarrow> nat" where
  "verbs [] = 0"
| "verbs [c] = 0"
| "verbs (c # v # f) =
     (if c = CHR ''%'' \<and> is_verb v then Suc (verbs f) else verbs (v # f))"

text \<open>The text around the verbs, and a matching Sprintf as the two interleaved.\<close>

fun verb_texts :: "string \<Rightarrow> string list" where
  "verb_texts [] = [[]]"
| "verb_texts [c] = [[c]]"
| "verb_texts (c # v # f) =
     (if c = CHR ''%'' \<and> is_verb v then [] # verb_texts f
      else (case verb_texts (v # f) of [] \<Rightarrow> [[c]] | t # ts \<Rightarrow> (c # t) # ts))"

fun interleave :: "'a list list \<Rightarrow> 'a list list \<Rightarrow> 'a list" where
  "interleave [] xs = []"
| "interleave [t] xs = t"
| "interleave (t # t' # ts) [] = t @ interleave (t' # ts) []"
| "interleave (t # t' # ts) (x # xs) = t @ x @ interleave (t' # ts) xs"

lemma verb_texts_length: "length (verb_texts f) = Suc (verbs f)"
  by (induction f rule: verb_texts.induct) (auto split: list.splits)

lemma interleave_Cons_char: "interleave ((c # t) # ts) xs = c # interleave (t # ts) xs"
  by (cases ts; cases xs) auto

lemma interleave_empty_hd: "ts \<noteq> [] \<Longrightarrow> interleave ([] # ts) (x # xs) = x @ interleave ts xs"
  by (cases ts) auto

lemma verb_texts_nonempty [simp]: "verb_texts f \<noteq> []"
  using verb_texts_length [of f] by auto

lemma Sprintf_interleave: "length xs = verbs f \<Longrightarrow> Sprintf f xs = interleave (verb_texts f) xs"
proof (induction f xs rule: Sprintf.induct)
  case (3 c v f xs)
  show ?case
  proof (cases "c = CHR ''%'' \<and> is_verb v")
    case True
    with 3 show ?thesis
      by (cases xs) (auto simp: interleave_empty_hd)
  next
    case False
    with 3 show ?thesis
      by (cases "verb_texts (v # f)") (auto simp: interleave_Cons_char)
  qed
qed simp_all

lemma Sprintf_distinguishes:
  assumes "Sprintf f (x # xs) = Sprintf f (y # ys)"
    and "length (x # xs) = verbs f" "length (y # ys) = verbs f" "length x = length y"
  shows "x = y"
proof -
  obtain t ts where "verb_texts f = t # ts" "ts \<noteq> []"
    using verb_texts_length [of f] assms(2) by (cases "verb_texts f"; cases "tl (verb_texts f)") auto
  with assms show ?thesis
    by (cases ts) (auto simp: Sprintf_interleave)
qed

declare Sprintf.simps [simp del]

lemmas Sprintf_eval = Sprintf.simps is_verb_def

section \<open>path/filepath\<close>

text \<open>
  Clean works on the components of the path: empty ones and \<^verbatim>\<open>.\<close> are dropped, \<^verbatim>\<open>..\<close> removes the
  component before it, is dropped at the root and kept at the start of a relative path. The
  components kept so far are on a stack, the innermost first.
\<close>

definition clean_step :: "bool \<Rightarrow> string \<Rightarrow> string list \<Rightarrow> string list" where
  "clean_step rooted c st =
     (if c = [] \<or> c = ''.'' then st
      else if c = ''..'' then
        (case st of
           [] \<Rightarrow> (if rooted then [] else [''..''])
         | d # ds \<Rightarrow> (if d = ''..'' then ''..'' # st else ds))
      else c # st)"

definition clean_comps :: "bool \<Rightarrow> string list \<Rightarrow> string list" where
  "clean_comps rooted cs = rev (fold (clean_step rooted) cs [])"

definition is_rooted :: "string \<Rightarrow> bool" where
  "is_rooted p = HasPrefix p ''/''"

definition Clean :: "string \<Rightarrow> string" where
  "Clean p =
     (if p = [] then ''.''
      else if is_rooted p then CHR ''/'' # Join_str (clean_comps True (Split p CHR ''/'')) ''/''
      else (case clean_comps False (Split p CHR ''/'') of
              [] \<Rightarrow> ''.''
            | cs \<Rightarrow> Join_str cs ''/''))"

fun filepath_Join :: "string list \<Rightarrow> string" where
  "filepath_Join [] = []"
| "filepath_Join (e # es) =
     (if e \<noteq> [] then Clean (Join_str (e # es) ''/'') else filepath_Join es)"

text \<open>A component that Clean keeps as it is.\<close>

definition plain_comp :: "string \<Rightarrow> bool" where
  "plain_comp c \<longleftrightarrow> c \<noteq> [] \<and> c \<noteq> ''.'' \<and> c \<noteq> ''..''"

definition no_dotdot :: "string \<Rightarrow> bool" where
  "no_dotdot p = (''..'' \<notin> set (Split p CHR ''/''))"

lemma fold_clean_plain:
  "''..'' \<notin> set cs \<Longrightarrow> fold (clean_step r) cs st = rev (filter plain_comp cs) @ st"
  by (induction cs arbitrary: st) (auto simp: clean_step_def plain_comp_def)

lemma clean_comps_plain: "''..'' \<notin> set cs \<Longrightarrow> clean_comps r cs = filter plain_comp cs"
  by (simp add: clean_comps_def fold_clean_plain)

lemma fold_clean_rooted_plain:
  "(\<And>c. c \<in> set st \<Longrightarrow> plain_comp c) \<Longrightarrow> c \<in> set (fold (clean_step True) cs st) \<Longrightarrow> plain_comp c"
proof (induction cs arbitrary: st)
  case (Cons a cs)
  have "\<And>d. d \<in> set (clean_step True a st) \<Longrightarrow> plain_comp d"
    using Cons.prems(1)
    by (auto simp: clean_step_def plain_comp_def split: list.splits if_splits)
  with Cons.IH [of "clean_step True a st"] Cons.prems(2) show ?case by simp
qed simp

lemma clean_comps_rooted: "c \<in> set (clean_comps True cs) \<Longrightarrow> plain_comp c"
  by (auto simp: clean_comps_def dest: fold_clean_rooted_plain [rotated])

lemma fold_clean_subset: "set (fold (clean_step r) cs st) \<subseteq> set cs \<union> set st \<union> {''..''}"
proof (induction cs arbitrary: st)
  case (Cons a cs)
  have "set (clean_step r a st) \<subseteq> insert a (set st \<union> {''..''})"
    by (auto simp: clean_step_def split: list.splits if_splits)
  with Cons.IH [of "clean_step r a st"] show ?case by auto
qed auto

lemma Split_no_slash: "c \<in> set (clean_comps r (Split p CHR ''/'')) \<Longrightarrow> CHR ''/'' \<notin> set c"
  using fold_clean_subset [of r "Split p CHR ''/''" "[]"] Split_parts [of c p "CHR ''/''"]
  by (auto simp: clean_comps_def)

lemma Split_Join_path: "(\<And>c. c \<in> set cs \<Longrightarrow> CHR ''/'' \<notin> set c) \<Longrightarrow>
    filter plain_comp (Split (Join_str cs ''/'') CHR ''/'') = filter plain_comp cs"
  by (cases "cs = []") (simp_all add: Split_Join plain_comp_def)

lemma Split_append_path:
  "Split (p @ CHR ''/'' # q) CHR ''/'' = Split p CHR ''/'' @ Split q CHR ''/''"
proof (induction p)
  case (Cons a p)
  then show ?case by (cases "Split p CHR ''/''") auto
qed simp

lemma Split_Join_concat:
  "ps \<noteq> [] \<Longrightarrow> Split (Join_str ps ''/'') CHR ''/'' = concat (map (\<lambda>p. Split p CHR ''/'') ps)"
proof (induction ps "''/''" rule: Join_str.induct)
  case (3 x y ys)
  then show ?case using Split_append_path [of x "Join_str (y # ys) ''/''"] by simp
qed simp_all

text \<open>Joining under a rooted directory without \<^verbatim>\<open>..\<close> keeps every plain component, in order.\<close>

lemma Join_rooted:
  assumes "is_rooted r" "\<And>p. p \<in> set (r # ps) \<Longrightarrow> no_dotdot p"
  shows "filepath_Join (r # ps) =
    CHR ''/'' # Join_str (filter plain_comp (concat (map (\<lambda>p. Split p CHR ''/'') (r # ps)))) ''/''"
proof -
  let ?p = "Join_str (r # ps) ''/''"
  obtain r' where r: "r = CHR ''/'' # r'"
    using assms(1) by (cases r) (auto simp: is_rooted_def)
  then have "is_rooted ?p" "?p \<noteq> []"
    by (auto simp: is_rooted_def Join_str_Cons_part)
  moreover have "''..'' \<notin> set (Split ?p CHR ''/'')"
    using assms(2) by (auto simp: Split_Join_concat no_dotdot_def)
  ultimately show ?thesis
    using r by (simp add: Clean_def clean_comps_plain Split_Join_concat)
qed

lemma Clean_rooted: "is_rooted p \<Longrightarrow> is_rooted (Clean p) \<and> no_dotdot (Clean p)"
proof -
  assume p: "is_rooted p"
  let ?cs = "clean_comps True (Split p CHR ''/'')"
  have *: "Clean p = CHR ''/'' # Join_str ?cs ''/''"
    using p by (cases p) (auto simp: Clean_def is_rooted_def)
  have "Split (Join_str ?cs ''/'') CHR ''/'' = (if ?cs = [] then [[]] else ?cs)"
    by (auto intro!: Split_Join dest: Split_no_slash)
  then have "''..'' \<notin> set (Split (Join_str ?cs ''/'') CHR ''/'')"
    by (auto dest: clean_comps_rooted simp: plain_comp_def)
  with * show ?thesis
    by (simp add: is_rooted_def no_dotdot_def)
qed

end
