(* ===== verification/ApiTypes.thy ===== *)
theory ApiTypes
  imports GoStd
begin

text \<open>
  The API types of \<^verbatim>\<open>apis/storage/v1alpha1\<close> and \<^verbatim>\<open>apis/networking/v1alpha1\<close> and the constants of
  \<^verbatim>\<open>pkg/types\<close>. A Go struct is a record with the source's field order, a pointer field an option,
  an unsigned integer field a word of its width. \<open>ObjectMeta\<close>, \<open>Pod\<close>, \<open>Deployment\<close> and the other
  Kubernetes types carry the fields that the program reads or writes.
\<close>

type_synonym u32 = "32 word"
type_synonym u64 = "64 word"
type_synonym Storage = string
type_synonym Resource = string
type_synonym Time = int

section \<open>Kubernetes object metadata\<close>

record OwnerReference =
  or_kind :: string
  or_name :: string
  or_controller :: bool

record ObjectMeta =
  om_Name :: string
  om_Namespace :: string
  om_Labels :: "(string \<times> string) list"
  om_Annotations :: "(string \<times> string) list"
  om_Finalizers :: "string list"
  om_OwnerReferences :: "OwnerReference list"
  om_Generation :: int
  om_DeletionTimestamp :: "Time option"
  om_ResourceVersion :: string

definition emptyMeta :: ObjectMeta where
  "emptyMeta = \<lparr>om_Name = [], om_Namespace = [], om_Labels = [], om_Annotations = [],
     om_Finalizers = [], om_OwnerReferences = [], om_Generation = 0,
     om_DeletionTimestamp = None, om_ResourceVersion = []\<rparr>"

record NamespacedName =
  nn_Namespace :: string
  nn_Name :: string

section \<open>Backup\<close>

record BackupFrom =
  bf_Name :: string
  bf_Resource :: Resource

definition PodResource :: Resource where "PodResource = ''pod''"
definition DeploymentResource :: Resource where "DeploymentResource = ''deployment''"
definition StatefulSetResource :: Resource where "StatefulSetResource = ''statefulset''"
definition DaemonSetResource :: Resource where "DaemonSetResource = ''daemonset''"
definition PersistentVolume :: Resource where "PersistentVolume = ''persistentvolume''"
definition PersistentVolumeClaim :: Resource where "PersistentVolumeClaim = ''persistentvolumeclaim''"

lemmas resource_defs = PodResource_def DeploymentResource_def StatefulSetResource_def
  DaemonSetResource_def PersistentVolume_def PersistentVolumeClaim_def

record NFS =
  nfs_Server :: string
  nfs_Path :: string

text \<open>The claim embedded in \<^verbatim>\<open>PVC\<close> is a type of the Kubernetes API and is kept opaque.\<close>

record PVC =
  pvc_claim :: string

record CephFS =
  ceph_Monitors :: "string list"
  ceph_Path :: string
  ceph_ReadOnly :: bool
  ceph_SecretFile :: string
  ceph_SecretRef :: string
  ceph_User :: string
  ceph_CredentialName :: string
  ceph_CredentialNamespace :: string

record S3 =
  s3_Endpoint :: string
  s3_Bucket :: string
  s3_Folder :: string
  s3_CredentialName :: string
  s3_CredentialNamespace :: string
  s3_InsecureTLSSkipVerify :: bool
  s3_Region :: string

record MinioEndpoint =
  me_Scheme :: string
  me_Address :: string
  me_Port :: u32

record MinIO =
  minio_Endpoint :: "MinioEndpoint option"
  minio_Bucket :: string
  minio_Folder :: string
  minio_InsecureTLSSkipVerify :: bool
  minio_Region :: string

record RestServer =
  rest_Address :: string
  rest_Port :: u32
  rest_Path :: string
  rest_CredentialName :: string
  rest_CredentialNamespace :: string

record SFTP =
  sftp_Address :: string
  sftp_Port :: u32
  sftp_Path :: string

record Rclone =
  rclone_Address :: string
  rclone_Path :: string

record BackupTo =
  bt_NFS :: "NFS option"
  bt_PVC :: "PVC option"
  bt_CephFS :: "CephFS option"
  bt_S3 :: "S3 option"
  bt_MinIO :: "MinIO option"
  bt_RestServer :: "RestServer option"
  bt_SFTP :: "SFTP option"
  bt_Rclone :: "Rclone option"

definition emptyBackupTo :: BackupTo where
  "emptyBackupTo = \<lparr>bt_NFS = None, bt_PVC = None, bt_CephFS = None, bt_S3 = None,
     bt_MinIO = None, bt_RestServer = None, bt_SFTP = None, bt_Rclone = None\<rparr>"

record EnvVar =
  ev_Name :: string
  ev_Value :: string

record BackupSpec =
  sp_Schedule :: string
  sp_Retention :: u64
  sp_BackupFrom :: "BackupFrom option"
  sp_BackupTo :: "BackupTo option"
  sp_Timeout :: int
  sp_Env :: "EnvVar list"
  sp_TimeZone :: string
  sp_Cluster :: string
  sp_CredentialName :: string
  sp_LogLevel :: string
  sp_LogFormat :: string
  sp_SuccessfulJobsHistoryLimit :: u32
  sp_FailedJobsHistoryLimit :: u32

record BackupCondition =
  bc_Type :: string
  bc_Status :: string
  bc_LastProbeTime :: Time
  bc_LastTransitionTime :: Time
  bc_Reason :: string
  bc_Message :: string

record BackupStatus =
  st_Conditions :: "BackupCondition list"
  st_LastBackupTime :: Time
  st_NextBackupTime :: Time
  st_ObservedGeneration :: u64
  st_Storage :: "string list"
  st_Message :: string
  st_Reason :: string
  st_ResourceType :: string
  st_ResourceName :: string

record Backup =
  b_ObjectMeta :: ObjectMeta
  b_Spec :: BackupSpec
  b_Status :: BackupStatus

abbreviation b_Name :: "Backup \<Rightarrow> string" where "b_Name b \<equiv> om_Name (b_ObjectMeta b)"
abbreviation b_Namespace :: "Backup \<Rightarrow> string" where "b_Namespace b \<equiv> om_Namespace (b_ObjectMeta b)"

section \<open>pkg/types\<close>

definition StorageNFS :: Storage where "StorageNFS = ''nfs''"
definition StorageMinIO :: Storage where "StorageMinIO = ''minio''"
definition StorageS3 :: Storage where "StorageS3 = ''s3''"
definition StorageCephFS :: Storage where "StorageCephFS = ''cephfs''"
definition StorageRestServer :: Storage where "StorageRestServer = ''restServer''"
definition StorageSFTP :: Storage where "StorageSFTP = ''sftp''"
definition StorageRClone :: Storage where "StorageRClone = ''rclone''"

lemmas storage_defs = StorageNFS_def StorageMinIO_def StorageS3_def StorageCephFS_def
  StorageRestServer_def StorageSFTP_def StorageRClone_def

definition VolumeHostPath :: string where "VolumeHostPath = ''hostPath''"
definition VolumeLocal :: string where "VolumeLocal = ''local''"

lemmas volume_defs = VolumeHostPath_def VolumeLocal_def

definition DefaultClusterName :: string where "DefaultClusterName = ''kubernetes''"
definition DefaultOperatorNamespace :: string where
  "DefaultOperatorNamespace = ''horus-operator-system''"
definition DefaultBackupFinalizerName :: string where
  "DefaultBackupFinalizerName = ''backup.storage.hybfkuf.io/finalizer''"
definition AnnotationUpdatedTime :: string where "AnnotationUpdatedTime = ''hybfkuf.io/updatedAt''"
definition AnnotationRestartedTime :: string where
  "AnnotationRestartedTime = ''hybfkuf.io/restartedAt''"
definition LabelPartOf :: string where "LabelPartOf = ''app.kubernetes.io/part-of''"
definition LabelManagedBy :: string where "LabelManagedBy = ''app.kubernetes.io/managed-by''"
definition LabelPairPartOf :: string where
  "LabelPairPartOf = Sprintf ''%s=%s'' [LabelPartOf, ''horus'']"
definition LabelPairManagedBy :: string where
  "LabelPairManagedBy = Sprintf ''%s=%s'' [LabelManagedBy, ''horus-operator'']"
definition Backup2NFSDeployName :: string where "Backup2NFSDeployName = ''backup-to-nfs''"
definition Backup2NFSDeployLabel :: string where
  "Backup2NFSDeployLabel = Sprintf ''app.kubernetes.io/name=%s'' [Backup2NFSDeployName]"
definition Backup2MinioDeployName :: string where "Backup2MinioDeployName = ''backup-to-minio''"
definition Backup2MinioDeployLabel :: string where
  "Backup2MinioDeployLabel = Sprintf ''app.kubernetes.io/name=%s'' [Backup2MinioDeployName]"
definition KindBackup :: string where "KindBackup = ''Backup''"
definition ResourceBackup :: string where "ResourceBackup = ''backups''"
definition GroupStorage :: string where "GroupStorage = ''storage.hybfkuf.io''"
definition VersionStorage :: string where "VersionStorage = ''v1alpha1''"

text \<open>The constants of the resources that have no controller yet, and those nothing reads.\<close>

definition DefaultNamespace :: string where "DefaultNamespace = ''default''"
definition DefaultOperatorName :: string where "DefaultOperatorName = ''horus-operator''"
definition DefaultBackupJobNamespace :: string where "DefaultBackupJobNamespace = ''horus-operator-jobs''"
definition DefaultRestoreJobNamespace :: string where "DefaultRestoreJobNamespace = DefaultBackupJobNamespace"
definition DefaultCloneJobNamespace :: string where "DefaultCloneJobNamespace = DefaultBackupJobNamespace"
definition DefaultMigrationNamespace :: string where "DefaultMigrationNamespace = DefaultBackupJobNamespace"
definition DefaultRestoreFinalizerName :: string where
  "DefaultRestoreFinalizerName = ''restore.storage.hybfkuf.io/finalizer''"
definition DefaultCloneFinalizerName :: string where
  "DefaultCloneFinalizerName = ''clone.storage.hybfkuf.io/finalizer''"
definition DefaultMigrationFinalizerName :: string where
  "DefaultMigrationFinalizerName = ''migration.storage.hybfkuf.io/finalizer''"
definition DefaultTrafficFinalizerName :: string where
  "DefaultTrafficFinalizerName = ''traffic.networking.hybfkuf.io/finalizer''"

text \<open>Durations are in nanoseconds.\<close>

definition hour :: int where "hour = 3600000000000"
definition DefaultBackupTimeout :: int where "DefaultBackupTimeout = hour"
definition DefaultRestoreTimeout :: int where "DefaultRestoreTimeout = hour"
definition DefaultCloneTimeout :: int where "DefaultCloneTimeout = hour"
definition DefaultMigrationTimeout :: int where "DefaultMigrationTimeout = hour"
definition DefaultServiceAccountName :: string where "DefaultServiceAccountName = ''horus-jobs''"
definition AnnotationCreatedTime :: string where "AnnotationCreatedTime = ''hybfkuf.io/createdAt''"
definition LabelName :: string where "LabelName = ''app.kubernetes.io/name''"
definition LabelInstance :: string where "LabelInstance = ''app.kubernetes.io/instance''"
definition LabelComponent :: string where "LabelComponent = ''app.kubernetes.io/component''"
definition Backup2S3DeployName :: string where "Backup2S3DeployName = ''backup-to-s3''"
definition Backup2S3DeployLabel :: string where
  "Backup2S3DeployLabel = Sprintf ''app.kubernetes.io/name=%s'' [Backup2S3DeployName]"
definition KindRestore :: string where "KindRestore = ''Restore''"
definition KindClone :: string where "KindClone = ''Clone''"
definition KindMigration :: string where "KindMigration = ''Migration''"
definition KindTraffic :: string where "KindTraffic = ''Traffic''"
definition ResourceRestore :: string where "ResourceRestore = ''restores''"
definition ResourceClone :: string where "ResourceClone = ''clones''"
definition ResourceMigration :: string where "ResourceMigration = ''migrations''"
definition ResourceTraffic :: string where "ResourceTraffic = ''traffics''"

section \<open>groupversion\_info.go and the conditions of a Backup\<close>

record GroupVersion =
  gv_Group :: string
  gv_Version :: string

definition storage_GroupVersion :: GroupVersion where
  "storage_GroupVersion = \<lparr>gv_Group = ''storage.hybfkuf.io'', gv_Version = ''v1alpha1''\<rparr>"
definition networking_GroupVersion :: GroupVersion where
  "networking_GroupVersion = \<lparr>gv_Group = ''networking.hybfkuf.io'', gv_Version = ''v1alpha1''\<rparr>"
definition GroupNetworking :: string where "GroupNetworking = gv_Group networking_GroupVersion"
definition GroupVersionStorage :: GroupVersion where "GroupVersionStorage = storage_GroupVersion"
definition GroupVersionNetworking :: GroupVersion where "GroupVersionNetworking = networking_GroupVersion"

definition ContainersReady :: string where "ContainersReady = ''ContainersReady''"
definition PodInitialized :: string where "PodInitialized = ''Initialized''"
definition PodReady :: string where "PodReady = ''Ready''"
definition PodScheduled :: string where "PodScheduled = ''PodScheduled''"
definition AlphaNoCompatGuaranteeDisruptionTarget :: string where
  "AlphaNoCompatGuaranteeDisruptionTarget = ''DisruptionTarget''"
definition ConditionTrue :: string where "ConditionTrue = ''True''"
definition ConditionFalse :: string where "ConditionFalse = ''False''"
definition ConditionUnknown :: string where "ConditionUnknown = ''Unknown''"

end
