(* ===== verification/Templates.thy ===== *)
theory Templates
  imports ApiTypes
begin

text \<open>
  \<^verbatim>\<open>pkg/template\<close>: the manifests as they stand in the source and \<^verbatim>\<open>Parse\<close>, which runs one through
  \<^verbatim>\<open>text/template\<close> with a Backup object. A manifest is the list of its lines. The deployment
  manifests are operands of \<^verbatim>\<open>fmt.Sprintf\<close>, the other three of \<^verbatim>\<open>Parse\<close>.
\<close>

section \<open>The manifests\<close>

definition CronJobForBackup :: string where
  \<open>CronJobForBackup = unlines
    ['''',
     ''apiVersion: batch/v1'',
     ''kind: CronJob'',
     ''metadata:'',
     ''  name: backup-{{.ObjectMeta.Name}}'',
     ''  namespace: default'',
     ''spec:'',
     ''  schedule: '' @ [CHR 0x27] @ ''*/1 * * * *'' @ [CHR 0x27],
     ''  successfulJobsHistoryLimit: 1'',
     ''  failedJobsHistoryLimit: 1'',
     ''  concurrencyPolicy: Forbid'',
     ''  suspend: false'',
     ''  jobTemplate:'',
     ''    spec:'',
     ''      template:'',
     ''        spec:'',
     ''          containers:'',
     ''          - command:'',
     ''            - horusctl'',
     ''            args:'',
     ''            - --log-level={{.Spec.LogLevel}}'',
     ''            - --log-format={{.Spec.LogFormat}}'',
     ''            - backup'',
     ''            - --namespace={{.ObjectMeta.Namespace}}'',
     ''            - {{.Spec.BackupFrom.Name}}'',
     ''            env:'',
     ''            - name: TZ'',
     ''              value: {{.Spec.TimeZone}}'',
     ''            image: hybfkuf/horusctl:latest'',
     ''            imagePullPolicy: Always'',
     ''            name: horusctl'',
     ''          restartPolicy: Never'',
     ''          serviceAccount: horusctl'',
     ''          serviceAccountName: horusctl'']\<close>

definition ClusterRoleForBackup :: string where
  \<open>ClusterRoleForBackup = unlines
    ['''',
     ''apiVersion: rbac.authorization.k8s.io/v1'',
     ''kind: ClusterRole'',
     ''metadata:'',
     ''  name: horusctl-role'',
     ''rules:'',
     ''# permissions for horusctl to view backups,restores,clones,migrations,traffics.'',
     ''- apiGroups:'',
     ''  - storage.hybfkuf.io'',
     ''  - networking.hybfkuf.io'',
     ''  resources:'',
     ''  - backups'',
     ''  - restores'',
     ''  - clones'',
     ''  - migrations'',
     ''  - traffics'',
     ''  verbs:'',
     ''  - get'',
     ''  - list'',
     ''  - watch'',
     ''# permissions for horusctl to view status subresources of backups,restores,clones,migrations,traffics.'',
     ''- apiGroups:'',
     ''  - storage.hybfkuf.io'',
     ''  - networking.hybfkuf.io'',
     ''  resources:'',
     ''  - backups/status'',
     ''  - restores/status'',
     ''  - clones/status'',
     ''  - migrations/status'',
     ''  - traffics/status'',
     ''  verbs:'',
     ''  - get'',
     ''# permissions for horusctl to create/update/delete deployments,'',
     ''# and for horusctl-operator-controller-manager to create namespaces.'',
     ''- apiGroups:'',
     ''  - ""'',
     ''  - apps'',
     ''  resources:'',
     ''  - deployments'',
     ''  - namespaces'',
     ''  verbs:'',
     ''  - get'',
     ''  - list'',
     ''  - watch'',
     ''  - create'',
     ''  - delete'',
     ''  - update'',
     ''  - patch'',
     ''# permissions for horusctl to view pods,deployments,statefulsets,daemonsets,replicasets,'',
     ''# secrets,persistentvolumes, persistentvolumeclaims.'',
     ''- apiGroups:'',
     ''  - ""'',
     ''  - apps'',
     ''  resources:'',
     ''  - pods'',
     ''  - deployments'',
     ''  - statefulsets'',
     ''  - daemonsets'',
     ''  - replicasets'',
     ''  - secrets'',
     ''  - persistentvolumes'',
     ''  - persistentvolumeclaims'',
     ''  verbs:'',
     ''  - get'',
     ''  - list'',
     ''  - watch'',
     ''# permissions for horusctl to execute command within pod.'',
     ''- apiGroups:'',
     ''  - ""'',
     ''  resources:'',
     ''  - pods/exec'',
     ''  verbs:'',
     ''  - get'',
     ''  - create'',
     ''# permissions for horusctl to get pod logs.'',
     ''- apiGroups:'',
     ''  - ""'',
     ''  resources:'',
     ''  - pods/logs'',
     ''  verbs:'',
     ''  - get'']\<close>

definition ClusterRoleBindingForBackup :: string where
  \<open>ClusterRoleBindingForBackup = unlines
    ['''',
     ''apiVersion: rbac.authorization.k8s.io/v1'',
     ''kind: ClusterRoleBinding'',
     ''metadata:'',
     ''  name: horusctl-{{.ObjectMeta.Namespace}}-binding'',
     ''subjects:'',
     ''- kind: ServiceAccount'',
     ''  name: horusctl'',
     ''  namespace: {{.ObjectMeta.Namespace}}'',
     ''roleRef:'',
     ''  apiGroup: rbac.authorization.k8s.io'',
     ''  kind: ClusterRole'',
     ''  name: horusctl-role'']\<close>

definition TemplateFindpvdir :: string where
  \<open>TemplateFindpvdir = unlines
    ['''',
     ''apiVersion: apps/v1'',
     ''kind: Deployment'',
     ''metadata:'',
     ''  name: %s'',
     ''  namespace: %s'',
     ''  labels:'',
     ''    app.kubernetes.io/name: findpvdir'',
     ''    app.kubernetes.io/part-of: horus'',
     ''    app.kubernetes.io/managed-by: horus-operator'',
     ''spec:'',
     ''  replicas: 1'',
     ''  selector:'',
     ''    matchLabels:'',
     ''      app.kubernetes.io/name: findpvdir'',
     ''      app.kubernetes.io/part-of: horus'',
     ''      app.kubernetes.io/managed-by: horus-operator'',
     ''  template:'',
     ''    metadata:'',
     ''      #annotations:'',
     ''      #  %s: %s'',
     ''      labels:'',
     ''        app.kubernetes.io/name: findpvdir'',
     ''        app.kubernetes.io/part-of: horus'',
     ''        app.kubernetes.io/managed-by: horus-operator'',
     ''    spec:'',
     ''      nodeName: %s'',
     ''      tolerations:'',
     ''      - operator: Exists'',
     ''      terminationGracePeriodSeconds: 0'',
     ''      containers:'',
     ''      - name: findpvdir'',
     ''        image: %s'',
     ''        env:'',
     ''        - name: TZ'',
     ''          value: %s'',
     ''        resources:'',
     ''          limits:'',
     ''            cpu: 0.1'',
     ''            memory: 50Mi'',
     ''        volumeMounts:'',
     ''        - name: kubelet-home-dir'',
     ''          mountPath: /var/lib/kubelet'',
     ''          readOnly: true'',
     ''      volumes:'',
     ''      - name: kubelet-home-dir'',
     ''        hostPath:'',
     ''          path: /var/lib/kubelet'',
     ''          type: Directory'']\<close>

definition TemplateBackup2nfs :: string where
  \<open>TemplateBackup2nfs = unlines
    ['''',
     ''apiVersion: apps/v1'',
     ''kind: Deployment'',
     ''metadata:'',
     ''  name: "%s"'',
     ''  namespace: "%s"'',
     ''  labels:'',
     ''    app.kubernetes.io/name: backup-to-nfs'',
     ''    app.kubernetes.io/part-of: horus'',
     ''    app.kubernetes.io/managed-by: horus-operator'',
     ''spec:'',
     ''  replicas: 1'',
     ''  selector:'',
     ''    matchLabels:'',
     ''      app.kubernetes.io/name: backup-to-nfs'',
     ''      app.kubernetes.io/part-of: horus'',
     ''      app.kubernetes.io/managed-by: horus-operator'',
     ''  template:'',
     ''    metadata:'',
     ''      annotations:'',
     ''      #  %s: %s'',
     ''        sidecar.istio.io/inject: "false"'',
     ''      labels:'',
     ''        app.kubernetes.io/name: backup-to-nfs'',
     ''        app.kubernetes.io/role: backup'',
     ''        app.kubernetes.io/backup-method: restic'',
     ''        app.kubernetes.io/part-of: horus'',
     ''        app.kubernetes.io/managed-by: horus-operator'',
     ''    spec:'',
     ''      nodeName: "%s"'',
     ''      tolerations:'',
     ''      - operator: Exists'',
     ''      terminationGracePeriodSeconds: 0'',
     ''      containers:'',
     ''      - name: backup-to-nfs'',
     ''        image: "%s"'',
     ''        env:'',
     ''        - name: TZ'',
     ''          value: %s'',
     ''        - name: STORAGE'',
     ''          value: %s'',
     ''        - name: RESTIC_REPOSITORY'',
     ''          value: %s'',
     ''        - name: RESTIC_PASSWORD'',
     ''          valueFrom:'',
     ''            secretKeyRef:'',
     ''              name: %s'',
     ''              key: RESTIC_PASSWORD'',
     ''        volumeMounts:'',
     ''        - name: host-root'',
     ''          mountPath: /host-root'',
     ''          readOnly: true'',
     ''        - name: restic-repo'',
     ''          mountPath: "%s"'',
     ''          readOnly: false'',
     ''      volumes:'',
     ''      - name: host-root'',
     ''        hostPath:'',
     ''          path: /'',
     ''          type: Directory'',
     ''      - name: restic-repo'',
     ''        nfs:'',
     ''          server: "%s"'',
     ''          path: "%s"'']\<close>

definition TemplateBackup2minio :: string where
  \<open>TemplateBackup2minio = unlines
    ['''',
     ''apiVersion: apps/v1'',
     ''kind: Deployment'',
     ''metadata:'',
     ''  name: "%s"'',
     ''  namespace: "%s"'',
     ''  labels:'',
     ''    app.kubernetes.io/name: backup-to-minio'',
     ''    app.kubernetes.io/part-of: horus'',
     ''    app.kubernetes.io/managed-by: horus-operator'',
     ''spec:'',
     ''  replicas: 1'',
     ''  selector:'',
     ''    matchLabels:'',
     ''      app.kubernetes.io/name: backup-to-minio'',
     ''      app.kubernetes.io/part-of: horus'',
     ''      app.kubernetes.io/managed-by: horus-operator'',
     ''  template:'',
     ''    metadata:'',
     ''      annotations:'',
     ''      #  %s: %s'',
     ''        sidecar.istio.io/inject: "false"'',
     ''      labels:'',
     ''        app.kubernetes.io/name: backup-to-minio'',
     ''        app.kubernetes.io/role: backup'',
     ''        app.kubernetes.io/backup-method: restic'',
     ''        app.kubernetes.io/part-of: horus'',
     ''        app.kubernetes.io/managed-by: horus-operator'',
     ''    spec:'',
     ''      nodeName: "%s"'',
     ''      tolerations:'',
     ''      - operator: Exists'',
     ''      terminationGracePeriodSeconds: 0'',
     ''      containers:'',
     ''      - name: backup-to-minio'',
     ''        image: "%s"'',
     ''        env:'',
     ''        - name: TZ'',
     ''          value: %s'',
     ''        - name: STORAGE'',
     ''          value: %s'',
     ''        - name: RESTIC_REPOSITORY'',
     ''          value: %s'',
     ''        - name: RESTIC_PASSWORD'',
     ''          valueFrom:'',
     ''            secretKeyRef:'',
     ''              name: %s'',
     ''              key: RESTIC_PASSWORD'',
     ''        - name: MINIO_ACCESS_KEY'',
     ''          valueFrom:'',
     ''            secretKeyRef:'',
     ''              name: %s'',
     ''              key: MINIO_ACCESS_KEY'',
     ''        - name: MINIO_SECRET_KEY'',
     ''          valueFrom:'',
     ''            secretKeyRef:'',
     ''              name: %s'',
     ''              key: MINIO_SECRET_KEY'',
     ''        - name: AWS_ACCESS_KEY_ID'',
     ''          valueFrom:'',
     ''            secretKeyRef:'',
     ''              name: %s'',
     ''              key: MINIO_ACCESS_KEY'',
     ''        - name: AWS_SECRET_ACCESS_KEY'',
     ''          valueFrom:'',
     ''            secretKeyRef:'',
     ''              name: %s'',
     ''              key: MINIO_SECRET_KEY'',
     ''        volumeMounts:'',
     ''        - name: host-root'',
     ''          mountPath: /host-root'',
     ''          readOnly: true'',
     ''      volumes:'',
     ''      - name: host-root'',
     ''        hostPath:'',
     ''          path: /'',
     ''          type: Directory'']\<close>

definition TemplateBackup2sftp :: string where
  \<open>TemplateBackup2sftp = unlines
    ['''',
     ''apiVersion: apps/v1'',
     ''kind: Deployment'',
     ''metadata:'',
     ''  name: "%s"'',
     ''  namespace: "%s"'',
     ''  labels:'',
     ''    app.kubernetes.io/name: backup-to-sftp'',
     ''    app.kubernetes.io/part-of: horus'',
     ''    app.kubernetes.io/managed-by: horus-operator'',
     ''spec:'',
     ''  replicas: 1'',
     ''  selector:'',
     ''    matchLabels:'',
     ''      app.kubernetes.io/name: backup-to-sftp'',
     ''      app.kubernetes.io/part-of: horus'',
     ''      app.kubernetes.io/managed-by: horus-operator'',
     ''  template:'',
     ''    metadata:'',
     ''      annotations:'',
     ''      #  %s: %s'',
     ''        sidecar.istio.io/inject: "false"'',
     ''      labels:'',
     ''        app.kubernetes.io/name: backup-to-sftp'',
     ''        app.kubernetes.io/role: backup'',
     ''        app.kubernetes.io/backup-method: restic'',
     ''        app.kubernetes.io/part-of: horus'',
     ''        app.kubernetes.io/managed-by: horus-operator'',
     ''    spec:'',
     ''      nodeName: "%s"'',
     ''      tolerations:'',
     ''      - operator: Exists'',
     ''      terminationGracePeriodSeconds: 0'',
     ''      containers:'',
     ''      - name: backup-to-sftp'',
     ''        image: "%s"'',
     ''        env:'',
     ''        - name: TZ'',
     ''          value: %s'',
     ''        - name: STORAGE'',
     ''          value: %s'',
     ''        - name: RESTIC_REPOSITORY'',
     ''          value: %s'',
     ''        - name: RESTIC_PASSWORD'',
     ''          valueFrom:'',
     ''            secretKeyRef:'',
     ''              name: %s'',
     ''              key: RESTIC_PASSWORD'',
     ''        - name: SFTP_USERNAME'',
     ''          valueFrom:'',
     ''            secretKeyRef:'',
     ''              name: %s'',
     ''              key: SFTP_USERNAME'',
     ''        - name: SFTP_PASSWORD'',
     ''          valueFrom:'',
     ''            secretKeyRef:'',
     ''              name: %s'',
     ''              key: SFTP_PASSWORD'',
     ''        volumeMounts:'',
     ''        - name: host-root'',
     ''          mountPath: /host-root'',
     ''          readOnly: true'',
     ''      volumes:'',
     ''      - name: host-root'',
     ''        hostPath:'',
     ''          path: /'',
     ''          type: Directory'']\<close>

section \<open>text/template\<close>

text \<open>
  A template is text with actions between \<^verbatim>\<open>{{\<close> and \<^verbatim>\<open>}}\<close>; an action that is never closed is a
  parse error. The actions of the manifests are field chains; a chain through a nil pointer is an
  execution error.
\<close>

datatype segment = Text string | Action string

fun parse_text :: "string \<Rightarrow> string \<Rightarrow> segment list option"
  and parse_action :: "string \<Rightarrow> string \<Rightarrow> segment list option" where
  "parse_text acc [] = Some [Text (rev acc)]"
| "parse_text acc [c] = Some [Text (rev (c # acc))]"
| "parse_text acc (c # d # s) =
     (if c = CHR ''{'' \<and> d = CHR ''{'' then map_option (Cons (Text (rev acc))) (parse_action [] s)
      else parse_text (c # acc) (d # s))"
| "parse_action acc [] = None"
| "parse_action acc [c] = None"
| "parse_action acc (c # d # s) =
     (if c = CHR ''}'' \<and> d = CHR ''}'' then map_option (Cons (Action (rev acc))) (parse_text [] s)
      else parse_action (c # acc) (d # s))"

fun execute :: "(string \<Rightarrow> string option) \<Rightarrow> segment list \<Rightarrow> string option" where
  "execute fld [] = Some []"
| "execute fld (Text t # segs) = map_option (\<lambda>r. t @ r) (execute fld segs)"
| "execute fld (Action a # segs) =
     (case fld a of
        None \<Rightarrow> None
      | Some v \<Rightarrow> map_option (\<lambda>r. v @ r) (execute fld segs))"

text \<open>The field chains of the manifests, read off a Backup object.\<close>

definition backup_field :: "Backup \<Rightarrow> string \<Rightarrow> string option" where
  "backup_field b a =
     (if a = ''.ObjectMeta.Name'' then Some (b_Name b)
      else if a = ''.ObjectMeta.Namespace'' then Some (b_Namespace b)
      else if a = ''.Spec.LogLevel'' then Some (sp_LogLevel (b_Spec b))
      else if a = ''.Spec.LogFormat'' then Some (sp_LogFormat (b_Spec b))
      else if a = ''.Spec.BackupFrom.Name'' then map_option bf_Name (sp_BackupFrom (b_Spec b))
      else if a = ''.Spec.TimeZone'' then Some (sp_TimeZone (b_Spec b))
      else None)"

definition Parse :: "string \<Rightarrow> Backup \<Rightarrow> goerr + string" where
  "Parse templ b =
     (case parse_text [] templ of
        None \<Rightarrow> Inl (Errorf ''template: horus: unclosed action'')
      | Some segs \<Rightarrow>
          (case execute (backup_field b) segs of
             None \<Rightarrow> Inl (Errorf ''template: horus: nil pointer evaluating field'')
           | Some out \<Rightarrow> Inr out))"


section \<open>Counting verbs line by line\<close>

lemma verbs_newline: "verbs (newline # s) = verbs s"
  by (cases s) auto

lemma verbs_line: "verbs (l @ newline # s) = verbs l + verbs s"
  by (induction l rule: verbs.induct) (auto simp: is_verb_def verbs_newline)

lemma verbs_unlines: "verbs (unlines ls) = sum_list (map verbs ls)"
  by (induction ls) (simp_all add: unlines_def verbs_line)

lemma verbs_Findpvdir: "verbs TemplateFindpvdir = 7"
  by (simp add: TemplateFindpvdir_def verbs_unlines is_verb_def)

lemma verbs_Backup2nfs: "verbs TemplateBackup2nfs = 13"
  by (simp add: TemplateBackup2nfs_def verbs_unlines is_verb_def)

lemma verbs_Backup2minio: "verbs TemplateBackup2minio = 14"
  by (simp add: TemplateBackup2minio_def verbs_unlines is_verb_def)

lemma verbs_Backup2sftp: "verbs TemplateBackup2sftp = 12"
  by (simp add: TemplateBackup2sftp_def verbs_unlines is_verb_def)

lemmas verbs_templates = verbs_Findpvdir verbs_Backup2nfs verbs_Backup2minio verbs_Backup2sftp

section \<open>Rendering line by line\<close>

definition render :: "(string \<Rightarrow> string option) \<Rightarrow> string \<Rightarrow> string option" where
  "render fld s = Option.bind (parse_text [] s) (execute fld)"

lemma map_option_append_Nil [simp]: "map_option ((@) []) x = x"
  by (cases x) simp_all

lemma render_acc:
  "Option.bind (parse_text acc s) (execute fld) = map_option (\<lambda>r. rev acc @ r) (render fld s)"
proof (induction s arbitrary: acc rule: induct_list012)
  case (3 c d s)
  show ?case
  proof (cases "c = CHR ''{'' \<and> d = CHR ''{''")
    case True
    then show ?thesis
      by (simp add: render_def option.map_comp bind_map_option comp_def map_option_bind)
  next
    case False
    with "3.IH"(2) [of "c # acc"] "3.IH"(2) [of "[c]"] show ?thesis
      by (auto simp: render_def option.map_comp comp_def)
  qed
qed (simp_all add: render_def)

lemma render_Cons: "c \<noteq> CHR ''{'' \<Longrightarrow> render fld (c # s) = map_option (Cons c) (render fld s)"
  using render_acc [of "[c]" s fld] by (cases s) (simp_all add: render_def)

lemma render_plain:
  "CHR ''{'' \<notin> set l \<Longrightarrow> render fld (l @ s) = map_option (\<lambda>r. l @ r) (render fld s)"
  by (induction l; cases "render fld s") (auto simp: render_Cons)

lemma parse_action_plain:
  "CHR ''}'' \<notin> set a \<Longrightarrow>
   parse_action acc (a @ ''}}'' @ s) = map_option (Cons (Action (rev acc @ a))) (parse_text [] s)"
proof (induction a arbitrary: acc)
  case (Cons c a)
  then show ?case by (cases a) auto
qed simp

lemma render_action:
  "CHR ''}'' \<notin> set a \<Longrightarrow> render fld (''{{'' @ a @ ''}}'' @ s) =
     (case fld a of None \<Rightarrow> None | Some v \<Rightarrow> map_option (\<lambda>r. v @ r) (render fld s))"
  using parse_action_plain [of a "[]" s]
  by (cases "parse_text [] s") (auto simp: render_def split: option.splits)

text \<open>A line of a manifest with one action in it.\<close>

definition act_line :: "string \<Rightarrow> string \<Rightarrow> string \<Rightarrow> string" where
  "act_line pre a post = pre @ ''{{'' @ a @ ''}}'' @ post"

lemma render_nil: "render fld (unlines []) = Some []"
  by (simp add: render_def unlines_def)

lemma render_line:
  "CHR ''{'' \<notin> set l \<Longrightarrow>
   render fld (unlines (l # ls)) = map_option (\<lambda>r. l @ newline # r) (render fld (unlines ls))"
  using render_plain [of "l @ [newline]" fld "unlines ls"] by (simp add: unlines_def)

lemma render_act_line:
  assumes "CHR ''{'' \<notin> set pre" "CHR ''}'' \<notin> set a" "CHR ''{'' \<notin> set post"
  shows "render fld (unlines (act_line pre a post # ls)) =
    (case fld a of None \<Rightarrow> None
     | Some v \<Rightarrow> map_option (\<lambda>r. pre @ v @ post @ newline # r) (render fld (unlines ls)))"
proof -
  have split: "unlines (act_line pre a post # ls) =
      pre @ (''{{'' @ a @ ''}}'' @ ((post @ [newline]) @ unlines ls))"
    by (simp add: unlines_def act_line_def)
  have tail: "render fld ((post @ [newline]) @ unlines ls) =
      map_option (\<lambda>r. (post @ [newline]) @ r) (render fld (unlines ls))"
    by (rule render_plain) (use assms(3) in simp)
  show ?thesis
    unfolding split render_plain [OF assms(1)] render_action [OF assms(2)] tail
    by (cases "fld a"; cases "render fld (unlines ls)") simp_all
qed

lemma Parse_render:
  "render (backup_field b) templ = Some out \<Longrightarrow> Parse templ b = Inr out"
  "render (backup_field b) templ = None \<Longrightarrow> \<exists>e. Parse templ b = Inl e"
  by (auto simp: Parse_def render_def bind_eq_Some_conv split: option.splits)

section \<open>The manifests of the reconciler, rendered\<close>

text \<open>
  What the CronJob manifest renders to, written out. The schedule, the history limits and the
  namespace are constants of the manifest; the command line of the job names the namespace of the
  Backup and the name of the resource to back up.
\<close>

definition cronjob_text :: "Backup \<Rightarrow> string \<Rightarrow> string" where
  "cronjob_text b from = unlines
    ['''',
     ''apiVersion: batch/v1'',
     ''kind: CronJob'',
     ''metadata:'',
     ''  name: backup-'' @ b_Name b,
     ''  namespace: default'',
     ''spec:'',
     ''  schedule: '' @ [CHR 0x27] @ ''*/1 * * * *'' @ [CHR 0x27],
     ''  successfulJobsHistoryLimit: 1'',
     ''  failedJobsHistoryLimit: 1'',
     ''  concurrencyPolicy: Forbid'',
     ''  suspend: false'',
     ''  jobTemplate:'',
     ''    spec:'',
     ''      template:'',
     ''        spec:'',
     ''          containers:'',
     ''          - command:'',
     ''            - horusctl'',
     ''            args:'',
     ''            - --log-level='' @ sp_LogLevel (b_Spec b),
     ''            - --log-format='' @ sp_LogFormat (b_Spec b),
     ''            - backup'',
     ''            - --namespace='' @ b_Namespace b,
     ''            - '' @ from,
     ''            env:'',
     ''            - name: TZ'',
     ''              value: '' @ sp_TimeZone (b_Spec b),
     ''            image: hybfkuf/horusctl:latest'',
     ''            imagePullPolicy: Always'',
     ''            name: horusctl'',
     ''          restartPolicy: Never'',
     ''          serviceAccount: horusctl'',
     ''          serviceAccountName: horusctl'']"

lemma CronJob_lines:
  "CronJobForBackup = unlines
    ['''', ''apiVersion: batch/v1'', ''kind: CronJob'', ''metadata:'',
     act_line ''  name: backup-'' ''.ObjectMeta.Name'' '''',
     ''  namespace: default'', ''spec:'',
     ''  schedule: '' @ [CHR 0x27] @ ''*/1 * * * *'' @ [CHR 0x27],
     ''  successfulJobsHistoryLimit: 1'', ''  failedJobsHistoryLimit: 1'',
     ''  concurrencyPolicy: Forbid'', ''  suspend: false'', ''  jobTemplate:'', ''    spec:'',
     ''      template:'', ''        spec:'', ''          containers:'', ''          - command:'',
     ''            - horusctl'', ''            args:'',
     act_line ''            - --log-level='' ''.Spec.LogLevel'' '''',
     act_line ''            - --log-format='' ''.Spec.LogFormat'' '''',
     ''            - backup'',
     act_line ''            - --namespace='' ''.ObjectMeta.Namespace'' '''',
     act_line ''            - '' ''.Spec.BackupFrom.Name'' '''',
     ''            env:'', ''            - name: TZ'',
     act_line ''              value: '' ''.Spec.TimeZone'' '''',
     ''            image: hybfkuf/horusctl:latest'', ''            imagePullPolicy: Always'',
     ''            name: horusctl'', ''          restartPolicy: Never'',
     ''          serviceAccount: horusctl'', ''          serviceAccountName: horusctl'']"
  by (simp add: CronJobForBackup_def act_line_def)

lemma CronJob_render:
  "render (backup_field b) CronJobForBackup =
     map_option (\<lambda>f. cronjob_text b (bf_Name f)) (sp_BackupFrom (b_Spec b))"
  unfolding CronJob_lines
  by (cases "sp_BackupFrom (b_Spec b)")
    (simp_all add: render_line render_act_line render_nil backup_field_def,
     simp add: cronjob_text_def unlines_def)

definition clusterrolebinding_text :: "Backup \<Rightarrow> string" where
  "clusterrolebinding_text b = unlines
    ['''',
     ''apiVersion: rbac.authorization.k8s.io/v1'',
     ''kind: ClusterRoleBinding'',
     ''metadata:'',
     ''  name: horusctl-'' @ b_Namespace b @ ''-binding'',
     ''subjects:'',
     ''- kind: ServiceAccount'',
     ''  name: horusctl'',
     ''  namespace: '' @ b_Namespace b,
     ''roleRef:'',
     ''  apiGroup: rbac.authorization.k8s.io'',
     ''  kind: ClusterRole'',
     ''  name: horusctl-role'']"

lemma ClusterRoleBinding_lines:
  "ClusterRoleBindingForBackup = unlines
    ['''', ''apiVersion: rbac.authorization.k8s.io/v1'', ''kind: ClusterRoleBinding'', ''metadata:'',
     act_line ''  name: horusctl-'' ''.ObjectMeta.Namespace'' ''-binding'',
     ''subjects:'', ''- kind: ServiceAccount'', ''  name: horusctl'',
     act_line ''  namespace: '' ''.ObjectMeta.Namespace'' '''',
     ''roleRef:'', ''  apiGroup: rbac.authorization.k8s.io'', ''  kind: ClusterRole'',
     ''  name: horusctl-role'']"
  by (simp add: ClusterRoleBindingForBackup_def act_line_def)

lemma ClusterRoleBinding_render:
  "render (backup_field b) ClusterRoleBindingForBackup = Some (clusterrolebinding_text b)"
  unfolding ClusterRoleBinding_lines
  by (simp add: render_line render_act_line render_nil backup_field_def,
      simp add: clusterrolebinding_text_def unlines_def)

lemma ClusterRole_no_action: "CHR ''{'' \<notin> set ClusterRoleForBackup"
  by (simp add: ClusterRoleForBackup_def unlines_def)

lemma ClusterRole_render: "render fld ClusterRoleForBackup = Some ClusterRoleForBackup"
  using render_plain [OF ClusterRole_no_action, of fld "[]"] by (simp add: render_def)

lemma Parse_ClusterRole: "Parse ClusterRoleForBackup b = Inr ClusterRoleForBackup"
  by (rule Parse_render) (rule ClusterRole_render)

lemma Parse_ClusterRoleBinding:
  "Parse ClusterRoleBindingForBackup b = Inr (clusterrolebinding_text b)"
  by (rule Parse_render) (rule ClusterRoleBinding_render)

end
