(* ===== verification/Kube.thy ===== *)
theory Kube
  imports Templates
begin

text \<open>
  The objects the operator writes, and everything it takes from outside the repository: the
  controller-runtime client, the API-machinery helpers, \<^verbatim>\<open>github.com/forbearing/k8s\<close> and
  \<^verbatim>\<open>github.com/pkg/errors\<close>. That code is the parameter \<open>kube\<close> of the model: a record of functions
  about which nothing is assumed here. What a theorem needs of it is stated as a hypothesis, one of
  the predicates at the end of this theory, each the documented behaviour of the package.

  It also holds \<^verbatim>\<open>pkg/util/labels.go\<close>.
\<close>

section \<open>Objects\<close>

record ServiceAccount =
  sa_ObjectMeta :: ObjectMeta

record PolicyRule =
  pr_APIGroups :: "string list"
  pr_Resources :: "string list"
  pr_Verbs :: "string list"

record ClusterRole =
  cr_ObjectMeta :: ObjectMeta
  cr_Rules :: "PolicyRule list"

record Subject =
  su_Kind :: string
  su_Name :: string
  su_Namespace :: string

record ClusterRoleBinding =
  crb_ObjectMeta :: ObjectMeta
  crb_Subjects :: "Subject list"
  crb_RoleRef :: string

record CronJob =
  cj_ObjectMeta :: ObjectMeta
  cj_Schedule :: string
  cj_SuccessfulJobsHistoryLimit :: int
  cj_FailedJobsHistoryLimit :: int
  cj_Command :: "string list"
  cj_Args :: "string list"
  cj_Env :: "EnvVar list"
  cj_ServiceAccountName :: string

datatype kind = KBackup | KServiceAccount | KClusterRole | KClusterRoleBinding | KCronJob

datatype kobj =
    OBackup Backup
  | OServiceAccount ServiceAccount
  | OClusterRole ClusterRole
  | OClusterRoleBinding ClusterRoleBinding
  | OCronJob CronJob

primrec kind_of :: "kobj \<Rightarrow> kind" where
  "kind_of (OBackup b) = KBackup"
| "kind_of (OServiceAccount x) = KServiceAccount"
| "kind_of (OClusterRole x) = KClusterRole"
| "kind_of (OClusterRoleBinding x) = KClusterRoleBinding"
| "kind_of (OCronJob x) = KCronJob"

primrec meta_of :: "kobj \<Rightarrow> ObjectMeta" where
  "meta_of (OBackup b) = b_ObjectMeta b"
| "meta_of (OServiceAccount x) = sa_ObjectMeta x"
| "meta_of (OClusterRole x) = cr_ObjectMeta x"
| "meta_of (OClusterRoleBinding x) = crb_ObjectMeta x"
| "meta_of (OCronJob x) = cj_ObjectMeta x"

section \<open>The code outside the repository\<close>

text \<open>
  \<open>k_MapOrder\<close> is the order in which the runtime ranges over the label map, which the language
  leaves open. \<open>k_SetControllerReference\<close> gives the metadata after the call and its error.
\<close>

record 'w kube =
  k_GetBackup :: "NamespacedName \<Rightarrow> 'w \<Rightarrow> (goerr + Backup) \<times> 'w"
  k_Get :: "kind \<Rightarrow> NamespacedName \<Rightarrow> 'w \<Rightarrow> goerr option \<times> 'w"
  k_Create :: "kobj \<Rightarrow> 'w \<Rightarrow> goerr option \<times> 'w"
  k_Update :: "kobj \<Rightarrow> 'w \<Rightarrow> goerr option \<times> 'w"
  k_CRBNewOrDie :: "'w \<Rightarrow> halt option \<times> 'w"
  k_CRBDelete :: "string \<Rightarrow> 'w \<Rightarrow> goerr option \<times> 'w"
  k_NSNewOrDie :: "'w \<Rightarrow> halt option \<times> 'w"
  k_NSApply :: "string \<Rightarrow> 'w \<Rightarrow> goerr option \<times> 'w"
  k_IsNotFound :: "goerr \<Rightarrow> bool"
  k_IgnoreNotFound :: "goerr \<Rightarrow> goerr option"
  k_Wrapf :: "goerr option \<Rightarrow> string \<Rightarrow> goerr option"
  k_SetControllerReference :: "Backup \<Rightarrow> ObjectMeta \<Rightarrow> ObjectMeta \<times> goerr option"
  k_LabelsSet :: "ObjectMeta \<Rightarrow> string \<Rightarrow> goerr + ObjectMeta"
  k_LabelsHas :: "ObjectMeta \<Rightarrow> string \<Rightarrow> bool"
  k_UnmarshalClusterRole :: "string \<Rightarrow> goerr + ClusterRole"
  k_UnmarshalClusterRoleBinding :: "string \<Rightarrow> goerr + ClusterRoleBinding"
  k_UnmarshalCronJob :: "string \<Rightarrow> goerr + CronJob"
  k_IsZero :: "Time option \<Rightarrow> bool"
  k_ContainsFinalizer :: "ObjectMeta \<Rightarrow> string \<Rightarrow> bool"
  k_AddFinalizer :: "ObjectMeta \<Rightarrow> string \<Rightarrow> ObjectMeta \<times> bool"
  k_RemoveFinalizer :: "ObjectMeta \<Rightarrow> string \<Rightarrow> ObjectMeta \<times> bool"
  k_MapOrder :: "(string \<times> string) list \<Rightarrow> (string \<times> string) list"

text \<open>One event of the trace: a call to the API server with the error it came back with.\<close>

datatype api_call =
    CGetBackup NamespacedName "goerr option"
  | CGet kind NamespacedName "goerr option"
  | CCreate kobj "goerr option"
  | CUpdate kobj "goerr option"
  | CCRBNewOrDie "halt option"
  | CCRBDelete string "goerr option"
  | CNSNewOrDie "halt option"
  | CNSApply string "goerr option"

fun is_create :: "api_call \<Rightarrow> bool" where
  "is_create (CCreate ob e) = True"
| "is_create c = False"

text \<open>A call that may change the cluster.\<close>

fun is_write :: "api_call \<Rightarrow> bool" where
  "is_write (CCreate ob e) = True"
| "is_write (CUpdate ob e) = True"
| "is_write (CCRBDelete n e) = True"
| "is_write (CNSApply n e) = True"
| "is_write c = False"

type_synonym 'w operator = "('w, api_call) world"

primrec err_of :: "goerr + 'a \<Rightarrow> goerr option" where
  "err_of (Inl e) = Some e"
| "err_of (Inr a) = None"

definition rGetBackup :: "'w kube \<Rightarrow> NamespacedName \<Rightarrow> ('w operator, goerr + Backup) go" where
  "rGetBackup K n = call_ext (\<lambda>r. CGetBackup n (err_of r)) (k_GetBackup K n)"

definition rGet :: "'w kube \<Rightarrow> kind \<Rightarrow> NamespacedName \<Rightarrow> ('w operator, goerr option) go" where
  "rGet K kd n = call_ext (CGet kd n) (k_Get K kd n)"

definition rCreate :: "'w kube \<Rightarrow> kobj \<Rightarrow> ('w operator, goerr option) go" where
  "rCreate K ob = call_ext (CCreate ob) (k_Create K ob)"

definition rUpdate :: "'w kube \<Rightarrow> kobj \<Rightarrow> ('w operator, goerr option) go" where
  "rUpdate K ob = call_ext (CUpdate ob) (k_Update K ob)"

lemmas client_defs = rGetBackup_def rGet_def rCreate_def rUpdate_def

section \<open>pkg/util/labels.go\<close>

definition LabelMap :: "(string \<times> string) list" where
  "LabelMap = [(LabelPartOf, ''horus''), (LabelManagedBy, ''horus-operator'')]"

fun set_labels :: "'w kube \<Rightarrow> (string \<times> string) list \<Rightarrow> ObjectMeta \<Rightarrow> ObjectMeta" where
  "set_labels K [] m = m"
| "set_labels K ((key, val) # ps) m =
     (case k_LabelsSet K m (Sprintf ''%s=%s'' [key, val]) of
        Inl e \<Rightarrow> m
      | Inr m' \<Rightarrow> set_labels K ps m')"

definition SetRecommendedLabels :: "'w kube \<Rightarrow> ObjectMeta option \<Rightarrow> ObjectMeta option" where
  "SetRecommendedLabels K ob = map_option (set_labels K (k_MapOrder K LabelMap)) ob"

text \<open>The two steps every object constructor of the reconciler ends with.\<close>

definition owned_and_labelled :: "'w kube \<Rightarrow> Backup \<Rightarrow> ObjectMeta \<Rightarrow> ObjectMeta" where
  "owned_and_labelled K b m =
     (case SetRecommendedLabels K (Some (fst (k_SetControllerReference K b m))) of
        None \<Rightarrow> m
      | Some m' \<Rightarrow> m')"

section \<open>Documented behaviour\<close>

text \<open>
  \<^verbatim>\<open>labels.Set\<close> and \<^verbatim>\<open>controllerutil.SetControllerReference\<close> change labels and owner references
  only.
\<close>

definition same_identity :: "ObjectMeta \<Rightarrow> ObjectMeta \<Rightarrow> bool" where
  "same_identity m m' \<longleftrightarrow> om_Name m' = om_Name m \<and> om_Namespace m' = om_Namespace m"

definition metadata_helpers :: "'w kube \<Rightarrow> bool" where
  "metadata_helpers K \<longleftrightarrow>
     (\<forall>b m. same_identity m (fst (k_SetControllerReference K b m))) \<and>
     (\<forall>m p m'. k_LabelsSet K m p = Inr m' \<longrightarrow> same_identity m m')"

text \<open>
  \<^verbatim>\<open>labels.Set\<close> with a pair \<^verbatim>\<open>key=value\<close> sets the label, keeps the others and does not fail;
  \<^verbatim>\<open>labels.Has\<close> looks a pair up. Ranging over a map visits each entry once.
\<close>

definition has_label :: "ObjectMeta \<Rightarrow> string \<Rightarrow> string \<Rightarrow> bool" where
  "has_label m k v \<longleftrightarrow> map_of (om_Labels m) k = Some v"

definition labels_package :: "'w kube \<Rightarrow> bool" where
  "labels_package K \<longleftrightarrow>
     (\<forall>m k v. CHR ''='' \<notin> set k \<longrightarrow>
        (\<exists>m'. k_LabelsSet K m (k @ ''='' @ v) = Inr m' \<and> has_label m' k v \<and>
              (\<forall>j. j \<noteq> k \<longrightarrow> map_of (om_Labels m') j = map_of (om_Labels m) j))) \<and>
     (\<forall>m k v. CHR ''='' \<notin> set k \<longrightarrow> k_LabelsHas K m (k @ ''='' @ v) = has_label m k v)"

definition map_range :: "'w kube \<Rightarrow> bool" where
  "map_range K \<longleftrightarrow> (\<forall>xs. mset (k_MapOrder K xs) = mset xs)"

definition api_errors :: "'w kube \<Rightarrow> bool" where
  "api_errors K \<longleftrightarrow>
     (\<forall>e. k_IgnoreNotFound K e = (if k_IsNotFound K e then None else Some e)) \<and>
     (\<forall>m. k_Wrapf K None m = None) \<and> (\<forall>e m. k_Wrapf K (Some e) m \<noteq> None)"

definition finalizer_helpers :: "'w kube \<Rightarrow> bool" where
  "finalizer_helpers K \<longleftrightarrow>
     (\<forall>m f. k_ContainsFinalizer K m f = (f \<in> set (om_Finalizers m))) \<and>
     (\<forall>m f. fst (k_AddFinalizer K m f) =
        m\<lparr>om_Finalizers := (if f \<in> set (om_Finalizers m) then om_Finalizers m
                            else om_Finalizers m @ [f])\<rparr>) \<and>
     (\<forall>m f. fst (k_RemoveFinalizer K m f) =
        m\<lparr>om_Finalizers := filter (\<lambda>g. g \<noteq> f) (om_Finalizers m)\<rparr>) \<and>
     (\<forall>t. k_IsZero K t = (t = None \<or> t = Some 0))"

section \<open>Lemmas\<close>

lemma same_identity_refl [simp]: "same_identity m m"
  by (simp add: same_identity_def)

lemma same_identity_trans: "same_identity a b \<Longrightarrow> same_identity b c \<Longrightarrow> same_identity a c"
  by (simp add: same_identity_def)

lemma helpers_identity:
  assumes "metadata_helpers K"
  shows "same_identity m (fst (k_SetControllerReference K b m))"
    and "k_LabelsSet K m p = Inr m' \<Longrightarrow> same_identity m m'"
  using assms by (auto simp: metadata_helpers_def)

lemma set_labels_identity: "metadata_helpers K \<Longrightarrow> same_identity m (set_labels K ps m)"
proof (induction K ps m rule: set_labels.induct)
  case (2 K key val ps m)
  then show ?case
    by (auto split: sum.splits intro: same_identity_trans [OF helpers_identity(2)])
qed simp

lemma owned_and_labelled_identity:
  "metadata_helpers K \<Longrightarrow> same_identity m (owned_and_labelled K b m)"
  unfolding owned_and_labelled_def SetRecommendedLabels_def
  by (simp add: same_identity_trans [OF helpers_identity(1) set_labels_identity])

lemma Sprintf_pair: "Sprintf ''%s=%s'' [k, v] = k @ ''='' @ v"
  by (simp add: Sprintf_eval)

lemma set_labels_sets:
  assumes "labels_package K" "\<forall>p \<in> set ps. CHR ''='' \<notin> set (fst p)"
    and "distinct (map fst ps)"
  shows "map_of (om_Labels (set_labels K ps m)) k =
    (case map_of ps k of Some v \<Rightarrow> Some v | None \<Rightarrow> map_of (om_Labels m) k)"
  using assms(2,3)
proof (induction ps arbitrary: m)
  case (Cons p ps)
  obtain key val where p: "p = (key, val)" by (cases p)
  with Cons.prems(1) have "CHR ''='' \<notin> set key" by simp
  then obtain m' where m': "k_LabelsSet K m (key @ ''='' @ val) = Inr m'" "has_label m' key val"
    "\<And>j. j \<noteq> key \<Longrightarrow> map_of (om_Labels m') j = map_of (om_Labels m) j"
    using assms(1) unfolding labels_package_def by blast
  have run: "set_labels K (p # ps) m = set_labels K ps m'"
    by (simp only: p set_labels.simps Sprintf_pair m'(1) sum.case)
  have IH: "map_of (om_Labels (set_labels K ps m')) k =
      (case map_of ps k of Some v \<Rightarrow> Some v | None \<Rightarrow> map_of (om_Labels m') k)"
    using Cons.prems by (intro Cons.IH) auto
  have "map_of ps key = None"
    using Cons.prems(2) by (simp add: p map_of_eq_None_iff)
  then show ?case
    unfolding run IH using m'(2,3) by (cases "k = key") (simp_all add: p has_label_def split: option.split)
qed simp

end
