(* ===== verification/Reconciler.thy ===== *)
theory Reconciler
  imports Kube
begin

text \<open>
  \<^verbatim>\<open>controllers/storage/backup_controller.go\<close>: the object constructors, the four get-create-update
  stages, the finalizer protocol and \<^verbatim>\<open>Reconcile\<close> itself. A stage ends the reconciliation with a
  result (\<open>Some\<close>) or falls through to the next one (\<open>None\<close>).
\<close>

section \<open>Object constructors\<close>

definition serviceAccountForBackup :: "'w kube \<Rightarrow> Backup \<Rightarrow> ServiceAccount" where
  "serviceAccountForBackup K b =
     \<lparr>sa_ObjectMeta = owned_and_labelled K b
        (emptyMeta\<lparr>om_Name := ''horusctl'', om_Namespace := b_Namespace b\<rparr>)\<rparr>"

definition clusterRoleForBackup :: "'w kube \<Rightarrow> Backup \<Rightarrow> ClusterRole outcome" where
  "clusterRoleForBackup K b =
     (case Parse ClusterRoleForBackup b of
        Inl e \<Rightarrow> Halt (Exit 1)
      | Inr crData \<Rightarrow>
          (case k_UnmarshalClusterRole K crData of
             Inl e \<Rightarrow> Halt (Exit 1)
           | Inr ob \<Rightarrow> Ret (ob\<lparr>cr_ObjectMeta := owned_and_labelled K b (cr_ObjectMeta ob)\<rparr>)))"

definition clusterRoleBindingForBackup :: "'w kube \<Rightarrow> Backup \<Rightarrow> ClusterRoleBinding outcome" where
  "clusterRoleBindingForBackup K b =
     (case Parse ClusterRoleBindingForBackup b of
        Inl e \<Rightarrow> Halt (Exit 1)
      | Inr crbData \<Rightarrow>
          (case k_UnmarshalClusterRoleBinding K crbData of
             Inl e \<Rightarrow> Halt (Exit 1)
           | Inr ob \<Rightarrow> Ret (ob\<lparr>crb_ObjectMeta := owned_and_labelled K b (crb_ObjectMeta ob)\<rparr>)))"

definition cronJobForBackup :: "'w kube \<Rightarrow> Backup \<Rightarrow> CronJob outcome" where
  "cronJobForBackup K b =
     (case Parse CronJobForBackup b of
        Inl e \<Rightarrow> Halt (Exit 1)
      | Inr cjData \<Rightarrow>
          (case k_UnmarshalCronJob K cjData of
             Inl e \<Rightarrow> Halt (Exit 1)
           | Inr ob \<Rightarrow> Ret (ob\<lparr>cj_ObjectMeta := owned_and_labelled K b (cj_ObjectMeta ob)\<rparr>)))"

section \<open>Stages\<close>

record Result =
  r_Requeue :: bool

abbreviation noRequeue :: Result where "noRequeue \<equiv> \<lparr>r_Requeue = False\<rparr>"
abbreviation requeue :: Result where "requeue \<equiv> \<lparr>r_Requeue = True\<rparr>"

type_synonym reply = "Result \<times> goerr option"
type_synonym 'w stage = "('w operator, reply option) go"

text \<open>
  The first three stages of the source test the error of the Get again after the Update
  (\<^verbatim>\<open>if r.Update(ctx, x); err != nil\<close>), which is nil on that branch: the error of the Update is
  dropped. The CronJob stage tests the error of its Update.
\<close>

definition ensure :: "bool \<Rightarrow> 'w kube \<Rightarrow> kind \<Rightarrow> NamespacedName \<Rightarrow> kobj \<Rightarrow> 'w stage" where
  "ensure checked K kd n ob =
     gobind (rGet K kd n) (\<lambda>err.
       case err of
         Some e \<Rightarrow>
           if k_IsNotFound K e then
             gobind (rCreate K ob) (\<lambda>err2.
               case err2 of
                 Some e2 \<Rightarrow> ret (Some (noRequeue, Some e2))
               | None \<Rightarrow> ret (Some (requeue, None)))
           else ret (Some (noRequeue, Some e))
       | None \<Rightarrow>
           gobind (rUpdate K ob) (\<lambda>uerr.
             case (if checked then uerr else err) of
               Some e \<Rightarrow> ret (Some (noRequeue, Some e))
             | None \<Rightarrow> ret None))"

definition reconcileServiceAccount :: "'w kube \<Rightarrow> NamespacedName \<Rightarrow> Backup \<Rightarrow> 'w stage" where
  "reconcileServiceAccount K req b =
     ensure False K KServiceAccount \<lparr>nn_Namespace = nn_Namespace req, nn_Name = ''horusctl''\<rparr>
       (OServiceAccount (serviceAccountForBackup K b))"

definition reconcileClusterRole :: "'w kube \<Rightarrow> NamespacedName \<Rightarrow> Backup \<Rightarrow> 'w stage" where
  "reconcileClusterRole K req b =
     (case clusterRoleForBackup K b of
        Halt h \<Rightarrow> halting h
      | Ret ob \<Rightarrow>
          ensure False K KClusterRole
            \<lparr>nn_Namespace = nn_Namespace req, nn_Name = ''horusctl-role''\<rparr> (OClusterRole ob))"

definition crbName :: "string \<Rightarrow> string" where
  "crbName ns = Sprintf ''horusctl-%s-binding'' [ns]"

definition reconcileClusterRoleBinding :: "'w kube \<Rightarrow> NamespacedName \<Rightarrow> Backup \<Rightarrow> 'w stage" where
  "reconcileClusterRoleBinding K req b =
     (case clusterRoleBindingForBackup K b of
        Halt h \<Rightarrow> halting h
      | Ret ob \<Rightarrow>
          ensure False K KClusterRoleBinding
            \<lparr>nn_Namespace = nn_Namespace req, nn_Name = crbName (nn_Namespace req)\<rparr>
            (OClusterRoleBinding ob))"

definition reconcileCronJob :: "'w kube \<Rightarrow> NamespacedName \<Rightarrow> Backup \<Rightarrow> 'w stage" where
  "reconcileCronJob K req b =
     (case cronJobForBackup K b of
        Halt h \<Rightarrow> halting h
      | Ret ob \<Rightarrow>
          ensure True K KCronJob
            \<lparr>nn_Namespace = nn_Namespace req, nn_Name = ''backup'' @ ''-'' @ nn_Name req\<rparr>
            (OCronJob ob))"

section \<open>Finalizers\<close>

definition deleteExternalResources :: "'w kube \<Rightarrow> Backup \<Rightarrow> ('w operator, goerr option) go" where
  "deleteExternalResources K b =
     gobind (call_ext CCRBNewOrDie (k_CRBNewOrDie K)) (\<lambda>h.
       case h of
         Some h' \<Rightarrow> halting h'
       | None \<Rightarrow>
           gobind (call_ext (CCRBDelete (crbName (b_Namespace b)))
                     (k_CRBDelete K (crbName (b_Namespace b)))) (\<lambda>err.
             case err of
               Some e \<Rightarrow>
                 ret (k_Wrapf K (Some e)
                   (Sprintf ''clusterrolebinding handler delete clusterrolebinding/%s failed''
                      [crbName (b_Namespace b)]))
             | None \<Rightarrow> ret None))"

definition handleFinalizer :: "'w kube \<Rightarrow> Backup \<Rightarrow> ('w operator, goerr option) go" where
  "handleFinalizer K b =
     (let finalizerName = DefaultBackupFinalizerName; m = b_ObjectMeta b in
      if k_IsZero K (om_DeletionTimestamp m) then
        if \<not> k_ContainsFinalizer K m finalizerName then
          rUpdate K (OBackup (b\<lparr>b_ObjectMeta := fst (k_AddFinalizer K m finalizerName)\<rparr>))
        else ret None
      else
        if k_ContainsFinalizer K m finalizerName then
          gobind (deleteExternalResources K b) (\<lambda>err.
            case err of
              Some e \<Rightarrow> ret (Some e)
            | None \<Rightarrow>
                rUpdate K (OBackup (b\<lparr>b_ObjectMeta := fst (k_RemoveFinalizer K m finalizerName)\<rparr>)))
        else ret None)"

section \<open>Reconcile\<close>

definition or_else :: "'w stage \<Rightarrow> ('w operator, reply) go \<Rightarrow> ('w operator, reply) go" where
  "or_else st next = gobind st (\<lambda>r. case r of Some v \<Rightarrow> ret v | None \<Rightarrow> next)"

definition Reconcile :: "'w kube \<Rightarrow> NamespacedName \<Rightarrow> ('w operator, reply) go" where
  "Reconcile K req =
     gobind (rGetBackup K req) (\<lambda>r.
       case r of
         Inl e \<Rightarrow> ret (noRequeue, k_IgnoreNotFound K e)
       | Inr b \<Rightarrow>
           or_else (reconcileServiceAccount K req b)
          (or_else (reconcileClusterRole K req b)
          (or_else (reconcileClusterRoleBinding K req b)
          (or_else (reconcileCronJob K req b)
             (gobind (handleFinalizer K b) (\<lambda>err.
                case err of
                  Some e \<Rightarrow> ret (noRequeue, Some e)
                | None \<Rightarrow> ret (noRequeue, None)))))))"

text \<open>
  \<^verbatim>\<open>withNamespace\<close>, which no stage calls: the namespace is applied, and an object that moves to
  another namespace loses its owner references.
\<close>

definition withNamespace :: "'w kube \<Rightarrow> ObjectMeta \<Rightarrow> string \<Rightarrow> ('w operator, ObjectMeta) go" where
  "withNamespace K object name =
     gobind (call_ext CNSNewOrDie (k_NSNewOrDie K)) (\<lambda>h.
       case h of
         Some h' \<Rightarrow> halting h'
       | None \<Rightarrow>
           gobind (call_ext (CNSApply name) (k_NSApply K name)) (\<lambda>err.
             case err of
               Some e \<Rightarrow> halting (Exit 1)
             | None \<Rightarrow>
                 ret (if name \<noteq> om_Namespace object
                      then object\<lparr>om_Namespace := name, om_OwnerReferences := []\<rparr>
                      else object)))"

end
