(* ===== verification/ApiServer.thy ===== *)
theory ApiServer
  imports Kube "HOL-Library.AList"
begin

text \<open>
  The documented behaviour of the Kubernetes API server and of the YAML decoder, as hypotheses on the
  parameter \<open>kube\<close>: reads see earlier writes, Create makes a new object or fails on an existing one,
  Update replaces one and refuses a Backup that was read before its last change, a Backup under deletion disappears with its last finalizer; a decoded object has
  the name and the namespace written in its manifest. The last section gives a server in memory
  that satisfies all of them, on which the theorems of the reconciler are instantiated.
\<close>

section \<open>The API server\<close>

type_synonym key = "kind \<times> string \<times> string"
type_synonym store = "key \<rightharpoonup> kobj"

text \<open>Cluster-scoped objects have no namespace; a Get of one ignores the namespace asked for.\<close>

definition obj_key :: "kind \<Rightarrow> string \<Rightarrow> string \<Rightarrow> key" where
  "obj_key kd ns name =
     (kd, if kd \<in> {KClusterRole, KClusterRoleBinding} then [] else ns, name)"

definition key_of :: "kobj \<Rightarrow> key" where
  "key_of ob = obj_key (kind_of ob) (om_Namespace (meta_of ob)) (om_Name (meta_of ob))"

fun released :: "kobj \<Rightarrow> bool" where
  "released (OBackup b) =
     (om_DeletionTimestamp (b_ObjectMeta b) \<notin> {None, Some 0} \<and> om_Finalizers (b_ObjectMeta b) = [])"
| "released ob = False"

text \<open>
  The object the server keeps: a Backup as it was sent but for the resource version the server gives it, any other
  under the same key.
\<close>

abbreviation version :: "kobj \<Rightarrow> string" where
  "version ob \<equiv> om_ResourceVersion (meta_of ob)"

definition at_version :: "string \<Rightarrow> Backup \<Rightarrow> Backup" where
  "at_version v b = b\<lparr>b_ObjectMeta := (b_ObjectMeta b)\<lparr>om_ResourceVersion := v\<rparr>\<rparr>"

definition stored :: "kobj \<Rightarrow> kobj \<Rightarrow> bool" where
  "stored ob ob' \<longleftrightarrow> key_of ob' = key_of ob \<and> (\<forall>b. ob = OBackup b \<longrightarrow> (\<exists>v. ob' = OBackup (at_version v b)))"

text \<open>
  Optimistic concurrency: the server takes an Update of a Backup only if it carries the resource version of the
  stored one. The reconciler sends its other objects without a version, and those replace whatever is stored.
\<close>

definition current :: "kobj \<Rightarrow> kobj \<Rightarrow> bool" where
  "current ob x \<longleftrightarrow> (kind_of ob = KBackup \<longrightarrow> version ob = version x)"

definition get_law :: "'w kube \<Rightarrow> ('w \<Rightarrow> store) \<Rightarrow> bool" where
  "get_law K objs \<longleftrightarrow> (\<forall>kd n w.
     objs (snd (k_Get K kd n w)) = objs w \<and>
     (case objs w (obj_key kd (nn_Namespace n) (nn_Name n)) of
        Some ob \<Rightarrow> fst (k_Get K kd n w) = None
      | None \<Rightarrow> \<exists>e. fst (k_Get K kd n w) = Some e \<and> k_IsNotFound K e))"

definition get_backup_law :: "'w kube \<Rightarrow> ('w \<Rightarrow> store) \<Rightarrow> bool" where
  "get_backup_law K objs \<longleftrightarrow> (\<forall>n w.
     objs (snd (k_GetBackup K n w)) = objs w \<and>
     (case objs w (obj_key KBackup (nn_Namespace n) (nn_Name n)) of
        Some (OBackup b) \<Rightarrow> fst (k_GetBackup K n w) = Inr b
      | _ \<Rightarrow> \<exists>e. fst (k_GetBackup K n w) = Inl e \<and> k_IsNotFound K e))"

definition create_law :: "'w kube \<Rightarrow> ('w \<Rightarrow> store) \<Rightarrow> bool" where
  "create_law K objs \<longleftrightarrow> (\<forall>ob w.
     case objs w (key_of ob) of
       None \<Rightarrow> fst (k_Create K ob w) = None \<and>
         (\<exists>ob'. stored ob ob' \<and> objs (snd (k_Create K ob w)) = (objs w)(key_of ob \<mapsto> ob'))
     | Some _ \<Rightarrow> objs (snd (k_Create K ob w)) = objs w \<and>
         (\<exists>e. fst (k_Create K ob w) = Some e \<and> \<not> k_IsNotFound K e))"

definition update_law :: "'w kube \<Rightarrow> ('w \<Rightarrow> store) \<Rightarrow> bool" where
  "update_law K objs \<longleftrightarrow> (\<forall>ob w.
     case objs w (key_of ob) of
       None \<Rightarrow> objs (snd (k_Update K ob w)) = objs w \<and>
         (\<exists>e. fst (k_Update K ob w) = Some e \<and> k_IsNotFound K e)
     | Some x \<Rightarrow>
         if current ob x then
           fst (k_Update K ob w) = None \<and>
           (if released ob then objs (snd (k_Update K ob w)) = (objs w)(key_of ob := None)
            else \<exists>ob'. stored ob ob' \<and> objs (snd (k_Update K ob w)) = (objs w)(key_of ob \<mapsto> ob'))
         else objs (snd (k_Update K ob w)) = objs w \<and>
           (\<exists>e. fst (k_Update K ob w) = Some e \<and> \<not> k_IsNotFound K e))"

definition delete_law :: "'w kube \<Rightarrow> ('w \<Rightarrow> store) \<Rightarrow> bool" where
  "delete_law K objs \<longleftrightarrow> (\<forall>name w.
     let k = obj_key KClusterRoleBinding [] name in
     case objs w k of
       None \<Rightarrow> objs (snd (k_CRBDelete K name w)) = objs w \<and> fst (k_CRBDelete K name w) \<noteq> None
     | Some _ \<Rightarrow> fst (k_CRBDelete K name w) = None \<and>
         objs (snd (k_CRBDelete K name w)) = (objs w)(k := None))"

definition new_law :: "'w kube \<Rightarrow> ('w \<Rightarrow> store) \<Rightarrow> bool" where
  "new_law K objs \<longleftrightarrow> (\<forall>w. fst (k_CRBNewOrDie K w) = None \<and> objs (snd (k_CRBNewOrDie K w)) = objs w)"

definition api_server :: "'w kube \<Rightarrow> ('w \<Rightarrow> store) \<Rightarrow> bool" where
  "api_server K objs \<longleftrightarrow> get_law K objs \<and> get_backup_law K objs \<and> create_law K objs \<and>
     update_law K objs \<and> delete_law K objs \<and> new_law K objs"

section \<open>Decoding the manifests\<close>

text \<open>
  The value a YAML text gives a field of its \<^verbatim>\<open>metadata\<close> mapping, empty when the text has none: the
  field's line among the indented lines that follow \<^verbatim>\<open>metadata:\<close>, without the quotes around it.
\<close>

definition unquote :: "string \<Rightarrow> string" where
  "unquote s = (if HasPrefix s [CHR 0x22] \<and> 1 < length s \<and> last s = CHR 0x22 then butlast (tl s) else s)"

definition metadata_field :: "string \<Rightarrow> string \<Rightarrow> string" where
  "metadata_field f txt =
     (let block = takeWhile (\<lambda>l. HasPrefix l ''  '')
        (drop 1 (dropWhile (\<lambda>l. l \<noteq> ''metadata:'') (Split txt newline)))
      in case find (\<lambda>l. HasPrefix l (''  '' @ f @ '': '')) block of
           None \<Rightarrow> []
         | Some l \<Rightarrow> unquote (drop (length f + 4) l))"

definition decoded_meta :: "string \<Rightarrow> ObjectMeta \<Rightarrow> bool" where
  "decoded_meta txt m \<longleftrightarrow>
     om_Name m = metadata_field ''name'' txt \<and> om_Namespace m = metadata_field ''namespace'' txt"

text \<open>
  \<^verbatim>\<open>yaml.Unmarshal\<close> accepts the manifests rendered for the Backup and gives each object the name and
  the namespace its text has under \<^verbatim>\<open>metadata\<close>.
\<close>

definition manifests_decode :: "'w kube \<Rightarrow> Backup \<Rightarrow> bool" where
  "manifests_decode K b \<longleftrightarrow>
     (\<exists>cr. k_UnmarshalClusterRole K ClusterRoleForBackup = Inr cr \<and>
        decoded_meta ClusterRoleForBackup (cr_ObjectMeta cr)) \<and>
     (\<exists>crb. k_UnmarshalClusterRoleBinding K (clusterrolebinding_text b) = Inr crb \<and>
        decoded_meta (clusterrolebinding_text b) (crb_ObjectMeta crb)) \<and>
     (case sp_BackupFrom (b_Spec b) of
        None \<Rightarrow> True
      | Some f \<Rightarrow>
          (\<exists>cj. k_UnmarshalCronJob K (cronjob_text b (bf_Name f)) = Inr cj \<and>
             decoded_meta (cronjob_text b (bf_Name f)) (cj_ObjectMeta cj)))"

text \<open>Names of Kubernetes objects hold no line break.\<close>

definition one_line :: "string \<Rightarrow> bool" where
  "one_line s \<longleftrightarrow> newline \<notin> set s"

lemma Split_line: "one_line l \<Longrightarrow> Split (l @ newline # s) newline = l # Split s newline"
  by (simp add: one_line_def Split_append_sep)

lemma unlines_Cons: "unlines (l # ls) = l @ newline # unlines ls"
  by (simp add: unlines_def)

lemma metadata_lines:
  assumes "one_line a" "one_line k" "one_line l" "one_line m" "one_line c"
    "a \<noteq> ''metadata:''" "k \<noteq> ''metadata:''" "l \<noteq> ''metadata:''"
  shows "metadata_field f (unlines (a # k # l # ''metadata:'' # m # c # ls)) =
    (let block = takeWhile (\<lambda>l. HasPrefix l ''  '') (m # c # Split (unlines ls) newline)
     in case find (\<lambda>l. HasPrefix l (''  '' @ f @ '': '')) block of
          None \<Rightarrow> [] | Some l \<Rightarrow> unquote (drop (length f + 4) l))"
proof -
  have "one_line ''metadata:''" by (simp add: one_line_def)
  with assms show ?thesis by (simp add: metadata_field_def unlines_Cons Split_line)
qed

lemma cronjob_metadata:
  assumes "one_line (b_Name b)"
  shows "metadata_field ''name'' (cronjob_text b f) = ''backup-'' @ b_Name b"
    and "metadata_field ''namespace'' (cronjob_text b f) = ''default''"
  using assms unfolding cronjob_text_def
  by (subst metadata_lines; simp add: one_line_def unquote_def)+

lemma clusterrolebinding_metadata:
  assumes "one_line (b_Namespace b)"
  shows "metadata_field ''name'' (clusterrolebinding_text b) = ''horusctl-'' @ b_Namespace b @ ''-binding''"
  using assms unfolding clusterrolebinding_text_def
  by (subst metadata_lines; simp add: one_line_def unquote_def)+

lemma clusterrole_metadata: "metadata_field ''name'' ClusterRoleForBackup = ''horusctl-role''"
  unfolding ClusterRoleForBackup_def
  by (subst metadata_lines; simp add: one_line_def unquote_def)+

section \<open>The laws, one case at a time\<close>

lemma create_new:
  "create_law K objs \<Longrightarrow> objs w (key_of ob) = None \<Longrightarrow>
     fst (k_Create K ob w) = None \<and>
     (\<exists>ob'. stored ob ob' \<and> objs (snd (k_Create K ob w)) = (objs w)(key_of ob \<mapsto> ob'))"
  unfolding create_law_def by (drule spec [of _ ob], drule spec [of _ w]) simp

lemma create_existing:
  "create_law K objs \<Longrightarrow> objs w (key_of ob) = Some x \<Longrightarrow>
     objs (snd (k_Create K ob w)) = objs w \<and>
     (\<exists>e. fst (k_Create K ob w) = Some e \<and> \<not> k_IsNotFound K e)"
  unfolding create_law_def by (drule spec [of _ ob], drule spec [of _ w]) simp

lemma other_kinds: "kind_of ob \<noteq> KBackup \<Longrightarrow> current ob x \<and> \<not> released ob"
  by (cases ob) (simp_all add: current_def)

lemma update_existing:
  "update_law K objs \<Longrightarrow> objs w (key_of ob) = Some x \<Longrightarrow> current ob x \<Longrightarrow>
     fst (k_Update K ob w) = None \<and>
     (if released ob then objs (snd (k_Update K ob w)) = (objs w)(key_of ob := None)
      else \<exists>ob'. stored ob ob' \<and> objs (snd (k_Update K ob w)) = (objs w)(key_of ob \<mapsto> ob'))"
  unfolding update_law_def by (drule spec [of _ ob], drule spec [of _ w]) simp

lemma delete_existing:
  assumes "delete_law K objs" "objs w (obj_key KClusterRoleBinding [] name) = Some x"
  shows "fst (k_CRBDelete K name w) = None"
    and "objs (snd (k_CRBDelete K name w)) = (objs w)(obj_key KClusterRoleBinding [] name := None)"
  using assms(1) [unfolded delete_law_def Let_def, rule_format, of name w] assms(2) by simp_all

lemma get_missing:
  assumes "get_law K objs" "objs w (obj_key kd (nn_Namespace n) (nn_Name n)) = None"
  obtains e where "fst (k_Get K kd n w) = Some e" "k_IsNotFound K e"
    "objs (snd (k_Get K kd n w)) = objs w"
  using assms(1) [unfolded get_law_def, rule_format, of kd n w] assms(2) that by auto

definition environment :: "'w kube \<Rightarrow> ('w \<Rightarrow> store) \<Rightarrow> bool" where
  "environment K objs \<longleftrightarrow> api_server K objs \<and> metadata_helpers K \<and> api_errors K \<and> finalizer_helpers K"

section \<open>A server in memory\<close>

definition notFound :: goerr where "notFound = ApiStatus ''NotFound'' ''not found''"
definition conflict :: goerr where "conflict = ApiStatus ''Conflict'' ''the object has been modified''"
definition alreadyExists :: goerr where "alreadyExists = ApiStatus ''AlreadyExists'' ''already exists''"

fun is_not_found :: "goerr \<Rightarrow> bool" where
  "is_not_found (ApiStatus r m) = (r = ''NotFound'')"
| "is_not_found e = False"

definition mem_meta :: "string \<Rightarrow> ObjectMeta" where
  "mem_meta txt = emptyMeta\<lparr>om_Name := metadata_field ''name'' txt,
     om_Namespace := metadata_field ''namespace'' txt\<rparr>"

definition mem_cronjob :: "string \<Rightarrow> CronJob" where
  "mem_cronjob txt = \<lparr>cj_ObjectMeta = mem_meta txt, cj_Schedule = [], cj_SuccessfulJobsHistoryLimit = 1,
     cj_FailedJobsHistoryLimit = 1, cj_Command = [], cj_Args = [], cj_Env = [],
     cj_ServiceAccountName = []\<rparr>"

text \<open>Every Update of a Backup gives it a longer resource version.\<close>

fun renew :: "kobj \<Rightarrow> kobj" where
  "renew (OBackup b) = OBackup (at_version (CHR ''x'' # om_ResourceVersion (b_ObjectMeta b)) b)"
| "renew ob = ob"

definition pair_key :: "string \<Rightarrow> string" where "pair_key p = takeWhile (\<lambda>c. c \<noteq> CHR ''='') p"
definition pair_value :: "string \<Rightarrow> string" where "pair_value p = drop 1 (dropWhile (\<lambda>c. c \<noteq> CHR ''='') p)"

definition mem_kube :: "store kube" where
  "mem_kube = \<lparr>
     k_GetBackup = (\<lambda>n w. (case w (obj_key KBackup (nn_Namespace n) (nn_Name n)) of
        Some (OBackup b) \<Rightarrow> Inr b | _ \<Rightarrow> Inl notFound, w)),
     k_Get = (\<lambda>kd n w. (case w (obj_key kd (nn_Namespace n) (nn_Name n)) of
        Some _ \<Rightarrow> None | None \<Rightarrow> Some notFound, w)),
     k_Create = (\<lambda>ob w. case w (key_of ob) of
        Some _ \<Rightarrow> (Some alreadyExists, w) | None \<Rightarrow> (None, w(key_of ob \<mapsto> renew ob))),
     k_Update = (\<lambda>ob w. case w (key_of ob) of
        Some x \<Rightarrow>
          (if current ob x
           then (None, if released ob then w(key_of ob := None) else w(key_of ob \<mapsto> renew ob))
           else (Some conflict, w))
      | None \<Rightarrow> (Some notFound, w)),
     k_CRBNewOrDie = (\<lambda>w. (None, w)),
     k_CRBDelete = (\<lambda>name w. case w (obj_key KClusterRoleBinding [] name) of
        Some _ \<Rightarrow> (None, w(obj_key KClusterRoleBinding [] name := None))
      | None \<Rightarrow> (Some notFound, w)),
     k_NSNewOrDie = (\<lambda>w. (None, w)),
     k_NSApply = (\<lambda>name w. (None, w)),
     k_IsNotFound = is_not_found,
     k_IgnoreNotFound = (\<lambda>e. if is_not_found e then None else Some e),
     k_Wrapf = (\<lambda>e m. map_option (\<lambda>e'. WithMessage e' m) e),
     k_SetControllerReference = (\<lambda>b m.
        if b_Namespace b \<noteq> [] \<and> om_Namespace m \<noteq> b_Namespace b then (m, Some (Errorf ''owner of another namespace''))
        else (m\<lparr>om_OwnerReferences := [\<lparr>or_kind = ''Backup'', or_name = b_Name b, or_controller = True\<rparr>]\<rparr>, None)),
     k_LabelsSet = (\<lambda>m p. Inr (m\<lparr>om_Labels := AList.update (pair_key p) (pair_value p) (om_Labels m)\<rparr>)),
     k_LabelsHas = (\<lambda>m p. map_of (om_Labels m) (pair_key p) = Some (pair_value p)),
     k_UnmarshalClusterRole = (\<lambda>txt. Inr \<lparr>cr_ObjectMeta = mem_meta txt, cr_Rules = []\<rparr>),
     k_UnmarshalClusterRoleBinding = (\<lambda>txt. Inr \<lparr>crb_ObjectMeta = mem_meta txt, crb_Subjects = [],
        crb_RoleRef = []\<rparr>),
     k_UnmarshalCronJob = (\<lambda>txt. Inr (mem_cronjob txt)),
     k_IsZero = (\<lambda>t. t = None \<or> t = Some 0),
     k_ContainsFinalizer = (\<lambda>m f. f \<in> set (om_Finalizers m)),
     k_AddFinalizer = (\<lambda>m f. (m\<lparr>om_Finalizers := (if f \<in> set (om_Finalizers m) then om_Finalizers m
        else om_Finalizers m @ [f])\<rparr>, f \<notin> set (om_Finalizers m))),
     k_RemoveFinalizer = (\<lambda>m f. (m\<lparr>om_Finalizers := filter (\<lambda>g. g \<noteq> f) (om_Finalizers m)\<rparr>,
        f \<in> set (om_Finalizers m))),
     k_MapOrder = (\<lambda>xs. xs)\<rparr>"

lemma mem_pair: "CHR ''='' \<notin> set k \<Longrightarrow> pair_key (k @ CHR ''='' # v) = k"
  "CHR ''='' \<notin> set k \<Longrightarrow> pair_value (k @ CHR ''='' # v) = v"
  by (induction k) (auto simp: pair_key_def pair_value_def)

lemma at_version_simps [simp]:
  "b_Spec (at_version v b) = b_Spec b" "b_Status (at_version v b) = b_Status b"
  "om_Name (b_ObjectMeta (at_version v b)) = b_Name b"
  "om_Namespace (b_ObjectMeta (at_version v b)) = b_Namespace b"
  "om_Finalizers (b_ObjectMeta (at_version v b)) = om_Finalizers (b_ObjectMeta b)"
  "om_DeletionTimestamp (b_ObjectMeta (at_version v b)) = om_DeletionTimestamp (b_ObjectMeta b)"
  "om_ResourceVersion (b_ObjectMeta (at_version v b)) = v"
  "key_of (OBackup (at_version v b)) = key_of (OBackup b)"
  by (simp_all add: at_version_def key_of_def)

lemma at_version_own: "at_version (om_ResourceVersion (b_ObjectMeta b)) b = b"
  by (simp add: at_version_def)

lemma stored_renew: "stored ob (renew ob)"
  by (cases ob) (auto simp: stored_def)

lemma mem_api_server: "api_server mem_kube (\<lambda>w. w)"
  by (auto simp: api_server_def get_law_def get_backup_law_def create_law_def update_law_def
      delete_law_def new_law_def mem_kube_def notFound_def alreadyExists_def conflict_def Let_def
      intro: stored_renew
      split: option.splits kobj.splits)

lemma mem_helpers: "metadata_helpers mem_kube" "api_errors mem_kube" "finalizer_helpers mem_kube"
  "labels_package mem_kube" "map_range mem_kube"
  by (auto simp: metadata_helpers_def api_errors_def finalizer_helpers_def labels_package_def
      map_range_def mem_kube_def same_identity_def has_label_def mem_pair update_conv')

lemma mem_environment: "environment mem_kube (\<lambda>w. w)"
  by (simp add: environment_def mem_api_server mem_helpers)

lemma mem_manifests_decode: "manifests_decode mem_kube b"
  by (simp add: manifests_decode_def mem_kube_def decoded_meta_def mem_meta_def mem_cronjob_def
      split: option.split)

text \<open>A Backup of a deployment in a namespace, and a world that holds only it.\<close>

definition sample_spec :: BackupSpec where
  "sample_spec = \<lparr>sp_Schedule = ''0 2 * * *'', sp_Retention = 7,
     sp_BackupFrom = Some \<lparr>bf_Name = ''web'', bf_Resource = ''deployment''\<rparr>,
     sp_BackupTo = Some emptyBackupTo, sp_Timeout = 60, sp_Env = [], sp_TimeZone = ''UTC'',
     sp_Cluster = '''', sp_CredentialName = ''cred'', sp_LogLevel = ''info'', sp_LogFormat = ''text'',
     sp_SuccessfulJobsHistoryLimit = 3, sp_FailedJobsHistoryLimit = 3\<rparr>"

definition sample_status :: BackupStatus where
  "sample_status = \<lparr>st_Conditions = [], st_LastBackupTime = 0, st_NextBackupTime = 0,
     st_ObservedGeneration = 0, st_Storage = [], st_Message = '''', st_Reason = '''',
     st_ResourceType = '''', st_ResourceName = ''''\<rparr>"

definition sample_backup :: "string \<Rightarrow> Time option \<Rightarrow> string list \<Rightarrow> Backup" where
  "sample_backup ns dt fins = \<lparr>b_ObjectMeta = emptyMeta\<lparr>om_Name := ''daily'', om_Namespace := ns,
     om_Finalizers := fins, om_DeletionTimestamp := dt\<rparr>, b_Spec = sample_spec,
     b_Status = sample_status\<rparr>"

definition sample_request :: "string \<Rightarrow> NamespacedName" where
  "sample_request ns = \<lparr>nn_Namespace = ns, nn_Name = ''daily''\<rparr>"

definition world_with :: "Backup \<Rightarrow> store operator" where
  "world_with b = \<lparr>ext = [key_of (OBackup b) \<mapsto> OBackup b], calls = []\<rparr>"

end
