(* ===== verification/ReconcilerTrace.thy ===== *)
theory ReconcilerTrace
  imports Reconciler ApiServer
begin

text \<open>
  One reconciliation against an arbitrary API server: which calls each stage and the finalizer
  protocol make, in which order, and how the reconciliation ends. The four stages share one contract,
  the locale \<open>stage_contract\<close>, interpreted on each of them.
\<close>

section \<open>What a stage does\<close>

text \<open>
  The runs of one stage: the calls it makes, with the answers, and how it ends. \<open>checked\<close> says
  whether the stage looks at the error of its Update.
\<close>

inductive stage_run ::
  "bool \<Rightarrow> 'w kube \<Rightarrow> kind \<Rightarrow> NamespacedName \<Rightarrow> kobj \<Rightarrow> api_call list \<Rightarrow> reply option \<Rightarrow> bool"
  for checked :: bool and K :: "'w kube" and kd :: kind and n :: NamespacedName and ob :: kobj where
  created: "k_IsNotFound K e \<Longrightarrow>
    stage_run checked K kd n ob [CGet kd n (Some e), CCreate ob None] (Some (requeue, None))"
| create_failed: "k_IsNotFound K e \<Longrightarrow>
    stage_run checked K kd n ob [CGet kd n (Some e), CCreate ob (Some e2)] (Some (noRequeue, Some e2))"
| get_failed: "\<not> k_IsNotFound K e \<Longrightarrow>
    stage_run checked K kd n ob [CGet kd n (Some e)] (Some (noRequeue, Some e))"
| updated: "\<not> checked \<or> u = None \<Longrightarrow>
    stage_run checked K kd n ob [CGet kd n None, CUpdate ob u] None"
| update_failed: "checked \<Longrightarrow>
    stage_run checked K kd n ob [CGet kd n None, CUpdate ob (Some e)] (Some (noRequeue, Some e))"

inductive_cases stage_run_continues: "stage_run checked K kd n ob new None"
inductive_cases stage_run_ends: "stage_run checked K kd n ob new (Some r)"

lemma wp_ensure:
  "wp (ensure checked K kd n ob)
     (\<lambda>r t. \<exists>v new. r = Ret v \<and> calls t = calls s @ new \<and> stage_run checked K kd n ob new v) s"
  unfolding ensure_def client_defs wp_gobind
  by (rule wp_call_ext)
    (auto simp: wp_simps split: option.splits intro!: wp_call_ext intro: stage_run.intros)

text \<open>The phase of a reconciliation a call belongs to.\<close>

fun call_rank :: "api_call \<Rightarrow> nat" where
  "call_rank (CGetBackup n e) = 0"
| "call_rank (CGet kd n e) =
     (case kd of KServiceAccount \<Rightarrow> 1 | KClusterRole \<Rightarrow> 2 | KClusterRoleBinding \<Rightarrow> 3
      | KCronJob \<Rightarrow> 4 | KBackup \<Rightarrow> 5)"
| "call_rank (CCreate ob e) =
     (case kind_of ob of KServiceAccount \<Rightarrow> 1 | KClusterRole \<Rightarrow> 2 | KClusterRoleBinding \<Rightarrow> 3
      | KCronJob \<Rightarrow> 4 | KBackup \<Rightarrow> 5)"
| "call_rank (CUpdate ob e) =
     (case kind_of ob of KServiceAccount \<Rightarrow> 1 | KClusterRole \<Rightarrow> 2 | KClusterRoleBinding \<Rightarrow> 3
      | KCronJob \<Rightarrow> 4 | KBackup \<Rightarrow> 5)"
| "call_rank c = 5"

text \<open>The reply a reconciliation gives when its last call is a Create.\<close>

definition create_reply :: "goerr option \<Rightarrow> reply" where
  "create_reply e = (case e of None \<Rightarrow> (requeue, None) | Some e' \<Rightarrow> (noRequeue, Some e'))"

text \<open>Creates only as the last call, and then the reply is the one of that Create.\<close>

definition create_ends :: "api_call list \<Rightarrow> reply outcome \<Rightarrow> bool" where
  "create_ends new r \<longleftrightarrow>
     (\<forall>c \<in> set (butlast new). \<not> is_create c) \<and>
     (new \<noteq> [] \<longrightarrow> (\<forall>ob e. last new = CCreate ob e \<longrightarrow> r = Ret (create_reply e)))"

text \<open>What a stage of the given rank, and what a stage and all that follows it, may do.\<close>

definition stage_post :: "nat \<Rightarrow> 'w operator \<Rightarrow> reply option outcome \<Rightarrow> 'w operator \<Rightarrow> bool" where
  "stage_post rank s r t \<longleftrightarrow>
     (\<exists>new. calls t = calls s @ new \<and> length new \<le> 2 \<and> (\<forall>c \<in> set new. call_rank c = rank) \<and>
        (case r of
           Halt h \<Rightarrow> new = []
         | Ret None \<Rightarrow> \<not> list_ex is_create new
         | Ret (Some v) \<Rightarrow> create_ends new (Ret v)))"

definition rest_post :: "nat \<Rightarrow> 'w operator \<Rightarrow> reply outcome \<Rightarrow> 'w operator \<Rightarrow> bool" where
  "rest_post rank s r t \<longleftrightarrow>
     (\<exists>new. calls t = calls s @ new \<and> sorted (map call_rank new) \<and>
        (\<forall>c \<in> set new. rank \<le> call_rank c) \<and> create_ends new r)"

lemma sorted_same_rank: "\<forall>c \<in> set new. call_rank c = k \<Longrightarrow> sorted (map call_rank new)"
  by (simp add: sorted_wrt_iff_nth_less)

lemma create_ends_append:
  "\<not> list_ex is_create xs \<Longrightarrow> create_ends ys r \<Longrightarrow> create_ends (xs @ ys) r"
  by (cases "ys = []")
    (fastforce simp: create_ends_def list_ex_iff butlast_append dest: in_set_butlastD last_in_set)+

lemma rest_post_mono: "rest_post k s r t \<Longrightarrow> j \<le> k \<Longrightarrow> rest_post j s r t"
  by (fastforce simp: rest_post_def)

text \<open>A stage followed by the rest of the reconciliation, from the two postconditions.\<close>

lemma stage_then_rest:
  assumes "stage_post k s (Ret None) t" and "rest_post k t r u"
  shows "rest_post k s r u"
proof -
  from assms(1) obtain xs where xs: "calls t = calls s @ xs" "\<forall>c \<in> set xs. call_rank c = k"
    "\<not> list_ex is_create xs"
    by (auto simp: stage_post_def)
  from assms(2) obtain ys where ys: "calls u = calls t @ ys" "sorted (map call_rank ys)"
    "\<forall>c \<in> set ys. k \<le> call_rank c" "create_ends ys r"
    by (auto simp: rest_post_def)
  have "sorted (map call_rank xs)" using xs(2) by (auto intro: sorted_same_rank)
  with xs ys show ?thesis
    unfolding rest_post_def
    by (intro exI [of _ "xs @ ys"]) (auto simp: sorted_append create_ends_append)
qed

lemma stage_ends:
  "stage_post k s (Ret (Some v)) t \<Longrightarrow> rest_post k s (Ret v) t"
  "stage_post k s (Halt h) t \<Longrightarrow> rest_post k s (Halt h) t"
  by (auto simp: stage_post_def rest_post_def create_ends_def dest: sorted_same_rank)

text \<open>
  The contract of a stage, whatever object it is about: it makes at most two calls, all on its own
  kind of object; it creates at most one object, as its last call, and then ends the
  reconciliation; it falls through only when it created nothing.
\<close>

locale stage_contract =
  fixes st :: "'w stage" and rank :: nat
  assumes stage_trace: "wp st (stage_post rank s) s"
begin

lemma before_rest:
  assumes "\<And>t. wp rest (rest_post rank t) t"
  shows "wp (or_else st rest) (rest_post rank s) s"
  unfolding or_else_def wp_gobind
proof (rule wp_conseq [OF stage_trace], goal_cases)
  case (1 r t)
  then show ?case
    by (cases r)
      (auto simp: wp_simps split: option.splits intro: stage_ends
        intro!: wp_conseq [OF assms] elim: stage_then_rest)
qed

end

lemma ensure_contract:
  assumes "kind_of ob = kd"
  shows "wp (ensure checked K kd n ob) (stage_post (call_rank (CGet kd n None)) s) s"
  by (rule wp_conseq [OF wp_ensure])
    (use assms in \<open>auto elim!: stage_run.cases simp: stage_post_def create_ends_def create_reply_def\<close>)

lemma stage_post_refl: "stage_post k s (Halt h) s"
  by (simp add: stage_post_def)

lemma built_contract:
  assumes "\<And>x. kind_of (f x) = kd"
  shows "wp (case m of Halt h \<Rightarrow> halting h | Ret x \<Rightarrow> ensure checked K kd n (f x))
    (stage_post (call_rank (CGet kd n None)) s) s"
  using ensure_contract [OF assms]
  by (cases m) (simp_all add: wp_simps stage_post_refl del: call_rank.simps)

interpretation sa: stage_contract "reconcileServiceAccount K req b" 1 for K req b
  by unfold_locales
    (use ensure_contract [of "OServiceAccount x" KServiceAccount for x] in
      \<open>simp add: reconcileServiceAccount_def\<close>)

interpretation role: stage_contract "reconcileClusterRole K req b" 2 for K req b
  by unfold_locales
    (use built_contract [of OClusterRole KClusterRole] in \<open>simp add: reconcileClusterRole_def\<close>)

interpretation binding: stage_contract "reconcileClusterRoleBinding K req b" 3 for K req b
  by unfold_locales
    (use built_contract [of OClusterRoleBinding KClusterRoleBinding] in
      \<open>simp add: reconcileClusterRoleBinding_def\<close>)

interpretation cron: stage_contract "reconcileCronJob K req b" 4 for K req b
  by unfold_locales
    (use built_contract [of OCronJob KCronJob] in \<open>simp add: reconcileCronJob_def\<close>)

section \<open>What the finalizer protocol does\<close>

text \<open>The runs of \<open>deleteExternalResources\<close> and \<open>handleFinalizer\<close> that return.\<close>

definition crb_delete_error :: "'w kube \<Rightarrow> Backup \<Rightarrow> goerr option \<Rightarrow> goerr option" where
  "crb_delete_error K b d =
     (case d of
        None \<Rightarrow> None
      | Some e \<Rightarrow> k_Wrapf K (Some e)
          (Sprintf ''clusterrolebinding handler delete clusterrolebinding/%s failed''
             [crbName (b_Namespace b)]))"

inductive finalizer_run :: "'w kube \<Rightarrow> Backup \<Rightarrow> api_call list \<Rightarrow> goerr option \<Rightarrow> bool"
  for K :: "'w kube" and b :: Backup where
  register: "k_IsZero K (om_DeletionTimestamp (b_ObjectMeta b)) \<Longrightarrow>
    \<not> k_ContainsFinalizer K (b_ObjectMeta b) DefaultBackupFinalizerName \<Longrightarrow>
    finalizer_run K b
      [CUpdate (OBackup (b\<lparr>b_ObjectMeta :=
         fst (k_AddFinalizer K (b_ObjectMeta b) DefaultBackupFinalizerName)\<rparr>)) u] u"
| registered: "k_IsZero K (om_DeletionTimestamp (b_ObjectMeta b)) \<Longrightarrow>
    k_ContainsFinalizer K (b_ObjectMeta b) DefaultBackupFinalizerName \<Longrightarrow> finalizer_run K b [] None"
| released: "\<not> k_IsZero K (om_DeletionTimestamp (b_ObjectMeta b)) \<Longrightarrow>
    \<not> k_ContainsFinalizer K (b_ObjectMeta b) DefaultBackupFinalizerName \<Longrightarrow> finalizer_run K b [] None"
| blocked: "\<not> k_IsZero K (om_DeletionTimestamp (b_ObjectMeta b)) \<Longrightarrow>
    k_ContainsFinalizer K (b_ObjectMeta b) DefaultBackupFinalizerName \<Longrightarrow>
    crb_delete_error K b d = Some e \<Longrightarrow>
    finalizer_run K b [CCRBNewOrDie None, CCRBDelete (crbName (b_Namespace b)) d] (Some e)"
| release: "\<not> k_IsZero K (om_DeletionTimestamp (b_ObjectMeta b)) \<Longrightarrow>
    k_ContainsFinalizer K (b_ObjectMeta b) DefaultBackupFinalizerName \<Longrightarrow>
    crb_delete_error K b d = None \<Longrightarrow>
    finalizer_run K b
      [CCRBNewOrDie None, CCRBDelete (crbName (b_Namespace b)) d,
       CUpdate (OBackup (b\<lparr>b_ObjectMeta :=
         fst (k_RemoveFinalizer K (b_ObjectMeta b) DefaultBackupFinalizerName)\<rparr>)) u] u"

lemma crb_delete_error_simps [simp]:
  "crb_delete_error K b None = None"
  "crb_delete_error K b (Some e) =
     k_Wrapf K (Some e) (Sprintf ''clusterrolebinding handler delete clusterrolebinding/%s failed''
       [crbName (b_Namespace b)])"
  by (simp_all add: crb_delete_error_def)

lemma wp_deleteExternalResources:
  "wp (deleteExternalResources K b)
     (\<lambda>r t. (\<exists>h. r = Halt h \<and> calls t = calls s @ [CCRBNewOrDie (Some h)]) \<or>
        (\<exists>d. calls t = calls s @ [CCRBNewOrDie None, CCRBDelete (crbName (b_Namespace b)) d] \<and>
           r = Ret (crb_delete_error K b d))) s"
  unfolding deleteExternalResources_def wp_gobind
  by (rule wp_call_ext)
    (auto simp: wp_simps split: option.split intro!: wp_call_ext)

lemma wp_handleFinalizer:
  "wp (handleFinalizer K b)
     (\<lambda>r t. (\<exists>h. r = Halt h \<and> calls t = calls s @ [CCRBNewOrDie (Some h)]) \<or>
        (\<exists>v new. r = Ret v \<and> calls t = calls s @ new \<and> finalizer_run K b new v)) s"
proof (cases "\<not> k_IsZero K (om_DeletionTimestamp (b_ObjectMeta b)) \<and>
    k_ContainsFinalizer K (b_ObjectMeta b) DefaultBackupFinalizerName")
  case True
  then show ?thesis
    unfolding handleFinalizer_def Let_def rUpdate_def
    by (auto simp: wp_gobind intro!: wp_conseq [OF wp_deleteExternalResources [of K b s]])
      (auto simp: wp_simps split: option.splits
        intro!: wp_call_ext intro: finalizer_run.intros)
next
  case False
  then show ?thesis
    unfolding handleFinalizer_def Let_def rUpdate_def
    by (auto simp: wp_simps intro!: wp_call_ext intro: finalizer_run.intros)
qed

lemma finalizer_run_rank:
  "finalizer_run K b new v \<Longrightarrow> \<forall>c \<in> set new. call_rank c = 5 \<and> \<not> is_create c"
  by (induction rule: finalizer_run.induct) auto

definition finish :: "'w kube \<Rightarrow> Backup \<Rightarrow> ('w operator, reply) go" where
  "finish K b = gobind (handleFinalizer K b)
     (\<lambda>err. case err of Some e \<Rightarrow> ret (noRequeue, Some e) | None \<Rightarrow> ret (noRequeue, None))"

lemma wp_finish: "wp (finish K b) (rest_post 5 s) s"
  unfolding finish_def wp_gobind
proof (rule wp_conseq [OF wp_handleFinalizer], goal_cases)
  case (1 r t)
  have quiet: "rest_post 5 s r' t"
    if "calls t = calls s @ new" "\<forall>c \<in> set new. call_rank c = 5 \<and> \<not> is_create c" for new r'
  proof -
    have "create_ends new r'"
      using that(2) by (fastforce simp: create_ends_def dest: in_set_butlastD last_in_set)
    with that show ?thesis by (auto simp: rest_post_def intro: sorted_same_rank)
  qed
  with 1 show ?case
    by (auto simp: wp_simps split: option.splits dest!: finalizer_run_rank)
qed

section \<open>Properties of one reconciliation\<close>

lemma Reconcile_unfold:
  "Reconcile K req =
     gobind (rGetBackup K req) (\<lambda>r.
       case r of
         Inl e \<Rightarrow> ret (noRequeue, k_IgnoreNotFound K e)
       | Inr b \<Rightarrow>
           or_else (reconcileServiceAccount K req b)
          (or_else (reconcileClusterRole K req b)
          (or_else (reconcileClusterRoleBinding K req b)
          (or_else (reconcileCronJob K req b) (finish K b)))))"
  unfolding Reconcile_def finish_def by (rule refl)

lemma wp_stages: "wp (or_else (reconcileServiceAccount K req b)
    (or_else (reconcileClusterRole K req b)
    (or_else (reconcileClusterRoleBinding K req b)
    (or_else (reconcileCronJob K req b) (finish K b))))) (rest_post 1 s) s"
proof -
  have weaken: "wp m (rest_post k u) u \<Longrightarrow> j \<le> k \<Longrightarrow> wp m (rest_post j u) u"
    for m :: "('a operator, reply) go" and j k u
    by (erule wp_conseq) (rule rest_post_mono)
  have cj: "wp (or_else (reconcileCronJob K req b) (finish K b)) (rest_post 4 t) t" for t
    by (rule cron.before_rest) (rule weaken [OF wp_finish], simp_all)
  have crb: "wp (or_else (reconcileClusterRoleBinding K req b)
      (or_else (reconcileCronJob K req b) (finish K b))) (rest_post 3 t) t" for t
    by (rule binding.before_rest) (rule weaken [OF cj], simp_all)
  have cr: "wp (or_else (reconcileClusterRole K req b) (or_else (reconcileClusterRoleBinding K req b)
      (or_else (reconcileCronJob K req b) (finish K b)))) (rest_post 2 t) t" for t
    by (rule role.before_rest) (rule weaken [OF crb], simp_all)
  show ?thesis
    by (rule sa.before_rest) (rule weaken [OF cr], simp_all)
qed

text \<open>
  C5. One reconciliation works through its phases in order: the Backup is read first, then the calls
  on the ServiceAccount, the ClusterRole, the ClusterRoleBinding, the CronJob and at last those of
  the finalizer protocol, none of them out of turn. It creates at most one object; the Create is its
  last call, and the reply is then to requeue, or the error of that Create. This holds for every
  behaviour of the API server.
\<close>

theorem Reconcile_phases: "wp (Reconcile K req) (rest_post 0 s) s"
  unfolding Reconcile_unfold rGetBackup_def wp_gobind
proof (rule wp_call_ext, goal_cases)
  case (1 r w)
  let ?s = "s\<lparr>ext := w, calls := calls s @ [CGetBackup req (err_of r)]\<rparr>"
  have "rest_post 0 s v t" if "rest_post 1 ?s v t" for v t
  proof -
    from that obtain new where "calls t = calls ?s @ new" "sorted (map call_rank new)"
      "create_ends new v" by (auto simp: rest_post_def)
    moreover have "create_ends ([CGetBackup req (err_of r)] @ new) v"
      using \<open>create_ends new v\<close> by (intro create_ends_append) simp_all
    ultimately show ?thesis
      unfolding rest_post_def by (intro exI [of _ "CGetBackup req (err_of r) # new"]) simp
  qed
  moreover have "rest_post 1 ?s (Ret v) ?s" for v
    by (simp add: rest_post_def create_ends_def)
  ultimately show ?case
    by (cases r) (auto simp: wp_simps intro: wp_conseq [OF wp_stages])
qed

lemma ensure_unchecked_found:
  assumes "fst (k_Get K kd n (ext s)) = None"
  shows "fst (ensure False K kd n ob s) = Ret None"
  using assms by (simp add: ensure_def client_defs go_run)

lemma ensure_checked_found:
  assumes "fst (k_Get K kd n (ext s)) = None"
  shows "fst (ensure True K kd n ob s) =
    Ret (map_option (\<lambda>e. (noRequeue, Some e)) (fst (k_Update K ob (snd (k_Get K kd n (ext s))))))"
  using assms by (simp add: ensure_def client_defs go_run split: option.splits)

text \<open>
  C23. When the ServiceAccount exists, its stage falls through to the next one whatever the
  Update answers: the error of the Update is never seen. The CronJob stage, in the same situation,
  ends the reconciliation with the error of its Update.
\<close>

theorem update_error_dropped:
  assumes "fst (k_Get K KServiceAccount \<lparr>nn_Namespace = nn_Namespace req, nn_Name = ''horusctl''\<rparr>
      (ext s)) = None"
    and "fst (k_Get K KCronJob \<lparr>nn_Namespace = nn_Namespace req, nn_Name = ''backup-'' @ nn_Name req\<rparr>
      (ext s)) = None"
    and "cronJobForBackup K b = Ret cj"
    and "\<And>w. fst (k_Update K (OCronJob cj) w) = Some e"
  shows "fst (reconcileServiceAccount K req b s) = Ret None \<and>
    fst (reconcileCronJob K req b s) = Ret (Some (noRequeue, Some e))"
  using assms
  by (simp add: reconcileServiceAccount_def reconcileCronJob_def ensure_unchecked_found
      ensure_checked_found)

text \<open>A server whose Updates all fail, and a world that holds the objects the stages look for.\<close>

definition readonly_kube :: "store kube" where
  "readonly_kube = mem_kube\<lparr>k_Update := (\<lambda>ob w. (Some alreadyExists, w))\<rparr>"

definition settled_world :: "Backup \<Rightarrow> store operator" where
  "settled_world b = \<lparr>ext = [obj_key KServiceAccount (b_Namespace b) ''horusctl'' \<mapsto> OBackup b,
     obj_key KCronJob (b_Namespace b) (''backup-'' @ b_Name b) \<mapsto> OBackup b,
     obj_key KClusterRoleBinding [] (crbName (b_Namespace b)) \<mapsto> OBackup b,
     key_of (OBackup b) \<mapsto> OBackup b], calls = []\<rparr>"

lemma readonly_cronjob: "sp_BackupFrom (b_Spec b) = Some f \<Longrightarrow> \<exists>cj. cronJobForBackup readonly_kube b = Ret cj"
  using Parse_render(1) [of b CronJobForBackup]
  by (simp add: CronJob_render cronJobForBackup_def readonly_kube_def mem_kube_def)

theorem update_error_dropped_witness:
  "fst (reconcileServiceAccount readonly_kube (sample_request ''default'')
       (sample_backup ''default'' None []) (settled_world (sample_backup ''default'' None []))) = Ret None \<and>
   fst (reconcileCronJob readonly_kube (sample_request ''default'')
       (sample_backup ''default'' None []) (settled_world (sample_backup ''default'' None []))) =
     Ret (Some (noRequeue, Some alreadyExists))"
proof -
  let ?b = "sample_backup ''default'' None []" and ?r = "sample_request ''default''"
  obtain cj where cj: "cronJobForBackup readonly_kube ?b = Ret cj"
    using readonly_cronjob [of ?b] by (auto simp: sample_backup_def sample_spec_def)
  show ?thesis
    by (rule update_error_dropped [OF _ _ cj])
      (simp_all add: readonly_kube_def mem_kube_def settled_world_def sample_request_def
        sample_backup_def emptyMeta_def obj_key_def key_of_def)
qed

lemma crb_delete_error_Some: "api_errors K \<Longrightarrow> (crb_delete_error K b d = None) = (d = None)"
  by (cases d) (auto simp: api_errors_def)

lemma finalizer_run_removes:
  assumes "finalizer_run K b new v" "api_errors K" "finalizer_helpers K"
    and "CUpdate (OBackup b') u \<in> set new"
    and "DefaultBackupFinalizerName \<notin> set (om_Finalizers (b_ObjectMeta b'))"
  shows "\<not> k_IsZero K (om_DeletionTimestamp (b_ObjectMeta b)) \<and>
    CCRBDelete (crbName (b_Namespace b)) None \<in>
      set (takeWhile (\<lambda>c. c \<noteq> CUpdate (OBackup b') u) new)"
  using assms
proof (induction rule: finalizer_run.induct)
  case (register u)
  then show ?case by (auto simp: finalizer_helpers_def)
qed (auto simp: crb_delete_error_Some)

text \<open>
  C6. The finalizer of a Backup is taken off its object only when the object is being deleted, and
  only after the API server has confirmed that the ClusterRoleBinding of its namespace is deleted.
\<close>

theorem finalizer_removed_only_after_cleanup:
  assumes "api_errors K" and "finalizer_helpers K"
    and run: "handleFinalizer K b s = (r, t)" and new: "calls t = calls s @ new"
    and upd: "CUpdate (OBackup b') u \<in> set new"
    and gone: "DefaultBackupFinalizerName \<notin> set (om_Finalizers (b_ObjectMeta b'))"
  shows "om_DeletionTimestamp (b_ObjectMeta b) \<notin> {None, Some 0} \<and>
    CCRBDelete (crbName (b_Namespace b)) None \<in>
      set (takeWhile (\<lambda>c. c \<noteq> CUpdate (OBackup b') u) new)"
proof -
  from wp_runD [OF wp_handleFinalizer run] new upd obtain v where "finalizer_run K b new v"
    by auto
  from finalizer_run_removes [OF this assms(1,2) upd gone] assms(2) show ?thesis
    by (auto simp: finalizer_helpers_def)
qed

theorem finalizer_removed_only_after_cleanup_witness:
  "let b = sample_backup ''default'' (Some 1) [DefaultBackupFinalizerName];
       b' = sample_backup ''default'' (Some 1) [];
       t = snd (handleFinalizer mem_kube b (settled_world b))
   in om_DeletionTimestamp (b_ObjectMeta b) \<notin> {None, Some 0} \<and>
      CCRBDelete (crbName (b_Namespace b)) None \<in>
        set (takeWhile (\<lambda>c. c \<noteq> CUpdate (OBackup b') None) (calls t))"
proof -
  let ?b = "sample_backup ''default'' (Some 1) [DefaultBackupFinalizerName]"
  let ?b' = "sample_backup ''default'' (Some 1) []"
  let ?run = "handleFinalizer mem_kube ?b (settled_world ?b)"
  have "CUpdate (OBackup ?b') None \<in> set (calls (snd ?run))"
    by (simp add: handleFinalizer_def deleteExternalResources_def client_defs go_run mem_kube_def
        settled_world_def sample_backup_def emptyMeta_def obj_key_def key_of_def current_def Let_def)
  moreover have "calls (snd ?run) = calls (settled_world ?b) @ calls (snd ?run)"
    by (simp add: settled_world_def)
  moreover have "DefaultBackupFinalizerName \<notin> set (om_Finalizers (b_ObjectMeta ?b'))"
    by (simp add: sample_backup_def)
  ultimately show ?thesis
    unfolding Let_def
    by (intro finalizer_removed_only_after_cleanup [OF mem_helpers(2,3) prod.collapse [symmetric]])
qed

text \<open>
  C24. Building the CronJob ends the operator's process with status 1 exactly when the Backup names
  no resource to back up or the rendered manifest is not a CronJob.
\<close>

theorem cronJobForBackup_exits:
  "(cronJobForBackup K b = Halt (Exit 1)) =
     (case sp_BackupFrom (b_Spec b) of
        None \<Rightarrow> True
      | Some f \<Rightarrow> \<exists>e. k_UnmarshalCronJob K (cronjob_text b (bf_Name f)) = Inl e)"
proof (cases "sp_BackupFrom (b_Spec b)")
  case None
  then obtain e where "Parse CronJobForBackup b = Inl e"
    using Parse_render(2) [of b CronJobForBackup] by (auto simp: CronJob_render)
  with None show ?thesis by (simp add: cronJobForBackup_def)
next
  case (Some f)
  then have "Parse CronJobForBackup b = Inr (cronjob_text b (bf_Name f))"
    by (intro Parse_render(1)) (simp add: CronJob_render)
  with Some show ?thesis by (simp add: cronJobForBackup_def split: sum.splits)
qed


definition recommended :: "ObjectMeta \<Rightarrow> bool" where
  "recommended m \<longleftrightarrow> has_label m LabelPartOf ''horus'' \<and> has_label m LabelManagedBy ''horus-operator''"

lemma owned_and_labelled_recommended:
  assumes "labels_package K" "map_range K"
  shows "recommended (owned_and_labelled K b m)"
proof -
  let ?ps = "k_MapOrder K LabelMap"
  have ps: "mset ?ps = mset LabelMap" using assms(2) by (simp add: map_range_def)
  have keys: "\<forall>p \<in> set ?ps. CHR ''='' \<notin> set (fst p)"
    unfolding mset_eq_setD [OF ps] by (simp add: LabelMap_def LabelPartOf_def LabelManagedBy_def)
  have dist: "distinct (map fst ?ps)"
    using mset_eq_imp_distinct_iff [of "map fst ?ps" "map fst LabelMap"] ps
    by (simp add: LabelMap_def LabelPartOf_def LabelManagedBy_def)
  have "distinct (map fst LabelMap)"
    by (simp add: LabelMap_def LabelPartOf_def LabelManagedBy_def)
  then have "map_of ?ps = map_of LabelMap"
    by (simp only: map_of_inject_set [OF dist] mset_eq_setD [OF ps])
  with set_labels_sets [OF assms(1) keys dist] show ?thesis
    by (simp add: recommended_def has_label_def owned_and_labelled_def SetRecommendedLabels_def
        LabelMap_def LabelPartOf_def LabelManagedBy_def)
qed

text \<open>
  C27. Every object the reconciler writes carries the two recommended labels, in whatever order the
  label map is ranged over.
\<close>

theorem objects_carry_labels:
  assumes "labels_package K" "map_range K"
  shows "recommended (sa_ObjectMeta (serviceAccountForBackup K b)) \<and>
    (case clusterRoleForBackup K b of Ret x \<Rightarrow> recommended (cr_ObjectMeta x) | Halt h \<Rightarrow> h = Exit 1) \<and>
    (case clusterRoleBindingForBackup K b of Ret x \<Rightarrow> recommended (crb_ObjectMeta x) | Halt h \<Rightarrow> h = Exit 1) \<and>
    (case cronJobForBackup K b of Ret x \<Rightarrow> recommended (cj_ObjectMeta x) | Halt h \<Rightarrow> h = Exit 1)"
  by (simp add: serviceAccountForBackup_def clusterRoleForBackup_def clusterRoleBindingForBackup_def
      cronJobForBackup_def owned_and_labelled_recommended [OF assms] split: sum.split)

theorem objects_carry_labels_witness:
  "recommended (sa_ObjectMeta (serviceAccountForBackup mem_kube (sample_backup ''default'' None [])))"
  using objects_carry_labels [OF mem_helpers(4,5)] by blast

text \<open>
  The manifest of the CronJob does not depend on the schedule of the Backup, its retention, its timeout, its environment
  or its history limits: the schedule and the limits of the CronJob are constants.
\<close>

theorem cronjob_ignores_schedule:
  "Parse CronJobForBackup (b\<lparr>b_Spec := (b_Spec b)\<lparr>sp_Schedule := schedule, sp_Retention := retention,
      sp_Timeout := timeout, sp_Env := env, sp_SuccessfulJobsHistoryLimit := ok, sp_FailedJobsHistoryLimit := bad\<rparr>\<rparr>) =
    Parse CronJobForBackup b"
proof -
  let ?b = "b\<lparr>b_Spec := (b_Spec b)\<lparr>sp_Schedule := schedule, sp_Retention := retention,
      sp_Timeout := timeout, sp_Env := env, sp_SuccessfulJobsHistoryLimit := ok, sp_FailedJobsHistoryLimit := bad\<rparr>\<rparr>"
  have "backup_field ?b a = backup_field b a" for a by (simp add: backup_field_def)
  then have "backup_field ?b = backup_field b" by blast
  then show ?thesis by (simp only: Parse_def)
qed


end
