(* ===== verification/ReconcilerServer.thy ===== *)
theory ReconcilerServer
  imports ReconcilerTrace
begin

text \<open>
  The reconciler against an API server that keeps its promises: what it achieves over several
  reconciliations of one Backup.
\<close>

section \<open>A stage against the server\<close>

text \<open>
  \<open>agree S f g\<close>: two states of the store hold the same objects outside \<open>S\<close>. A stage makes the object
  of its key when it is missing, and otherwise only rewrites it.
\<close>

definition agree :: "key set \<Rightarrow> store \<Rightarrow> store \<Rightarrow> bool" where
  "agree S f g \<longleftrightarrow> (\<forall>k. k \<notin> S \<longrightarrow> f k = g k)"

lemma agree_refl [simp]: "agree S f f"
  by (simp add: agree_def)

lemma agreeD: "agree S f g \<Longrightarrow> k \<notin> S \<Longrightarrow> g k = f k"
  unfolding agree_def by metis

lemma agree_trans: "agree S f g \<Longrightarrow> agree T g h \<Longrightarrow> S \<union> T \<subseteq> U \<Longrightarrow> agree U f h"
  by (fastforce simp: agree_def)

definition stage_effect :: "('w \<Rightarrow> store) \<Rightarrow> 'w stage \<Rightarrow> key \<Rightarrow> bool" where
  "stage_effect objs st k \<longleftrightarrow> (\<forall>s. \<exists>r t. st s = (Ret r, t) \<and>
     agree {k} (objs (ext s)) (objs (ext t)) \<and>
     dom (objs (ext t)) = insert k (dom (objs (ext s))) \<and>
     r = (if k \<in> dom (objs (ext s)) then None else Some (requeue, None)))"

text \<open>Only a Backup can be released by an Update.\<close>

lemma ensure_effect:
  assumes srv: "api_server K objs" and nb: "kind_of ob \<noteq> KBackup"
    and key: "key_of ob = obj_key kd (nn_Namespace n) (nn_Name n)"
  shows "stage_effect objs (ensure checked K kd n ob) (key_of ob)"
  unfolding stage_effect_def
proof
  fix s :: "'a operator"
  let ?k = "key_of ob" and ?w = "snd (k_Get K kd n (ext s))"
  have g: "objs ?w = objs (ext s)"
    and g2: "case objs (ext s) ?k of Some ob \<Rightarrow> fst (k_Get K kd n (ext s)) = None
      | None \<Rightarrow> \<exists>e. fst (k_Get K kd n (ext s)) = Some e \<and> k_IsNotFound K e"
    using srv key by (auto simp: api_server_def get_law_def)
  have c: "create_law K objs" and u: "update_law K objs"
    using srv by (auto simp: api_server_def)
  have nr: "\<not> released ob" "current ob x" for x using other_kinds [OF nb] by simp_all
  show "\<exists>r t. ensure checked K kd n ob s = (Ret r, t) \<and>
     agree {?k} (objs (ext s)) (objs (ext t)) \<and>
     dom (objs (ext t)) = insert ?k (dom (objs (ext s))) \<and>
     r = (if ?k \<in> dom (objs (ext s)) then None else Some (requeue, None))"
  proof (cases "objs (ext s) ?k")
    case None
    with g2 obtain e where e: "fst (k_Get K kd n (ext s)) = Some e" "k_IsNotFound K e" by auto
    from create_new [OF c, of ?w ob] None g obtain ob' where "fst (k_Create K ob ?w) = None"
      "objs (snd (k_Create K ob ?w)) = (objs (ext s))(?k \<mapsto> ob')" by auto
    with e None show ?thesis
      by (auto simp: ensure_def client_defs go_run agree_def dom_def)
  next
    case (Some x)
    with g2 have e: "fst (k_Get K kd n (ext s)) = None" by simp
    from update_existing [OF u _ nr(2), of ?w x] Some g nr(1) obtain ob' where
      "fst (k_Update K ob ?w) = None" "objs (snd (k_Update K ob ?w)) = (objs (ext s))(?k \<mapsto> ob')"
      by auto
    with e Some show ?thesis
      by (auto simp: ensure_def client_defs go_run agree_def dom_def)
  qed
qed

text \<open>A chain of stages, and what follows when all of them fall through.\<close>

definition first_missing :: "store \<Rightarrow> key list \<Rightarrow> key option" where
  "first_missing st ks = find (\<lambda>k. k \<notin> dom st) ks"

lemma chain_effect:
  assumes "list_all2 (stage_effect objs) sts ks"
  shows "case first_missing (objs (ext s)) ks of
      None \<Rightarrow> \<exists>t. foldr or_else sts rest s = rest t \<and> agree (set ks) (objs (ext s)) (objs (ext t)) \<and>
        dom (objs (ext t)) = dom (objs (ext s))
    | Some k \<Rightarrow> \<exists>t. foldr or_else sts rest s = (Ret (requeue, None), t) \<and>
        agree (set ks) (objs (ext s)) (objs (ext t)) \<and>
        dom (objs (ext t)) = insert k (dom (objs (ext s)))"
  using assms
proof (induction sts ks arbitrary: s rule: list_all2_induct)
  case Nil
  then show ?case by (auto simp: first_missing_def)
next
  case (Cons st sts k ks)
  from Cons.hyps(1) obtain r t where t: "st s = (Ret r, t)" "agree {k} (objs (ext s)) (objs (ext t))"
    "dom (objs (ext t)) = insert k (dom (objs (ext s)))"
    "r = (if k \<in> dom (objs (ext s)) then None else Some (requeue, None))"
    unfolding stage_effect_def by blast
  show ?case
  proof (cases "k \<in> dom (objs (ext s))")
    case True
    with t have same: "dom (objs (ext t)) = dom (objs (ext s))" by auto
    have run: "foldr or_else (st # sts) rest s = foldr or_else sts rest t"
      using t True by (simp add: or_else_def go_run)
    have fm: "first_missing (objs (ext s)) (k # ks) = first_missing (objs (ext t)) ks"
      using True same by (simp add: first_missing_def)
    from Cons.IH [of t] show ?thesis
      unfolding fm run
      by (auto split: option.splits simp: same intro: agree_trans [OF t(2)])
  next
    case False
    with t have "foldr or_else (st # sts) rest s = (Ret (requeue, None), t)"
      by (simp add: or_else_def go_run)
    with False t(2,3) show ?thesis
      by (auto simp: first_missing_def intro: agree_trans [OF t(2) agree_refl])
  qed
qed

section \<open>The four stages\<close>

definition stages :: "'w kube \<Rightarrow> NamespacedName \<Rightarrow> Backup \<Rightarrow> 'w stage list" where
  "stages K req b = [reconcileServiceAccount K req b, reconcileClusterRole K req b,
     reconcileClusterRoleBinding K req b, reconcileCronJob K req b]"

definition stage_keys :: "NamespacedName \<Rightarrow> key list" where
  "stage_keys req =
     [obj_key KServiceAccount (nn_Namespace req) ''horusctl'',
      obj_key KClusterRole [] ''horusctl-role'',
      obj_key KClusterRoleBinding [] (crbName (nn_Namespace req)),
      obj_key KCronJob (nn_Namespace req) (''backup-'' @ nn_Name req)]"

lemma Reconcile_chain:
  "Reconcile K req = gobind (rGetBackup K req) (\<lambda>r.
     case r of Inl e \<Rightarrow> ret (noRequeue, k_IgnoreNotFound K e)
     | Inr b \<Rightarrow> foldr or_else (stages K req b) (finish K b))"
  unfolding Reconcile_unfold stages_def by (simp cong: sum.case_cong)

lemma crbName_eq: "crbName ns = ''horusctl-'' @ ns @ ''-binding''"
  by (simp add: crbName_def Sprintf_eval)

text \<open>The request names the Backup, whose names are Kubernetes names and which names its resource.\<close>

definition request_for :: "NamespacedName \<Rightarrow> Backup \<Rightarrow> bool" where
  "request_for req b \<longleftrightarrow> b_Name b = nn_Name req \<and> b_Namespace b = nn_Namespace req \<and>
     one_line (b_Name b) \<and> one_line (b_Namespace b) \<and> sp_BackupFrom (b_Spec b) \<noteq> None"

lemma identity_names:
  "metadata_helpers K \<Longrightarrow> om_Name (owned_and_labelled K b m) = om_Name m"
  "metadata_helpers K \<Longrightarrow> om_Namespace (owned_and_labelled K b m) = om_Namespace m"
  using owned_and_labelled_identity [of K m b] by (simp_all add: same_identity_def)

lemma rbac_effects:
  assumes srv: "api_server K objs" and mh: "metadata_helpers K" and md: "manifests_decode K b"
    and rq: "request_for req b"
  shows "list_all2 (stage_effect objs) (take 3 (stages K req b)) (take 3 (stage_keys req))"
proof -
  from md obtain cr crb where
    cr: "k_UnmarshalClusterRole K ClusterRoleForBackup = Inr cr"
      "decoded_meta ClusterRoleForBackup (cr_ObjectMeta cr)" and
    crb: "k_UnmarshalClusterRoleBinding K (clusterrolebinding_text b) = Inr crb"
      "decoded_meta (clusterrolebinding_text b) (crb_ObjectMeta crb)"
    by (auto simp: manifests_decode_def)
  have crb_name: "metadata_field ''name'' (clusterrolebinding_text b) = crbName (nn_Namespace req)"
    using rq by (auto simp only: request_for_def clusterrolebinding_metadata crbName_eq)
  note keys = key_of_def obj_key_def identity_names [OF mh] decoded_meta_def
    clusterrole_metadata crb_name serviceAccountForBackup_def emptyMeta_def
  note built = clusterRoleForBackup_def clusterRoleBindingForBackup_def Parse_ClusterRole
    Parse_ClusterRoleBinding cr(1) crb(1)
  have "stage_effect objs (reconcileServiceAccount K req b) (stage_keys req ! 0)"
    using ensure_effect [OF srv, of "OServiceAccount (serviceAccountForBackup K b)"
        KServiceAccount "\<lparr>nn_Namespace = nn_Namespace req, nn_Name = ''horusctl''\<rparr>" False] rq
    by (simp add: reconcileServiceAccount_def stage_keys_def keys request_for_def)
  moreover have "stage_effect objs (reconcileClusterRole K req b) (stage_keys req ! 1)"
    using ensure_effect [OF srv, of "OClusterRole (cr\<lparr>cr_ObjectMeta :=
          owned_and_labelled K b (cr_ObjectMeta cr)\<rparr>)" KClusterRole
        "\<lparr>nn_Namespace = nn_Namespace req, nn_Name = ''horusctl-role''\<rparr>" False] cr(2)
    by (simp add: reconcileClusterRole_def stage_keys_def keys built)
  moreover have "stage_effect objs (reconcileClusterRoleBinding K req b) (stage_keys req ! 2)"
    using ensure_effect [OF srv, of "OClusterRoleBinding (crb\<lparr>crb_ObjectMeta :=
          owned_and_labelled K b (crb_ObjectMeta crb)\<rparr>)" KClusterRoleBinding
        "\<lparr>nn_Namespace = nn_Namespace req, nn_Name = crbName (nn_Namespace req)\<rparr>" False] crb(2) rq
    by (simp add: reconcileClusterRoleBinding_def stage_keys_def keys built request_for_def)
  ultimately show ?thesis
    by (simp add: stages_def stage_keys_def)
qed

lemma cronJob_built:
  assumes mh: "metadata_helpers K" and md: "manifests_decode K b" and rq: "request_for req b"
  obtains cj where "cronJobForBackup K b = Ret cj"
    "key_of (OCronJob cj) = obj_key KCronJob ''default'' (''backup-'' @ nn_Name req)"
proof -
  from rq obtain f where f: "sp_BackupFrom (b_Spec b) = Some f" by (auto simp: request_for_def)
  with md obtain cj where cj: "k_UnmarshalCronJob K (cronjob_text b (bf_Name f)) = Inr cj"
      "decoded_meta (cronjob_text b (bf_Name f)) (cj_ObjectMeta cj)"
    by (auto simp: manifests_decode_def)
  have "Parse CronJobForBackup b = Inr (cronjob_text b (bf_Name f))"
    using f by (intro Parse_render(1)) (simp add: CronJob_render)
  with cj have run: "cronJobForBackup K b =
      Ret (cj\<lparr>cj_ObjectMeta := owned_and_labelled K b (cj_ObjectMeta cj)\<rparr>)"
    by (simp add: cronJobForBackup_def)
  have "om_Name (cj_ObjectMeta cj) = ''backup-'' @ nn_Name req"
    "om_Namespace (cj_ObjectMeta cj) = ''default''"
    using cj(2) rq cronjob_metadata [of b] by (auto simp: decoded_meta_def request_for_def)
  then show thesis
    by (intro that [OF run]) (simp add: key_of_def identity_names [OF mh])
qed

lemma cronjob_effect:
  assumes srv: "api_server K objs" and mh: "metadata_helpers K" and md: "manifests_decode K b"
    and rq: "request_for req b" and dflt: "nn_Namespace req = ''default''"
  shows "stage_effect objs (reconcileCronJob K req b) (stage_keys req ! 3)"
proof -
  from cronJob_built [OF mh md rq] obtain cj where cj: "cronJobForBackup K b = Ret cj"
    "key_of (OCronJob cj) = obj_key KCronJob ''default'' (''backup-'' @ nn_Name req)" .
  then show ?thesis
    using ensure_effect [OF srv, of "OCronJob cj" KCronJob
        "\<lparr>nn_Namespace = nn_Namespace req, nn_Name = ''backup-'' @ nn_Name req\<rparr>" True] dflt
    by (simp add: reconcileCronJob_def stage_keys_def numeral_3_eq_3)
qed

lemma stages_effect:
  assumes "api_server K objs" "metadata_helpers K" "manifests_decode K b"
    and "request_for req b" "nn_Namespace req = ''default''"
  shows "list_all2 (stage_effect objs) (stages K req b) (stage_keys req)"
  using rbac_effects [OF assms(1-4)] cronjob_effect [OF assms]
  by (simp add: stages_def stage_keys_def)

section \<open>Draining the work queue\<close>

text \<open>
  The controller's worker runs the reconciler again as long as it asks to be requeued, at most
  \<open>n\<close> times more.
\<close>

fun drain :: "nat \<Rightarrow> 'w kube \<Rightarrow> NamespacedName \<Rightarrow> ('w operator, reply) go" where
  "drain 0 K req = Reconcile K req"
| "drain (Suc n) K req =
     gobind (Reconcile K req) (\<lambda>(res, err).
       if r_Requeue res \<and> err = None then drain n K req else ret (res, err))"

definition missing :: "store \<Rightarrow> key list \<Rightarrow> nat" where
  "missing st ks = card (set ks - dom st)"

lemma missing_step:
  assumes "first_missing st ks = Some k" "dom st' = insert k (dom st)"
  shows "missing st ks = Suc (missing st' ks)"
proof -
  from assms(1) have k: "k \<in> set ks - dom st"
    by (auto simp: first_missing_def find_Some_iff)
  have "set ks - dom st' = (set ks - dom st) - {k}" using assms(2) by auto
  with k show ?thesis by (simp only: missing_def) (simp add: card_Suc_Diff1 del: card_Diff_insert)
qed

lemma none_missing: "first_missing st ks = None \<longleftrightarrow> set ks \<subseteq> dom st"
  "missing st ks = 0 \<longleftrightarrow> set ks \<subseteq> dom st"
  by (auto simp: first_missing_def missing_def find_None_iff)

definition backup_key :: "NamespacedName \<Rightarrow> key" where
  "backup_key req = obj_key KBackup (nn_Namespace req) (nn_Name req)"

lemma stage_keys_other: "backup_key r \<notin> set (stage_keys req)" "distinct (stage_keys req)"
  by (auto simp: backup_key_def stage_keys_def obj_key_def)

lemma finish_stops: "finish K b s = (Ret (res, err), t) \<Longrightarrow> \<not> r_Requeue res"
  by (auto simp: finish_def gobind_def ret_def split: prod.splits outcome.splits option.splits)

lemma Reconcile_present:
  assumes "get_backup_law K objs" "objs (ext s) (backup_key req) = Some (OBackup b)"
  obtains t where "Reconcile K req s = foldr or_else (stages K req b) (finish K b) t"
    "objs (ext t) = objs (ext s)"
proof -
  from assms(1) have "objs (snd (k_GetBackup K req (ext s))) = objs (ext s)" and
    "case objs (ext s) (backup_key req) of
       Some (OBackup b) \<Rightarrow> fst (k_GetBackup K req (ext s)) = Inr b
     | _ \<Rightarrow> \<exists>e. fst (k_GetBackup K req (ext s)) = Inl e \<and> k_IsNotFound K e"
    unfolding get_backup_law_def backup_key_def by auto
  with assms(2) have "fst (k_GetBackup K req (ext s)) = Inr b"
    "objs (snd (k_GetBackup K req (ext s))) = objs (ext s)" by auto
  then show thesis
    by (intro that [of "s\<lparr>ext := snd (k_GetBackup K req (ext s)),
        calls := calls s @ [CGetBackup req None]\<rparr>"])
      (simp_all add: Reconcile_chain rGetBackup_def go_run)
qed

lemma Reconcile_effect:
  assumes env: "environment K objs" and md: "manifests_decode K b" and rq: "request_for req b"
    and dflt: "nn_Namespace req = ''default''"
    and b: "objs (ext s) (backup_key req) = Some (OBackup b)"
  shows "case first_missing (objs (ext s)) (stage_keys req) of
      None \<Rightarrow> \<exists>t. Reconcile K req s = finish K b t \<and>
        agree (set (stage_keys req)) (objs (ext s)) (objs (ext t)) \<and>
        dom (objs (ext t)) = dom (objs (ext s))
    | Some k \<Rightarrow> \<exists>t. Reconcile K req s = (Ret (requeue, None), t) \<and>
        agree (set (stage_keys req)) (objs (ext s)) (objs (ext t)) \<and>
        dom (objs (ext t)) = insert k (dom (objs (ext s)))"
proof -
  from env have e: "api_server K objs" "metadata_helpers K" "get_backup_law K objs"
    by (auto simp: environment_def api_server_def)
  from Reconcile_present [OF e(3) b] obtain t where
    t: "Reconcile K req s = foldr or_else (stages K req b) (finish K b) t"
    "objs (ext t) = objs (ext s)" .
  from chain_effect [OF stages_effect [OF e(1,2) md rq dflt], where s = t and rest = "finish K b"] show ?thesis
    unfolding t .
qed

lemma drain_finish:
  assumes env: "environment K objs" and md: "manifests_decode K b" and rq: "request_for req b"
    and dflt: "nn_Namespace req = ''default''"
    and b: "objs (ext s) (backup_key req) = Some (OBackup b)"
    and n: "missing (objs (ext s)) (stage_keys req) \<le> n"
  shows "\<exists>t. drain n K req s = finish K b t \<and> set (stage_keys req) \<subseteq> dom (objs (ext t)) \<and>
    agree (set (stage_keys req)) (objs (ext s)) (objs (ext t))"
  using b n
proof (induction n arbitrary: s)
  case 0
  then have "first_missing (objs (ext s)) (stage_keys req) = None" by (simp add: none_missing)
  with Reconcile_effect [OF env md rq dflt 0(1)] obtain t where
    "Reconcile K req s = finish K b t" "agree (set (stage_keys req)) (objs (ext s)) (objs (ext t))"
      "dom (objs (ext t)) = dom (objs (ext s))" by auto
  with 0(2) show ?case by (intro exI [of _ t]) (simp add: none_missing)
next
  case (Suc n)
  show ?case
  proof (cases "first_missing (objs (ext s)) (stage_keys req)")
    case None
    with Reconcile_effect [OF env md rq dflt Suc.prems(1)] obtain t where
      t: "Reconcile K req s = finish K b t" "agree (set (stage_keys req)) (objs (ext s)) (objs (ext t))"
        "dom (objs (ext t)) = dom (objs (ext s))" by auto
    have "drain (Suc n) K req s = finish K b t"
      using finish_stops [of K b t]
      by (auto simp: t(1) go_run split: prod.splits outcome.splits)
    with t None show ?thesis by (intro exI [of _ t]) (simp add: none_missing)
  next
    case (Some k)
    with Reconcile_effect [OF env md rq dflt Suc.prems(1)] obtain t where
      t: "Reconcile K req s = (Ret (requeue, None), t)"
        "agree (set (stage_keys req)) (objs (ext s)) (objs (ext t))"
        "dom (objs (ext t)) = insert k (dom (objs (ext s)))" by auto
    have "objs (ext t) (backup_key req) = Some (OBackup b)"
      using agreeD [OF t(2) stage_keys_other(1)] Suc.prems(1) by simp
    moreover have "missing (objs (ext t)) (stage_keys req) \<le> n"
      using missing_step [OF Some t(3)] Suc.prems(2) by simp
    moreover have "drain (Suc n) K req s = drain n K req t"
      using t(1) by (simp add: go_run)
    ultimately obtain u where "drain (Suc n) K req s = finish K b u"
      "set (stage_keys req) \<subseteq> dom (objs (ext u))"
      "agree (set (stage_keys req)) (objs (ext t)) (objs (ext u))"
      using Suc.IH [of t] by auto
    with agree_trans [OF t(2) this(3)] show ?thesis by (intro exI [of _ u]) simp
  qed
qed

section \<open>The finalizer against the server\<close>

lemma handleFinalizer_registers:
  assumes env: "environment K objs"
    and live: "om_DeletionTimestamp (b_ObjectMeta b) \<in> {None, Some 0}"
    and b: "objs (ext s) (key_of (OBackup b)) = Some (OBackup b)"
  shows "\<exists>t b'. finish K b s = (Ret (noRequeue, None), t) \<and>
    objs (ext t) = (objs (ext s))(key_of (OBackup b) \<mapsto> OBackup b') \<and>
    (\<exists>v fs. b' = at_version v (b\<lparr>b_ObjectMeta := (b_ObjectMeta b)\<lparr>om_Finalizers := fs\<rparr>\<rparr>) \<and>
       set fs = insert DefaultBackupFinalizerName (set (om_Finalizers (b_ObjectMeta b))))"
proof -
  let ?m = "b_ObjectMeta b" and ?f = DefaultBackupFinalizerName
  from env have fh: "finalizer_helpers K" and u: "update_law K objs"
    by (auto simp: environment_def api_server_def)
  show ?thesis
  proof (cases "?f \<in> set (om_Finalizers ?m)")
    case True
    with fh live have "finish K b s = (Ret (noRequeue, None), s)"
      by (auto simp: finish_def handleFinalizer_def finalizer_helpers_def go_run)
    moreover have "b = at_version (om_ResourceVersion ?m) (b\<lparr>b_ObjectMeta := ?m\<lparr>om_Finalizers := om_Finalizers ?m\<rparr>\<rparr>)"
      "set (om_Finalizers ?m) = insert ?f (set (om_Finalizers ?m))"
      using True at_version_own [of b] by auto
    ultimately show ?thesis
      using b by (intro exI [of _ s] exI [of _ b]) (metis fun_upd_triv)
  next
    case False
    let ?b = "b\<lparr>b_ObjectMeta := ?m\<lparr>om_Finalizers := om_Finalizers ?m @ [?f]\<rparr>\<rparr>"
    have key: "key_of (OBackup ?b) = key_of (OBackup b)" "current (OBackup ?b) (OBackup b)"
      by (simp_all add: key_of_def current_def)
    from update_existing [OF u _ key(2), of "ext s"] b key live
    obtain v where upd: "fst (k_Update K (OBackup ?b) (ext s)) = None"
      "objs (snd (k_Update K (OBackup ?b) (ext s))) = (objs (ext s))(key_of (OBackup b) \<mapsto> OBackup (at_version v ?b))"
      by (auto simp: stored_def)
    let ?t = "s\<lparr>ext := snd (k_Update K (OBackup ?b) (ext s)),
      calls := calls s @ [CUpdate (OBackup ?b) None]\<rparr>"
    have "finish K b s = (Ret (noRequeue, None), ?t)"
      using fh live False upd(1)
      by (auto simp: finish_def handleFinalizer_def finalizer_helpers_def client_defs go_run Let_def)
    with upd(2) show ?thesis
      by (intro exI [of _ ?t] exI [of _ "at_version v ?b"] conjI exI [of _ v] exI [of _ "om_Finalizers ?m @ [?f]"])
        simp_all
  qed
qed

lemma handleFinalizer_releases:
  assumes env: "environment K objs"
    and dying: "om_DeletionTimestamp (b_ObjectMeta b) \<notin> {None, Some 0}"
    and has: "DefaultBackupFinalizerName \<in> set (om_Finalizers (b_ObjectMeta b))"
    and b: "objs (ext s) (key_of (OBackup b)) = Some (OBackup b)"
    and crb: "objs (ext s) (obj_key KClusterRoleBinding [] (crbName (b_Namespace b))) = Some x"
  shows "\<exists>t v. finish K b s = (Ret (noRequeue, None), t) \<and>
    objs (ext t) = (objs (ext s))
      (obj_key KClusterRoleBinding [] (crbName (b_Namespace b)) := None,
       key_of (OBackup b) :=
         if set (om_Finalizers (b_ObjectMeta b)) = {DefaultBackupFinalizerName} then None
         else Some (OBackup (at_version v (b\<lparr>b_ObjectMeta := (b_ObjectMeta b)
           \<lparr>om_Finalizers := filter (\<lambda>g. g \<noteq> DefaultBackupFinalizerName) (om_Finalizers (b_ObjectMeta b))\<rparr>\<rparr>))))"
proof -
  let ?m = "b_ObjectMeta b" and ?f = DefaultBackupFinalizerName
  let ?k = "obj_key KClusterRoleBinding [] (crbName (b_Namespace b))"
  let ?fs = "filter (\<lambda>g. g \<noteq> ?f) (om_Finalizers ?m)"
  let ?b = "b\<lparr>b_ObjectMeta := ?m\<lparr>om_Finalizers := ?fs\<rparr>\<rparr>"
  let ?w = "snd (k_CRBNewOrDie K (ext s))"
  let ?v = "snd (k_CRBDelete K (crbName (b_Namespace b)) ?w)"
  let ?u = "snd (k_Update K (OBackup ?b) ?v)"
  from env have fh: "finalizer_helpers K" and u: "update_law K objs" and n: "new_law K objs"
    and d: "delete_law K objs"
    by (auto simp: environment_def api_server_def)
  from n have new: "fst (k_CRBNewOrDie K (ext s)) = None" "objs ?w = objs (ext s)"
    by (auto simp: new_law_def)
  from delete_existing [OF d, of ?w] crb new have del: "fst (k_CRBDelete K (crbName (b_Namespace b)) ?w) = None"
    "objs ?v = (objs (ext s))(?k := None)" by auto
  have key: "key_of (OBackup ?b) = key_of (OBackup b)" "key_of (OBackup b) \<noteq> ?k"
    by (auto simp: key_of_def obj_key_def)
  have cur: "current (OBackup ?b) (OBackup b)" by (simp add: current_def)
  have rel: "released (OBackup ?b) \<longleftrightarrow> set (om_Finalizers ?m) = {?f}"
    using dying has by (auto simp: filter_empty_conv)
  from update_existing [OF u _ cur, of ?v] b del(2) key
  have upd: "fst (k_Update K (OBackup ?b) ?v) = None"
    and "if released (OBackup ?b) then objs ?u = (objs ?v)(key_of (OBackup b) := None)
      else \<exists>ob'. stored (OBackup ?b) ob' \<and> objs ?u = (objs ?v)(key_of (OBackup b) \<mapsto> ob')"
    by (auto simp del: released.simps)
  then obtain v where "objs ?u = (objs ?v)(key_of (OBackup b) :=
      if released (OBackup ?b) then None else Some (OBackup (at_version v ?b)))"
    unfolding stored_def by (auto simp del: released.simps split: if_splits)
  then have "objs ?u = (objs (ext s))(?k := None, key_of (OBackup b) :=
      if set (om_Finalizers ?m) = {?f} then None else Some (OBackup (at_version v ?b)))"
    unfolding rel del(2) .
  moreover obtain cs where "finish K b s = (Ret (noRequeue, None), s\<lparr>ext := ?u, calls := cs\<rparr>)"
    using that fh dying has new(1) del(1) upd(1)
    by (auto simp: finish_def handleFinalizer_def deleteExternalResources_def finalizer_helpers_def
        client_defs go_run Let_def)
  ultimately show ?thesis
    by (intro exI [of _ "s\<lparr>ext := ?u, calls := cs\<rparr>"] exI [of _ v]) simp
qed

lemma missing_bound: "missing st (stage_keys req) \<le> 4"
  unfolding missing_def
  using card_mono [of "set (stage_keys req)" "set (stage_keys req) - dom st"]
    card_length [of "stage_keys req"]
  by (auto simp: stage_keys_def)

lemma request_key: "request_for req b \<Longrightarrow> key_of (OBackup b) = backup_key req"
  by (simp add: request_for_def key_of_def backup_key_def)

text \<open>A Backup under deletion with the operator's finalizer only, through the requeues to its end.\<close>

lemma binding_key:
  "request_for req b \<Longrightarrow> obj_key KClusterRoleBinding [] (crbName (b_Namespace b)) \<in> set (stage_keys req)"
  by (simp add: stage_keys_def request_for_def)

lemma deletion_effect:
  assumes env: "environment K objs" and md: "manifests_decode K b" and rq: "request_for req b"
    and dflt: "nn_Namespace req = ''default''"
    and dying: "om_DeletionTimestamp (b_ObjectMeta b) \<notin> {None, Some 0}"
    and only: "set (om_Finalizers (b_ObjectMeta b)) = {DefaultBackupFinalizerName}"
    and b: "objs (ext s) (backup_key req) = Some (OBackup b)"
  shows "\<exists>g t. drain 4 K req s = (Ret (noRequeue, None), t) \<and>
    agree (set (stage_keys req)) (objs (ext s)) g \<and>
    objs (ext t) = g(obj_key KClusterRoleBinding [] (crbName (b_Namespace b)) := None, backup_key req := None)"
proof -
  from drain_finish [OF env md rq dflt b missing_bound] obtain u where
    u: "drain 4 K req s = finish K b u" "set (stage_keys req) \<subseteq> dom (objs (ext u))"
      "agree (set (stage_keys req)) (objs (ext s)) (objs (ext u))" by blast
  have bu: "objs (ext u) (key_of (OBackup b)) = Some (OBackup b)"
    using agreeD [OF u(3) stage_keys_other(1)] b request_key [OF rq] by simp
  from u(2) binding_key [OF rq] obtain x where
    x: "objs (ext u) (obj_key KClusterRoleBinding [] (crbName (b_Namespace b))) = Some x" by blast
  from only have "DefaultBackupFinalizerName \<in> set (om_Finalizers (b_ObjectMeta b))" by simp
  from handleFinalizer_releases [OF env dying this bu x] obtain t where "finish K b u = (Ret (noRequeue, None), t)"
    "objs (ext t) = (objs (ext u))
      (obj_key KClusterRoleBinding [] (crbName (b_Namespace b)) := None, backup_key req := None)"
    unfolding request_key [OF rq] only by auto
  with u(1,3) show ?thesis by (intro exI [of _ "objs (ext u)"] exI [of _ t]) simp
qed

section \<open>Properties of a drained queue\<close>

text \<open>
  C7. A Backup in the namespace \<^verbatim>\<open>default\<close> settles: whatever of the four objects it needs is missing,
  at most four requeues bring the reconciler to a reply without error and without requeue, and then
  the ServiceAccount, the ClusterRole, the ClusterRoleBinding and the CronJob exist and the Backup
  carries the finalizer, its spec unchanged.
\<close>

theorem backup_settles_in_default:
  assumes env: "environment K objs" and md: "manifests_decode K b" and rq: "request_for req b"
    and dflt: "nn_Namespace req = ''default''"
    and live: "om_DeletionTimestamp (b_ObjectMeta b) \<in> {None, Some 0}"
    and b: "objs (ext s) (backup_key req) = Some (OBackup b)"
  shows "\<exists>t b'. drain 4 K req s = (Ret (noRequeue, None), t) \<and>
    set (stage_keys req) \<subseteq> dom (objs (ext t)) \<and>
    objs (ext t) (backup_key req) = Some (OBackup b') \<and> b_Spec b' = b_Spec b \<and>
    DefaultBackupFinalizerName \<in> set (om_Finalizers (b_ObjectMeta b'))"
proof -
  from drain_finish [OF env md rq dflt b missing_bound] obtain t where
    t: "drain 4 K req s = finish K b t" "set (stage_keys req) \<subseteq> dom (objs (ext t))"
      "agree (set (stage_keys req)) (objs (ext s)) (objs (ext t))" by blast
  have "objs (ext t) (key_of (OBackup b)) = Some (OBackup b)"
    using agreeD [OF t(3) stage_keys_other(1)] b request_key [OF rq] by simp
  from handleFinalizer_registers [OF env live this] obtain u b' where
    "finish K b t = (Ret (noRequeue, None), u)"
    "objs (ext u) = (objs (ext t))(backup_key req \<mapsto> OBackup b')" "b_Spec b' = b_Spec b"
    "DefaultBackupFinalizerName \<in> set (om_Finalizers (b_ObjectMeta b'))"
    unfolding request_key [OF rq] by auto
  with t show ?thesis by (intro exI [of _ u] exI [of _ b']) auto
qed

lemma sample_request_for: "one_line ns \<Longrightarrow> request_for (sample_request ns) (sample_backup ns dt fins)"
  by (simp add: request_for_def sample_request_def sample_backup_def sample_spec_def emptyMeta_def
      one_line_def)

lemma world_with_backup: "request_for req b \<Longrightarrow> ext (world_with b) (backup_key req) = Some (OBackup b)"
  by (simp add: world_with_def request_key)

lemma default_one_line: "one_line ''default''" "one_line ''prod''"
  by (simp_all add: one_line_def)

theorem backup_settles_in_default_witness:
  "\<exists>t b'. drain 4 mem_kube (sample_request ''default'') (world_with (sample_backup ''default'' None [])) =
      (Ret (noRequeue, None), t) \<and>
    set (stage_keys (sample_request ''default'')) \<subseteq> dom (ext t) \<and>
    ext t (backup_key (sample_request ''default'')) = Some (OBackup b') \<and>
    b_Spec b' = b_Spec (sample_backup ''default'' None []) \<and>
    DefaultBackupFinalizerName \<in> set (om_Finalizers (b_ObjectMeta b'))"
  by (rule backup_settles_in_default [where objs = "\<lambda>w. w" and b = "sample_backup ''default'' None []",
        OF mem_environment mem_manifests_decode
        sample_request_for [OF default_one_line(1)] _ _
        world_with_backup [OF sample_request_for [OF default_one_line(1)]]])
    (simp_all add: sample_request_def sample_backup_def emptyMeta_def)

text \<open>
  C8. A Backup in the namespace \<^verbatim>\<open>default\<close> that is being deleted, with the operator's finalizer as
  its last one, is gone after at most four requeues. The ClusterRoleBinding of the namespace goes
  with it, although every Backup of the namespace relies on the same one; the other objects of the
  store, other Backups included, stay.
\<close>

theorem deletion_completes_in_default:
  assumes env: "environment K objs" and md: "manifests_decode K b" and rq: "request_for req b"
    and dflt: "nn_Namespace req = ''default''"
    and dying: "om_DeletionTimestamp (b_ObjectMeta b) \<notin> {None, Some 0}"
    and only: "set (om_Finalizers (b_ObjectMeta b)) = {DefaultBackupFinalizerName}"
    and b: "objs (ext s) (backup_key req) = Some (OBackup b)"
  shows "\<exists>t. drain 4 K req s = (Ret (noRequeue, None), t) \<and>
    objs (ext t) (backup_key req) = None \<and>
    objs (ext t) (obj_key KClusterRoleBinding [] (crbName (b_Namespace b))) = None \<and>
    agree (insert (backup_key req) (set (stage_keys req))) (objs (ext s)) (objs (ext t))"
proof -
  from deletion_effect [OF assms] obtain g t where t: "drain 4 K req s = (Ret (noRequeue, None), t)"
    "agree (set (stage_keys req)) (objs (ext s)) g"
    "objs (ext t) = g(obj_key KClusterRoleBinding [] (crbName (b_Namespace b)) := None, backup_key req := None)"
    by blast
  have "agree {obj_key KClusterRoleBinding [] (crbName (b_Namespace b)), backup_key req} g (objs (ext t))"
    unfolding t(3) agree_def by simp
  with agree_trans [OF t(2) this] binding_key [OF rq] have
    "agree (insert (backup_key req) (set (stage_keys req))) (objs (ext s)) (objs (ext t))" by blast
  with t(1,3) show ?thesis by (intro exI [of _ t]) simp
qed

theorem deletion_completes_in_default_witness:
  "\<exists>t. drain 4 mem_kube (sample_request ''default'')
      (world_with (sample_backup ''default'' (Some 1) [DefaultBackupFinalizerName])) =
      (Ret (noRequeue, None), t) \<and>
    ext t (backup_key (sample_request ''default'')) = None \<and>
    ext t (obj_key KClusterRoleBinding [] (crbName (b_Namespace
      (sample_backup ''default'' (Some 1) [DefaultBackupFinalizerName])))) = None \<and>
    agree (insert (backup_key (sample_request ''default'')) (set (stage_keys (sample_request ''default''))))
      (ext (world_with (sample_backup ''default'' (Some 1) [DefaultBackupFinalizerName]))) (ext t)"
  by (rule deletion_completes_in_default [where objs = "\<lambda>w. w" and b = "sample_backup ''default'' (Some 1) [DefaultBackupFinalizerName]",
        OF mem_environment mem_manifests_decode
        sample_request_for [OF default_one_line(1)] _ _ _
        world_with_backup [OF sample_request_for [OF default_one_line(1)]]])
    (simp_all add: sample_request_def sample_backup_def emptyMeta_def)

section \<open>Outside the namespace default\<close>

text \<open>A number of reconciliations of the same request, with the reply of each.\<close>

fun runs :: "nat \<Rightarrow> 'w kube \<Rightarrow> NamespacedName \<Rightarrow> ('w operator, reply list) go" where
  "runs 0 K req = ret []"
| "runs (Suc n) K req =
     gobind (Reconcile K req) (\<lambda>r. gobind (runs n K req) (\<lambda>rs. ret (r # rs)))"

definition unsettled :: "reply \<Rightarrow> bool" where
  "unsettled r \<longleftrightarrow> r_Requeue (fst r) \<or> snd r \<noteq> None"

abbreviation cronjob_key :: "NamespacedName \<Rightarrow> key" where
  "cronjob_key req \<equiv> obj_key KCronJob (nn_Namespace req) (''backup-'' @ nn_Name req)"

lemma ensure_missing:
  assumes srv: "api_server K objs"
    and none: "objs (ext s) (obj_key kd (nn_Namespace n) (nn_Name n)) = None"
  shows "\<exists>r t. ensure checked K kd n ob s = (Ret (Some r), t) \<and> unsettled r \<and>
    agree {key_of ob} (objs (ext s)) (objs (ext t))"
proof -
  from srv have laws: "get_law K objs" "create_law K objs" by (auto simp: api_server_def)
  let ?w = "snd (k_Get K kd n (ext s))"
  from get_missing [OF laws(1) none] obtain e where
    e: "fst (k_Get K kd n (ext s)) = Some e" "k_IsNotFound K e" "objs ?w = objs (ext s)" .
  have run: "ensure checked K kd n ob s =
      (Ret (Some (create_reply (fst (k_Create K ob ?w)))),
       s\<lparr>ext := snd (k_Create K ob ?w),
         calls := calls s @ [CGet kd n (Some e), CCreate ob (fst (k_Create K ob ?w))]\<rparr>)"
    using e by (simp add: ensure_def client_defs go_run create_reply_def split: option.split)
  have "unsettled (create_reply (fst (k_Create K ob ?w))) \<and>
      agree {key_of ob} (objs ?w) (objs (snd (k_Create K ob ?w)))"
    using create_new [OF laws(2), of ?w ob] create_existing [OF laws(2), of ?w ob]
    by (cases "objs ?w (key_of ob)")
      (auto simp: unsettled_def create_reply_def agree_def split: option.split)
  with run e(3) show ?thesis by simp
qed

lemma cronjob_elsewhere:
  assumes env: "environment K objs" and md: "manifests_decode K b" and rq: "request_for req b"
    and none: "objs (ext s) (cronjob_key req) = None"
  shows "\<exists>r t. reconcileCronJob K req b s = (Ret (Some r), t) \<and> unsettled r \<and>
    agree {obj_key KCronJob ''default'' (''backup-'' @ nn_Name req)} (objs (ext s)) (objs (ext t))"
proof -
  from env have srv: "api_server K objs" and mh: "metadata_helpers K"
    by (auto simp: environment_def)
  from cronJob_built [OF mh md rq] obtain cj where cj: "cronJobForBackup K b = Ret cj"
    and key: "key_of (OCronJob cj) = obj_key KCronJob ''default'' (''backup-'' @ nn_Name req)" .
  have "reconcileCronJob K req b = ensure True K KCronJob
      \<lparr>nn_Namespace = nn_Namespace req, nn_Name = ''backup-'' @ nn_Name req\<rparr> (OCronJob cj)"
    by (simp add: reconcileCronJob_def cj)
  with ensure_missing [OF srv, of s KCronJob
      "\<lparr>nn_Namespace = nn_Namespace req, nn_Name = ''backup-'' @ nn_Name req\<rparr>" True "OCronJob cj"] none
  show ?thesis unfolding key by simp
qed

lemma Reconcile_elsewhere:
  assumes env: "environment K objs" and md: "manifests_decode K b" and rq: "request_for req b"
    and ns: "nn_Namespace req \<noteq> ''default''" and none: "objs (ext s) (cronjob_key req) = None"
    and b: "objs (ext s) (backup_key req) = Some (OBackup b)"
  shows "\<exists>r t. Reconcile K req s = (Ret r, t) \<and> unsettled r \<and>
    agree (insert (obj_key KCronJob ''default'' (''backup-'' @ nn_Name req)) (set (take 3 (stage_keys req))))
      (objs (ext s)) (objs (ext t)) \<and>
    objs (ext t) (cronjob_key req) = None \<and> objs (ext t) (backup_key req) = Some (OBackup b)"
proof -
  from env have e: "api_server K objs" "metadata_helpers K" "get_backup_law K objs"
    by (auto simp: environment_def api_server_def)
  let ?rest = "or_else (reconcileCronJob K req b) (finish K b)"
  let ?ks = "take 3 (stage_keys req)" and ?d = "obj_key KCronJob ''default'' (''backup-'' @ nn_Name req)"
  have split: "foldr or_else (stages K req b) (finish K b) =
      foldr or_else (take 3 (stages K req b)) ?rest"
    by (simp add: stages_def)
  from Reconcile_present [OF e(3) b] obtain t where
    t: "Reconcile K req s = foldr or_else (take 3 (stages K req b)) ?rest t"
      "objs (ext t) = objs (ext s)"
    unfolding split .
  have out: "cronjob_key req \<notin> set ?ks" "backup_key req \<notin> set ?ks"
    "cronjob_key req \<noteq> ?d" "backup_key req \<noteq> ?d"
    using ns by (auto simp: stage_keys_def obj_key_def backup_key_def)
  show ?thesis
  proof (cases "first_missing (objs (ext t)) ?ks")
    case None
    with chain_effect [OF rbac_effects [OF e(1,2) md rq], where s = t and rest = ?rest] obtain u where
      u: "Reconcile K req s = ?rest u" "agree (set ?ks) (objs (ext t)) (objs (ext u))"
      unfolding t(1) by auto
    note keep = agreeD [OF u(2) out(1)] agreeD [OF u(2) out(2)]
    from cronjob_elsewhere [OF env md rq, of u] keep none t(2) obtain r v where
      v: "reconcileCronJob K req b u = (Ret (Some r), v)" "unsettled r"
        "agree {?d} (objs (ext u)) (objs (ext v))" by auto
    have "objs (ext v) (cronjob_key req) = None" "objs (ext v) (backup_key req) = Some (OBackup b)"
      using agreeD [OF v(3)] out keep none b t(2) by auto
    moreover have "agree (insert ?d (set ?ks)) (objs (ext s)) (objs (ext v))"
      by (rule agree_trans [OF u(2) [unfolded t(2)] v(3)]) auto
    ultimately show ?thesis using u(1) v(1,2) by (simp add: or_else_def go_run)
  next
    case (Some k)
    with chain_effect [OF rbac_effects [OF e(1,2) md rq], where s = t and rest = ?rest] obtain u where
      u: "Reconcile K req s = (Ret (requeue, None), u)" "agree (set ?ks) (objs (ext t)) (objs (ext u))"
      unfolding t(1) by auto
    moreover have "agree (insert ?d (set ?ks)) (objs (ext s)) (objs (ext u))"
      using u(2) t(2) by (simp add: agree_def)
    ultimately show ?thesis
      using agreeD [OF u(2) out(1)] agreeD [OF u(2) out(2)] none b t(2) by (simp add: unsettled_def)
  qed
qed

text \<open>
  A Backup in any namespace other than \<^verbatim>\<open>default\<close> never settles: the reconciler looks for the
  CronJob in the namespace of the Backup and creates it in \<^verbatim>\<open>default\<close>, where the manifest puts it. However
  often it runs, every reply is a requeue or an error, the CronJob is still not where the reconciler
  looks for it, and the Backup has not been touched: it never gets the finalizer.
\<close>

theorem backup_never_settles_elsewhere:
  assumes env: "environment K objs" and md: "manifests_decode K b" and rq: "request_for req b"
    and ns: "nn_Namespace req \<noteq> ''default''"
    and none: "objs (ext s) (obj_key KCronJob (nn_Namespace req) (''backup-'' @ nn_Name req)) = None"
    and b: "objs (ext s) (backup_key req) = Some (OBackup b)"
  shows "\<exists>rs t. runs n K req s = (Ret rs, t) \<and> length rs = n \<and> list_all unsettled rs \<and>
    objs (ext t) (obj_key KCronJob (nn_Namespace req) (''backup-'' @ nn_Name req)) = None \<and>
    objs (ext t) (backup_key req) = Some (OBackup b)"
  using none b
proof (induction n arbitrary: s)
  case 0
  then show ?case by (simp add: go_run)
next
  case (Suc n)
  from Reconcile_elsewhere [OF env md rq ns Suc.prems] obtain r t where
    r: "Reconcile K req s = (Ret r, t)" "unsettled r"
    and t: "objs (ext t) (cronjob_key req) = None" "objs (ext t) (backup_key req) = Some (OBackup b)"
    by blast
  from Suc.IH [OF t] r show ?case by (auto simp: go_run)
qed

theorem backup_never_settles_elsewhere_witness:
  "\<exists>rs t. runs 10 mem_kube (sample_request ''prod'') (world_with (sample_backup ''prod'' None [])) =
      (Ret rs, t) \<and> length rs = 10 \<and> list_all unsettled rs \<and>
    ext t (obj_key KCronJob (nn_Namespace (sample_request ''prod''))
      (''backup-'' @ nn_Name (sample_request ''prod''))) = None \<and>
    ext t (backup_key (sample_request ''prod'')) = Some (OBackup (sample_backup ''prod'' None []))"
  by (rule backup_never_settles_elsewhere [where objs = "\<lambda>w. w" and b = "sample_backup ''prod'' None []",
        OF mem_environment mem_manifests_decode
        sample_request_for [OF default_one_line(2)] _ _
        world_with_backup [OF sample_request_for [OF default_one_line(2)]]])
    (simp_all add: sample_request_def world_with_def sample_backup_def emptyMeta_def
      key_of_def obj_key_def)

end
