(* ===== verification/Interference.thy ===== *)
theory Interference
  imports ReconcilerServer
begin

text \<open>
  Reconciliation while others act. Users create, edit and delete Backups, and other programs change
  objects, between any two calls of a reconciliation; the reconciler reads Backups from a cache that may lag behind;
  any call may fail, with or without having taken effect. What protects a user's edit is the resource version: the API server
  refuses an Update of a Backup that was read before its last change. This theory states the documented behaviour of such a server
  and cache as the hypothesis \<open>versioned_server\<close>, gives triples in the rely-guarantee style for the
  operator's code, and proves that no reconciliation loses what a user wrote.
\<close>

section \<open>Triples\<close>

text \<open>
  \<open>triple G view P m Q\<close>: started where \<open>P\<close> holds, \<open>m\<close> relates the view of the world before to the one after
  by \<open>G\<close>, however it ends, and if it returns then \<open>Q\<close> holds of the result.
\<close>

definition triple ::
  "('c \<Rightarrow> 'c \<Rightarrow> bool) \<Rightarrow> ('w \<Rightarrow> 'c) \<Rightarrow> ('c \<Rightarrow> bool) \<Rightarrow> ('w operator, 'a) go \<Rightarrow> ('a \<Rightarrow> 'c \<Rightarrow> bool) \<Rightarrow> bool" where
  "triple G view P m Q \<longleftrightarrow>
     (\<forall>s r t. P (view (ext s)) \<longrightarrow> m s = (r, t) \<longrightarrow>
        G (view (ext s)) (view (ext t)) \<and> (\<forall>a. r = Ret a \<longrightarrow> Q a (view (ext t))))"

lemma tripleD:
  "\<lbrakk>triple G view P m Q; P (view (ext s)); m s = (r, t)\<rbrakk> \<Longrightarrow>
     G (view (ext s)) (view (ext t)) \<and> (\<forall>a. r = Ret a \<longrightarrow> Q a (view (ext t)))"
  unfolding triple_def by blast

lemma triple_weaken:
  "\<lbrakk>triple G view P m Q; \<And>c. P' c \<Longrightarrow> P c; \<And>a c. Q a c \<Longrightarrow> Q' a c\<rbrakk> \<Longrightarrow> triple G view P' m Q'"
  unfolding triple_def by blast

locale guarantee =
  fixes G :: "'c \<Rightarrow> 'c \<Rightarrow> bool"
  assumes refl: "G c c" and trans: "\<lbrakk>G c d; G d e\<rbrakk> \<Longrightarrow> G c e"
begin

lemma triple_ret: "(\<And>c. P c \<Longrightarrow> Q a c) \<Longrightarrow> triple G view P (ret a) Q"
  by (auto simp: triple_def ret_run refl)

lemma triple_halting: "triple G view P (halting h) Q"
  by (auto simp: triple_def go_run refl)

lemma triple_bind:
  assumes m: "triple G view P m R" and f: "\<And>a. triple G view (R a) (f a) Q"
  shows "triple G view P (gobind m f) Q"
  unfolding triple_def
proof (intro allI impI)
  fix s r t
  assume P: "P (view (ext s))" and run: "gobind m f s = (r, t)"
  obtain r' u where u: "m s = (r', u)" by force
  note 1 = tripleD [OF m P u]
  show "G (view (ext s)) (view (ext t)) \<and> (\<forall>a. r = Ret a \<longrightarrow> Q a (view (ext t)))"
  proof (cases r')
    case (Ret a)
    with run u have "f a u = (r, t)" by (simp add: go_run)
    from tripleD [OF f _ this] 1 Ret trans show ?thesis by blast
  next
    case (Halt h)
    with run u have "t = u" "\<forall>a. r \<noteq> Ret a" by (auto simp: go_run)
    with 1 show ?thesis by blast
  qed
qed

lemma triple_call:
  assumes "\<And>w. P (view w) \<Longrightarrow> G (view w) (view (snd (g w))) \<and> Q (fst (g w)) (view (snd (g w)))"
  shows "triple G view P (call_ext ev g) Q"
  using assms by (auto simp: triple_def call_ext_run)

text \<open>What \<open>G\<close> keeps is kept by code that respects \<open>G\<close>.\<close>

lemma triple_stable:
  assumes "triple G view (\<lambda>_. True) m (\<lambda>_ _. True)" and "\<And>c d. G c d \<Longrightarrow> P c \<Longrightarrow> P d"
  shows "triple G view P m (\<lambda>_. P)"
  using assms unfolding triple_def by blast

lemma triple_stages:
  assumes "\<And>st. st \<in> set sts \<Longrightarrow> triple G view P st (\<lambda>_. P)" and "triple G view P rest (\<lambda>_ _. True)"
  shows "triple G view P (foldr or_else sts rest) (\<lambda>_ _. True)"
  using assms(1)
proof (induction sts)
  case (Cons st sts)
  let ?rest = "foldr or_else sts rest"
  have "triple G view P (case r of Some v \<Rightarrow> ret v | None \<Rightarrow> ?rest) (\<lambda>_ _. True)" for r
    using Cons by (cases r) (auto intro: triple_ret)
  with Cons.prems [of st] have "triple G view P (or_else st ?rest) (\<lambda>_ _. True)"
    unfolding or_else_def [of st ?rest] by (auto intro: triple_bind)
  then show ?case by simp
qed (simp add: assms(2))

end

section \<open>A cluster that others use\<close>

text \<open>
  The objects, every Backup that was ever stored, and for every Backup what its users wrote last: its content but for the
  resource version and the operator's own finalizer.
\<close>

record kcluster =
  cl_objects :: store
  cl_history :: "Backup set"
  cl_want :: "NamespacedName \<rightharpoonup> Backup"

definition essence :: "Backup \<Rightarrow> Backup" where
  "essence b = at_version [] (b\<lparr>b_ObjectMeta := (b_ObjectMeta b)
     \<lparr>om_Finalizers := filter (\<lambda>f. f \<noteq> DefaultBackupFinalizerName) (om_Finalizers (b_ObjectMeta b))\<rparr>\<rparr>)"

definition name_of :: "Backup \<Rightarrow> NamespacedName" where
  "name_of b = \<lparr>nn_Namespace = b_Namespace b, nn_Name = b_Name b\<rparr>"

definition fresh :: "Backup \<Rightarrow> kcluster \<Rightarrow> bool" where
  "fresh b c \<longleftrightarrow> (\<forall>b' \<in> cl_history c. key_of (OBackup b') = key_of (OBackup b) \<longrightarrow>
     version (OBackup b') \<noteq> version (OBackup b))"

definition put_backup :: "Backup \<Rightarrow> kcluster \<Rightarrow> kcluster" where
  "put_backup b c = c\<lparr>cl_objects := (cl_objects c)(key_of (OBackup b) :=
       if released (OBackup b) then None else Some (OBackup b)),
     cl_history := insert b (cl_history c)\<rparr>"

text \<open>
  A step of the others. A user's write is a creation, an edit or the mark of a deletion; a Backup
  without finalizers may go at once; other programs, a second operator among them, change other objects and the
  operator's finalizer.
\<close>

inductive others_step :: "kcluster \<Rightarrow> kcluster \<Rightarrow> bool" where
  user_writes: "fresh b c \<Longrightarrow>
    others_step c ((put_backup b c)\<lparr>cl_want := (cl_want c)(name_of b \<mapsto> essence b)\<rparr>)"
| user_drops: "\<lbrakk>cl_objects c (backup_key n) = Some (OBackup b); om_Finalizers (b_ObjectMeta b) = []\<rbrakk> \<Longrightarrow>
    others_step c (c\<lparr>cl_objects := (cl_objects c)(backup_key n := None), cl_want := (cl_want c)(n := None)\<rparr>)"
| amended: "\<lbrakk>cl_objects c (key_of (OBackup b)) = Some (OBackup b0); essence b = essence b0; fresh b c\<rbrakk> \<Longrightarrow>
    others_step c (put_backup b c)"
| object: "fst k \<noteq> KBackup \<Longrightarrow> others_step c (c\<lparr>cl_objects := (cl_objects c)(k := x)\<rparr>)"

abbreviation others :: "kcluster \<Rightarrow> kcluster \<Rightarrow> bool" where
  "others \<equiv> others_step\<^sup>*\<^sup>*"

section \<open>The server and the cache\<close>

text \<open>
  A call: others take any number of steps, then the call takes effect or, when it fails, perhaps does not. Nothing is assumed
  of the answers but that a Backup read was stored once.
\<close>

definition acts :: "('w \<Rightarrow> kcluster) \<Rightarrow> (kcluster \<Rightarrow> kcluster \<Rightarrow> bool) \<Rightarrow> ('w \<Rightarrow> 'a \<times> 'w) \<Rightarrow> bool" where
  "acts view eff g \<longleftrightarrow> (\<forall>w. \<exists>c. others (view w) c \<and>
     (view (snd (g w)) = c \<or> eff c (view (snd (g w)))))"

definition takes_object :: "kobj \<Rightarrow> kcluster \<Rightarrow> kcluster \<Rightarrow> bool" where
  "takes_object ob c c' \<longleftrightarrow>
     (\<exists>ob'. key_of ob' = key_of ob \<and> c' = c\<lparr>cl_objects := (cl_objects c)(key_of ob \<mapsto> ob')\<rparr>)"

definition takes_backup :: "Backup \<Rightarrow> kcluster \<Rightarrow> kcluster \<Rightarrow> bool" where
  "takes_backup b c c' \<longleftrightarrow>
     (\<exists>x v. cl_objects c (key_of (OBackup b)) = Some x \<and> version (OBackup b) = version x \<and>
        fresh (at_version v b) c \<and> c' = put_backup (at_version v b) c)"

definition drops_object :: "key \<Rightarrow> kcluster \<Rightarrow> kcluster \<Rightarrow> bool" where
  "drops_object k c c' \<longleftrightarrow> c' = c\<lparr>cl_objects := (cl_objects c)(k := None)\<rparr>"

definition no_effect :: "kcluster \<Rightarrow> kcluster \<Rightarrow> bool" where
  "no_effect c c' \<longleftrightarrow> c' = c"

definition versioned_server :: "'w kube \<Rightarrow> ('w \<Rightarrow> kcluster) \<Rightarrow> bool" where
  "versioned_server K view \<longleftrightarrow>
     (\<forall>n. acts view no_effect (k_GetBackup K n)) \<and>
     (\<forall>n w b. fst (k_GetBackup K n w) = Inr b \<longrightarrow> b \<in> cl_history (view (snd (k_GetBackup K n w)))) \<and>
     (\<forall>kd n. acts view no_effect (k_Get K kd n)) \<and>
     (\<forall>ob. kind_of ob \<noteq> KBackup \<longrightarrow>
        acts view (takes_object ob) (k_Create K ob) \<and> acts view (takes_object ob) (k_Update K ob)) \<and>
     (\<forall>b. acts view (takes_backup b) (k_Update K (OBackup b))) \<and>
     acts view no_effect (k_CRBNewOrDie K) \<and>
     (\<forall>name. acts view (drops_object (obj_key KClusterRoleBinding [] name)) (k_CRBDelete K name))"

section \<open>Nothing a user wrote is lost\<close>

definition doomed :: "Backup \<Rightarrow> bool" where
  "doomed e \<longleftrightarrow> om_DeletionTimestamp (b_ObjectMeta e) \<notin> {None, Some 0} \<and> om_Finalizers (b_ObjectMeta e) = []"

text \<open>
  Every Backup is as its users wrote it last, and one that is missing was dropped by them or was marked for deletion with
  no finalizer of theirs left. A stored Backup is not one under deletion without finalizers, and it is in the history, in which name and version determine the Backup.
\<close>

definition as_wanted :: "kcluster \<Rightarrow> NamespacedName \<Rightarrow> bool" where
  "as_wanted c n \<longleftrightarrow>
     (case cl_objects c (backup_key n) of
        None \<Rightarrow> (\<forall>e. cl_want c n = Some e \<longrightarrow> doomed e)
      | Some (OBackup b) \<Rightarrow> cl_want c n = Some (essence b) \<and> key_of (OBackup b) = backup_key n \<and>
          \<not> released (OBackup b) \<and> b \<in> cl_history c
      | Some _ \<Rightarrow> False)"

definition determined :: "Backup set \<Rightarrow> bool" where
  "determined H \<longleftrightarrow> inj_on (\<lambda>b. (key_of (OBackup b), version (OBackup b))) H"

definition faithful :: "kcluster \<Rightarrow> bool" where
  "faithful c \<longleftrightarrow> (\<forall>n. as_wanted c n) \<and> determined (cl_history c)"

text \<open>What every step guarantees.\<close>

definition safe :: "kcluster \<Rightarrow> kcluster \<Rightarrow> bool" where
  "safe c c' \<longleftrightarrow> (faithful c \<longrightarrow> faithful c') \<and> cl_history c \<subseteq> cl_history c'"

interpretation sg: guarantee safe
  by unfold_locales (auto simp: safe_def)

lemma backup_key_name: "key_of (OBackup b) = backup_key n \<longleftrightarrow> name_of b = n"
  by (cases n) (auto simp: key_of_def backup_key_def obj_key_def name_of_def)

lemma backup_key_inj: "backup_key n = backup_key m \<longleftrightarrow> n = m"
  by (cases n; cases m) (auto simp: backup_key_def obj_key_def)

lemma as_wanted_same:
  assumes "as_wanted c n" "cl_objects d (backup_key n) = cl_objects c (backup_key n)" "cl_want d n = cl_want c n"
    "cl_history c \<subseteq> cl_history d"
  shows "as_wanted d n"
  using assms by (auto simp: as_wanted_def split: option.splits kobj.splits)

lemma as_wanted_stored:
  assumes "as_wanted c n" "cl_objects c (backup_key n) = Some ob"
  obtains b where "ob = OBackup b" "cl_want c n = Some (essence b)" "key_of (OBackup b) = backup_key n"
    "b \<in> cl_history c"
  using assms that by (auto simp: as_wanted_def split: kobj.splits)

lemma fresh_history: "fresh b c \<Longrightarrow> determined (cl_history c) \<Longrightarrow> determined (insert b (cl_history c))"
  by (auto simp: fresh_def determined_def)

lemma released_doomed: "released (OBackup b) \<Longrightarrow> doomed (essence b)"
  by (auto simp: doomed_def essence_def at_version_def)

text \<open>Storing a Backup with a fresh version, when the wish for it is its essence.\<close>

lemma put_backup_faithful:
  assumes "faithful c" "fresh b c" and want: "want = (cl_want c)(name_of b \<mapsto> essence b)"
  shows "faithful ((put_backup b c)\<lparr>cl_want := want\<rparr>)"
proof -
  let ?d = "(put_backup b c)\<lparr>cl_want := want\<rparr>"
  have w: "as_wanted c n" for n using assms(1) by (simp add: faithful_def)
  have "as_wanted ?d n" for n
  proof (cases "name_of b = n")
    case True
    then have "key_of (OBackup b) = backup_key n" by (simp add: backup_key_name)
    with True released_doomed [of b] show ?thesis
      by (simp add: as_wanted_def put_backup_def want)
  next
    case False
    then have "backup_key n \<noteq> key_of (OBackup b)" using backup_key_name [of b n] by metis
    with False show ?thesis
      by (intro as_wanted_same [OF w]) (auto simp: put_backup_def want)
  qed
  moreover have "cl_history ?d = insert b (cl_history c)" by (simp add: put_backup_def)
  ultimately show ?thesis
    unfolding faithful_def using fresh_history [OF assms(2)] assms(1) [unfolded faithful_def] by auto
qed

lemma amend_faithful:
  assumes "faithful c" "cl_objects c (key_of (OBackup b)) = Some (OBackup b0)" "essence b = essence b0" "fresh b c"
  shows "faithful (put_backup b c)"
proof -
  have "key_of (OBackup b) = backup_key (name_of b)" by (simp add: backup_key_name)
  with assms(1,2) have "cl_want c (name_of b) = Some (essence b0)"
    using as_wanted_stored [of c "name_of b" "OBackup b0"] by (auto simp: faithful_def)
  with assms(3) have "(cl_want c)(name_of b \<mapsto> essence b) = cl_want c" by (simp add: fun_upd_idem)
  from put_backup_faithful [OF assms(1,4) this [symmetric]] show ?thesis
    by (simp add: put_backup_def)
qed

lemma other_object_faithful:
  assumes "faithful c" "fst k \<noteq> KBackup"
  shows "faithful (c\<lparr>cl_objects := (cl_objects c)(k := x)\<rparr>)"
proof -
  have "backup_key n \<noteq> k" for n using assms(2) by (auto simp: backup_key_def obj_key_def)
  with assms(1) show ?thesis
    unfolding faithful_def by (auto intro: as_wanted_same [of c])
qed

lemma others_step_safe: "others_step c d \<Longrightarrow> safe c d"
proof (induction rule: others_step.induct)
  case (user_writes b c)
  with put_backup_faithful [of c b] show ?case by (auto simp: safe_def put_backup_def)
next
  case (user_drops c n b)
  have "as_wanted (c\<lparr>cl_objects := (cl_objects c)(backup_key n := None), cl_want := (cl_want c)(n := None)\<rparr>) m"
    if "as_wanted c m" for m
    using that as_wanted_same [of c m] by (cases "m = n") (auto simp: as_wanted_def backup_key_inj)
  then show ?case by (auto simp: safe_def faithful_def)
next
  case (amended c b b0)
  with amend_faithful [of c b b0] show ?case by (auto simp: safe_def put_backup_def)
next
  case (object k c x)
  with other_object_faithful [of c k x] show ?case by (auto simp: safe_def)
qed

lemma others_safe: "others c d \<Longrightarrow> safe c d"
  by (induction rule: rtranclp_induct) (auto intro: sg.refl sg.trans others_step_safe)

lemma acts_safe:
  assumes "acts view eff g" and "\<And>c d. cl_history (view w) \<subseteq> cl_history c \<Longrightarrow> eff c d \<Longrightarrow> safe c d"
  shows "safe (view w) (view (snd (g w)))"
proof -
  from assms(1) obtain c where c: "others (view w) c" "view (snd (g w)) = c \<or> eff c (view (snd (g w)))"
    unfolding acts_def by blast
  from others_safe [OF c(1)] have s: "safe (view w) c" .
  from c(2) show ?thesis
  proof
    assume "eff c (view (snd (g w)))"
    moreover have "cl_history (view w) \<subseteq> cl_history c" using s by (simp add: safe_def)
    ultimately show ?thesis using assms(2) sg.trans [OF s] by blast
  qed (simp add: s)
qed

text \<open>
  The effects of the operator's own calls. An Update of a Backup that was stored once, with another set of the operator's
  finalizer, is taken only where the very same Backup is still stored.
\<close>

lemma effects_safe:
  "no_effect c d \<Longrightarrow> safe c d"
  "kind_of ob \<noteq> KBackup \<Longrightarrow> takes_object ob c d \<Longrightarrow> safe c d"
  "drops_object (obj_key KClusterRoleBinding [] name) c d \<Longrightarrow> safe c d"
proof -
  show "no_effect c d \<Longrightarrow> safe c d" by (simp add: no_effect_def sg.refl)
  show "takes_object ob c d \<Longrightarrow> safe c d" if "kind_of ob \<noteq> KBackup"
    using that others_step_safe [OF others_step.object, of "key_of ob" c]
    by (auto simp: takes_object_def key_of_def obj_key_def)
  show "drops_object (obj_key KClusterRoleBinding [] name) c d \<Longrightarrow> safe c d"
    using others_step_safe [OF others_step.object, of "obj_key KClusterRoleBinding [] name" c]
    by (auto simp: drops_object_def obj_key_def)
qed

lemma takes_backup_safe:
  assumes b: "b \<in> cl_history c" and b': "key_of (OBackup b') = key_of (OBackup b)"
    "version (OBackup b') = version (OBackup b)" "essence b' = essence b" and t: "takes_backup b' c d"
  shows "safe c d"
proof -
  from t obtain x v where x: "cl_objects c (key_of (OBackup b')) = Some x" "version (OBackup b') = version x"
    "fresh (at_version v b') c" "d = put_backup (at_version v b') c"
    by (auto simp: takes_backup_def)
  have "faithful d" if f: "faithful c"
  proof -
    have k: "key_of (OBackup b') = backup_key (name_of b')" by (simp add: backup_key_name)
    from f have "as_wanted c (name_of b')" by (simp add: faithful_def)
    from as_wanted_stored [OF this x(1) [unfolded k]] obtain b0 where b0: "x = OBackup b0"
      "key_of (OBackup b0) = key_of (OBackup b')" "b0 \<in> cl_history c" by (metis k)
    with f b b' x(2) have "b0 = b" by (auto simp: faithful_def determined_def dest: inj_onD)
    with b'(3) have "essence (at_version v b') = essence b0" by (simp add: essence_def at_version_def)
    with amend_faithful [OF f _ this x(3)] x(1,4) b0(1) show ?thesis by simp
  qed
  moreover have "cl_history c \<subseteq> cl_history d" by (auto simp: x(4) put_backup_def)
  ultimately show ?thesis by (simp add: safe_def)
qed

section \<open>Reconcile among others\<close>

abbreviation calm :: "('w \<Rightarrow> kcluster) \<Rightarrow> ('w operator, 'a) go \<Rightarrow> bool" where
  "calm view m \<equiv> triple safe view (\<lambda>_. True) m (\<lambda>_ _. True)"

lemma calm_call: "acts view eff g \<Longrightarrow> (\<And>c d. eff c d \<Longrightarrow> safe c d) \<Longrightarrow> calm view (call_ext ev g)"
  by (rule sg.triple_call) (auto intro: acts_safe)

lemma versioned_calls:
  assumes "versioned_server K view"
  shows "acts view no_effect (k_GetBackup K n)" "acts view no_effect (k_Get K kd n)"
    "kind_of ob \<noteq> KBackup \<Longrightarrow> acts view (takes_object ob) (k_Create K ob)"
    "kind_of ob \<noteq> KBackup \<Longrightarrow> acts view (takes_object ob) (k_Update K ob)"
    "acts view (takes_backup b) (k_Update K (OBackup b))" "acts view no_effect (k_CRBNewOrDie K)"
    "acts view (drops_object (obj_key KClusterRoleBinding [] name)) (k_CRBDelete K name)"
  using assms by (simp_all add: versioned_server_def)

lemma server_calm:
  assumes "versioned_server K view"
  shows "calm view (rGet K kd n)" "calm view (call_ext CCRBNewOrDie (k_CRBNewOrDie K))"
    "calm view (call_ext ev (k_CRBDelete K name))"
    "kind_of ob \<noteq> KBackup \<Longrightarrow> calm view (rCreate K ob)" "kind_of ob \<noteq> KBackup \<Longrightarrow> calm view (rUpdate K ob)"
proof -
  note acts = versioned_calls [OF assms]
  show "calm view (rGet K kd n)" "calm view (call_ext CCRBNewOrDie (k_CRBNewOrDie K))"
    unfolding rGet_def by (auto intro: calm_call acts effects_safe(1))
  show "calm view (call_ext ev (k_CRBDelete K name))"
    by (rule calm_call [OF acts(7)]) (rule effects_safe(3))
  show "calm view (rCreate K ob)" "calm view (rUpdate K ob)" if "kind_of ob \<noteq> KBackup"
    unfolding rCreate_def rUpdate_def using that
    by (auto intro: calm_call [OF acts(3)] calm_call [OF acts(4)] effects_safe(2))
qed

lemma ensure_calm:
  assumes "versioned_server K view" "kind_of ob \<noteq> KBackup"
  shows "calm view (ensure checked K kd n ob)"
  unfolding ensure_def
  by (auto intro!: sg.triple_bind [where R = "\<lambda>_ _. True"] server_calm assms sg.triple_ret split: option.split)

lemma stages_calm:
  assumes "versioned_server K view" "st \<in> set (stages K req b)"
  shows "calm view st"
  using assms(2) ensure_calm [OF assms(1)] sg.triple_halting
  by (auto simp: stages_def reconcileServiceAccount_def reconcileClusterRole_def
      reconcileClusterRoleBinding_def reconcileCronJob_def split: outcome.split)

lemma deleteExternalResources_calm:
  "versioned_server K view \<Longrightarrow> calm view (deleteExternalResources K b)"
  unfolding deleteExternalResources_def
  by (auto intro!: sg.triple_bind [where R = "\<lambda>_ _. True"] server_calm sg.triple_ret sg.triple_halting split: option.split)

text \<open>The Update of a Backup that was read.\<close>

lemma update_read_backup:
  assumes srv: "versioned_server K view"
    and b': "key_of (OBackup b') = key_of (OBackup b)" "version (OBackup b') = version (OBackup b)" "essence b' = essence b"
  shows "triple safe view (\<lambda>c. b \<in> cl_history c) (rUpdate K (OBackup b')) (\<lambda>_ _. True)"
  unfolding rUpdate_def
proof (rule sg.triple_call)
  fix w
  assume "b \<in> cl_history (view w)"
  then have "safe (view w) (view (snd (k_Update K (OBackup b') w)))"
    using takes_backup_safe [OF _ b'] by (intro acts_safe [OF versioned_calls(5) [OF srv]]) blast
  then show "safe (view w) (view (snd (k_Update K (OBackup b') w))) \<and> True" by simp
qed

lemma finish_safe:
  assumes srv: "versioned_server K view" and fh: "finalizer_helpers K"
  shows "triple safe view (\<lambda>c. b \<in> cl_history c) (finish K b) (\<lambda>_ _. True)"
proof -
  let ?m = "b_ObjectMeta b" and ?f = DefaultBackupFinalizerName
  let ?P = "\<lambda>c. b \<in> cl_history c"
  have upd: "triple safe view ?P (rUpdate K (OBackup (b\<lparr>b_ObjectMeta := fst (h K ?m ?f)\<rparr>))) (\<lambda>_ _. True)"
    if "h = k_AddFinalizer \<or> h = k_RemoveFinalizer" for h
    using that fh
    by (intro update_read_backup [OF srv])
      (auto simp: finalizer_helpers_def key_of_def essence_def at_version_def)
  have del: "triple safe view ?P (deleteExternalResources K b) (\<lambda>_. ?P)"
    by (rule sg.triple_stable [OF deleteExternalResources_calm [OF srv]]) (auto simp: safe_def)
  have "triple safe view ?P (handleFinalizer K b) (\<lambda>_ _. True)"
    unfolding handleFinalizer_def Let_def
    by (auto intro!: upd sg.triple_ret sg.triple_bind [OF del] split: option.split)
  then show ?thesis
    unfolding finish_def by (rule sg.triple_bind) (auto intro: sg.triple_ret split: option.split)
qed

lemma Reconcile_calm:
  assumes srv: "versioned_server K view" and fh: "finalizer_helpers K"
  shows "calm view (Reconcile K req)"
  unfolding Reconcile_chain
proof (rule sg.triple_bind)
  let ?R = "\<lambda>r c. \<forall>b. r = Inr b \<longrightarrow> b \<in> cl_history c"
  show "triple safe view (\<lambda>_. True) (rGetBackup K req) ?R"
    unfolding rGetBackup_def
    using srv by (intro sg.triple_call)
      (auto simp: versioned_server_def intro: acts_safe [OF versioned_calls(1) [OF srv] effects_safe(1)])
  fix r
  show "triple safe view (?R r) (case r of Inl e \<Rightarrow> ret (noRequeue, k_IgnoreNotFound K e)
      | Inr b \<Rightarrow> foldr or_else (stages K req b) (finish K b)) (\<lambda>_ _. True)"
  proof (cases r)
    case (Inr b)
    have "triple safe view (\<lambda>c. b \<in> cl_history c) st (\<lambda>_ c. b \<in> cl_history c)"
      if "st \<in> set (stages K req b)" for st
      by (rule sg.triple_stable [OF stages_calm [OF srv that]]) (auto simp: safe_def)
    from sg.triple_stages [OF this finish_safe [OF srv fh]] show ?thesis by (simp add: Inr)
  qed (auto intro: sg.triple_ret)
qed

section \<open>A server in memory that others use\<close>

text \<open>
  Before a call, and after a read from the cache, somebody else takes the next step of a script. The log of all
  stored Backups gives the versions: a new one is longer than all of them.
\<close>

datatype act = Idle | Writes Backup | Drops NamespacedName | Sets key "kobj option"

record shared =
  sh_objects :: store
  sh_log :: "Backup list"
  sh_want :: "NamespacedName \<rightharpoonup> Backup"
  sh_script :: "act list"

definition see :: "shared \<Rightarrow> kcluster" where
  "see w = \<lparr>cl_objects = sh_objects w, cl_history = set (sh_log w), cl_want = sh_want w\<rparr>"

definition next_version :: "Backup list \<Rightarrow> string" where
  "next_version bs = replicate (Suc (sum_list (map (\<lambda>b. length (version (OBackup b))) bs))) CHR ''x''"

definition put_new :: "Backup \<Rightarrow> shared \<Rightarrow> shared" where
  "put_new b w = w\<lparr>sh_objects := (sh_objects w)(key_of (OBackup b) :=
       if released (OBackup b) then None else Some (OBackup (at_version (next_version (sh_log w)) b))),
     sh_log := at_version (next_version (sh_log w)) b # sh_log w\<rparr>"

primrec perform :: "act \<Rightarrow> shared \<Rightarrow> shared" where
  "perform Idle w = w"
| "perform (Writes b) w = (put_new b w)\<lparr>sh_want := (sh_want w)(name_of b \<mapsto> essence b)\<rparr>"
| "perform (Drops n) w =
     (case sh_objects w (backup_key n) of
        Some (OBackup b) \<Rightarrow>
          if om_Finalizers (b_ObjectMeta b) = []
          then w\<lparr>sh_objects := (sh_objects w)(backup_key n := None), sh_want := (sh_want w)(n := None)\<rparr> else w
      | _ \<Rightarrow> w)"
| "perform (Sets k x) w = (if fst k = KBackup then w else w\<lparr>sh_objects := (sh_objects w)(k := x)\<rparr>)"

definition pause :: "shared \<Rightarrow> shared" where
  "pause w = (case sh_script w of [] \<Rightarrow> w | a # as \<Rightarrow> perform a (w\<lparr>sh_script := as\<rparr>))"

definition on_objects :: "(store \<Rightarrow> 'a \<times> store) \<Rightarrow> shared \<Rightarrow> 'a \<times> shared" where
  "on_objects g w = (let w' = pause w; (r, st) = g (sh_objects w') in (r, w'\<lparr>sh_objects := st\<rparr>))"

definition cached :: "NamespacedName \<Rightarrow> shared \<Rightarrow> (goerr + Backup) \<times> shared" where
  "cached n w =
     (case sh_objects w (backup_key n) of
        Some (OBackup b) \<Rightarrow> if b \<in> set (sh_log w) then Inr b else Inl notFound
      | _ \<Rightarrow> Inl notFound, pause w)"

definition update_shared :: "kobj \<Rightarrow> shared \<Rightarrow> goerr option \<times> shared" where
  "update_shared ob w =
     (case ob of
        OBackup b \<Rightarrow>
          let w' = pause w in
          case sh_objects w' (key_of ob) of
            None \<Rightarrow> (Some notFound, w')
          | Some x \<Rightarrow> if version ob = version x then (None, put_new b w') else (Some conflict, w')
      | _ \<Rightarrow> on_objects (k_Update mem_kube ob) w)"

definition busy_kube :: "shared kube" where
  "busy_kube = \<lparr>
     k_GetBackup = cached,
     k_Get = (\<lambda>kd n. on_objects (k_Get mem_kube kd n)),
     k_Create = (\<lambda>ob. on_objects (k_Create mem_kube ob)),
     k_Update = update_shared,
     k_CRBNewOrDie = on_objects (k_CRBNewOrDie mem_kube),
     k_CRBDelete = (\<lambda>name. on_objects (k_CRBDelete mem_kube name)),
     k_NSNewOrDie = on_objects (k_NSNewOrDie mem_kube),
     k_NSApply = (\<lambda>name. on_objects (k_NSApply mem_kube name)),
     k_IsNotFound = k_IsNotFound mem_kube,
     k_IgnoreNotFound = k_IgnoreNotFound mem_kube,
     k_Wrapf = k_Wrapf mem_kube,
     k_SetControllerReference = k_SetControllerReference mem_kube,
     k_LabelsSet = k_LabelsSet mem_kube,
     k_LabelsHas = k_LabelsHas mem_kube,
     k_UnmarshalClusterRole = k_UnmarshalClusterRole mem_kube,
     k_UnmarshalClusterRoleBinding = k_UnmarshalClusterRoleBinding mem_kube,
     k_UnmarshalCronJob = k_UnmarshalCronJob mem_kube,
     k_IsZero = k_IsZero mem_kube,
     k_ContainsFinalizer = k_ContainsFinalizer mem_kube,
     k_AddFinalizer = k_AddFinalizer mem_kube,
     k_RemoveFinalizer = k_RemoveFinalizer mem_kube,
     k_MapOrder = k_MapOrder mem_kube\<rparr>"

lemma next_version_fresh: "fresh (at_version (next_version (sh_log w)) b) (see w)"
proof -
  have "version (OBackup b') \<noteq> next_version (sh_log w)" if "b' \<in> set (sh_log w)" for b'
    using member_le_sum_list [of "length (version (OBackup b'))" "map (\<lambda>b. length (version (OBackup b))) (sh_log w)"] that
    by (auto simp: next_version_def)
  then show ?thesis by (simp add: fresh_def see_def)
qed

lemma see_put_new: "see (put_new b w) = put_backup (at_version (next_version (sh_log w)) b) (see w)"
  by (simp add: see_def put_new_def put_backup_def)

lemma see_shared:
  "see (w\<lparr>sh_objects := st\<rparr>) = (see w)\<lparr>cl_objects := st\<rparr>" "see (w\<lparr>sh_want := wt\<rparr>) = (see w)\<lparr>cl_want := wt\<rparr>"
  "see (w\<lparr>sh_script := as\<rparr>) = see w" "cl_objects (see w) = sh_objects w" "cl_want (see w) = sh_want w"
  "cl_history (see w) = set (sh_log w)"
  by (simp_all add: see_def)

lemma essence_at_version: "essence (at_version v b) = essence b" "name_of (at_version v b) = name_of b"
  by (simp_all add: essence_def name_of_def at_version_def)

lemma perform_step: "others_step\<^sup>=\<^sup>= (see w) (see (perform a w))"
proof (cases a)
  case (Writes b)
  from others_step.user_writes [OF next_version_fresh [of w b]] show ?thesis
    by (simp add: Writes see_shared see_put_new essence_at_version)
next
  case (Drops n)
  then show ?thesis
    using others_step.user_drops [of "see w" n] by (auto simp: see_shared split: option.split kobj.split)
next
  case (Sets k x)
  then show ?thesis using others_step.object [of k "see w" x] by (simp add: see_shared)
qed simp

lemma pause_others: "others (see w) (see (pause w))"
proof (cases "sh_script w")
  case (Cons a as)
  with perform_step [of "w\<lparr>sh_script := as\<rparr>" a] show ?thesis by (auto simp: pause_def see_shared)
qed (simp add: pause_def)

lemma acts_on_objects:
  assumes "\<And>c. snd (g (cl_objects c)) = cl_objects c \<or> eff c (c\<lparr>cl_objects := snd (g (cl_objects c))\<rparr>)"
  shows "acts see eff (on_objects g)"
  unfolding acts_def
proof (intro allI exI conjI)
  fix w
  show "others (see w) (see (pause w))" by (rule pause_others)
  show "see (snd (on_objects g w)) = see (pause w) \<or> eff (see (pause w)) (see (snd (on_objects g w)))"
    using assms [of "see (pause w)"]
    by (auto simp: on_objects_def see_shared Let_def split: prod.split)
qed

lemma busy_update_backup: "acts see (takes_backup b) (update_shared (OBackup b))"
  unfolding acts_def
proof (intro allI exI conjI)
  fix w
  let ?c = "see (pause w)" and ?d = "see (snd (update_shared (OBackup b) w))"
  show "others (see w) ?c" by (rule pause_others)
  show "?d = ?c \<or> takes_backup b ?c ?d"
  proof (cases "sh_objects (pause w) (key_of (OBackup b))")
    case None
    then show ?thesis by (simp add: update_shared_def Let_def)
  next
    case (Some x)
    then show ?thesis
      using next_version_fresh [of "pause w" b]
      by (auto simp: update_shared_def takes_backup_def Let_def see_put_new see_shared
          intro!: exI [of _ "next_version (sh_log (pause w))"])
  qed
qed

lemma busy_server: "versioned_server busy_kube see"
proof -
  have get: "acts see no_effect (cached n)" for n
    unfolding acts_def by (auto simp: cached_def intro: pause_others)
  have "set (sh_log w) \<subseteq> set (sh_log (pause w))" for w
    using others_safe [OF pause_others, of w] by (simp add: safe_def see_shared)
  then have read: "fst (cached n w) = Inr b \<Longrightarrow> b \<in> cl_history (see (snd (cached n w)))" for n w b
    by (auto simp: cached_def see_shared split: option.splits kobj.splits if_splits)
  have create: "acts see (takes_object ob) (on_objects (k_Create mem_kube ob))" if "kind_of ob \<noteq> KBackup" for ob
    using that by (intro acts_on_objects) (cases ob; auto simp: mem_kube_def takes_object_def split: option.split)
  have update: "acts see (takes_object ob) (update_shared ob)" if "kind_of ob \<noteq> KBackup" for ob
  proof -
    have "update_shared ob = on_objects (k_Update mem_kube ob)"
      using that by (cases ob) (auto simp: update_shared_def)
    then show ?thesis
      using that by (auto intro!: acts_on_objects simp: other_kinds mem_kube_def takes_object_def split: option.split)
        (cases ob; auto)
  qed
  have rest: "acts see no_effect (on_objects (k_Get mem_kube kd n))"
    "acts see no_effect (on_objects (k_CRBNewOrDie mem_kube))"
    "acts see (drops_object (obj_key KClusterRoleBinding [] name)) (on_objects (k_CRBDelete mem_kube name))" for kd n name
    by (auto intro!: acts_on_objects simp: mem_kube_def drops_object_def split: option.split)
  show ?thesis
    unfolding versioned_server_def
    using get read create update rest busy_update_backup by (simp add: busy_kube_def)
qed

lemma busy_helpers: "finalizer_helpers busy_kube"
  using mem_helpers(3) by (simp add: finalizer_helpers_def busy_kube_def)

section \<open>A fleet\<close>

text \<open>The reachable states of a cluster with the operator and everybody else at work.\<close>

inductive fleet :: "'w kube \<Rightarrow> ('w \<Rightarrow> kcluster) \<Rightarrow> 'w operator \<Rightarrow> bool"
  for K :: "'w kube" and view :: "'w \<Rightarrow> kcluster" where
  start: "faithful (view (ext s)) \<Longrightarrow> fleet K view s"
| reconcile: "fleet K view s \<Longrightarrow> fleet K view (snd (Reconcile K req s))"
| outside: "fleet K view s \<Longrightarrow> others (view (ext s)) (view (ext t)) \<Longrightarrow> fleet K view t"

lemma fleet_faithful:
  assumes "versioned_server K view" "finalizer_helpers K" "fleet K view s"
  shows "faithful (view (ext s))"
  using assms(3)
proof induction
  case (reconcile s req)
  obtain r t where "Reconcile K req s = (r, t)" by force
  with tripleD [OF Reconcile_calm [OF assms(1,2)]] reconcile show ?case by (auto simp: safe_def)
next
  case (outside s t)
  with others_safe [of "view (ext s)" "view (ext t)"] show ?case by (simp add: safe_def)
qed

text \<open>
  C1. No write of a user is lost. However reconciliations of whatever requests, successful, failed or ending the
  process, are interleaved with the users' creations, edits and deletions, before the reconciliation, after it or between any two
  of its calls, and however stale its reads are: what a user wrote last of a Backup is what is stored, but for the operator's finalizer,
  unless it is under deletion with no finalizer of the users left; and the operator brings no Backup back.
\<close>

theorem no_user_write_is_lost:
  assumes "versioned_server K view" and "finalizer_helpers K" and "fleet K view s"
  shows "(\<forall>n e. cl_want (view (ext s)) n = Some e \<longrightarrow> doomed e \<or>
      (\<exists>b. cl_objects (view (ext s)) (backup_key n) = Some (OBackup b) \<and> essence b = e)) \<and>
    (\<forall>n b. cl_objects (view (ext s)) (backup_key n) = Some (OBackup b) \<longrightarrow>
      cl_want (view (ext s)) n = Some (essence b))"
proof -
  from fleet_faithful [OF assms] have "as_wanted (view (ext s)) n" for n by (simp add: faithful_def)
  then show ?thesis unfolding as_wanted_def by (force split: option.splits kobj.splits)
qed


text \<open>A user changes the schedule of a Backup while the operator works on what it read before.\<close>

definition edited_backup :: Backup where
  "edited_backup = (sample_backup ''default'' None [])\<lparr>b_Spec := sample_spec\<lparr>sp_Schedule := ''30 4 * * *''\<rparr>\<rparr>"

definition shared_world :: "act list \<Rightarrow> shared operator" where
  "shared_world script =
     (let b = sample_backup ''default'' None [] in
      \<lparr>ext = \<lparr>sh_objects = [backup_key (sample_request ''default'') \<mapsto> OBackup b], sh_log = [b],
         sh_want = [sample_request ''default'' \<mapsto> essence b], sh_script = script\<rparr>, calls = []\<rparr>)"

lemma sample_key:
  "key_of (OBackup (sample_backup ns dt fs)) = backup_key (sample_request ns)"
  "name_of (sample_backup ns dt fs) = sample_request ns"
  by (simp_all add: key_of_def backup_key_def sample_backup_def sample_request_def name_of_def emptyMeta_def)

lemma shared_world_faithful: "faithful (see (ext (shared_world script)))"
proof -
  have "as_wanted (see (ext (shared_world script))) n" for n
    by (cases "n = sample_request ''default''")
      (simp_all add: as_wanted_def shared_world_def see_def Let_def sample_key backup_key_inj,
        simp add: sample_backup_def emptyMeta_def)
  then show ?thesis by (auto simp: faithful_def determined_def shared_world_def see_def Let_def)
qed

text \<open>The Update that an edit overtakes ends in the conflict.\<close>

lemma overtaken_update_conflicts:
  "fst (handleFinalizer busy_kube (sample_backup ''default'' None []) (shared_world [Writes edited_backup])) =
   Ret (Some conflict)"
  by (simp add: handleFinalizer_def busy_kube_def client_defs go_run mem_kube_def shared_world_def Let_def
      update_shared_def pause_def put_new_def edited_backup_def next_version_def key_of_def sample_backup_def
      backup_key_def sample_request_def emptyMeta_def at_version_def)

theorem no_user_write_is_lost_witness:
  "\<exists>b. sh_objects (ext (snd (Reconcile busy_kube (sample_request ''default'') (shared_world [Writes edited_backup]))))
       (backup_key (sample_request ''default'')) = Some (OBackup b) \<and>
     essence b = essence edited_backup"
proof -
  let ?n = "sample_request ''default''" and ?s = "shared_world [Writes edited_backup]"
  let ?t = "snd (Reconcile busy_kube ?n ?s)"
  have nm: "name_of edited_backup = ?n" "key_of (OBackup edited_backup) = backup_key ?n"
    using sample_key [of "''default''" None "[]"] by (simp_all add: edited_backup_def name_of_def key_of_def)
  have other: "obj_key KServiceAccount ns name \<noteq> backup_key n" "key_of (OServiceAccount sa) \<noteq> backup_key n" for ns name sa n
    by (simp_all add: key_of_def obj_key_def backup_key_def)
  have "sh_want (ext ?t) = [?n \<mapsto> essence edited_backup]"
    unfolding Reconcile_def reconcileServiceAccount_def or_else_def [of "ensure _ _ _ _ _"]
    by (simp add: ensure_def busy_kube_def client_defs go_run shared_world_def Let_def cached_def
        pause_def on_objects_def put_new_def mem_kube_def nm other notFound_def
        split: option.split)
  moreover have "fleet busy_kube see ?t"
    by (intro fleet.reconcile fleet.start shared_world_faithful)
  from no_user_write_is_lost [OF busy_server busy_helpers this] have
    "sh_want (ext ?t) ?n = Some (essence edited_backup) \<Longrightarrow> doomed (essence edited_backup) \<or> ?thesis"
    by (auto simp: see_shared)
  moreover have "\<not> doomed (essence edited_backup)"
    by (simp add: doomed_def essence_def edited_backup_def sample_backup_def emptyMeta_def)
  ultimately show ?thesis by simp
qed

end
