(* ===== verification/WorkQueue.thy ===== *)
theory WorkQueue
  imports ReconcilerServer
begin

text \<open>
  The work queue of the controller with several Backups in it: the loop \<open>worker\<close>, which ends. A run of the reconciler is
  one step here; what may happen between its calls is in \<open>Interference\<close>.
\<close>

section \<open>Live Backups\<close>

definition live :: "Backup \<Rightarrow> bool" where
  "live b \<longleftrightarrow> om_DeletionTimestamp (b_ObjectMeta b) \<in> {None, Some 0}"

definition live_specs :: "store \<Rightarrow> NamespacedName \<rightharpoonup> BackupSpec" where
  "live_specs st n =
     (case st (backup_key n) of
        Some (OBackup b) \<Rightarrow> if live b then Some (b_Spec b) else None
      | _ \<Rightarrow> None)"

lemma live_specs_put:
  "live_specs (f(backup_key n \<mapsto> OBackup b)) = (live_specs f)(n := if live b then Some (b_Spec b) else None)"
  "live_specs (f(backup_key n := None)) = (live_specs f)(n := None)"
  by (auto simp: live_specs_def fun_eq_iff backup_key_def obj_key_def)

lemma live_specs_at:
  "f (backup_key n) = Some (OBackup b) \<Longrightarrow> live_specs f n = (if live b then Some (b_Spec b) else None)"
  by (simp add: live_specs_def)

section \<open>The work queue\<close>

text \<open>
  The worker of the controller: it takes a request from the queue and reconciles it; a reply with an error
  or a requeue puts the request back at the end. A process exit or panic ends the worker without a
  result, and so does a queue that never empties.
\<close>

partial_function (option) worker :: "'w kube \<Rightarrow> NamespacedName list \<Rightarrow> 'w operator \<Rightarrow> 'w operator option" where
  "worker K q s =
     (case q of
        [] \<Rightarrow> Some s
      | req # rest \<Rightarrow>
          (case Reconcile K req s of
             (Ret (res, err), t) \<Rightarrow>
               worker K (if r_Requeue res \<or> err \<noteq> None then rest @ [req] else rest) t
           | (Halt h, t) \<Rightarrow> None))"

text \<open>A live Backup of the namespace default whose manifests can be decoded, and a settled one.\<close>

definition ready :: "'w kube \<Rightarrow> store \<Rightarrow> NamespacedName \<Rightarrow> bool" where
  "ready K st req \<longleftrightarrow> nn_Namespace req = ''default'' \<and>
     (\<exists>b. st (backup_key req) = Some (OBackup b) \<and> request_for req b \<and> manifests_decode K b \<and> live b)"

definition settled :: "store \<Rightarrow> NamespacedName \<Rightarrow> bool" where
  "settled st req \<longleftrightarrow> set (stage_keys req) \<subseteq> dom st \<and>
     (\<exists>b. st (backup_key req) = Some (OBackup b) \<and>
        DefaultBackupFinalizerName \<in> set (om_Finalizers (b_ObjectMeta b)))"

text \<open>What a reconciliation of a ready Backup may do to the store: only add, and keep every Backup but for its finalizers.\<close>

definition grows :: "'w kube \<Rightarrow> store \<Rightarrow> store \<Rightarrow> bool" where
  "grows K f g \<longleftrightarrow> dom f \<subseteq> dom g \<and> live_specs g = live_specs f \<and>
     (\<forall>r. ready K f r \<longrightarrow> ready K g r) \<and> (\<forall>r. settled f r \<longrightarrow> settled g r)"

lemma grows_trans: "grows K f g \<Longrightarrow> grows K g h \<Longrightarrow> grows K f h"
  by (auto simp: grows_def)

lemma settled_mono:
  assumes "settled f r" "dom f \<subseteq> dom g" "g (backup_key r) = f (backup_key r)"
  shows "settled g r"
  using assms subset_trans [of "set (stage_keys r)" "dom f" "dom g"] by (simp add: settled_def)

lemma grows_backups_same:
  assumes "dom f \<subseteq> dom g" "\<And>n. g (backup_key n) = f (backup_key n)"
  shows "grows K f g"
  using assms
  by (auto simp: grows_def ready_def live_specs_def fun_eq_iff intro: settled_mono)

lemma manifests_decode_finalizers:
  "manifests_decode K (at_version v (b\<lparr>b_ObjectMeta := (b_ObjectMeta b)\<lparr>om_Finalizers := fs\<rparr>\<rparr>)) = manifests_decode K b"
proof -
  let ?b = "at_version v (b\<lparr>b_ObjectMeta := (b_ObjectMeta b)\<lparr>om_Finalizers := fs\<rparr>\<rparr>)"
  have "clusterrolebinding_text ?b = clusterrolebinding_text b" "cronjob_text ?b = cronjob_text b"
    by (simp_all add: fun_eq_iff clusterrolebinding_text_def cronjob_text_def)
  then show ?thesis by (cases "sp_BackupFrom (b_Spec b)") (simp_all add: manifests_decode_def)
qed

lemma grows_finalizer:
  assumes b: "f (backup_key req) = Some (OBackup b)" and rq: "request_for req b" and lv: "live b"
    and fs: "set (om_Finalizers (b_ObjectMeta b)) \<subseteq> set fs"
    and g: "g = f(backup_key req \<mapsto> OBackup (at_version v (b\<lparr>b_ObjectMeta := (b_ObjectMeta b)\<lparr>om_Finalizers := fs\<rparr>\<rparr>)))"
      (is "g = f(_ \<mapsto> OBackup ?b)")
  shows "grows K f g"
proof -
  have "backup_key r = backup_key req \<longleftrightarrow> r = req" for r
    by (auto simp: backup_key_def obj_key_def)
  moreover have "live ?b = live b" "request_for r ?b = request_for r b" for r
    by (simp_all add: live_def request_for_def)
  moreover have "dom f \<subseteq> dom g" by (auto simp: g)
  moreover have "live_specs g = live_specs f"
    using live_specs_at [of f req b, OF b] lv by (simp only: g live_specs_put) (simp add: fun_upd_idem live_def)
  ultimately show ?thesis
    using b fs by (auto simp: grows_def ready_def settled_def g manifests_decode_finalizers)
qed

lemma Reconcile_ready:
  assumes env: "environment K objs" and r: "ready K (objs (ext s)) req"
  obtains t where "Reconcile K req s = (Ret (requeue, None), t)" "grows K (objs (ext s)) (objs (ext t))"
      "missing (objs (ext t)) (stage_keys req) < missing (objs (ext s)) (stage_keys req)"
    | t where "Reconcile K req s = (Ret (noRequeue, None), t)" "grows K (objs (ext s)) (objs (ext t))"
      "settled (objs (ext t)) req"
proof -
  from r obtain b where b: "nn_Namespace req = ''default''" "objs (ext s) (backup_key req) = Some (OBackup b)"
    "request_for req b" "manifests_decode K b" "live b" by (auto simp: ready_def)
  note eff = Reconcile_effect [OF env b(4,3,1,2)]
  have keep: "grows K (objs (ext s)) (objs (ext t))"
    if "agree (set (stage_keys req)) (objs (ext s)) (objs (ext t))" "dom (objs (ext s)) \<subseteq> dom (objs (ext t))" for t
    using that agreeD [OF that(1) stage_keys_other(1)] by (intro grows_backups_same) auto
  show thesis
  proof (cases "first_missing (objs (ext s)) (stage_keys req)")
    case (Some k)
    with eff obtain t where t: "Reconcile K req s = (Ret (requeue, None), t)"
      "agree (set (stage_keys req)) (objs (ext s)) (objs (ext t))"
      "dom (objs (ext t)) = insert k (dom (objs (ext s)))" by auto
    with that(1) [OF t(1) keep [OF t(2)]] missing_step [OF Some t(3)] show thesis by auto
  next
    case None
    with eff obtain u where u: "Reconcile K req s = finish K b u"
      "agree (set (stage_keys req)) (objs (ext s)) (objs (ext u))"
      "dom (objs (ext u)) = dom (objs (ext s))" by auto
    have bu: "objs (ext u) (backup_key req) = Some (OBackup b)"
      using agreeD [OF u(2) stage_keys_other(1)] b(2) by simp
    from handleFinalizer_registers [OF env, of b u] b(5) bu request_key [OF b(3)]
    obtain t v fs where t: "finish K b u = (Ret (noRequeue, None), t)"
      "objs (ext t) = (objs (ext u))(backup_key req \<mapsto>
        OBackup (at_version v (b\<lparr>b_ObjectMeta := (b_ObjectMeta b)\<lparr>om_Finalizers := fs\<rparr>\<rparr>)))"
      "set fs = insert DefaultBackupFinalizerName (set (om_Finalizers (b_ObjectMeta b)))"
      by (auto simp: live_def)
    have g: "grows K (objs (ext u)) (objs (ext t))"
      using grows_finalizer [OF bu b(3,5) _ t(2)] t(3) by blast
    have "settled (objs (ext t)) req"
      using None u(3) t(2,3) by (auto simp: settled_def none_missing)
    with that(2) t(1) u(1) grows_trans [OF keep [OF u(2)] g] u(3) show thesis by simp
  qed
qed

definition wanting :: "store \<Rightarrow> NamespacedName list \<Rightarrow> key set" where
  "wanting st q = (\<Union>req \<in> set q. set (stage_keys req)) - dom st"

lemma wanting_at: "req \<in> set q \<Longrightarrow> missing st (stage_keys req) = card (wanting st q \<inter> set (stage_keys req))"
  unfolding missing_def wanting_def by (rule arg_cong [where f = card]) auto

lemma wanting_finite: "finite (wanting st q)"
  by (simp add: wanting_def)

lemma wanting_requeue:
  assumes "grows K f g" and "missing g (stage_keys req) < missing f (stage_keys req)"
  shows "card (wanting g (rest @ [req])) < card (wanting f (req # rest))"
proof (rule psubset_card_mono [OF wanting_finite psubsetI])
  show "wanting g (rest @ [req]) \<subseteq> wanting f (req # rest)"
    using assms(1) by (auto simp: wanting_def grows_def)
  show "wanting g (rest @ [req]) \<noteq> wanting f (req # rest)"
    using assms(2) wanting_at [of req "req # rest" f] wanting_at [of req "rest @ [req]" g] by auto
qed

lemma worker_settles:
  assumes env: "environment K objs"
  shows "\<lbrakk>\<forall>req \<in> set q. ready K (objs (ext s)) req; card (wanting (objs (ext s)) q) + length q \<le> n\<rbrakk> \<Longrightarrow>
    \<exists>t. worker K q s = Some t \<and> grows K (objs (ext s)) (objs (ext t)) \<and> (\<forall>req \<in> set q. settled (objs (ext t)) req)"
proof (induction n arbitrary: q s)
  case 0
  then show ?case by (simp add: worker.simps grows_def)
next
  case (Suc n)
  show ?case
  proof (cases q)
    case Nil
    then show ?thesis by (simp add: worker.simps grows_def)
  next
    case (Cons req rest)
    from Suc.prems(1) Cons have "ready K (objs (ext s)) req" by simp
    with env show ?thesis
    proof (cases rule: Reconcile_ready)
      case (1 t)
      have run: "worker K q s = worker K (rest @ [req]) t"
        by (subst worker.simps) (simp add: Cons 1(1))
      have "card (wanting (objs (ext t)) (rest @ [req])) < card (wanting (objs (ext s)) q)"
        unfolding Cons by (rule wanting_requeue [OF 1(2,3)])
      with Suc.prems Cons 1(2) have
        "\<forall>r \<in> set (rest @ [req]). ready K (objs (ext t)) r"
        "card (wanting (objs (ext t)) (rest @ [req])) + length (rest @ [req]) \<le> n"
        by (auto simp: grows_def)
      from Suc.IH [OF this] 1(2) show ?thesis
        unfolding run by (auto simp: Cons intro: grows_trans)
    next
      case (2 t)
      have run: "worker K q s = worker K rest t"
        by (subst worker.simps) (simp add: Cons 2(1))
      have "wanting (objs (ext t)) rest \<subseteq> wanting (objs (ext s)) q"
        using 2(2) by (auto simp: wanting_def Cons grows_def)
      then have "card (wanting (objs (ext t)) rest) \<le> card (wanting (objs (ext s)) q)"
        by (intro card_mono wanting_finite)
      with Suc.prems Cons 2(2) have "\<forall>r \<in> set rest. ready K (objs (ext t)) r"
        "card (wanting (objs (ext t)) rest) + length rest \<le> n"
        by (auto simp: grows_def)
      from Suc.IH [OF this] obtain u where u: "worker K rest t = Some u"
        "grows K (objs (ext t)) (objs (ext u))" "\<forall>r \<in> set rest. settled (objs (ext u)) r" by blast
      moreover have "settled (objs (ext u)) req" using u(2) 2(3) by (simp add: grows_def)
      ultimately show ?thesis
        unfolding run using grows_trans [OF 2(2) u(2)] by (auto simp: Cons)
    qed
  qed
qed

text \<open>
  C4. The worker terminates: a queue with any number of live Backups of the namespace default, repetitions included,
  empties against a server that keeps its promises, however many of the objects they share and need are
  missing. Afterwards every Backup of the queue has its four objects and the finalizer, and no spec has
  changed.
\<close>

theorem worker_terminates:
  assumes "environment K objs" and "\<forall>req \<in> set q. ready K (objs (ext s)) req"
  shows "\<exists>t. worker K q s = Some t \<and> (\<forall>req \<in> set q. settled (objs (ext t)) req) \<and>
    live_specs (objs (ext t)) = live_specs (objs (ext s))"
  using worker_settles [OF assms le_refl] by (auto simp: grows_def)


theorem worker_terminates_witness:
  "\<exists>t. worker mem_kube [sample_request ''default'', sample_request ''default'']
      (world_with (sample_backup ''default'' None [])) = Some t \<and>
    settled (ext t) (sample_request ''default'')"
proof -
  let ?n = "sample_request ''default''" and ?b = "sample_backup ''default'' None []"
  note rq = sample_request_for [OF default_one_line(1), of None "[]"]
  have "ready mem_kube (ext (world_with ?b)) ?n"
    using world_with_backup [OF rq] rq mem_manifests_decode [of ?b]
    by (auto simp: ready_def live_def sample_backup_def emptyMeta_def sample_request_def)
  with worker_terminates [OF mem_environment, of "[?n, ?n]" "world_with ?b"] show ?thesis by auto
qed

section \<open>Backups that share a namespace\<close>

text \<open>
  C9. Backups of one namespace share the ClusterRoleBinding that their CronJobs need, and the deletion of one removes it: when a Backup of
  the namespace default is gone, no other one there is settled any more, although it is untouched
  and its reconciliation may have ended long ago. The next request for it brings the binding back.
\<close>

theorem deletion_unsettles_siblings:
  assumes env: "environment K objs" and md: "manifests_decode K b" and rq: "request_for req b"
    and dflt: "nn_Namespace req = ''default''"
    and dying: "om_DeletionTimestamp (b_ObjectMeta b) \<notin> {None, Some 0}"
    and only: "set (om_Finalizers (b_ObjectMeta b)) = {DefaultBackupFinalizerName}"
    and b: "objs (ext s) (backup_key req) = Some (OBackup b)"
    and sib: "ready K (objs (ext s)) sib" "sib \<noteq> req"
  shows "\<exists>t u. drain 4 K req s = (Ret (noRequeue, None), t) \<and>
    objs (ext t) (backup_key sib) = objs (ext s) (backup_key sib) \<and> \<not> settled (objs (ext t)) sib \<and>
    worker K [sib] t = Some u \<and> settled (objs (ext u)) sib"
proof -
  let ?k = "obj_key KClusterRoleBinding [] (crbName (b_Namespace b))"
  from deletion_effect [OF env md rq dflt dying only b] obtain g t where
    t: "drain 4 K req s = (Ret (noRequeue, None), t)" "agree (set (stage_keys req)) (objs (ext s)) g"
      "objs (ext t) = g(?k := None, backup_key req := None)" by blast
  have "backup_key sib \<noteq> backup_key req" using sib(2) by (auto simp: backup_key_def obj_key_def)
  moreover have "backup_key sib \<notin> set (stage_keys req)" by (rule stage_keys_other)
  ultimately have same: "objs (ext t) (backup_key sib) = objs (ext s) (backup_key sib)"
    using agreeD [OF t(2)] binding_key [OF rq] by (auto simp: t(3))
  with sib(1) have r: "ready K (objs (ext t)) sib" by (simp add: ready_def)
  have "?k \<in> set (stage_keys sib)" using sib(1) rq dflt by (auto simp: ready_def stage_keys_def request_for_def)
  moreover have "?k \<notin> dom (objs (ext t))" by (auto simp: t(3))
  ultimately have "\<not> settled (objs (ext t)) sib" by (auto simp: settled_def)
  moreover obtain u where "worker K [sib] t = Some u" "settled (objs (ext u)) sib"
    using worker_settles [OF env _ le_refl, of "[sib]" t] r by auto
  ultimately show ?thesis using t(1) same by blast
qed

text \<open>Two Backups of the namespace default, the first under deletion.\<close>

definition sibling_backup :: Backup where
  "sibling_backup = (sample_backup ''default'' None [DefaultBackupFinalizerName])
     \<lparr>b_ObjectMeta := (b_ObjectMeta (sample_backup ''default'' None [DefaultBackupFinalizerName]))\<lparr>om_Name := ''weekly''\<rparr>\<rparr>"

theorem deletion_unsettles_siblings_witness:
  "let b = sample_backup ''default'' (Some 1) [DefaultBackupFinalizerName]; r = sample_request ''default'';
       r' = r\<lparr>nn_Name := ''weekly''\<rparr>;
       s = \<lparr>ext = [backup_key r \<mapsto> OBackup b, backup_key r' \<mapsto> OBackup sibling_backup], calls = []\<rparr>
   in \<exists>t u. drain 4 mem_kube r s = (Ret (noRequeue, None), t) \<and> \<not> settled (ext t) r' \<and>
     worker mem_kube [r'] t = Some u \<and> settled (ext u) r'"
proof -
  let ?b = "sample_backup ''default'' (Some 1) [DefaultBackupFinalizerName]" and ?r = "sample_request ''default''"
  let ?r' = "?r\<lparr>nn_Name := ''weekly''\<rparr>"
  let ?s = "\<lparr>ext = [backup_key ?r \<mapsto> OBackup ?b, backup_key ?r' \<mapsto> OBackup sibling_backup], calls = []\<rparr>"
  have rq: "request_for ?r ?b" by (rule sample_request_for [OF default_one_line(1)])
  have rq': "request_for ?r' sibling_backup"
    using sample_request_for [OF default_one_line(1), of None "[DefaultBackupFinalizerName]"]
    by (simp add: request_for_def sibling_backup_def sample_backup_def sample_request_def emptyMeta_def one_line_def)
  have ne: "backup_key ?r' \<noteq> backup_key ?r" "?r' \<noteq> ?r"
    by (simp_all add: backup_key_def obj_key_def sample_request_def)
  have "live sibling_backup"
    by (simp add: live_def sibling_backup_def sample_backup_def emptyMeta_def)
  with rq' mem_manifests_decode [of sibling_backup] have "ready mem_kube (ext ?s) ?r'"
    by (auto simp: ready_def sample_request_def)
  with deletion_unsettles_siblings [where objs = "\<lambda>w. w", OF mem_environment mem_manifests_decode rq, of ?s ?r'] ne
  have "\<exists>t u. drain 4 mem_kube ?r ?s = (Ret (noRequeue, None), t) \<and> \<not> settled (ext t) ?r' \<and>
      worker mem_kube [?r'] t = Some u \<and> settled (ext u) ?r'"
    by (auto simp: sample_request_def sample_backup_def emptyMeta_def)
  then show ?thesis unfolding Let_def .
qed

end
