(* ===== verification/Deletions.thy ===== *)
theory Deletions
  imports WorkQueue
begin

text \<open>
  The worker over a queue that also holds Backups under deletion and requests for Backups that are gone. A deletion takes the
  ClusterRoleBinding of the namespace away, which puts other requests back by one object; the worker ends all the same. With a
  Backup of another namespace in the queue it never ends.
\<close>

section \<open>What the queue works on\<close>

text \<open>
  \<open>tracked\<close>: a request of the namespace default whose Backup, if it is stored, has manifests that decode. \<open>pending\<close>: the Backup is
  under deletion and waits for the operator. \<open>completed\<close>: nothing is left to do for it, the binding aside.
\<close>

definition tracked :: "'w kube \<Rightarrow> store \<Rightarrow> NamespacedName \<Rightarrow> bool" where
  "tracked K st req \<longleftrightarrow> nn_Namespace req = ''default'' \<and>
     (case st (backup_key req) of
        None \<Rightarrow> True
      | Some (OBackup b) \<Rightarrow> request_for req b \<and> manifests_decode K b
      | Some _ \<Rightarrow> False)"

definition operated :: "Backup \<Rightarrow> bool" where
  "operated b \<longleftrightarrow> DefaultBackupFinalizerName \<in> set (om_Finalizers (b_ObjectMeta b))"

definition pending :: "store \<Rightarrow> NamespacedName \<Rightarrow> bool" where
  "pending st req \<longleftrightarrow> (\<exists>b. st (backup_key req) = Some (OBackup b) \<and> \<not> live b \<and> operated b)"

definition own_keys :: "NamespacedName \<Rightarrow> key set" where
  "own_keys req = {k \<in> set (stage_keys req). fst k \<noteq> KClusterRoleBinding}"

definition completed :: "store \<Rightarrow> NamespacedName \<Rightarrow> bool" where
  "completed st req \<longleftrightarrow>
     (case st (backup_key req) of
        None \<Rightarrow> True
      | Some (OBackup b) \<Rightarrow> if live b then operated b \<and> own_keys req \<subseteq> dom st else \<not> operated b
      | Some _ \<Rightarrow> False)"

text \<open>
  What a reconciliation may do: keep every object that is neither a Backup nor a binding, and take a Backup a step
  further: register a live one, release one under deletion.
\<close>

definition with_finalizers :: "string \<Rightarrow> string list \<Rightarrow> Backup \<Rightarrow> Backup" where
  "with_finalizers v fs b = at_version v (b\<lparr>b_ObjectMeta := (b_ObjectMeta b)\<lparr>om_Finalizers := fs\<rparr>\<rparr>)"

definition advanced :: "Backup \<Rightarrow> kobj option \<Rightarrow> bool" where
  "advanced b x \<longleftrightarrow> (x = None \<and> \<not> live b) \<or>
     (\<exists>v fs. x = Some (OBackup (with_finalizers v fs b)) \<and> (live b \<longleftrightarrow> operated (with_finalizers v fs b)))"

definition evolves :: "store \<Rightarrow> store \<Rightarrow> bool" where
  "evolves f g \<longleftrightarrow> {k \<in> dom f. fst k \<notin> {KBackup, KClusterRoleBinding}} \<subseteq> dom g \<and>
     (\<forall>r. g (backup_key r) = f (backup_key r) \<or>
        (\<exists>b. f (backup_key r) = Some (OBackup b) \<and> advanced b (g (backup_key r))))"

definition preserves :: "'w kube \<Rightarrow> store \<Rightarrow> store \<Rightarrow> bool" where
  "preserves K f g \<longleftrightarrow> live_specs g = live_specs f \<and>
     (\<forall>r. (tracked K f r \<longrightarrow> tracked K g r) \<and> (completed f r \<longrightarrow> completed g r) \<and> (pending g r \<longrightarrow> pending f r))"

lemma preserves_trans: "preserves K f g \<Longrightarrow> preserves K g h \<Longrightarrow> preserves K f h"
  by (auto simp: preserves_def)

lemma with_finalizers_same:
  "live (with_finalizers v fs b) = live b" "b_Spec (with_finalizers v fs b) = b_Spec b"
  "request_for r (with_finalizers v fs b) = request_for r b"
  "manifests_decode K (with_finalizers v fs b) = manifests_decode K b"
  "operated (with_finalizers v fs b) \<longleftrightarrow> DefaultBackupFinalizerName \<in> set fs"
  by (simp_all add: with_finalizers_def live_def request_for_def operated_def manifests_decode_finalizers)

lemma stage_keys_kinds: "k \<in> set (stage_keys r) \<Longrightarrow> fst k \<noteq> KBackup"
  by (auto simp: stage_keys_def obj_key_def)

lemma own_keys_kept:
  assumes "evolves f g" "own_keys r \<subseteq> dom f"
  shows "own_keys r \<subseteq> dom g"
proof -
  have "own_keys r \<subseteq> {k \<in> dom f. fst k \<notin> {KBackup, KClusterRoleBinding}}"
    using assms(2) stage_keys_kinds by (fastforce simp: own_keys_def)
  with assms(1) show ?thesis unfolding evolves_def by blast
qed

lemma evolves_preserves:
  assumes "evolves f g"
  shows "preserves K f g"
proof -
  have step: "live_specs g r = live_specs f r \<and> (tracked K f r \<longrightarrow> tracked K g r) \<and>
      (completed f r \<longrightarrow> completed g r) \<and> (pending g r \<longrightarrow> pending f r)" for r
  proof (cases "g (backup_key r) = f (backup_key r)")
    case True
    with own_keys_kept [OF assms, of r] show ?thesis
      by (auto simp: live_specs_def tracked_def completed_def pending_def split: option.split kobj.split)
  next
    case False
    with assms obtain b where b: "f (backup_key r) = Some (OBackup b)" "advanced b (g (backup_key r))"
      by (auto simp: evolves_def)
    with own_keys_kept [OF assms, of r] show ?thesis
      by (auto simp: advanced_def live_specs_def tracked_def completed_def pending_def with_finalizers_same)
  qed
  then show ?thesis by (auto simp: preserves_def fun_eq_iff)
qed

lemma evolves_at:
  assumes "{k \<in> dom f. fst k \<notin> {KBackup, KClusterRoleBinding}} \<subseteq> dom g"
    and "\<And>r. r \<noteq> req \<Longrightarrow> g (backup_key r) = f (backup_key r)"
    and "g (backup_key req) = f (backup_key req) \<or>
      (\<exists>b. f (backup_key req) = Some (OBackup b) \<and> advanced b (g (backup_key req)))"
  shows "evolves f g"
  unfolding evolves_def using assms by metis

section \<open>One reconciliation\<close>

lemma backup_keys: "backup_key r = backup_key r' \<longleftrightarrow> r = r'"
  by (cases r; cases r') (auto simp: backup_key_def obj_key_def)

lemma own_stage_keys: "set (stage_keys req) \<subseteq> dom f \<Longrightarrow> own_keys req \<subseteq> dom f"
  by (auto simp: own_keys_def)

text \<open>The end of a reconciliation: registration, release, or nothing to do.\<close>

lemma finish_tracked:
  assumes env: "environment K objs" and b: "objs (ext s) (backup_key req) = Some (OBackup b)" and rq: "request_for req b"
    and all: "set (stage_keys req) \<subseteq> dom (objs (ext s))"
  shows "\<exists>t. finish K b s = (Ret (noRequeue, None), t) \<and> evolves (objs (ext s)) (objs (ext t)) \<and>
    completed (objs (ext t)) req \<and> \<not> pending (objs (ext t)) req \<and>
    agree (insert (backup_key req) (set (stage_keys req))) (objs (ext s)) (objs (ext t)) \<and>
    (\<not> pending (objs (ext s)) req \<longrightarrow> dom (objs (ext s)) \<subseteq> dom (objs (ext t)))"
proof -
  let ?f = "objs (ext s)" and ?k = "obj_key KClusterRoleBinding [] (crbName (b_Namespace b))"
  have key: "key_of (OBackup b) = backup_key req" by (rule request_key [OF rq])
  note at = b [folded key]
  have kinds: "fst ?k = KClusterRoleBinding" "fst (backup_key r) = KBackup" for r
    by (simp_all add: obj_key_def backup_key_def)
  then have ne: "?k \<noteq> backup_key r" "backup_key r \<noteq> ?k" for r by (metis kind.distinct(5))+
  from env have fh: "finalizer_helpers K" by (simp add: environment_def)
  consider (live) "live b" | (idle) "\<not> live b" "\<not> operated b" | (release) "\<not> live b" "operated b" by blast
  then show ?thesis
  proof cases
    case live
    from handleFinalizer_registers [OF env _ at] live obtain t v fs where
      t: "finish K b s = (Ret (noRequeue, None), t)"
      "objs (ext t) = ?f(backup_key req \<mapsto> OBackup (with_finalizers v fs b))" "DefaultBackupFinalizerName \<in> set fs"
      unfolding live_def key with_finalizers_def by auto
    have "evolves ?f (objs (ext t))"
      by (rule evolves_at [where req = req])
        (auto simp: t(2,3) b backup_keys advanced_def with_finalizers_same live intro!: exI [of _ v] exI [of _ fs])
    moreover have "own_keys req \<subseteq> dom (objs (ext t))" using own_stage_keys [OF all] by (auto simp: t(2))
    ultimately show ?thesis
      using t live by (intro exI [of _ t]) (auto simp: completed_def pending_def with_finalizers_same agree_def)
  next
    case idle
    then have "finish K b s = (Ret (noRequeue, None), s)"
      using fh by (auto simp: finish_def handleFinalizer_def finalizer_helpers_def live_def operated_def go_run)
    moreover have "evolves ?f ?f" by (auto simp: evolves_def)
    ultimately show ?thesis using b idle by (intro exI [of _ s]) (auto simp: completed_def pending_def)
  next
    case release
    have "?k \<in> dom ?f" using all binding_key [OF rq] by blast
    then obtain x where x: "?f ?k = Some x" by blast
    let ?fs = "filter (\<lambda>g. g \<noteq> DefaultBackupFinalizerName) (om_Finalizers (b_ObjectMeta b))"
    from handleFinalizer_releases [OF env _ _ at x] release obtain t v where
      t: "finish K b s = (Ret (noRequeue, None), t)"
      "objs (ext t) = ?f(?k := None, backup_key req :=
         if set (om_Finalizers (b_ObjectMeta b)) = {DefaultBackupFinalizerName} then None
         else Some (OBackup (with_finalizers v ?fs b)))"
      unfolding live_def operated_def key with_finalizers_def by auto
    have "advanced b (objs (ext t) (backup_key req))"
      using release by (auto simp: t(2) advanced_def with_finalizers_same intro!: exI [of _ v] exI [of _ ?fs])
    moreover have "{k \<in> dom ?f. fst k \<notin> {KBackup, KClusterRoleBinding}} \<subseteq> dom (objs (ext t))"
      using kinds by (auto simp: t(2) dom_def)
    moreover have "objs (ext t) (backup_key r) = ?f (backup_key r)" if "r \<noteq> req" for r
      using that ne by (simp add: t(2) backup_keys)
    ultimately have "evolves ?f (objs (ext t))" using b by (intro evolves_at [where req = req]) auto
    moreover have "pending ?f req" using b release by (auto simp: pending_def)
    moreover have "agree (insert (backup_key req) (set (stage_keys req))) ?f (objs (ext t))"
      using binding_key [OF rq] by (auto simp: agree_def t(2))
    ultimately show ?thesis
      using t release by (intro exI [of _ t]) (auto simp: completed_def pending_def with_finalizers_same)
  qed
qed

lemma Reconcile_gone:
  assumes env: "environment K objs" and none: "objs (ext s) (backup_key req) = None"
  obtains t where "Reconcile K req s = (Ret (noRequeue, None), t)" "objs (ext t) = objs (ext s)"
proof -
  from env have g: "get_backup_law K objs" and e: "api_errors K"
    by (auto simp: environment_def api_server_def)
  from g have "objs (snd (k_GetBackup K req (ext s))) = objs (ext s)" and
    "case objs (ext s) (backup_key req) of
       Some (OBackup b) \<Rightarrow> fst (k_GetBackup K req (ext s)) = Inr b
     | _ \<Rightarrow> \<exists>e. fst (k_GetBackup K req (ext s)) = Inl e \<and> k_IsNotFound K e"
    unfolding get_backup_law_def backup_key_def by auto
  with none obtain e where r: "fst (k_GetBackup K req (ext s)) = Inl e" "k_IsNotFound K e"
    "objs (snd (k_GetBackup K req (ext s))) = objs (ext s)" by auto
  with e show thesis
    by (intro that [of "s\<lparr>ext := snd (k_GetBackup K req (ext s)), calls := calls s @ [CGetBackup req (Some e)]\<rparr>"])
      (simp_all add: Reconcile_chain rGetBackup_def go_run api_errors_def)
qed

lemma Reconcile_tracked:
  assumes env: "environment K objs" and tr: "tracked K (objs (ext s)) req"
  obtains (requeued) t where "Reconcile K req s = (Ret (requeue, None), t)" "preserves K (objs (ext s)) (objs (ext t))"
      "missing (objs (ext t)) (stage_keys req) < missing (objs (ext s)) (stage_keys req)"
      "dom (objs (ext s)) \<subseteq> dom (objs (ext t))"
      "agree (insert (backup_key req) (set (stage_keys req))) (objs (ext s)) (objs (ext t))"
    | (ended) t where "Reconcile K req s = (Ret (noRequeue, None), t)" "preserves K (objs (ext s)) (objs (ext t))"
      "completed (objs (ext t)) req" "\<not> pending (objs (ext t)) req"
      "\<not> pending (objs (ext s)) req \<longrightarrow> dom (objs (ext s)) \<subseteq> dom (objs (ext t))"
      "agree (insert (backup_key req) (set (stage_keys req))) (objs (ext s)) (objs (ext t))"
proof (cases "objs (ext s) (backup_key req)")
  case None
  with Reconcile_gone [OF env] obtain t where "Reconcile K req s = (Ret (noRequeue, None), t)" "objs (ext t) = objs (ext s)"
    by blast
  with None show thesis by (intro ended [of t]) (auto simp: preserves_def completed_def pending_def)
next
  case (Some ob)
  with tr obtain b where b: "nn_Namespace req = ''default''" "objs (ext s) (backup_key req) = Some (OBackup b)"
    "request_for req b" "manifests_decode K b" by (auto simp: tracked_def split: kobj.splits)
  note eff = Reconcile_effect [OF env b(4,3,1,2)]
  have keep: "evolves (objs (ext s)) (objs (ext t))"
    if "agree (set (stage_keys req)) (objs (ext s)) (objs (ext t))" "dom (objs (ext s)) \<subseteq> dom (objs (ext t))" for t
    using that agreeD [OF that(1) stage_keys_other(1)] unfolding evolves_def by auto
  show thesis
  proof (cases "first_missing (objs (ext s)) (stage_keys req)")
    case (Some k)
    with eff obtain t where t: "Reconcile K req s = (Ret (requeue, None), t)"
      "agree (set (stage_keys req)) (objs (ext s)) (objs (ext t))"
      "dom (objs (ext t)) = insert k (dom (objs (ext s)))" by auto
    have "agree (insert (backup_key req) (set (stage_keys req))) (objs (ext s)) (objs (ext t))"
      using t(2) by (auto simp: agree_def)
    with requeued [OF t(1) evolves_preserves [OF keep [OF t(2)]]] t(3) missing_step [OF Some t(3)] show thesis by auto
  next
    case None
    with eff obtain u where u: "Reconcile K req s = finish K b u"
      "agree (set (stage_keys req)) (objs (ext s)) (objs (ext u))"
      "dom (objs (ext u)) = dom (objs (ext s))" by auto
    have bu: "objs (ext u) (backup_key req) = Some (OBackup b)"
      using agreeD [OF u(2) stage_keys_other(1)] b(2) by simp
    have all: "set (stage_keys req) \<subseteq> dom (objs (ext u))" using None u(3) by (simp add: none_missing)
    have same: "pending (objs (ext u)) req = pending (objs (ext s)) req" by (simp add: pending_def bu b(2))
    from finish_tracked [OF env bu b(3) all] obtain t where t:
      "finish K b u = (Ret (noRequeue, None), t)" "evolves (objs (ext u)) (objs (ext t))"
      "completed (objs (ext t)) req" "\<not> pending (objs (ext t)) req"
      "\<not> pending (objs (ext u)) req \<longrightarrow> dom (objs (ext u)) \<subseteq> dom (objs (ext t))"
      "agree (insert (backup_key req) (set (stage_keys req))) (objs (ext u)) (objs (ext t))" by blast
    have "preserves K (objs (ext s)) (objs (ext u))" by (rule evolves_preserves [OF keep]) (simp_all add: u)
    from preserves_trans [OF this evolves_preserves [OF t(2)]] show thesis
      using t u(1,3) same agree_trans [OF u(2) t(6) Un_least [OF subset_insertI order_refl]] by (intro ended [of t]) auto
  qed
qed

section \<open>The worker\<close>

text \<open>
  A release can only happen once per Backup, and between two of them every requeue adds an object that a
  request of the queue wants.
\<close>

definition waiting :: "store \<Rightarrow> NamespacedName list \<Rightarrow> nat" where
  "waiting st q = card {r \<in> set q. pending st r}"

abbreviation queue_measure :: "('w \<Rightarrow> store) \<Rightarrow> ((NamespacedName list \<times> 'w operator) \<times> NamespacedName list \<times> 'w operator) set" where
  "queue_measure objs \<equiv> measures [\<lambda>(q, s). waiting (objs (ext s)) q, \<lambda>(q, s). card (wanting (objs (ext s)) q) + length q]"

lemma waiting_mono:
  assumes "preserves K f g" "set q' \<subseteq> set q"
  shows "waiting g q' \<le> waiting f q"
  unfolding waiting_def using assms by (intro card_mono) (auto simp: preserves_def)

lemma waiting_released:
  assumes "preserves K f g" "set q' \<subseteq> set q" "req \<in> set q" "pending f req" "\<not> pending g req"
  shows "waiting g q' < waiting f q"
  unfolding waiting_def using assms by (intro psubset_card_mono) (auto simp: preserves_def)

lemma wanting_requeued:
  assumes "dom f \<subseteq> dom g" and "missing g (stage_keys req) < missing f (stage_keys req)"
  shows "card (wanting g (rest @ [req])) < card (wanting f (req # rest))"
proof (rule psubset_card_mono [OF wanting_finite psubsetI])
  show "wanting g (rest @ [req]) \<subseteq> wanting f (req # rest)"
    using assms(1) by (auto simp: wanting_def)
  show "wanting g (rest @ [req]) \<noteq> wanting f (req # rest)"
    using assms(2) wanting_at [of req "req # rest" f] wanting_at [of req "rest @ [req]" g] by auto
qed

lemma worker_completes:
  assumes env: "environment K objs" and "\<forall>req \<in> set q. tracked K (objs (ext s)) req"
  shows "\<exists>t. worker K q s = Some t \<and> preserves K (objs (ext s)) (objs (ext t)) \<and>
    (\<forall>req \<in> set q. completed (objs (ext t)) req)"
  using assms(2)
proof (induction "(q, s)" arbitrary: q s rule: wf_induct_rule [OF wf_measures [of
    "[\<lambda>(q, s). waiting (objs (ext s)) q, \<lambda>(q, s). card (wanting (objs (ext s)) q) + length q]"]])
  case (1 q s)
  let ?f = "objs (ext s)"
  show ?case
  proof (cases q)
    case Nil
    then show ?thesis by (simp add: worker.simps preserves_def)
  next
    case (Cons req rest)
    from 1(2) Cons have "tracked K ?f req" by simp
    with env show ?thesis
    proof (cases rule: Reconcile_tracked)
      case (requeued t)
      let ?q = "rest @ [req]"
      have "((?q, t), (q, s)) \<in> queue_measure objs"
        using waiting_mono [OF requeued(2), of ?q q] wanting_requeued [OF requeued(4,3), of rest]
        by (auto simp: Cons)
      moreover have "\<forall>r \<in> set ?q. tracked K (objs (ext t)) r"
        using 1(2) requeued(2) by (auto simp: Cons preserves_def)
      ultimately obtain u where "worker K ?q t = Some u" "preserves K (objs (ext t)) (objs (ext u))"
        "\<forall>r \<in> set ?q. completed (objs (ext u)) r" using 1(1) by blast
      moreover have "worker K q s = worker K ?q t"
        by (subst worker.simps) (simp add: Cons requeued(1))
      ultimately show ?thesis
        using preserves_trans [OF requeued(2)] by (auto simp: Cons)
    next
      case (ended t)
      have "((rest, t), (q, s)) \<in> queue_measure objs"
      proof (cases "pending ?f req")
        case True
        with waiting_released [OF ended(2), of rest q req] ended(4) show ?thesis by (simp add: Cons subset_insertI)
      next
        case False
        with ended(5) have "wanting (objs (ext t)) rest \<subseteq> wanting ?f q" by (auto simp: wanting_def Cons)
        then have "card (wanting (objs (ext t)) rest) \<le> card (wanting ?f q)" by (intro card_mono wanting_finite)
        moreover have "waiting (objs (ext t)) rest \<le> waiting ?f q"
          by (rule waiting_mono [OF ended(2)]) (auto simp: Cons)
        ultimately show ?thesis by (auto simp: Cons)
      qed
      moreover have "\<forall>r \<in> set rest. tracked K (objs (ext t)) r"
        using 1(2) ended(2) by (auto simp: Cons preserves_def)
      ultimately obtain u where u: "worker K rest t = Some u" "preserves K (objs (ext t)) (objs (ext u))"
        "\<forall>r \<in> set rest. completed (objs (ext u)) r" using 1(1) by blast
      moreover have "completed (objs (ext u)) req" using u(2) ended(3) by (simp add: preserves_def)
      moreover have "worker K q s = worker K rest t"
        by (subst worker.simps) (simp add: Cons ended(1))
      ultimately show ?thesis
        using preserves_trans [OF ended(2) u(2)] by (auto simp: Cons)
    qed
  qed
qed


section \<open>A Backup outside the namespace default\<close>

text \<open>A stored Backup of another namespace, whose CronJob is not where the reconciler looks for it.\<close>

definition stray :: "'w kube \<Rightarrow> store \<Rightarrow> NamespacedName \<Rightarrow> bool" where
  "stray K st req \<longleftrightarrow> nn_Namespace req \<noteq> ''default'' \<and> st (cronjob_key req) = None \<and>
     (\<exists>b. st (backup_key req) = Some (OBackup b) \<and> request_for req b \<and> manifests_decode K b)"

lemma stray_kept:
  assumes "stray K f r" "agree S f g" "cronjob_key r \<notin> S" "backup_key r \<notin> S"
  shows "stray K g r"
  using assms(1) agreeD [OF assms(2,3)] agreeD [OF assms(2,4)] by (simp add: stray_def)

lemma tracked_kept:
  assumes "tracked K f r" "agree S f g" "backup_key r \<notin> S"
  shows "tracked K g r"
  using assms(1) agreeD [OF assms(2,3)] by (simp add: tracked_def)

text \<open>The keys a reconciliation of a stray Backup, and one of a Backup of default, may touch.\<close>

lemma stray_touches:
  "backup_key r \<notin> insert (obj_key KCronJob ''default'' (''backup-'' @ nn_Name req)) (set (take 3 (stage_keys req)))"
  "nn_Namespace r \<noteq> ''default'' \<Longrightarrow>
    cronjob_key r \<notin> insert (obj_key KCronJob ''default'' (''backup-'' @ nn_Name req)) (set (take 3 (stage_keys req)))"
  by (auto simp: stage_keys_def backup_key_def obj_key_def)

lemma tracked_touches:
  assumes "nn_Namespace req = ''default''" "nn_Namespace r \<noteq> ''default''"
  shows "backup_key r \<notin> insert (backup_key req) (set (stage_keys req))"
    "cronjob_key r \<notin> insert (backup_key req) (set (stage_keys req))"
  using assms by (auto simp: stage_keys_def backup_key_def obj_key_def)

lemma Reconcile_stray:
  assumes env: "environment K objs" and st: "stray K (objs (ext s)) req"
  obtains r t where "Reconcile K req s = (Ret r, t)" "unsettled r" "stray K (objs (ext t)) req"
    "\<And>x. stray K (objs (ext s)) x \<Longrightarrow> stray K (objs (ext t)) x"
    "\<And>x. tracked K (objs (ext s)) x \<Longrightarrow> tracked K (objs (ext t)) x"
proof -
  from st obtain b where b: "nn_Namespace req \<noteq> ''default''" "objs (ext s) (cronjob_key req) = None"
    "objs (ext s) (backup_key req) = Some (OBackup b)" "request_for req b" "manifests_decode K b"
    by (auto simp: stray_def)
  from Reconcile_elsewhere [OF env b(5,4,1,2,3)] obtain r t where t: "Reconcile K req s = (Ret r, t)" "unsettled r"
    "agree (insert (obj_key KCronJob ''default'' (''backup-'' @ nn_Name req)) (set (take 3 (stage_keys req))))
      (objs (ext s)) (objs (ext t))" by blast
  have "stray K (objs (ext t)) x" if "stray K (objs (ext s)) x" for x
    by (rule stray_kept [OF that t(3)]) (use that in \<open>simp_all only: stray_def stray_touches not_False_eq_True\<close>)
  moreover have "tracked K (objs (ext t)) x" if "tracked K (objs (ext s)) x" for x
    by (rule tracked_kept [OF that t(3) stray_touches(1)])
  ultimately show thesis using that [OF t(1,2)] st by blast
qed

lemma Reconcile_tracked_stray:
  assumes env: "environment K objs" and tr: "tracked K (objs (ext s)) req"
  obtains r t where "Reconcile K req s = (Ret r, t)"
    "\<And>x. stray K (objs (ext s)) x \<Longrightarrow> stray K (objs (ext t)) x"
    "\<And>x. tracked K (objs (ext s)) x \<Longrightarrow> tracked K (objs (ext t)) x"
proof -
  have ns: "nn_Namespace req = ''default''" using tr by (simp add: tracked_def)
  obtain r t where t: "Reconcile K req s = (Ret r, t)" "preserves K (objs (ext s)) (objs (ext t))"
    "agree (insert (backup_key req) (set (stage_keys req))) (objs (ext s)) (objs (ext t))"
    using Reconcile_tracked [OF env tr] by metis
  have "stray K (objs (ext t)) x" if "stray K (objs (ext s)) x" for x
    using that by (intro stray_kept [OF that t(3)] tracked_touches [OF ns]) (simp_all add: stray_def)
  with t(1,2) show thesis by (intro that [of r t]) (auto simp: preserves_def)
qed

lemma stray_worker:
  assumes "worker K q s = Some t"
  shows "environment K objs \<Longrightarrow> \<forall>r \<in> set q. tracked K (objs (ext s)) r \<or> stray K (objs (ext s)) r \<Longrightarrow>
    \<exists>r \<in> set q. stray K (objs (ext s)) r \<Longrightarrow> False"
  using assms
proof (induction rule: worker.raw_induct [rotated, consumes 1, case_names 1])
  case (1 wk K q s t)
  show ?case
  proof (cases q)
    case Nil
    with 1(5) show False by simp
  next
    case (Cons req rest)
    let ?next = "\<lambda>res err. if r_Requeue res \<or> err \<noteq> None then rest @ [req] else rest"
    have "\<exists>res err u. Reconcile K req s = (Ret (res, err), u) \<and>
        (\<forall>r \<in> set (?next res err). tracked K (objs (ext u)) r \<or> stray K (objs (ext u)) r) \<and>
        (\<exists>r \<in> set (?next res err). stray K (objs (ext u)) r)"
    proof (cases "stray K (objs (ext s)) req")
      case True
      from Reconcile_stray [OF 1(3) True] obtain r u where "Reconcile K req s = (Ret r, u)" "unsettled r"
        "stray K (objs (ext u)) req" "\<And>x. stray K (objs (ext s)) x \<Longrightarrow> stray K (objs (ext u)) x"
        "\<And>x. tracked K (objs (ext s)) x \<Longrightarrow> tracked K (objs (ext u)) x" by blast
      then show ?thesis
        using 1(4) Cons by (intro exI [of _ "fst r"] exI [of _ "snd r"] exI [of _ u]) (auto simp: unsettled_def)
    next
      case False
      with 1(4) Cons have "tracked K (objs (ext s)) req" by auto
      from Reconcile_tracked_stray [OF 1(3) this] obtain r u where "Reconcile K req s = (Ret r, u)"
        "\<And>x. stray K (objs (ext s)) x \<Longrightarrow> stray K (objs (ext u)) x"
        "\<And>x. tracked K (objs (ext s)) x \<Longrightarrow> tracked K (objs (ext u)) x" by blast
      then show ?thesis
        using 1(4,5) Cons False by (intro exI [of _ "fst r"] exI [of _ "snd r"] exI [of _ u]) auto
    qed
    then obtain res err u where u: "Reconcile K req s = (Ret (res, err), u)"
      "\<forall>r \<in> set (?next res err). tracked K (objs (ext u)) r \<or> stray K (objs (ext u)) r"
      "\<exists>r \<in> set (?next res err). stray K (objs (ext u)) r" by blast
    have "wk K (?next res err) u = Some t" using 1(2) by (simp add: Cons u(1))
    from 1(1) [OF this 1(3) u(2,3)] show False .
  qed
qed

text \<open>
  C11. One Backup in any namespace other than \<^verbatim>\<open>default\<close> keeps the worker busy for ever: the reconciler looks for its CronJob in
  its namespace and creates it in \<^verbatim>\<open>default\<close>, where the manifest puts it, so every reply for it is a requeue or an error. A queue
  with a request for it never empties, whatever Backups of the namespace default are in the queue with it, and however often it is reconciled the
  Backup is not touched: it never gets the finalizer.
\<close>

theorem stray_backup_blocks_queue:
  assumes env: "environment K objs" and md: "manifests_decode K b" and rq: "request_for req b"
    and ns: "nn_Namespace req \<noteq> ''default''"
    and none: "objs (ext s) (obj_key KCronJob (nn_Namespace req) (''backup-'' @ nn_Name req)) = None"
    and b: "objs (ext s) (backup_key req) = Some (OBackup b)"
    and q: "req \<in> set q" "\<forall>r \<in> set q. tracked K (objs (ext s)) r \<or> stray K (objs (ext s)) r"
  shows "worker K q s = None \<and>
    (\<exists>rs t. runs n K req s = (Ret rs, t) \<and> list_all unsettled rs \<and> objs (ext t) (backup_key req) = Some (OBackup b))"
proof
  have "stray K (objs (ext s)) req" using md rq ns none b by (simp add: stray_def)
  with q(1) have "\<exists>r \<in> set q. stray K (objs (ext s)) r" by blast
  with stray_worker [OF _ env q(2)] show "worker K q s = None" by (cases "worker K q s") auto
  from backup_never_settles_elsewhere [OF env md rq ns none b, of n]
  show "\<exists>rs t. runs n K req s = (Ret rs, t) \<and> list_all unsettled rs \<and> objs (ext t) (backup_key req) = Some (OBackup b)"
    by blast
qed

theorem stray_backup_blocks_queue_witness:
  "let b = sample_backup ''default'' None []; b' = sample_backup ''prod'' None [];
       s = \<lparr>ext = [backup_key (sample_request ''default'') \<mapsto> OBackup b, backup_key (sample_request ''prod'') \<mapsto> OBackup b'], calls = []\<rparr>
   in worker mem_kube [sample_request ''default'', sample_request ''prod''] s = None"
proof -
  let ?b = "sample_backup ''default'' None []" and ?b' = "sample_backup ''prod'' None []"
  let ?r = "sample_request ''default''" and ?r' = "sample_request ''prod''"
  let ?s = "\<lparr>ext = [backup_key ?r \<mapsto> OBackup ?b, backup_key ?r' \<mapsto> OBackup ?b'], calls = []\<rparr> :: store operator"
  note rq = sample_request_for [OF default_one_line(1), of None "[]"] and rq' = sample_request_for [OF default_one_line(2), of None "[]"]
  have ne: "backup_key ?r \<noteq> backup_key ?r'" "nn_Namespace ?r = ''default''" "nn_Namespace ?r' \<noteq> ''default''"
    by (simp_all add: backup_keys sample_request_def)
  have none: "ext ?s (cronjob_key ?r') = None" by (simp add: backup_key_def obj_key_def)
  have "tracked mem_kube (ext ?s) ?r" using rq ne mem_manifests_decode by (simp add: tracked_def)
  moreover have "stray mem_kube (ext ?s) ?r'" using rq' ne none mem_manifests_decode by (simp add: stray_def)
  ultimately have "worker mem_kube [?r, ?r'] ?s = None"
    using stray_backup_blocks_queue [where objs = "\<lambda>w. w" and s = ?s and q = "[?r, ?r']",
        OF mem_environment mem_manifests_decode rq' ne(3) none] by simp
  then show ?thesis unfolding Let_def .
qed

end
