(* ===== verification/Quiet.thy ===== *)
theory Quiet
  imports Interference Deletions
begin

text \<open>
  The two halves together: while others act nothing they write is lost (\<open>Interference\<close>), and alone with a server that keeps its promises
  the worker gets everything done (\<open>WorkQueue\<close>, \<open>Deletions\<close>). Once the others rest, the worker therefore brings the
  cluster to what the users wrote last. Rest is a predicate on the outside world that the operator's calls preserve and under which the server
  answers as one that keeps its promises; a run from a quiet world is the same run against either.
\<close>

section \<open>A server at rest\<close>

definition agrees :: "('w \<Rightarrow> bool) \<Rightarrow> ('w \<Rightarrow> 'a \<times> 'w) \<Rightarrow> ('w \<Rightarrow> 'a \<times> 'w) \<Rightarrow> bool" where
  "agrees Q g g' \<longleftrightarrow> (\<forall>w. Q w \<longrightarrow> g w = g' w \<and> Q (snd (g w)))"

text \<open>While \<open>Q\<close> holds \<open>K\<close> answers as \<open>K'\<close> does; the helpers that reach no server are the same.\<close>

definition stands_in :: "('w \<Rightarrow> bool) \<Rightarrow> 'w kube \<Rightarrow> 'w kube \<Rightarrow> bool" where
  "stands_in Q K K' \<longleftrightarrow>
     K = K'\<lparr>k_GetBackup := k_GetBackup K, k_Get := k_Get K, k_Create := k_Create K, k_Update := k_Update K,
       k_CRBNewOrDie := k_CRBNewOrDie K, k_CRBDelete := k_CRBDelete K\<rparr> \<and>
     (\<forall>n. agrees Q (k_GetBackup K n) (k_GetBackup K' n)) \<and>
     (\<forall>kd n. agrees Q (k_Get K kd n) (k_Get K' kd n)) \<and>
     (\<forall>ob. kind_of ob \<noteq> KBackup \<longrightarrow> agrees Q (k_Create K ob) (k_Create K' ob)) \<and>
     (\<forall>ob. agrees Q (k_Update K ob) (k_Update K' ob)) \<and>
     agrees Q (k_CRBNewOrDie K) (k_CRBNewOrDie K') \<and>
     (\<forall>name. agrees Q (k_CRBDelete K name) (k_CRBDelete K' name))"

lemma stands_in_calls:
  assumes "stands_in Q K K'"
  shows "agrees Q (k_GetBackup K n) (k_GetBackup K' n)" "agrees Q (k_Get K kd n) (k_Get K' kd n)"
    "kind_of ob \<noteq> KBackup \<Longrightarrow> agrees Q (k_Create K ob) (k_Create K' ob)"
    "agrees Q (k_Update K ob') (k_Update K' ob')" "agrees Q (k_CRBNewOrDie K) (k_CRBNewOrDie K')"
    "agrees Q (k_CRBDelete K name) (k_CRBDelete K' name)"
  using assms by (simp_all add: stands_in_def)

lemma stands_in_helpers:
  assumes "stands_in Q K K'"
  shows "k_IsNotFound K = k_IsNotFound K'" "k_IgnoreNotFound K = k_IgnoreNotFound K'" "k_Wrapf K = k_Wrapf K'"
    "k_SetControllerReference K = k_SetControllerReference K'" "k_LabelsSet K = k_LabelsSet K'"
    "k_UnmarshalClusterRole K = k_UnmarshalClusterRole K'"
    "k_UnmarshalClusterRoleBinding K = k_UnmarshalClusterRoleBinding K'" "k_UnmarshalCronJob K = k_UnmarshalCronJob K'"
    "k_IsZero K = k_IsZero K'" "k_ContainsFinalizer K = k_ContainsFinalizer K'" "k_AddFinalizer K = k_AddFinalizer K'"
    "k_RemoveFinalizer K = k_RemoveFinalizer K'" "k_MapOrder K = k_MapOrder K'"
proof -
  from assms have "K = K'\<lparr>k_GetBackup := k_GetBackup K, k_Get := k_Get K, k_Create := k_Create K, k_Update := k_Update K,
      k_CRBNewOrDie := k_CRBNewOrDie K, k_CRBDelete := k_CRBDelete K\<rparr>" by (simp add: stands_in_def)
  note eq = arg_cong [OF this]
  show "k_IsNotFound K = k_IsNotFound K'" using eq [of k_IsNotFound] by simp
  show "k_IgnoreNotFound K = k_IgnoreNotFound K'" using eq [of k_IgnoreNotFound] by simp
  show "k_Wrapf K = k_Wrapf K'" using eq [of k_Wrapf] by simp
  show "k_SetControllerReference K = k_SetControllerReference K'" using eq [of k_SetControllerReference] by simp
  show "k_LabelsSet K = k_LabelsSet K'" using eq [of k_LabelsSet] by simp
  show "k_UnmarshalClusterRole K = k_UnmarshalClusterRole K'" using eq [of k_UnmarshalClusterRole] by simp
  show "k_UnmarshalClusterRoleBinding K = k_UnmarshalClusterRoleBinding K'"
    using eq [of k_UnmarshalClusterRoleBinding] by simp
  show "k_UnmarshalCronJob K = k_UnmarshalCronJob K'" using eq [of k_UnmarshalCronJob] by simp
  show "k_IsZero K = k_IsZero K'" using eq [of k_IsZero] by simp
  show "k_ContainsFinalizer K = k_ContainsFinalizer K'" using eq [of k_ContainsFinalizer] by simp
  show "k_AddFinalizer K = k_AddFinalizer K'" using eq [of k_AddFinalizer] by simp
  show "k_RemoveFinalizer K = k_RemoveFinalizer K'" using eq [of k_RemoveFinalizer] by simp
  show "k_MapOrder K = k_MapOrder K'" using eq [of k_MapOrder] by simp
qed

section \<open>Equal runs\<close>

definition same_run :: "('w \<Rightarrow> bool) \<Rightarrow> ('w operator, 'a) go \<Rightarrow> ('w operator, 'a) go \<Rightarrow> bool" where
  "same_run Q m m' \<longleftrightarrow> (\<forall>s. Q (ext s) \<longrightarrow> m s = m' s \<and> Q (ext (snd (m s))))"

named_theorems equal_runs \<open>two runs that agree while the server is at rest\<close>

lemma same_runD:
  fixes s t :: "'w operator"
  assumes "same_run Q m m'" "Q (ext s)" "m' s = (r, t)"
  shows "m s = (r, t) \<and> Q (ext t)"
proof -
  from assms(1,2) have "m s = m' s" "Q (ext (snd (m s)))" by (auto simp only: same_run_def)
  with assms(3) show ?thesis by simp
qed

lemma same_ret [equal_runs]: "same_run Q (ret a) (ret a)"
  and same_halting [equal_runs]: "same_run Q (halting h) (halting h)"
  by (simp_all add: same_run_def go_run)

lemma same_bind [equal_runs]:
  fixes Q :: "'w \<Rightarrow> bool"
  assumes "same_run Q m m'" and "\<And>a. same_run Q (f a) (f' a)"
  shows "same_run Q (gobind m f) (gobind m' f')"
  unfolding same_run_def
proof (intro allI impI)
  fix s :: "'w operator"
  assume "Q (ext s)"
  moreover obtain r t where t: "m' s = (r, t)" by force
  ultimately have "m s = (r, t)" "Q (ext t)" using same_runD [OF assms(1)] by blast+
  moreover have "f' a t = f a t" "Q (ext (snd (f a t)))" for a
    using assms(2) \<open>Q (ext t)\<close> unfolding same_run_def by metis+
  ultimately show "gobind m f s = gobind m' f' s \<and> Q (ext (snd (gobind m f s)))"
    using t by (cases r) (simp_all add: go_run)
qed

lemma same_call: "agrees Q g g' \<Longrightarrow> same_run Q (call_ext ev g) (call_ext ev g')"
  unfolding agrees_def same_run_def call_ext_run by simp metis

lemma same_chain:
  assumes "list_all2 (same_run Q) sts sts'" and "same_run Q rest rest'"
  shows "same_run Q (foldr or_else sts rest) (foldr or_else sts' rest')"
  using assms(1)
  by (induction rule: list_all2_induct)
    (auto simp: or_else_def assms(2) intro!: equal_runs split: option.split)

section \<open>Reconcile against a server at rest\<close>

lemma same_server:
  assumes "stands_in Q K K'"
  shows "same_run Q (rGetBackup K n) (rGetBackup K' n)" "same_run Q (rGet K kd n) (rGet K' kd n)"
    "kind_of ob \<noteq> KBackup \<Longrightarrow> same_run Q (rCreate K ob) (rCreate K' ob)"
    "same_run Q (rUpdate K ob') (rUpdate K' ob')"
    "same_run Q (call_ext CCRBNewOrDie (k_CRBNewOrDie K)) (call_ext CCRBNewOrDie (k_CRBNewOrDie K'))"
    "same_run Q (call_ext ev (k_CRBDelete K name)) (call_ext ev (k_CRBDelete K' name))"
  unfolding client_defs by (auto intro: same_call stands_in_calls [OF assms])

lemma same_ensure:
  assumes "stands_in Q K K'" "kind_of ob \<noteq> KBackup"
  shows "same_run Q (ensure checked K kd n ob) (ensure checked K' kd n ob)"
  unfolding ensure_def stands_in_helpers [OF assms(1)]
  by (auto intro!: equal_runs same_server assms split: option.split)

lemma same_constructors:
  assumes "stands_in Q K K'"
  shows "serviceAccountForBackup K = serviceAccountForBackup K'" "clusterRoleForBackup K = clusterRoleForBackup K'"
    "clusterRoleBindingForBackup K = clusterRoleBindingForBackup K'" "cronJobForBackup K = cronJobForBackup K'"
proof -
  note h = stands_in_helpers [OF assms]
  have "set_labels K ps m = set_labels K' ps m" for ps m
    by (induction ps arbitrary: m) (auto simp: h split: sum.split)
  then have "owned_and_labelled K = owned_and_labelled K'"
    by (simp add: fun_eq_iff owned_and_labelled_def SetRecommendedLabels_def h cong: map_option_cong)
  then show "serviceAccountForBackup K = serviceAccountForBackup K'" "clusterRoleForBackup K = clusterRoleForBackup K'"
    "clusterRoleBindingForBackup K = clusterRoleBindingForBackup K'" "cronJobForBackup K = cronJobForBackup K'"
    by (auto simp: serviceAccountForBackup_def clusterRoleForBackup_def clusterRoleBindingForBackup_def
        cronJobForBackup_def h intro!: ext cong: sum.case_cong)
qed

lemma same_stages:
  assumes "stands_in Q K K'"
  shows "list_all2 (same_run Q) (stages K req b) (stages K' req b)"
  unfolding stages_def reconcileServiceAccount_def reconcileClusterRole_def reconcileClusterRoleBinding_def
    reconcileCronJob_def same_constructors [OF assms]
  by (auto intro!: equal_runs same_ensure [OF assms] split: outcome.split)

lemma same_finish:
  assumes "stands_in Q K K'"
  shows "same_run Q (finish K b) (finish K' b)"
  unfolding finish_def handleFinalizer_def deleteExternalResources_def Let_def stands_in_helpers [OF assms]
  by (auto intro!: equal_runs same_server [OF assms] split: option.split)

lemma same_Reconcile:
  assumes "stands_in Q K K'"
  shows "same_run Q (Reconcile K req) (Reconcile K' req)"
  unfolding Reconcile_chain stands_in_helpers [OF assms]
  by (auto intro!: equal_runs same_server [OF assms] same_chain same_stages [OF assms] same_finish [OF assms]
      split: sum.split)

text \<open>A run of the worker that ends is the same run, and it is one of the runs of the fleet.\<close>

lemma same_worker:
  assumes "worker K' q s = Some t"
  shows "stands_in Q K K' \<Longrightarrow> Q (ext s) \<Longrightarrow> fleet K view s \<Longrightarrow>
    worker K q s = Some t \<and> Q (ext t) \<and> fleet K view t"
  using assms
proof (induction rule: worker.raw_induct [rotated, consumes 1, case_names 1])
  case (1 wk K' q s t)
  show ?case
  proof (cases q)
    case Nil
    with 1 show ?thesis by (simp add: worker.simps)
  next
    case (Cons req rest)
    with 1(2) obtain res err u where u: "Reconcile K' req s = (Ret (res, err), u)"
      "wk K' (if r_Requeue res \<or> err \<noteq> None then rest @ [req] else rest) u = Some t"
      by (auto split: prod.splits outcome.splits)
    from same_runD [OF same_Reconcile [OF 1(3)] 1(4) u(1)]
    have r: "Reconcile K req s = (Ret (res, err), u)" "Q (ext u)" by simp_all
    moreover have "fleet K view u" using fleet.reconcile [OF 1(5), of req] r(1) by simp
    ultimately have "worker K (if r_Requeue res \<or> err \<noteq> None then rest @ [req] else rest) u = Some t \<and>
        Q (ext t) \<and> fleet K view t"
      using 1(1) [OF u(2) 1(3)] by blast
    then show ?thesis by (subst worker.simps) (simp add: Cons r(1))
  qed
qed

section \<open>What the users want\<close>

text \<open>
  A request the worker can serve: namespace default and, if its users want the Backup, a source, a name in one line and manifests that decode. Served, the
  Backup is gone if its users want none or want it deleted and hold no finalizer; otherwise it is as they wrote it last, and a live
  one carries the operator's finalizer and has its ServiceAccount, ClusterRole and CronJob, a dying one is released.
\<close>

definition servable :: "'w kube \<Rightarrow> (NamespacedName \<rightharpoonup> Backup) \<Rightarrow> NamespacedName \<Rightarrow> bool" where
  "servable K want req \<longleftrightarrow> nn_Namespace req = ''default'' \<and>
     (case want req of None \<Rightarrow> True | Some e \<Rightarrow> request_for req e \<and> manifests_decode K e)"

definition served :: "store \<Rightarrow> (NamespacedName \<rightharpoonup> Backup) \<Rightarrow> NamespacedName \<Rightarrow> bool" where
  "served st want req \<longleftrightarrow>
     (case st (backup_key req) of
        None \<Rightarrow> (case want req of None \<Rightarrow> True | Some e \<Rightarrow> doomed e)
      | Some (OBackup b) \<Rightarrow> want req = Some (essence b) \<and> \<not> doomed (essence b) \<and>
          (if live b then operated b \<and> own_keys req \<subseteq> dom st else \<not> operated b)
      | Some _ \<Rightarrow> False)"

lemma essence_with_finalizers:
  "essence b = with_finalizers [] (filter (\<lambda>f. f \<noteq> DefaultBackupFinalizerName) (om_Finalizers (b_ObjectMeta b))) b"
  by (simp add: essence_def with_finalizers_def)

lemma essence_same:
  "live (essence b) = live b" "request_for r (essence b) = request_for r b"
  "manifests_decode K (essence b) = manifests_decode K b"
  by (simp_all add: essence_with_finalizers with_finalizers_same)

lemma doomed_essence:
  "doomed (essence b) \<longleftrightarrow> \<not> live b \<and> set (om_Finalizers (b_ObjectMeta b)) \<subseteq> {DefaultBackupFinalizerName}"
  by (auto simp: doomed_def live_def essence_def at_version_def filter_empty_conv)

lemma servable_tracked:
  assumes "as_wanted c req" "servable K (cl_want c) req"
  shows "tracked K (cl_objects c) req"
  using assms
  by (auto simp: as_wanted_def servable_def tracked_def essence_same split: option.splits kobj.splits)

lemma completed_served:
  assumes "as_wanted c req" "completed (cl_objects c) req"
  shows "served (cl_objects c) (cl_want c) req"
proof (cases "cl_objects c (backup_key req)")
  case None
  with assms(1) show ?thesis by (auto simp: as_wanted_def served_def split: option.split)
next
  case (Some ob)
  with as_wanted_stored [OF assms(1)] obtain b where b: "cl_objects c (backup_key req) = Some (OBackup b)"
    "cl_want c req = Some (essence b)" "\<not> released (OBackup b)"
    using assms(1) by (auto simp: as_wanted_def split: kobj.splits)
  moreover have "\<not> doomed (essence b)"
  proof
    assume "doomed (essence b)"
    then have d: "\<not> live b" "set (om_Finalizers (b_ObjectMeta b)) \<subseteq> {DefaultBackupFinalizerName}"
      by (simp_all add: doomed_essence)
    with assms(2) b(1) have "\<not> operated b" by (simp add: completed_def)
    with d(2) have "om_Finalizers (b_ObjectMeta b) = []" by (auto simp: operated_def subset_singleton_iff)
    with b(3) d(1) show False by (simp add: live_def)
  qed
  ultimately show ?thesis using assms(2) by (simp add: served_def completed_def)
qed

text \<open>
  C2. Once the others rest, the worker brings the Backups of namespace default to what the users wrote last. Start from any state the operator and
  everybody else can have reached together, with any requests in the queue that are for namespace default and, where the users
  want the Backup, for one that has a source, has its name in one line and has manifests that decode (\<open>servable\<close>; with a Backup of another namespace the
  worker never returns, as C11 shows). If from then on nobody else writes, reads
  are current and calls succeed, the worker empties the queue, and every request is served: a Backup the users want
  is stored as they wrote it last, its edits included, registered, with its ServiceAccount, ClusterRole and CronJob there, and one they want
  deleted is gone unless they hold a finalizer.
\<close>

theorem settles_once_quiet:
  assumes "versioned_server K view" and "finalizer_helpers K" and "fleet K view s"
    and "environment K' objs" and "stands_in Q K K'"
    and "\<forall>w. Q w \<longrightarrow> cl_objects (view w) = objs w \<and> cl_want (view w) = want" and "Q (ext s)"
    and "\<forall>req \<in> set q. servable K want req"
  shows "\<exists>t. worker K q s = Some t \<and> (\<forall>req \<in> set q. served (cl_objects (view (ext t))) want req)"
proof -
  have faith: "as_wanted (view (ext u)) req" if "fleet K view u" for u req
    using fleet_faithful [OF assms(1,2) that] by (simp add: faithful_def)
  have "manifests_decode K' b = manifests_decode K b" for b
    by (simp add: manifests_decode_def stands_in_helpers [OF assms(5)] cong: option.case_cong)
  then have same: "tracked K' st req = tracked K st req" for st req
    by (simp add: tracked_def split: option.split kobj.split)
  have "\<forall>req \<in> set q. tracked K' (objs (ext s)) req"
    unfolding same using assms(6-8) servable_tracked [OF faith [OF assms(3)], of K] by auto
  from worker_completes [OF assms(4) this] obtain t where
    t: "worker K' q s = Some t" "\<forall>req \<in> set q. completed (objs (ext t)) req" by blast
  from same_worker [OF t(1) assms(5,7,3)] have u: "worker K q s = Some t" "Q (ext t)" "fleet K view t" by blast+
  from u(2) assms(6) have "objs (ext t) = cl_objects (view (ext t))" "cl_want (view (ext t)) = want" by auto
  with t(2) completed_served [OF faith [OF u(3)]] u(1) show ?thesis by auto
qed


section \<open>The server in memory at rest\<close>

definition still :: "(store \<Rightarrow> 'a \<times> store) \<Rightarrow> shared \<Rightarrow> 'a \<times> shared" where
  "still g w = (let (r, st) = g (sh_objects w) in (r, w\<lparr>sh_objects := st\<rparr>))"

definition still_update :: "kobj \<Rightarrow> shared \<Rightarrow> goerr option \<times> shared" where
  "still_update ob w =
     (case ob of
        OBackup b \<Rightarrow>
          (case sh_objects w (key_of ob) of
            None \<Rightarrow> (Some notFound, w)
          | Some x \<Rightarrow> if version ob = version x then (None, put_new b w) else (Some conflict, w))
      | _ \<Rightarrow> still (k_Update mem_kube ob) w)"

definition still_kube :: "shared kube" where
  "still_kube = busy_kube\<lparr>
     k_GetBackup := (\<lambda>n. still (k_GetBackup mem_kube n)),
     k_Get := (\<lambda>kd n. still (k_Get mem_kube kd n)),
     k_Create := (\<lambda>ob. still (k_Create mem_kube ob)),
     k_Update := still_update,
     k_CRBNewOrDie := still (k_CRBNewOrDie mem_kube),
     k_CRBDelete := (\<lambda>name. still (k_CRBDelete mem_kube name))\<rparr>"

text \<open>The script has run out, and the cache knows every stored Backup.\<close>

definition logged :: "store \<Rightarrow> Backup list \<Rightarrow> bool" where
  "logged st bs \<longleftrightarrow> (\<forall>k b. st k = Some (OBackup b) \<longrightarrow> b \<in> set bs)"

definition script_over :: "(NamespacedName \<rightharpoonup> Backup) \<Rightarrow> shared \<Rightarrow> bool" where
  "script_over want w \<longleftrightarrow> sh_script w = [] \<and> sh_want w = want \<and> logged (sh_objects w) (sh_log w)"

lemma loggedD: "logged st bs \<Longrightarrow> st k = Some (OBackup b) \<Longrightarrow> b \<in> set bs"
  unfolding logged_def by blast

lemma logged_kept:
  "logged st bs \<Longrightarrow> (\<And>k b. st' k = Some (OBackup b) \<Longrightarrow> st k = Some (OBackup b)) \<Longrightarrow> logged st' bs"
  unfolding logged_def by blast

lemma logged_put: "logged (sh_objects w) (sh_log w) \<Longrightarrow> logged (sh_objects (put_new b w)) (sh_log (put_new b w))"
  unfolding logged_def by (auto simp: put_new_def split: if_splits)

lemma still_run:
  "fst (still g w) = fst (g (sh_objects w))" "sh_objects (snd (still g w)) = snd (g (sh_objects w))"
  "sh_log (snd (still g w)) = sh_log w" "sh_want (snd (still g w)) = sh_want w" "sh_script (snd (still g w)) = sh_script w"
  by (simp_all add: still_def split: prod.split)

lemma still_objects: "sh_script w = [] \<Longrightarrow> on_objects g w = still g w"
  by (simp add: on_objects_def still_def pause_def)

lemma put_new_objects:
  "sh_objects (put_new b w) = (sh_objects w)(key_of (OBackup b) :=
     if released (OBackup b) then None else Some (OBackup (at_version (next_version (sh_log w)) b)))"
  by (simp add: put_new_def)

lemma still_fields:
  "k_GetBackup still_kube n = still (k_GetBackup mem_kube n)" "k_Get still_kube kd n = still (k_Get mem_kube kd n)"
  "k_Create still_kube ob = still (k_Create mem_kube ob)" "k_Update still_kube = still_update"
  "k_CRBNewOrDie still_kube = still (k_CRBNewOrDie mem_kube)"
  "k_CRBDelete still_kube name = still (k_CRBDelete mem_kube name)" "k_IsNotFound still_kube = k_IsNotFound mem_kube"
  by (simp_all add: still_kube_def busy_kube_def)

lemma still_environment: "environment still_kube sh_objects"
proof -
  have mem: "get_law mem_kube (\<lambda>w. w)" "get_backup_law mem_kube (\<lambda>w. w)" "create_law mem_kube (\<lambda>w. w)"
    "delete_law mem_kube (\<lambda>w. w)" "new_law mem_kube (\<lambda>w. w)" "update_law mem_kube (\<lambda>w. w)"
    using mem_api_server by (simp_all add: api_server_def)
  have "update_law still_kube sh_objects"
    unfolding update_law_def
  proof (intro allI)
    fix ob :: kobj and w :: shared
    show "case sh_objects w (key_of ob) of
       None \<Rightarrow> sh_objects (snd (k_Update still_kube ob w)) = sh_objects w \<and>
         (\<exists>e. fst (k_Update still_kube ob w) = Some e \<and> k_IsNotFound still_kube e)
     | Some x \<Rightarrow>
         if current ob x then
           fst (k_Update still_kube ob w) = None \<and>
           (if released ob then sh_objects (snd (k_Update still_kube ob w)) = (sh_objects w)(key_of ob := None)
            else \<exists>ob'. stored ob ob' \<and> sh_objects (snd (k_Update still_kube ob w)) = (sh_objects w)(key_of ob \<mapsto> ob'))
         else sh_objects (snd (k_Update still_kube ob w)) = sh_objects w \<and>
           (\<exists>e. fst (k_Update still_kube ob w) = Some e \<and> \<not> k_IsNotFound still_kube e)"
    proof (cases "kind_of ob = KBackup")
      case True
      then obtain b where "ob = OBackup b" by (cases ob) auto
      then show ?thesis
        by (auto simp: still_fields still_update_def mem_kube_def current_def put_new_objects
            stored_def notFound_def conflict_def
            intro!: exI [of _ "OBackup (at_version (next_version (sh_log w)) b)"] split: option.split)
    next
      case False
      then have u: "still_update ob w = still (k_Update mem_kube ob) w"
        by (cases ob) (simp_all add: still_update_def)
      show ?thesis
        unfolding still_fields u still_run
        using mem(6) [unfolded update_law_def, THEN spec, THEN spec, of ob "sh_objects w"] .
    qed
  qed
  moreover have "get_law still_kube sh_objects" "get_backup_law still_kube sh_objects" "create_law still_kube sh_objects"
    "delete_law still_kube sh_objects" "new_law still_kube sh_objects"
    using mem(1-5) unfolding get_law_def get_backup_law_def create_law_def delete_law_def new_law_def still_fields still_run
    by blast+
  ultimately have "api_server still_kube sh_objects" by (simp add: api_server_def)
  moreover have "metadata_helpers still_kube" "api_errors still_kube" "finalizer_helpers still_kube"
    using mem_helpers(1-3)
    by (auto simp: metadata_helpers_def api_errors_def finalizer_helpers_def still_kube_def busy_kube_def)
  ultimately show ?thesis by (simp add: environment_def)
qed

lemma mem_backups:
  "snd (k_GetBackup mem_kube n st) = st" "snd (k_Get mem_kube kd n st) = st" "snd (k_CRBNewOrDie mem_kube st) = st"
  "kind_of ob \<noteq> KBackup \<Longrightarrow> snd (k_Create mem_kube ob st) k = Some (OBackup b) \<Longrightarrow> st k = Some (OBackup b)"
  "kind_of ob \<noteq> KBackup \<Longrightarrow> snd (k_Update mem_kube ob st) k = Some (OBackup b) \<Longrightarrow> st k = Some (OBackup b)"
  "snd (k_CRBDelete mem_kube name st) k = Some (OBackup b) \<Longrightarrow> st k = Some (OBackup b)"
  by (cases ob; auto simp: mem_kube_def split: option.splits if_splits)+

lemma still_agrees:
  assumes "\<And>st k b. snd (g st) k = Some (OBackup b) \<Longrightarrow> st k = Some (OBackup b)"
  shows "agrees (script_over want) (on_objects g) (still g)"
  using logged_kept assms by (auto simp: agrees_def script_over_def still_objects still_run simp del: split_paired_All)

lemma still_update_agrees: "agrees (script_over want) (update_shared ob) (still_update ob)"
proof (cases "kind_of ob = KBackup")
  case True
  then obtain b where ob: "ob = OBackup b" by (cases ob) auto
  show ?thesis
    unfolding agrees_def
  proof (intro allI impI)
    fix w
    assume w: "script_over want w"
    then have "logged (sh_objects (put_new b w)) (sh_log (put_new b w))" by (intro logged_put) (simp add: script_over_def)
    then have "script_over want (put_new b w)" using w by (simp add: script_over_def) (simp add: put_new_def)
    with w show "update_shared ob w = still_update ob w \<and> script_over want (snd (update_shared ob w))"
      by (simp add: ob update_shared_def still_update_def pause_def [of w] script_over_def [of want w] split: option.split)
  qed
next
  case False
  then have "update_shared ob = on_objects (k_Update mem_kube ob)" "still_update ob = still (k_Update mem_kube ob)"
    by (cases ob; auto simp: update_shared_def still_update_def)+
  moreover have "agrees (script_over want) (on_objects (k_Update mem_kube ob)) (still (k_Update mem_kube ob))"
    by (rule still_agrees) (rule mem_backups(5) [OF False])
  ultimately show ?thesis by simp
qed

lemma still_stands_in: "stands_in (script_over want) busy_kube still_kube"
proof -
  have "cached n w = still (k_GetBackup mem_kube n) w" if "script_over want w" for n w
    using that loggedD [of "sh_objects w" "sh_log w" "backup_key n"]
    by (auto simp: cached_def still_def pause_def script_over_def mem_kube_def backup_key_def split: option.split kobj.split)
  moreover have "script_over want (snd (still (k_GetBackup mem_kube n) w))" if "script_over want w" for n w
    using that by (simp add: script_over_def still_run mem_backups(1))
  ultimately have "agrees (script_over want) (cached n) (still (k_GetBackup mem_kube n))" for n
    by (simp add: agrees_def)
  moreover have "agrees (script_over want) (on_objects (k_Get mem_kube kd n)) (still (k_Get mem_kube kd n))"
    "agrees (script_over want) (on_objects (k_CRBNewOrDie mem_kube)) (still (k_CRBNewOrDie mem_kube))" for kd n
    by (rule still_agrees; simp add: mem_backups(2,3))+
  moreover have "agrees (script_over want) (on_objects (k_Create mem_kube ob)) (still (k_Create mem_kube ob))"
    if "kind_of ob \<noteq> KBackup" for ob
    by (rule still_agrees) (rule mem_backups(4) [OF that])
  moreover have "agrees (script_over want) (on_objects (k_CRBDelete mem_kube name)) (still (k_CRBDelete mem_kube name))" for name
    by (rule still_agrees) (rule mem_backups(6))
  ultimately show ?thesis
    using still_update_agrees by (simp add: stands_in_def still_kube_def busy_kube_def)
qed

text \<open>A user edits the schedule while a first reconciliation is at work; the worker then serves the edited Backup.\<close>

theorem settles_once_quiet_witness:
  "\<exists>t b. worker busy_kube [sample_request ''default'']
      (snd (Reconcile busy_kube (sample_request ''default'') (shared_world [Writes edited_backup]))) = Some t \<and>
    sh_objects (ext t) (backup_key (sample_request ''default'')) = Some (OBackup b) \<and>
    essence b = essence edited_backup \<and> operated b \<and> own_keys (sample_request ''default'') \<subseteq> dom (sh_objects (ext t))"
proof -
  let ?n = "sample_request ''default''" and ?s = "shared_world [Writes edited_backup]"
  let ?w = "[?n \<mapsto> essence edited_backup]"
  have nm: "name_of edited_backup = ?n" "key_of (OBackup edited_backup) = backup_key ?n"
    using sample_key [of "''default''" None "[]"] by (simp_all add: edited_backup_def name_of_def key_of_def)
  let ?Q = "script_over ?w"
  define u where "u = pause (ext ?s)"
  have u: "?Q u"
    by (auto simp: u_def script_over_def logged_def pause_def shared_world_def put_new_def nm Let_def split: if_splits)
  obtain cs where run: "rGetBackup busy_kube ?n ?s = (Ret (Inr (sample_backup ''default'' None [])), \<lparr>ext = u, calls = cs\<rparr>)"
    by (simp add: rGetBackup_def call_ext_run busy_kube_def cached_def u_def) (simp add: shared_world_def Let_def)
  let ?b = "sample_backup ''default'' None []"
  let ?rest = "\<lambda>K. foldr or_else (stages K ?n ?b) (finish K ?b)"
  have "same_run ?Q (?rest busy_kube) (?rest still_kube)"
    by (rule same_chain [OF same_stages same_finish]) (rule still_stands_in)+
  then have "?Q (ext (snd (?rest busy_kube \<lparr>ext = u, calls = cs\<rparr>)))"
    using u unfolding same_run_def by (metis world.select_convs(1))
  then have q: "?Q (ext (snd (Reconcile busy_kube ?n ?s)))"
    by (simp add: Reconcile_chain gobind_run run)
  have rq: "request_for ?n edited_backup" "live edited_backup"
    using sample_request_for [OF default_one_line(1), of None "[]"]
    by (simp_all add: request_for_def edited_backup_def live_def sample_backup_def sample_request_def emptyMeta_def
        sample_spec_def one_line_def)
  moreover have "manifests_decode busy_kube edited_backup"
    using mem_manifests_decode [of edited_backup] by (simp add: manifests_decode_def busy_kube_def cong: option.case_cong)
  ultimately have sv: "servable busy_kube ?w ?n"
    by (simp add: servable_def essence_same) (simp add: sample_request_def)
  have "fleet busy_kube see (snd (Reconcile busy_kube ?n ?s))"
    by (intro fleet.reconcile fleet.start shared_world_faithful)
  moreover have "\<forall>w. ?Q w \<longrightarrow> cl_objects (see w) = sh_objects w \<and> cl_want (see w) = ?w"
    by (simp add: see_shared script_over_def)
  moreover have "\<forall>r \<in> set [?n]. servable busy_kube ?w r" using sv by simp
  ultimately have "\<exists>t. worker busy_kube [?n] (snd (Reconcile busy_kube ?n ?s)) = Some t \<and>
      (\<forall>r \<in> set [?n]. served (cl_objects (see (ext t))) ?w r)"
    using q by (intro settles_once_quiet [OF busy_server busy_helpers _ still_environment still_stands_in])
  then
  obtain t where t: "worker busy_kube [?n] (snd (Reconcile busy_kube ?n ?s)) = Some t" "served (sh_objects (ext t)) ?w ?n"
    by (auto simp: see_shared)
  have "live (essence edited_backup)" using rq(2) by (simp add: essence_same)
  then have "\<not> doomed (essence edited_backup)" by (simp add: doomed_def live_def)
  with t(2) obtain b where b: "sh_objects (ext t) (backup_key ?n) = Some (OBackup b)" "essence b = essence edited_backup"
    "if live b then operated b \<and> own_keys ?n \<subseteq> dom (sh_objects (ext t)) else \<not> operated b"
    by (auto simp: served_def split: option.splits kobj.splits)
  from b(2) rq(2) have "live b" using essence_same(1) by metis
  with b t(1) show ?thesis by auto
qed

end
