(* ===== verification/Refinement.thy ===== *)
theory Refinement
  imports WorkQueue
begin

text \<open>
  What \<^verbatim>\<open>Reconcile\<close> promises, as an abstract machine: the progress of a Backup is the list of the objects it still lacks,
  whether it is being deleted, and its finalizers. One step makes the first missing object, and with nothing missing
  sets the finalizer or releases the Backup. Any number of reconciliations refine that many steps.
\<close>

section \<open>The abstract machine\<close>

record progress =
  pg_missing :: "key list"
  pg_deleting :: bool
  pg_finalizers :: "string set"

definition progress_of :: "store \<Rightarrow> NamespacedName \<Rightarrow> progress option" where
  "progress_of st req =
     (case st (backup_key req) of
        Some (OBackup b) \<Rightarrow>
          Some \<lparr>pg_missing = filter (\<lambda>k. st k = None) (stage_keys req),
            pg_deleting = (om_DeletionTimestamp (b_ObjectMeta b) \<notin> {None, Some 0}),
            pg_finalizers = set (om_Finalizers (b_ObjectMeta b))\<rparr>
      | _ \<Rightarrow> None)"

text \<open>The last case is the release: the ClusterRoleBinding goes, and with the last finalizer the Backup.\<close>

fun spec_step :: "NamespacedName \<Rightarrow> progress option \<Rightarrow> reply \<times> progress option" where
  "spec_step req None = ((noRequeue, None), None)"
| "spec_step req (Some p) =
     (case pg_missing p of
        k # ks \<Rightarrow> ((requeue, None), Some (p\<lparr>pg_missing := ks\<rparr>))
      | [] \<Rightarrow>
          ((noRequeue, None),
           if \<not> pg_deleting p then Some (p\<lparr>pg_finalizers := insert DefaultBackupFinalizerName (pg_finalizers p)\<rparr>)
           else if DefaultBackupFinalizerName \<notin> pg_finalizers p then Some p
           else if pg_finalizers p = {DefaultBackupFinalizerName} then None
           else Some (p\<lparr>pg_missing := [obj_key KClusterRoleBinding [] (crbName (nn_Namespace req))],
                  pg_finalizers := pg_finalizers p - {DefaultBackupFinalizerName}\<rparr>)))"

fun spec_runs :: "nat \<Rightarrow> NamespacedName \<Rightarrow> progress option \<Rightarrow> reply list \<times> progress option" where
  "spec_runs 0 req p = ([], p)"
| "spec_runs (Suc n) req p =
     (let (r, q) = spec_step req p; (rs, q') = spec_runs n req q in (r # rs, q'))"

section \<open>One step\<close>

text \<open>The Backup of the request, if there is one, is a Backup of the namespace default whose manifests can be decoded.\<close>

definition decodable :: "'w kube \<Rightarrow> store \<Rightarrow> NamespacedName \<Rightarrow> bool" where
  "decodable K st req \<longleftrightarrow> nn_Namespace req = ''default'' \<and>
     (\<forall>b. st (backup_key req) = Some (OBackup b) \<longrightarrow> request_for req b \<and> manifests_decode K b)"

lemma filter_insert_first:
  assumes "first_missing st ks = Some k" "dom st' = insert k (dom st)" "distinct ks"
  shows "filter (\<lambda>x. st x = None) ks = k # filter (\<lambda>x. st' x = None) ks"
proof -
  have st': "st' x = None \<longleftrightarrow> st x = None \<and> x \<noteq> k" for x
    using assms(2) by (metis domIff insert_iff)
  show ?thesis
    using assms(1,3)
  proof (induction ks)
    case (Cons a ks)
    show ?case
    proof (cases "st a = None")
      case True
      with Cons.prems have a: "a = k" by (simp add: first_missing_def domIff)
      with Cons.prems(2) have "filter (\<lambda>x. st' x = None) ks = filter (\<lambda>x. st x = None) ks"
        by (intro filter_cong) (auto simp: st')
      with True a show ?thesis by (simp add: st')
    next
      case False
      then have "a \<noteq> k" "first_missing st ks = Some k"
        using Cons.prems by (auto simp: first_missing_def domIff find_Some_iff)
      with Cons False show ?thesis by (simp add: st')
    qed
  qed (simp add: first_missing_def)
qed

lemma filter_none_missing: "first_missing st ks = None \<longleftrightarrow> filter (\<lambda>x. st x = None) ks = []"
  by (auto simp: first_missing_def find_None_iff filter_empty_conv domIff)

lemma same_missing: "dom f = dom g \<Longrightarrow> filter (\<lambda>x. f x = None) ks = filter (\<lambda>x. g x = None) ks"
  by (intro filter_cong) (auto simp: domIff)

text \<open>The Backup without some of its finalizers, as far as the manifests are concerned.\<close>

lemma decodable_finalizers:
  assumes "decodable K st req" "st (backup_key req) = Some (OBackup b)"
    "st' (backup_key req) \<in> {None, Some (OBackup b), Some (OBackup (at_version v (b\<lparr>b_ObjectMeta := (b_ObjectMeta b)\<lparr>om_Finalizers := fs\<rparr>\<rparr>)))}"
  shows "decodable K st' req"
  using assms by (auto simp: decodable_def manifests_decode_finalizers request_for_def)


lemma finish_refines:
  assumes env: "environment K objs" and ok: "decodable K (objs (ext s)) req"
    and b: "objs (ext s) (backup_key req) = Some (OBackup b)"
    and all: "set (stage_keys req) \<subseteq> dom (objs (ext s))"
  shows "\<exists>t. finish K b s = (Ret (fst (spec_step req (progress_of (objs (ext s)) req))), t) \<and>
    progress_of (objs (ext t)) req = snd (spec_step req (progress_of (objs (ext s)) req)) \<and>
    decodable K (objs (ext t)) req"
proof -
  let ?m = "b_ObjectMeta b" and ?f = DefaultBackupFinalizerName and ?st = "objs (ext s)"
  from ok b have rq: "request_for req b" by (simp add: decodable_def)
  note key = request_key [OF rq]
  have nm: "filter (\<lambda>k. ?st k = None) (stage_keys req) = []"
    using all by (auto simp: filter_empty_conv)
  have p: "progress_of ?st req = Some \<lparr>pg_missing = [],
      pg_deleting = (om_DeletionTimestamp ?m \<notin> {None, Some 0}), pg_finalizers = set (om_Finalizers ?m)\<rparr>"
    by (simp add: progress_of_def b nm)
  have bk: "objs (ext s) (key_of (OBackup b)) = Some (OBackup b)" using b key by simp
  consider "om_DeletionTimestamp ?m \<in> {None, Some 0}"
    | "om_DeletionTimestamp ?m \<notin> {None, Some 0}" "?f \<notin> set (om_Finalizers ?m)"
    | "om_DeletionTimestamp ?m \<notin> {None, Some 0}" "?f \<in> set (om_Finalizers ?m)" by blast
  then show ?thesis
  proof cases
    case 1
    from handleFinalizer_registers [OF env 1 bk] obtain t v fs where
      t: "finish K b s = (Ret (noRequeue, None), t)"
        "objs (ext t) = ?st(backup_key req \<mapsto> OBackup (at_version v (b\<lparr>b_ObjectMeta := ?m\<lparr>om_Finalizers := fs\<rparr>\<rparr>)))"
        "set fs = insert ?f (set (om_Finalizers ?m))"
      unfolding key by blast
    have "filter (\<lambda>k. objs (ext t) k = None) (stage_keys req) = []"
      using all by (auto simp: filter_empty_conv t(2))
    with 1 t(2,3) have "progress_of (objs (ext t)) req =
        Some \<lparr>pg_missing = [], pg_deleting = False, pg_finalizers = insert ?f (set (om_Finalizers ?m))\<rparr>"
      by (simp add: progress_of_def)
    moreover have "decodable K (objs (ext t)) req"
      by (rule decodable_finalizers [OF ok b, where v = v and fs = fs]) (simp add: t(2))
    ultimately show ?thesis using t(1) 1 by (simp add: p)
  next
    case 2
    with env have "finish K b s = (Ret (noRequeue, None), s)"
      by (auto simp: environment_def finish_def handleFinalizer_def finalizer_helpers_def go_run)
    with 2 ok show ?thesis by (simp add: p)
  next
    case 3
    let ?k = "obj_key KClusterRoleBinding [] (crbName (b_Namespace b))"
    from all binding_key [OF rq] obtain x where "?st ?k = Some x" by blast
    from handleFinalizer_releases [OF env 3 bk this] obtain t v where
      t: "finish K b s = (Ret (noRequeue, None), t)"
        "objs (ext t) = ?st(?k := None, backup_key req :=
           if set (om_Finalizers ?m) = {?f} then None
           else Some (OBackup (at_version v (b\<lparr>b_ObjectMeta := ?m
             \<lparr>om_Finalizers := filter (\<lambda>g. g \<noteq> ?f) (om_Finalizers ?m)\<rparr>\<rparr>))))"
      unfolding key by blast
    have "decodable K (objs (ext t)) req"
      by (rule decodable_finalizers [OF ok b, where v = v and fs = "filter (\<lambda>g. g \<noteq> ?f) (om_Finalizers ?m)"])
        (simp add: t(2))
    moreover have ns: "b_Namespace b = nn_Namespace req" using rq by (simp add: request_for_def)
    have "filter (\<lambda>k. objs (ext t) k = None) (stage_keys req) = [?k]"
    proof -
      have at: "objs (ext t) x = None \<longleftrightarrow> x = ?k" if "x \<in> set (stage_keys req)" for x
        using that all stage_keys_other(1) [of req req] by (auto simp: t(2))
      have "filter (\<lambda>k. objs (ext t) k = None) (stage_keys req) = filter (\<lambda>x. x = ?k) (stage_keys req)"
        by (rule filter_cong) (simp_all add: at)
      also have "\<dots> = [?k]" by (simp add: stage_keys_def ns obj_key_def)
      finally show ?thesis .
    qed
    moreover have "set (filter (\<lambda>g. g \<noteq> ?f) (om_Finalizers ?m)) = set (om_Finalizers ?m) - {?f}" by auto
    moreover have "objs (ext t) (backup_key req) = (if set (om_Finalizers ?m) = {?f} then None
        else Some (OBackup (at_version v (b\<lparr>b_ObjectMeta := ?m
             \<lparr>om_Finalizers := filter (\<lambda>g. g \<noteq> ?f) (om_Finalizers ?m)\<rparr>\<rparr>))))"
      by (simp add: t(2))
    ultimately show ?thesis
      unfolding ns using t(1) 3 by (simp add: p) (simp add: progress_of_def)
  qed
qed

lemma Reconcile_refines:
  assumes env: "environment K objs" and ok: "decodable K (objs (ext s)) req"
  shows "\<exists>t. Reconcile K req s = (Ret (fst (spec_step req (progress_of (objs (ext s)) req))), t) \<and>
    progress_of (objs (ext t)) req = snd (spec_step req (progress_of (objs (ext s)) req)) \<and>
    decodable K (objs (ext t)) req"
proof (cases "\<exists>b. objs (ext s) (backup_key req) = Some (OBackup b)")
  case True
  then obtain b where b: "objs (ext s) (backup_key req) = Some (OBackup b)" by blast
  with ok have rq: "request_for req b" "manifests_decode K b" "nn_Namespace req = ''default''"
    by (auto simp: decodable_def)
  note eff = Reconcile_effect [OF env rq(2,1,3) b]
  have kept: "objs (ext t) (backup_key req) = Some (OBackup b) \<and> decodable K (objs (ext t)) req"
    if "agree (set (stage_keys req)) (objs (ext s)) (objs (ext t))" for t :: "'a operator"
    using agreeD [OF that stage_keys_other(1)] b ok by (simp add: decodable_def)
  show ?thesis
  proof (cases "first_missing (objs (ext s)) (stage_keys req)")
    case None
    with eff obtain u where u: "Reconcile K req s = finish K b u"
      "agree (set (stage_keys req)) (objs (ext s)) (objs (ext u))" "dom (objs (ext u)) = dom (objs (ext s))" by auto
    have "set (stage_keys req) \<subseteq> dom (objs (ext u))" using None u(3) by (simp add: none_missing)
    moreover have "progress_of (objs (ext u)) req = progress_of (objs (ext s)) req"
      using kept [OF u(2)] b same_missing [OF u(3)] by (simp add: progress_of_def)
    ultimately show ?thesis
      using finish_refines [OF env, of u req b] kept [OF u(2)] u(1) by simp
  next
    case (Some k)
    with eff obtain t where t: "Reconcile K req s = (Ret (requeue, None), t)"
      "agree (set (stage_keys req)) (objs (ext s)) (objs (ext t))"
      "dom (objs (ext t)) = insert k (dom (objs (ext s)))" by auto
    from filter_insert_first [OF Some t(3) stage_keys_other(2)] kept [OF t(2)] b t(1) show ?thesis
      by (simp add: progress_of_def)
  qed
next
  case False
  from env have "get_backup_law K objs" by (simp add: environment_def api_server_def)
  from this [unfolded get_backup_law_def, THEN spec, of req, THEN spec, of "ext s"] False
  have get: "objs (snd (k_GetBackup K req (ext s))) = objs (ext s)"
    "\<exists>e. fst (k_GetBackup K req (ext s)) = Inl e \<and> k_IsNotFound K e"
    by (auto simp: backup_key_def split: option.splits kobj.splits)
  have none: "progress_of (objs (ext s)) req = None"
    using False by (auto simp: progress_of_def split: option.splits kobj.splits)
  from get env ok none show ?thesis
    by (auto simp: Reconcile_chain rGetBackup_def go_run environment_def api_errors_def)
qed

text \<open>
  C3. Refinement: for every server that keeps its promises, any number of reconciliations of a request of the namespace default
  give the replies of as many steps of the abstract machine, and the progress of the Backup afterwards is the machine's. The machine
  makes the missing objects in their order, one for each requeue, then sets the finalizer of a live Backup or releases a deleted one,
  and rests without error.
\<close>

theorem runs_refine:
  assumes env: "environment K objs" and ok: "decodable K (objs (ext s)) req"
  shows "\<exists>t. runs n K req s = (Ret (fst (spec_runs n req (progress_of (objs (ext s)) req))), t) \<and>
    progress_of (objs (ext t)) req = snd (spec_runs n req (progress_of (objs (ext s)) req))"
  using ok
proof (induction n arbitrary: s)
  case (Suc n)
  from Reconcile_refines [OF env Suc.prems] obtain t where
    t: "Reconcile K req s = (Ret (fst (spec_step req (progress_of (objs (ext s)) req))), t)"
      "progress_of (objs (ext t)) req = snd (spec_step req (progress_of (objs (ext s)) req))"
      "decodable K (objs (ext t)) req" by blast
  from Suc.IH [OF t(3)] obtain u where
    "runs n K req t = (Ret (fst (spec_runs n req (progress_of (objs (ext t)) req))), u)"
      "progress_of (objs (ext u)) req = snd (spec_runs n req (progress_of (objs (ext t)) req))" by blast
  with t show ?case by (auto simp: go_run split: prod.split)
qed (simp add: ret_run)

text \<open>A new Backup: four objects are made, then the finalizer is set and nothing more happens.\<close>

theorem runs_refine_witness:
  "\<exists>t. runs 6 mem_kube (sample_request ''default'') (world_with (sample_backup ''default'' None [])) =
      (Ret (replicate 4 (requeue, None) @ replicate 2 (noRequeue, None)), t) \<and>
    progress_of (ext t) (sample_request ''default'') =
      Some \<lparr>pg_missing = [], pg_deleting = False, pg_finalizers = {DefaultBackupFinalizerName}\<rparr>"
proof -
  let ?n = "sample_request ''default''" and ?b = "sample_backup ''default'' None []"
  note rq = sample_request_for [OF default_one_line(1), of None "[]"]
  have at: "ext (world_with ?b) (backup_key ?n) = Some (OBackup ?b)"
    using world_with_backup [OF rq] .
  with rq mem_manifests_decode [of ?b] have "decodable mem_kube (ext (world_with ?b)) ?n"
    by (simp add: decodable_def sample_request_def)
  note run = runs_refine [OF mem_environment this, of 6]
  have "ext (world_with ?b) k = None" if "k \<in> set (stage_keys ?n)" for k
    using that request_key [OF rq] stage_keys_other(1) [of ?n ?n] by (auto simp: world_with_def)
  then have "filter (\<lambda>k. ext (world_with ?b) k = None) (stage_keys ?n) = stage_keys ?n" by simp
  with at have "progress_of (ext (world_with ?b)) ?n =
      Some \<lparr>pg_missing = stage_keys ?n, pg_deleting = False, pg_finalizers = {}\<rparr>"
    by (simp add: progress_of_def sample_backup_def emptyMeta_def)
  with run show ?thesis
    by (simp add: stage_keys_def eval_nat_numeral)
qed

end
