(* ===== verification/BackupEnv.thy ===== *)
theory BackupEnv
  imports ApiServer
begin

text \<open>
  What \<^verbatim>\<open>pkg/backup\<close> works on: its package state (the handlers with their current namespace and the
  names of the deployments to clean up), the objects it reads, and everything outside the repository it
  calls: the handlers of \<^verbatim>\<open>github.com/forbearing/k8s\<close>, the restic command builder, the minio and
  sftp clients, the clock and the environment. All of that is the parameter \<open>cluster\<close>; nothing is
  assumed about it here.

  Logging, and the variable \<^verbatim>\<open>costedTime\<close> that only logging reads, are left out.
\<close>

section \<open>Objects\<close>

record Pod =
  p_Name :: string
  p_DeletionTimestamp :: "Time option"
  p_Phase :: string

record ReplicaSet =
  rs_Name :: string
  rs_Replicas :: "int option"

record Deployment =
  d_Name :: string
  d_TemplateAnnotations :: "(string \<times> string) list option"

record PV =
  pv_HostPath :: "string option"
  pv_Local :: "string option"

record pvdataMeta =
  volumeSource :: string
  nodeName :: string
  podName :: string
  podUID :: string
  pvdir :: string
  pvname :: string

definition zeroMeta :: pvdataMeta where
  "zeroMeta = \<lparr>volumeSource = [], nodeName = [], podName = [], podUID = [], pvdir = [], pvname = []\<rparr>"

section \<open>The code outside the repository\<close>

text \<open>
  Handler functions take the namespace of the handler first, the dynamic handler its group, version and kind
  before that. \<open>x_Range\<close> is the order in which the
  runtime ranges over a map with the given keys, chosen anew at each loop. \<open>x_Exec\<close> gives the error of
  the command and what it wrote to its output.
\<close>

record 'w cluster =
  x_Getenv :: "string \<Rightarrow> string"
  x_Now :: "'w \<Rightarrow> string \<times> 'w"
  x_Wrap :: "goerr \<Rightarrow> string \<Rightarrow> goerr"
  x_IsNotFound :: "goerr \<Rightarrow> bool"
  x_IsZero :: "Time option \<Rightarrow> bool"
  x_Range :: "string list \<Rightarrow> 'w \<Rightarrow> string list \<times> 'w"
  x_DynGet :: "string \<times> string \<times> string \<Rightarrow> string \<Rightarrow> string \<Rightarrow> 'w \<Rightarrow> (goerr + string) \<times> 'w"
  x_FromUnstructured :: "string \<Rightarrow> goerr + Backup"
  x_PodGet :: "string \<Rightarrow> string \<Rightarrow> 'w \<Rightarrow> (goerr + Pod) \<times> 'w"
  x_PodNodeName :: "string \<Rightarrow> Pod \<Rightarrow> 'w \<Rightarrow> (goerr + string) \<times> 'w"
  x_PodUID :: "string \<Rightarrow> Pod \<Rightarrow> 'w \<Rightarrow> (goerr + string) \<times> 'w"
  x_PodPVC :: "string \<Rightarrow> Pod \<Rightarrow> 'w \<Rightarrow> (goerr + string list) \<times> 'w"
  x_PodWaitReady :: "string \<Rightarrow> string \<Rightarrow> 'w \<Rightarrow> goerr option \<times> 'w"
  x_Exec :: "string \<Rightarrow> string \<Rightarrow> string list \<Rightarrow> 'w \<Rightarrow> (goerr option \<times> string) \<times> 'w"
  x_DepGet :: "string \<Rightarrow> string \<Rightarrow> 'w \<Rightarrow> (goerr + Deployment) \<times> 'w"
  x_DepApply :: "string \<Rightarrow> string \<Rightarrow> 'w \<Rightarrow> (goerr + Deployment) \<times> 'w"
  x_DepWaitReady :: "string \<Rightarrow> string \<Rightarrow> 'w \<Rightarrow> goerr option \<times> 'w"
  x_DepGetPods :: "string \<Rightarrow> string \<Rightarrow> 'w \<Rightarrow> (goerr + Pod list) \<times> 'w"
  x_DepGetRS :: "string \<Rightarrow> string \<Rightarrow> 'w \<Rightarrow> (goerr + ReplicaSet list) \<times> 'w"
  x_DepDelete :: "string \<Rightarrow> string \<Rightarrow> 'w \<Rightarrow> goerr option \<times> 'w"
  x_RsGetPods :: "string \<Rightarrow> string \<Rightarrow> 'w \<Rightarrow> (goerr + Pod list) \<times> 'w"
  x_StsGetPods :: "string \<Rightarrow> string \<Rightarrow> 'w \<Rightarrow> (goerr + Pod list) \<times> 'w"
  x_StsWaitReady :: "string \<Rightarrow> string \<Rightarrow> 'w \<Rightarrow> goerr option \<times> 'w"
  x_DsGetPods :: "string \<Rightarrow> string \<Rightarrow> 'w \<Rightarrow> (goerr + Pod list) \<times> 'w"
  x_DsWaitReady :: "string \<Rightarrow> string \<Rightarrow> 'w \<Rightarrow> goerr option \<times> 'w"
  x_PvcGetPV :: "string \<Rightarrow> string \<Rightarrow> 'w \<Rightarrow> (goerr + string) \<times> 'w"
  x_PvVolumeSource :: "string \<Rightarrow> 'w \<Rightarrow> (goerr + string) \<times> 'w"
  x_PvGet :: "string \<Rightarrow> 'w \<Rightarrow> (goerr + PV) \<times> 'w"
  x_SecGet :: "string \<Rightarrow> string \<Rightarrow> 'w \<Rightarrow> (goerr + (string \<times> string) list) \<times> 'w"
  x_MinioNew :: "string \<Rightarrow> string \<Rightarrow> string \<Rightarrow> bool \<Rightarrow> 'w \<Rightarrow> (goerr + nat) \<times> 'w"
  x_MakeBucket :: "nat \<Rightarrow> string \<Rightarrow> string \<Rightarrow> 'w \<Rightarrow> goerr option \<times> 'w"
  x_BucketExists :: "nat \<Rightarrow> string \<Rightarrow> 'w \<Rightarrow> (bool \<times> goerr option) \<times> 'w"
  x_SshDial :: "string \<Rightarrow> string \<Rightarrow> string \<Rightarrow> 'w \<Rightarrow> (goerr + nat) \<times> 'w"
  x_SftpNewClient :: "nat \<Rightarrow> 'w \<Rightarrow> (goerr + nat) \<times> 'w"
  x_SftpMkdirAll :: "nat \<Rightarrow> string \<Rightarrow> 'w \<Rightarrow> goerr option \<times> 'w"
  x_CmdListKeys :: string
  x_CmdInit :: string
  x_CmdBackup :: "string list \<Rightarrow> string \<Rightarrow> string \<Rightarrow> string"

text \<open>
  The trace keeps what the properties speak of: the deployments applied and deleted, the commands run
  in pods, the calls of the minio client, the node, the uid and the pvcs of a pod with their volumes; any
  other call is
  \<open>BOther\<close>.
\<close>

datatype bcall =
    BApply string string "goerr option"
  | BDelete string string "goerr option"
  | BExec string string "string list" "goerr option" string
  | BMinioNew string bool "goerr option"
  | BMakeBucket string "goerr option"
  | BBucketExists string bool "goerr option"
  | BWaitReady string string string "goerr option"
  | BRange "string list" "string list"
  | BNodeName string "goerr + string"
  | BPodUID string "goerr + string"
  | BPodPVC string "string list"
  | BGetPV string "goerr + string"
  | BVolumeSource string "goerr + string"
  | BOther

section \<open>The package state\<close>

record 'w session = "('w, bcall) world" +
  podHandler :: string
  depHandler :: string
  rsHandler :: string
  stsHandler :: string
  dsHandler :: string
  pvcHandler :: string
  secHandler :: string
  DeployNameFindpvdir :: string
  DeployNameBackup2minio :: string
  DeployNameBackup2nfs :: string
  DeployNameBackup2s3 :: string
  DeployNameBackup2cephfs :: string
  DeployNameBackup2sftp :: string
  DeployNameBackup2rclone :: string
  DeployNameBackup2restserver :: string

definition init_session :: "'w \<Rightarrow> 'w session" where
  "init_session w = \<lparr>ext = w, calls = [], podHandler = [], depHandler = [], rsHandler = [],
     stsHandler = [], dsHandler = [], pvcHandler = [], secHandler = [],
     DeployNameFindpvdir = [], DeployNameBackup2minio = [], DeployNameBackup2nfs = [],
     DeployNameBackup2s3 = [], DeployNameBackup2cephfs = [], DeployNameBackup2sftp = [],
     DeployNameBackup2rclone = [], DeployNameBackup2restserver = []\<rparr>"

section \<open>Results with an error\<close>

text \<open>
  A function that returns \<^verbatim>\<open>(v, err)\<close>, or \<^verbatim>\<open>err\<close> alone with \<open>'v = unit\<close>. \<open>bindE\<close> is the pattern
  \<^verbatim>\<open>if err != nil { return wrap(err) }\<close>.
\<close>

type_synonym ('w, 'a) bgo = "('w session, goerr + 'a) go"

definition bindE :: "('s, goerr + 'a) go \<Rightarrow> (goerr \<Rightarrow> goerr) \<Rightarrow> ('a \<Rightarrow> ('s, goerr + 'b) go) \<Rightarrow>
    ('s, goerr + 'b) go" where
  "bindE m wrap f = gobind m (\<lambda>r. case r of Inl e \<Rightarrow> ret (Inl (wrap e)) | Inr a \<Rightarrow> f a)"

definition retE :: "'a \<Rightarrow> ('s, goerr + 'a) go" where "retE a = ret (Inr a)"

definition throw :: "goerr \<Rightarrow> ('s, goerr + 'a) go" where "throw e = ret (Inl e)"

definition of_err :: "('s, goerr option) go \<Rightarrow> ('s, goerr + unit) go" where
  "of_err m = gobind m (\<lambda>e. ret (case e of None \<Rightarrow> Inr () | Some e' \<Rightarrow> Inl e'))"

text \<open>Following a nil pointer panics.\<close>

definition deref :: "'a option \<Rightarrow> ('s, 'a) go" where
  "deref p = (case p of None \<Rightarrow> halting Panic | Some a \<Rightarrow> ret a)"

definition other :: "('w \<Rightarrow> 'a \<times> 'w) \<Rightarrow> ('w session, 'a) go" where
  "other f = call_ext (\<lambda>_. BOther) f"

lemma wp_bindE [wp_simps]:
  "wp (bindE m wrap f) Q s =
     wp m (\<lambda>r t. case r of
        Ret (Inl e) \<Rightarrow> Q (Ret (Inl (wrap e))) t
      | Ret (Inr a) \<Rightarrow> wp (f a) Q t
      | Halt h \<Rightarrow> Q (Halt h) t) s"
  unfolding bindE_def wp_gobind
  by (rule arg_cong [where f = "\<lambda>P. wp m P s"]) (auto simp: fun_eq_iff wp_ret split: outcome.splits sum.splits)

lemma wp_retE [wp_simps]: "wp (retE a) Q s = Q (Ret (Inr a)) s"
  and wp_throw [wp_simps]: "wp (throw e) Q s = Q (Ret (Inl e)) s"
  by (simp_all add: retE_def throw_def wp_ret)

lemma wp_of_err [wp_simps]:
  "wp (of_err m) Q s =
     wp m (\<lambda>r t. case r of
        Ret None \<Rightarrow> Q (Ret (Inr ())) t
      | Ret (Some e) \<Rightarrow> Q (Ret (Inl e)) t
      | Halt h \<Rightarrow> Q (Halt h) t) s"
  unfolding of_err_def wp_gobind
  by (rule arg_cong [where f = "\<lambda>P. wp m P s"]) (auto simp: fun_eq_iff wp_ret split: outcome.splits option.splits)

lemma wp_deref [wp_simps]:
  "wp (deref p) Q s = (case p of None \<Rightarrow> Q (Halt Panic) s | Some a \<Rightarrow> Q (Ret a) s)"
  by (simp add: deref_def wp_simps split: option.split)

end
