(* ===== verification/BackupDeploy.thy ===== *)
theory BackupDeploy
  imports BackupEnv
begin

text \<open>
  \<^verbatim>\<open>pkg/backup/util.go\<close>, the four files \<^verbatim>\<open>pkg/backup/deployment_*.go\<close>, \<^verbatim>\<open>pkg/minio/minio.go\<close>,
  \<^verbatim>\<open>pkg/util/sftp.go\<close> and \<^verbatim>\<open>pkg/util/backup.go\<close>: how a run of the backup starts its helper
  deployments, waits for them and picks the pod to run commands in.
\<close>

section \<open>pkg/util/util.go\<close>

definition EnvOperatorNamespace :: string where "EnvOperatorNamespace = ''OPERATOR_NAMESPACE''"

definition GetOperatorNamespace :: "'w cluster \<Rightarrow> string" where
  "GetOperatorNamespace X =
     (let namespace = x_Getenv X EnvOperatorNamespace in
      if length namespace \<noteq> 0 then namespace else DefaultOperatorNamespace)"

section \<open>pkg/backup/util.go\<close>

definition theDeployName :: "string \<Rightarrow> Backup option \<Rightarrow> pvdataMeta \<Rightarrow> string" where
  "theDeployName name backupObj meta =
     (case backupObj of
        None \<Rightarrow> Sprintf ''%s-%s'' [name, nodeName meta]
      | Some b \<Rightarrow> Sprintf ''%s-%s-%s'' [name, nodeName meta, b_Name b])"

definition PodRunning :: string where "PodRunning = ''Running''"

text \<open>The first pod that is not terminating and runs.\<close>

definition running :: "'w cluster \<Rightarrow> Pod \<Rightarrow> bool" where
  "running X p = (x_IsZero X (p_DeletionTimestamp p) \<and> p_Phase p = PodRunning)"

definition resetWorkloads :: "string \<Rightarrow> ('w session, unit) go" where
  "resetWorkloads ns =
     modify (\<lambda>s. s\<lparr>depHandler := ns, rsHandler := ns, podHandler := ns\<rparr>)"

definition depApply :: "'w cluster \<Rightarrow> string \<Rightarrow> ('w, Deployment) bgo" where
  "depApply X txt = gobind (gets depHandler) (\<lambda>ns.
     call_ext (\<lambda>r. BApply ns txt (err_of r)) (x_DepApply X ns txt))"

definition depWaitReady :: "'w cluster \<Rightarrow> string \<Rightarrow> ('w, unit) bgo" where
  "depWaitReady X name = gobind (gets depHandler) (\<lambda>ns.
     of_err (call_ext (BWaitReady ''deployment'' ns name) (x_DepWaitReady X ns name)))"

definition depGetPods :: "'w cluster \<Rightarrow> string \<Rightarrow> ('w, Pod list) bgo" where
  "depGetPods X name = gobind (gets depHandler) (\<lambda>ns. other (x_DepGetPods X ns name))"

definition filterRunningPod :: "'w cluster \<Rightarrow> string \<Rightarrow> string \<Rightarrow> ('w, Pod) bgo" where
  "filterRunningPod X namespace deployData =
     gobind (resetWorkloads namespace) (\<lambda>_.
     bindE (depApply X deployData)
       (\<lambda>e. Errorf (Sprintf ''deployment handler Apply failed: %s'' [Error e])) (\<lambda>deployObj.
     bindE (depWaitReady X (d_Name deployObj))
       (\<lambda>e. Errorf (Sprintf ''deployment handler WaitReady %s failed: %s'' [d_Name deployObj, Error e]))
       (\<lambda>_.
     bindE (depGetPods X (d_Name deployObj))
       (\<lambda>e. Errorf (Sprintf ''replicaset handler get %s all replicasets failed: %s''
          [d_Name deployObj, Error e])) (\<lambda>podObjs.
     case find (running X) podObjs of
       Some podObj \<Rightarrow> retE podObj
     | None \<Rightarrow> throw (Errorf (Sprintf ''not found running pod for deployment/%s'' [d_Name deployObj]))))))"

text \<open>
  The variant that goes through the replicasets: the pods of the first replicaset that wants some,
  and among them the first in phase Running, terminating or not.
\<close>

definition working :: "ReplicaSet \<Rightarrow> bool" where
  "working rs = (case rs_Replicas rs of None \<Rightarrow> False | Some n \<Rightarrow> 0 < n)"

definition filterRunningPod2 :: "'w cluster \<Rightarrow> string \<Rightarrow> string \<Rightarrow> ('w, Pod) bgo" where
  "filterRunningPod2 X namespace deployData =
     gobind (resetWorkloads namespace) (\<lambda>_.
     bindE (depApply X deployData)
       (\<lambda>e. Errorf (Sprintf ''deployment handler Apply failed: %s'' [Error e])) (\<lambda>deployObj.
     bindE (depWaitReady X (d_Name deployObj))
       (\<lambda>e. Errorf (Sprintf ''deployment handler WaitReady %s failed: %s'' [d_Name deployObj, Error e]))
       (\<lambda>_.
     bindE (gobind (gets depHandler) (\<lambda>ns. other (x_DepGetRS X ns (d_Name deployObj))))
       (\<lambda>e. Errorf (Sprintf ''replicaset handler get %s all replicasets failed: %s''
          [d_Name deployObj, Error e])) (\<lambda>rsObjList.
     bindE (case find working rsObjList of
              None \<Rightarrow> retE []
            | Some rsObj \<Rightarrow>
                bindE (gobind (gets rsHandler) (\<lambda>ns. other (x_RsGetPods X ns (rs_Name rsObj))))
                  (\<lambda>e. Errorf (Sprintf ''pod handler get %s all pods failed: %s''
                     [rs_Name rsObj, Error e])) retE)
       (\<lambda>e. e) (\<lambda>podsObj.
     case find (\<lambda>p. p_Phase p = PodRunning) podsObj of
       Some podObj \<Rightarrow> retE podObj
     | None \<Rightarrow> throw (Errorf (Sprintf ''not found running pod for deployment/%s'' [d_Name deployObj])))))))"

text \<open>
  \<^verbatim>\<open>parseStorage\<close> walks the fields of \<^verbatim>\<open>BackupTo\<close> by reflection: the JSON tag of each field with whether
  its pointer is set. Reflection on a nil \<^verbatim>\<open>BackupTo\<close> panics.
\<close>

definition backupTo_fields :: "BackupTo \<Rightarrow> (string \<times> bool) list" where
  "backupTo_fields t =
     [(''nfs'', bt_NFS t \<noteq> None),
      (''pvc'', bt_PVC t \<noteq> None),
      (''cephfs'', bt_CephFS t \<noteq> None),
      (''s3'', bt_S3 t \<noteq> None),
      (''minio'', bt_MinIO t \<noteq> None),
      (''restServer'', bt_RestServer t \<noteq> None),
      (''sftp'', bt_SFTP t \<noteq> None),
      (''rclone'', bt_Rclone t \<noteq> None)]"

fun parse_fields :: "(string \<times> bool) list \<Rightarrow> Storage list" where
  "parse_fields [] = []"
| "parse_fields ((tag, val) # fs) =
     (if val then Split tag CHR '','' ! 0 # parse_fields fs else parse_fields fs)"

definition parseStorage :: "Backup \<Rightarrow> Storage list outcome" where
  "parseStorage backupObj =
     (case sp_BackupTo (b_Spec backupObj) of
        None \<Rightarrow> Halt Panic
      | Some t \<Rightarrow> Ret (parse_fields (backupTo_fields t)))"

fun createPassStdin :: "string \<Rightarrow> nat list \<Rightarrow> string" where
  "createPassStdin pass [] = pass @ [newline]"
| "createPassStdin pass (n # ns) = concat (replicate n (pass @ [newline]))"

definition setPodTemplateAnnotations :: "string \<Rightarrow> Deployment \<Rightarrow> Deployment" where
  "setPodTemplateAnnotations now deploy =
     (let podAnnotations = (case d_TemplateAnnotations deploy of None \<Rightarrow> [] | Some a \<Rightarrow> a) in
      deploy\<lparr>d_TemplateAnnotations := Some (AList.update AnnotationRestartedTime now podAnnotations)\<rparr>)"

definition getOrApplyDeployment :: "'w cluster \<Rightarrow> string \<Rightarrow> ('w, Deployment) bgo" where
  "getOrApplyDeployment X data =
     gobind (gobind (gets depHandler) (\<lambda>ns. other (x_DepGet X ns data))) (\<lambda>r.
       case r of Inr deploy \<Rightarrow> retE deploy | Inl e \<Rightarrow> depApply X data)"

section \<open>pkg/util/backup.go\<close>

fun storage_of_fields :: "(string \<times> bool) list \<Rightarrow> Storage" where
  "storage_of_fields [] = []"
| "storage_of_fields ((tag, val) # fs) =
     (if val then
        (if Contains tag StorageNFS then StorageNFS
         else if Contains tag StorageCephFS then StorageCephFS
         else if Contains tag StorageS3 then StorageS3
         else if Contains tag StorageRestServer then StorageRestServer
         else if Contains tag StorageSFTP then StorageSFTP
         else if Contains tag StorageRClone then StorageRClone
         else Split tag CHR '','' ! 0)
      else storage_of_fields fs)"

definition GetBackupToStorage :: "Backup \<Rightarrow> Storage outcome" where
  "GetBackupToStorage backupObj =
     (case sp_BackupTo (b_Spec backupObj) of
        None \<Rightarrow> Halt Panic
      | Some t \<Rightarrow> Ret (storage_of_fields (backupTo_fields t)))"

section \<open>pkg/minio/minio.go\<close>

definition minioNew :: "'w cluster \<Rightarrow> string \<Rightarrow> string \<Rightarrow> string \<Rightarrow> bool \<Rightarrow> ('w session, nat) go" where
  "minioNew X endpoint accessKeyID secretAccessKey useSSL =
     gobind (call_ext (\<lambda>r. BMinioNew endpoint useSSL (err_of r))
               (x_MinioNew X endpoint accessKeyID secretAccessKey useSSL)) (\<lambda>r.
       case r of Inl err \<Rightarrow> halting (Exit 1) | Inr minioClient \<Rightarrow> ret minioClient)"

definition MakeBucket :: "'w cluster \<Rightarrow> nat \<Rightarrow> string \<Rightarrow> string \<Rightarrow> ('w, unit) bgo" where
  "MakeBucket X client name location =
     gobind (call_ext (BMakeBucket name) (x_MakeBucket X client name location)) (\<lambda>err.
       case err of
         None \<Rightarrow> retE ()
       | Some e \<Rightarrow>
           gobind (call_ext (\<lambda>r. BBucketExists name (fst r) (snd r)) (x_BucketExists X client name))
             (\<lambda>(exists, errBucketExists).
               if errBucketExists = None \<and> exists then retE () else halting (Exit 1)))"

definition MakeFolder :: "nat \<Rightarrow> string \<Rightarrow> ('w, unit) bgo" where
  "MakeFolder client name = retE ()"

section \<open>pkg/util/sftp.go\<close>

definition MakeDirOnSftp ::
    "'w cluster \<Rightarrow> string \<Rightarrow> u32 \<Rightarrow> string \<Rightarrow> string \<Rightarrow> string \<Rightarrow> ('w, unit) bgo" where
  "MakeDirOnSftp X addr port user pass dirpath =
     bindE (other (x_SshDial X (Sprintf ''%s:%s'' [addr, Itoa (uint port)]) user pass)) (\<lambda>e. e)
       (\<lambda>sshClient.
     bindE (other (x_SftpNewClient X sshClient)) (\<lambda>e. e) (\<lambda>sftpClient.
     of_err (other (x_SftpMkdirAll X sftpClient dirpath))))"

section \<open>pkg/backup/deployment_*.go\<close>

definition resticRepo :: string where "resticRepo = ''/restic-repo''"
definition findpvdirName :: string where "findpvdirName = ''findpvdir''"
definition findpvdirImage :: string where "findpvdirImage = ''hybfkuf/findpvdir:latest''"
definition backup2nfsName :: string where "backup2nfsName = ''backup-to-nfs''"
definition backup2nfsImage :: string where "backup2nfsImage = ''hybfkuf/backup-tools-restic:latest''"
definition backup2minioName :: string where "backup2minioName = ''backup-to-minio''"
definition backup2minioImage :: string where "backup2minioImage = backup2nfsImage"
definition backup2sftpName :: string where "backup2sftpName = ''backup-to-sftp''"
definition backup2sftpImage :: string where "backup2sftpImage = backup2nfsImage"
definition envMinioAccessKey :: string where "envMinioAccessKey = ''MINIO_ACCESS_KEY''"
definition envMinioSecretKey :: string where "envMinioSecretKey = ''MINIO_SECRET_KEY''"
definition envSftpUsername :: string where "envSftpUsername = ''SFTP_USERNAME''"
definition envSftpPassword :: string where "envSftpPassword = ''SFTP_PASSWORD''"

text \<open>A missing key of the secret gives the empty string.\<close>

definition data_at :: "(string \<times> string) list \<Rightarrow> string \<Rightarrow> string" where
  "data_at d k = (case map_of d k of None \<Rightarrow> [] | Some v \<Rightarrow> v)"

definition secGet :: "'w cluster \<Rightarrow> string \<Rightarrow> ('w, (string \<times> string) list) bgo" where
  "secGet X name = gobind (gets secHandler) (\<lambda>ns. other (x_SecGet X ns name))"

definition podExec :: "'w cluster \<Rightarrow> string \<Rightarrow> string \<Rightarrow> string list \<Rightarrow>
    ('w session, goerr option \<times> string) go" where
  "podExec X ns pod cmd = call_ext (\<lambda>r. BExec ns pod cmd (fst r) (snd r)) (x_Exec X ns pod cmd)"

text \<open>The loop of at most twelve tries; the output of all of them collects in one buffer.\<close>

fun retryFind :: "'w cluster \<Rightarrow> string \<Rightarrow> string list \<Rightarrow> string \<Rightarrow> nat \<Rightarrow> string \<Rightarrow> ('w, string) bgo" where
  "retryFind X pod cmd dep 0 cmdOutput = retE (TrimSpace cmdOutput)"
| "retryFind X pod cmd dep (Suc n) cmdOutput =
     gobind (gets podHandler) (\<lambda>ns.
     gobind (podExec X ns pod cmd) (\<lambda>(err, out).
       case err of
         Some e \<Rightarrow> throw (x_Wrap X e (Sprintf ''%s find the persistentvolume data directory failed'' [dep]))
       | None \<Rightarrow>
           if length (TrimSpace (cmdOutput @ out)) \<noteq> 0 then retE (TrimSpace (cmdOutput @ out))
           else retryFind X pod cmd dep n (cmdOutput @ out)))"

definition findpvdir_manifest :: "Backup \<Rightarrow> pvdataMeta \<Rightarrow> string \<Rightarrow> string \<Rightarrow> string" where
  "findpvdir_manifest b meta ns now =
     Sprintf TemplateFindpvdir
       [theDeployName findpvdirName (Some b) meta, ns, AnnotationUpdatedTime, now,
        nodeName meta, findpvdirImage, sp_TimeZone (b_Spec b)]"

text \<open>
  The path of the volume on its node, once the helper pod runs: read from the volume itself for
  \<^verbatim>\<open>hostPath\<close> and \<^verbatim>\<open>local\<close> volumes, searched by the command \<^verbatim>\<open>findpvdir\<close> for all others.
\<close>

definition locateVolume :: "'w cluster \<Rightarrow> pvdataMeta \<Rightarrow> string \<Rightarrow> Pod \<Rightarrow> ('w, string) bgo" where
  "locateVolume X meta dep execPod =
     (let pvfail = (\<lambda>e. x_Wrap X e ''persistentvolume handler get persistentvolume failed'') in
      if volumeSource meta = VolumeHostPath then
        bindE (other (x_PvGet X (pvname meta))) pvfail (\<lambda>pvObj.
          gobind (deref (pv_HostPath pvObj)) retE)
      else if volumeSource meta = VolumeLocal then
        bindE (other (x_PvGet X (pvname meta))) pvfail (\<lambda>pvObj.
          gobind (deref (pv_Local pvObj)) retE)
      else
        retryFind X (p_Name execPod)
          [''findpvdir'', ''--pod-uid'', podUID meta, ''--storage-type'', volumeSource meta] dep 12 [])"

definition createFindpvdirDeployment :: "'w cluster \<Rightarrow> Backup \<Rightarrow> pvdataMeta \<Rightarrow> ('w, string) bgo" where
  "createFindpvdirDeployment X b meta =
     (let operatorNamespace = GetOperatorNamespace X;
          name = theDeployName findpvdirName (Some b) meta
      in
      gobind (modify (\<lambda>s. s\<lparr>podHandler := operatorNamespace, DeployNameFindpvdir := name\<rparr>)) (\<lambda>_.
      gobind (other (x_Now X)) (\<lambda>now.
      bindE (filterRunningPod X operatorNamespace (findpvdir_manifest b meta operatorNamespace now))
        (\<lambda>e. e) (locateVolume X meta name))))"

definition backup2nfs_manifest :: "Backup \<Rightarrow> NFS \<Rightarrow> pvdataMeta \<Rightarrow> string \<Rightarrow> string \<Rightarrow> string" where
  "backup2nfs_manifest b nfs meta ns now =
     Sprintf TemplateBackup2nfs
       [theDeployName backup2nfsName (Some b) meta, ns, AnnotationUpdatedTime, now,
        nodeName meta, backup2nfsImage, sp_TimeZone (b_Spec b), StorageNFS, resticRepo,
        sp_CredentialName (b_Spec b), resticRepo, nfs_Server nfs, nfs_Path nfs]"

definition createBackup2nfsDeployment :: "'w cluster \<Rightarrow> Backup \<Rightarrow> pvdataMeta \<Rightarrow> ('w, Pod) bgo" where
  "createBackup2nfsDeployment X b meta =
     (let operatorNamespace = GetOperatorNamespace X in
      gobind (modify (\<lambda>s. s\<lparr>DeployNameBackup2nfs := theDeployName backup2nfsName (Some b) meta\<rparr>)) (\<lambda>_.
      gobind (other (x_Now X)) (\<lambda>now.
      gobind (deref (sp_BackupTo (b_Spec b))) (\<lambda>to.
      gobind (deref (bt_NFS to)) (\<lambda>nfs.
        filterRunningPod X operatorNamespace (backup2nfs_manifest b nfs meta operatorNamespace now))))))"

definition minio_repo :: "MinIO \<Rightarrow> MinioEndpoint \<Rightarrow> string" where
  "minio_repo m ep =
     (let repo = ''s3:'' @ me_Scheme ep @ ''://'' @ (me_Address ep @ '':'' @ Itoa (uint (me_Port ep)))
            @ ''/'' @ minio_Bucket m
      in if length (minio_Folder m) \<noteq> 0 then repo @ minio_Folder m else repo)"

definition backup2minio_manifest :: "Backup \<Rightarrow> string \<Rightarrow> pvdataMeta \<Rightarrow> string \<Rightarrow> string \<Rightarrow> string" where
  "backup2minio_manifest b repo meta ns now =
     (let credentialName = sp_CredentialName (b_Spec b) in
      Sprintf TemplateBackup2minio
       [theDeployName backup2minioName (Some b) meta, ns, AnnotationUpdatedTime, now,
        nodeName meta, backup2minioImage, sp_TimeZone (b_Spec b), StorageMinIO, repo,
        credentialName, credentialName, credentialName, credentialName, credentialName])"

definition createBackup2minioDepoyment :: "'w cluster \<Rightarrow> Backup \<Rightarrow> pvdataMeta \<Rightarrow> ('w, Pod) bgo" where
  "createBackup2minioDepoyment X b meta =
     gobind (deref (sp_BackupTo (b_Spec b))) (\<lambda>to.
     gobind (deref (bt_MinIO to)) (\<lambda>m.
     gobind (deref (minio_Endpoint m)) (\<lambda>ep.
     let operatorNamespace = GetOperatorNamespace X;
         endpoint = me_Address ep @ '':'' @ Itoa (uint (me_Port ep))
     in
     gobind (modify (\<lambda>s. s\<lparr>secHandler := operatorNamespace\<rparr>)) (\<lambda>_.
     bindE (secGet X (sp_CredentialName (b_Spec b)))
       (\<lambda>e. x_Wrap X e ''secret handler get secret failed'') (\<lambda>secData.
     gobind (minioNew X endpoint (data_at secData envMinioAccessKey)
               (data_at secData envMinioSecretKey) False) (\<lambda>client.
     bindE (MakeBucket X client (minio_Bucket m) [])
       (\<lambda>e. x_Wrap X e ''make minio bucket failed'') (\<lambda>_.
     bindE (MakeFolder client (minio_Folder m))
       (\<lambda>e. x_Wrap X e ''make minio folder failed'') (\<lambda>_.
     gobind (modify (\<lambda>s. s\<lparr>DeployNameBackup2minio := theDeployName backup2minioName (Some b) meta\<rparr>)) (\<lambda>_.
     gobind (other (x_Now X)) (\<lambda>now.
       filterRunningPod X operatorNamespace
         (backup2minio_manifest b (minio_repo m ep) meta operatorNamespace now)))))))))))"

definition sftp_repo :: "SFTP \<Rightarrow> string \<Rightarrow> string" where
  "sftp_repo t user =
     Sprintf ''sftp://%s@%s:%d/%s'' [user, sftp_Address t, Itoa (uint (sftp_Port t)), sftp_Path t]"

definition backup2sftp_manifest :: "Backup \<Rightarrow> string \<Rightarrow> pvdataMeta \<Rightarrow> string \<Rightarrow> string \<Rightarrow> string" where
  "backup2sftp_manifest b repo meta ns now =
     (let credentialName = sp_CredentialName (b_Spec b) in
      Sprintf TemplateBackup2sftp
       [theDeployName backup2sftpName (Some b) meta, ns, AnnotationUpdatedTime, now,
        nodeName meta, backup2sftpImage, sp_TimeZone (b_Spec b), StorageSFTP, repo,
        credentialName, credentialName, credentialName])"

definition createBackup2sftpDeployment :: "'w cluster \<Rightarrow> Backup \<Rightarrow> pvdataMeta \<Rightarrow> ('w, Pod) bgo" where
  "createBackup2sftpDeployment X b meta =
     (let operatorNamespace = GetOperatorNamespace X in
     gobind (modify (\<lambda>s. s\<lparr>secHandler := operatorNamespace\<rparr>)) (\<lambda>_.
     bindE (secGet X (sp_CredentialName (b_Spec b)))
       (\<lambda>e. x_Wrap X e ''secret handler get secret failed'') (\<lambda>secData.
     gobind (deref (sp_BackupTo (b_Spec b))) (\<lambda>to.
     gobind (deref (bt_SFTP to)) (\<lambda>t.
     bindE (MakeDirOnSftp X (sftp_Address t) (sftp_Port t) (data_at secData envSftpUsername)
              (data_at secData envSftpPassword) (sftp_Path t))
       (\<lambda>e. x_Wrap X e ''mkdir on sftp server failed'') (\<lambda>_.
     gobind (modify (\<lambda>s. s\<lparr>DeployNameBackup2sftp := theDeployName backup2sftpName (Some b) meta\<rparr>)) (\<lambda>_.
     gobind (other (x_Now X)) (\<lambda>now.
       filterRunningPod X operatorNamespace
         (backup2sftp_manifest b (sftp_repo t (data_at secData envSftpUsername)) meta
            operatorNamespace now)))))))))"

end
