(* ===== verification/BackupRun.thy ===== *)
theory BackupRun
  imports BackupDeploy
begin

text \<open>
  \<^verbatim>\<open>pkg/backup/execute.go\<close>, \<^verbatim>\<open>factory.go\<close> and \<^verbatim>\<open>backup.go\<close>: the restic commands run in the helper pod,
  the dispatch on the storage, the collection of the persistent volumes to back up and the run as a
  whole with its deferred cleanup.
\<close>

section \<open>execute.go\<close>

definition mountHostRootPath :: string where "mountHostRootPath = ''/host-root''"

definition pv_path :: "pvdataMeta \<Rightarrow> string" where
  "pv_path meta =
     (if volumeSource meta \<in> {VolumeHostPath, VolumeLocal}
      then filepath_Join [mountHostRootPath, pvdir meta]
      else filepath_Join [mountHostRootPath, pvdir meta, pvname meta])"

definition cluster_name :: "Backup \<Rightarrow> string" where
  "cluster_name b = (if length (sp_Cluster (b_Spec b)) = 0 then DefaultClusterName
                     else sp_Cluster (b_Spec b))"

definition backup_cmd :: "'w cluster \<Rightarrow> Backup \<Rightarrow> BackupFrom \<Rightarrow> string \<Rightarrow> pvdataMeta \<Rightarrow> string list" where
  "backup_cmd X b from pvc meta =
     Split (x_CmdBackup X [bf_Resource from, b_Namespace b, bf_Name from, pvc] (cluster_name b)
              (pv_path meta)) CHR '' ''"

definition executeBackupCommand ::
    "'w cluster \<Rightarrow> Backup \<Rightarrow> Pod option \<Rightarrow> string \<Rightarrow> pvdataMeta \<Rightarrow> ('w, unit) bgo" where
  "executeBackupCommand X b execPod pvc meta =
     (if length (pvdir meta) = 0 then
        throw (Errorf ''persistentvolume directory is empty, skip backup'')
      else if length (pvname meta) = 0 then
        throw (Errorf ''persistentvolume name is empty, skip backup'')
      else
        gobind (deref execPod) (\<lambda>pod.
        gobind (deref (sp_BackupFrom (b_Spec b))) (\<lambda>from.
        let operatorNamespace = GetOperatorNamespace X in
        gobind (modify (\<lambda>s. s\<lparr>podHandler := operatorNamespace\<rparr>)) (\<lambda>_.
        gobind (gets podHandler) (\<lambda>ns.
        gobind (podExec X ns (p_Name pod) (Split (x_CmdListKeys X) CHR '' '')) (\<lambda>(err, _).
        bindE (case err of
                 None \<Rightarrow> retE ()
               | Some e \<Rightarrow>
                   gobind (podExec X ns (p_Name pod) (Split (x_CmdInit X) CHR '' '')) (\<lambda>(err2, _).
                     case err2 of
                       None \<Rightarrow> retE ()
                     | Some e2 \<Rightarrow> throw (Errorf ''restic init failed'')))
          (\<lambda>e. e) (\<lambda>_.
        gobind (podExec X operatorNamespace (p_Name pod) (backup_cmd X b from pvc meta)) (\<lambda>(err3, _).
          case err3 of
            None \<Rightarrow> retE ()
          | Some e3 \<Rightarrow>
              throw (Errorf (Sprintf
                ''restic backup pvc/%s failed, maybe the directory/file of %s do not exist in k8s node''
                [pvc, pv_path meta])))))))))) "

section \<open>factory.go\<close>

definition supported_storages :: "Storage list" where
  "supported_storages = [StorageNFS, StorageMinIO, StorageS3, StorageCephFS, StorageRClone, StorageSFTP,
     StorageRestServer]"

definition waitSource :: "'w cluster \<Rightarrow> string \<Rightarrow> Resource \<Rightarrow> string \<Rightarrow> ('w, unit) bgo" where
  "waitSource X namespace resource name =
     (if resource = PodResource then
        bindE (of_err (call_ext (BWaitReady resource namespace name) (x_PodWaitReady X namespace name)))
          (\<lambda>e. x_Wrap X e (Sprintf ''pod handler wait pod/%s to be ready failed'' [name])) retE
      else if resource = DeploymentResource then
        bindE (of_err (call_ext (BWaitReady resource namespace name) (x_DepWaitReady X namespace name)))
          (\<lambda>e. x_Wrap X e (Sprintf ''deployment handler wait deployment/%s to be ready failed'' [name])) retE
      else if resource = StatefulSetResource then
        bindE (of_err (call_ext (BWaitReady resource namespace name) (x_StsWaitReady X namespace name)))
          (\<lambda>e. x_Wrap X e (Sprintf ''statefulset handler wait statefulset/%s to be ready failed'' [name])) retE
      else if resource = DaemonSetResource then
        bindE (of_err (call_ext (BWaitReady resource namespace name) (x_DsWaitReady X namespace name)))
          (\<lambda>e. x_Wrap X e (Sprintf ''daemonset handler wait daemonset/%s to be ready failed'' [name])) retE
      else throw (Errorf (Sprintf ''not support backup resource: %s'' [resource])))"

text \<open>The pod the storage needs; a storage without a case of its own leaves the nil pointer.\<close>

definition execPodFor :: "'w cluster \<Rightarrow> Storage \<Rightarrow> Backup \<Rightarrow> pvdataMeta \<Rightarrow> ('w, Pod option) bgo" where
  "execPodFor X storage b meta =
     (if storage = StorageNFS then
        bindE (createBackup2nfsDeployment X b meta) (\<lambda>e. e) (\<lambda>p. retE (Some p))
      else if storage = StorageMinIO then
        bindE (createBackup2minioDepoyment X b meta) (\<lambda>e. e) (\<lambda>p. retE (Some p))
      else if storage = StorageSFTP then
        bindE (createBackup2sftpDeployment X b meta) (\<lambda>e. e) (\<lambda>p. retE (Some p))
      else retE None)"

definition backupFactory ::
    "'w cluster \<Rightarrow> Storage \<Rightarrow> Backup \<Rightarrow> string \<Rightarrow> pvdataMeta \<Rightarrow> ('w, unit) bgo" where
  "backupFactory X storage b pvc meta =
     (if storage \<notin> set supported_storages then
        throw (Errorf (Sprintf ''not support storage type: %s'' [storage]))
      else
        gobind (deref (sp_BackupFrom (b_Spec b))) (\<lambda>from.
        bindE (waitSource X (b_Namespace b) (bf_Resource from) (bf_Name from)) (\<lambda>e. e) (\<lambda>_.
        bindE (execPodFor X storage b meta) (\<lambda>e. e) (\<lambda>execPod.
        executeBackupCommand X b execPod pvc meta))))"

section \<open>backup.go\<close>

text \<open>The map from pvc names to the metadata of their volumes, in insertion order.\<close>

type_synonym pvcpv = "(string \<times> pvdataMeta) list"

text \<open>Looking up a key that is not in the map gives the zero value.\<close>

definition at :: "pvcpv \<Rightarrow> string \<Rightarrow> pvdataMeta" where
  "at m pvc = (case map_of m pvc of None \<Rightarrow> zeroMeta | Some meta \<Rightarrow> meta)"

definition podsOf :: "'w cluster \<Rightarrow> Backup \<Rightarrow> ('w, Pod list) bgo" where
  "podsOf X b =
     gobind (deref (sp_BackupFrom (b_Spec b))) (\<lambda>from.
     let namespace = b_Namespace b; name = bf_Name from;
         failed = (\<lambda>kd msg e.
           if x_IsNotFound X e
           then Errorf (Sprintf (kd @ ''/%s not found in namespace %s, skip backup'') [name, namespace])
           else x_Wrap X e msg)
     in
     if bf_Resource from = PodResource then
       gobind (gets podHandler) (\<lambda>ns.
       bindE (other (x_PodGet X ns name)) (failed ''pod'' ''pod handler get pod failed'')
         (\<lambda>p. retE [p]))
     else if bf_Resource from = DeploymentResource then
       bindE (depGetPods X name) (failed ''deployment'' ''deployment handler get pod failed'') retE
     else if bf_Resource from = StatefulSetResource then
       gobind (gets stsHandler) (\<lambda>ns.
       bindE (other (x_StsGetPods X ns name))
         (failed ''statefulset'' ''statefulset handler get pod failed'') retE)
     else if bf_Resource from = DaemonSetResource then
       gobind (gets dsHandler) (\<lambda>ns.
       bindE (other (x_DsGetPods X ns name))
         (failed ''daemonset'' ''daemonset handler get pod failed'') retE)
     else throw (Errorf ''Backup.spec.backupFrom.resource field value must be pod, deployment, statefulset or daemonset''))"

text \<open>First loop over the pvcs of a pod: a pvc whose volume cannot be read is skipped.\<close>

definition collectPVC :: "'w cluster \<Rightarrow> Pod \<Rightarrow> string \<Rightarrow> string \<Rightarrow> string \<Rightarrow> pvcpv \<Rightarrow> ('w, pvcpv) bgo" where
  "collectPVC X pod node uid pvc m =
     gobind (gets pvcHandler) (\<lambda>ns.
     gobind (call_ext (BGetPV pvc) (x_PvcGetPV X ns pvc)) (\<lambda>r.
       case r of
         Inl e \<Rightarrow> retE m
       | Inr pv \<Rightarrow>
           gobind (call_ext (BVolumeSource pv) (x_PvVolumeSource X pv)) (\<lambda>r2.
             case r2 of
               Inl e \<Rightarrow> retE m
             | Inr src \<Rightarrow>
                 retE (AList.update pvc
                   (zeroMeta\<lparr>volumeSource := src, nodeName := node, podName := p_Name pod,
                      podUID := uid, pvname := pv\<rparr>) m))))"

text \<open>Second loop: the data directory of each pvc of the pod, skipped ones included.\<close>

definition locatePVC :: "'w cluster \<Rightarrow> Backup \<Rightarrow> string \<Rightarrow> pvcpv \<Rightarrow> ('w, pvcpv) bgo" where
  "locatePVC X b pvc m =
     bindE (createFindpvdirDeployment X b (at m pvc))
       (\<lambda>e. Errorf (Sprintf ''create deployment/%s failed: %s''
          [findpvdirName @ ''-'' @ nodeName (at m pvc), Error e])) (\<lambda>dir.
       if length dir = 0 then retE m
       else retE (AList.update pvc ((at m pvc)\<lparr>pvdir := dir\<rparr>) m))"

definition podPVCs :: "'w cluster \<Rightarrow> Backup \<Rightarrow> Pod \<Rightarrow> pvcpv \<Rightarrow> ('w, pvcpv) bgo" where
  "podPVCs X b pod m =
     gobind (gets podHandler) (\<lambda>ns.
     bindE (call_ext (BNodeName (p_Name pod)) (x_PodNodeName X ns pod))
       (\<lambda>e. x_Wrap X e (''pod handler get pod'' @ [CHR 0x27] @ ''s node name failed'')) (\<lambda>node.
     bindE (call_ext (BPodUID (p_Name pod)) (x_PodUID X ns pod))
       (\<lambda>e. x_Wrap X e (''pod handler get pod'' @ [CHR 0x27] @ ''s uid failed'')) (\<lambda>uid.
     bindE (call_ext (\<lambda>r. BPodPVC (p_Name pod) (case r of Inl e \<Rightarrow> [] | Inr l \<Rightarrow> l)) (x_PodPVC X ns pod))
       (\<lambda>e. x_Wrap X e ''pod handler get persistentvolumeclaim failed'') (\<lambda>pvcList.
     bindE (foldG (collectPVC X pod node uid) pvcList m) (\<lambda>e. e) (\<lambda>m'.
     foldG (locatePVC X b) pvcList m')))))"

definition constructPvcpvMap :: "'w cluster \<Rightarrow> Backup \<Rightarrow> ('w, pvcpv) bgo" where
  "constructPvcpvMap X b =
     gobind (modify (\<lambda>s. s\<lparr>podHandler := b_Namespace b, depHandler := b_Namespace b,
       rsHandler := b_Namespace b, stsHandler := b_Namespace b, dsHandler := b_Namespace b,
       pvcHandler := b_Namespace b\<rparr>)) (\<lambda>_.
     bindE (podsOf X b) (\<lambda>e. e) (\<lambda>podObjList.
     bindE (foldG (podPVCs X b) podObjList []) (\<lambda>e. e) (\<lambda>m.
     if length m = 0 then
       gobind (deref (sp_BackupFrom (b_Spec b))) (\<lambda>from.
         throw (Errorf (Sprintf ''There is no pvc mounted by the %s/%s, skip backup''
           [bf_Resource from, bf_Name from])))
     else retE m)))"

definition depDelete :: "'w cluster \<Rightarrow> ('w session \<Rightarrow> string) \<Rightarrow> ('w session, unit) go" where
  "depDelete X sel =
     gobind (gets depHandler) (\<lambda>ns.
     gobind (gets sel) (\<lambda>name.
     gobind (call_ext (BDelete ns name) (x_DepDelete X ns name)) (\<lambda>_. ret ())))"

fun seqG :: "('s, unit) go list \<Rightarrow> ('s, unit) go" where
  "seqG [] = ret ()"
| "seqG (m # ms) = gobind m (\<lambda>_. seqG ms)"

definition cleanup :: "'w cluster \<Rightarrow> ('w session, unit) go" where
  "cleanup X =
     gobind (modify (\<lambda>s. s\<lparr>depHandler := GetOperatorNamespace X\<rparr>)) (\<lambda>_.
     seqG [depDelete X DeployNameFindpvdir, depDelete X DeployNameBackup2nfs,
           depDelete X DeployNameBackup2minio, depDelete X DeployNameBackup2s3,
           depDelete X DeployNameBackup2cephfs, depDelete X DeployNameBackup2sftp,
           depDelete X DeployNameBackup2rclone, depDelete X DeployNameBackup2restserver])"

definition backupAll :: "'w cluster \<Rightarrow> Backup \<Rightarrow> pvcpv \<Rightarrow> Storage \<Rightarrow> unit \<Rightarrow> ('w, unit) bgo" where
  "backupAll X b m storage u =
     gobind (call_ext (BRange (map fst m)) (x_Range X (map fst m))) (\<lambda>order.
     foldG (\<lambda>pvc u.
       bindE (backupFactory X storage b pvc (at m pvc))
         (\<lambda>e. x_Wrap X e (Sprintf ''Backup pvc/%s to %s failed'' [pvc, storage])) retE) order ())"

definition of_outcome :: "'a outcome \<Rightarrow> ('s, 'a) go" where
  "of_outcome r = (case r of Ret a \<Rightarrow> ret a | Halt h \<Rightarrow> halting h)"

definition runBackup :: "'w cluster \<Rightarrow> string \<Rightarrow> string \<Rightarrow> ('w, unit) bgo" where
  "runBackup X namespace name =
     bindE (other (x_DynGet X (GroupStorage, VersionStorage, KindBackup) namespace name))
       (\<lambda>e. x_Wrap X e (Sprintf ''dynamic handler get \"%s.%s\" resource object failed''
          [ResourceBackup, GroupStorage])) (\<lambda>unstructObj.
     bindE (ret (x_FromUnstructured X unstructObj))
       (\<lambda>e. x_Wrap X e (Sprintf ''convert unstructured object to %s.%s resource object failed''
          [ResourceBackup, GroupStorage])) (\<lambda>backupObj.
     gobind (deref (sp_BackupFrom (b_Spec backupObj))) (\<lambda>backupFrom.
     bindE (constructPvcpvMap X backupObj) (\<lambda>e. e) (\<lambda>pvcpvMap.
     gobind (of_outcome (parseStorage backupObj)) (\<lambda>storages.
     foldG (backupAll X backupObj pvcpvMap) storages ())))))"

definition Do :: "'w cluster \<Rightarrow> string \<Rightarrow> string \<Rightarrow> ('w, unit) bgo" where
  "Do X namespace name = defer_to (cleanup X) (runBackup X namespace name)"

end
