(* ===== verification/BackupTrace.thy ===== *)
theory BackupTrace
  imports BackupRun
begin

text \<open>
  Trace contracts of the backup run: which calls a run may make whatever the cluster answers, how it can
  halt, and its deferred cleanup. The contract is the locale \<open>trace_contract\<close>, whose rules follow the
  shape of the program; it is interpreted once for deletions and exits and once for the namespace
  the run works in.
\<close>

section \<open>Trace contracts\<close>

text \<open>
  \<open>traced P R m\<close>: every call \<open>m\<close> makes satisfies \<open>P\<close>, and when \<open>m\<close> halts then \<open>R\<close> holds of the way
  it halts and of the calls it made. The rules follow the shape of the program.
\<close>

definition traced :: "(bcall \<Rightarrow> bool) \<Rightarrow> (halt \<Rightarrow> bcall list \<Rightarrow> bool) \<Rightarrow> ('w session, 'a) go \<Rightarrow> bool" where
  "traced P R m \<longleftrightarrow> (\<forall>s. wp m (\<lambda>r t. \<exists>new. calls t = calls s @ new \<and> list_all P new \<and>
     (case r of Halt h \<Rightarrow> R h new | Ret a \<Rightarrow> True)) s)"

locale trace_contract =
  fixes P :: "bcall \<Rightarrow> bool" and R :: "halt \<Rightarrow> bcall list \<Rightarrow> bool"
  assumes R_prefix: "R h new \<Longrightarrow> R h (old @ new)"
    and R_panic: "R Panic []"
begin

lemma traced_ret: "traced P R (ret a :: ('w session, 'a) go)"
  and traced_gets: "traced P R (gets f :: ('w session, 'b) go)"
  and traced_modify: "(\<And>s. calls (g s) = calls s) \<Longrightarrow> traced P R (modify g :: ('w session, unit) go)"
  by (simp_all add: traced_def wp_simps)

lemma traced_retE: "traced P R (retE a :: ('w session, goerr + 'a) go)"
  and traced_throw: "traced P R (throw e :: ('w session, goerr + 'b) go)"
  by (simp_all add: traced_def wp_simps)

lemma traced_deref: "traced P R (deref p :: ('w session, 'a) go)"
  by (cases p) (simp_all add: traced_def wp_simps R_panic)

lemma traced_call: "(\<And>r. P (ev r)) \<Longrightarrow> traced P R (call_ext ev f :: ('w session, 'a) go)"
  unfolding traced_def by (auto intro!: wp_call_ext)

lemma traced_other: "P BOther \<Longrightarrow> traced P R (other f :: ('w session, 'a) go)"
  unfolding other_def by (rule traced_call)

lemma traced_gobind:
  fixes m :: "('w session, 'a) go" and f :: "'a \<Rightarrow> ('w session, 'b) go"
  assumes m: "traced P R m" and f: "\<And>a. traced P R (f a)"
  shows "traced P R (gobind m f)"
  unfolding traced_def wp_gobind
proof
  fix s :: "'w session"
  show "wp m (\<lambda>r t. case r of
      Ret a \<Rightarrow> wp (f a) (\<lambda>r t. \<exists>new. calls t = calls s @ new \<and> list_all P new \<and>
        (case r of Halt h \<Rightarrow> R h new | Ret a \<Rightarrow> True)) t
    | Halt h \<Rightarrow> \<exists>new. calls t = calls s @ new \<and> list_all P new \<and>
        (case Halt h of Halt h \<Rightarrow> R h new | Ret a \<Rightarrow> True)) s"
  proof (rule wp_conseq [OF m [unfolded traced_def, rule_format]], goal_cases)
    case (1 r t)
    then obtain xs where xs: "calls t = calls s @ xs" "list_all P xs"
      "case r of Halt h \<Rightarrow> R h xs | Ret a \<Rightarrow> True" by blast
    show ?case
    proof (cases r)
      case (Ret a)
      have "wp (f a) (\<lambda>r u. \<exists>new. calls u = calls s @ new \<and> list_all P new \<and>
          (case r of Halt h \<Rightarrow> R h new | Ret a \<Rightarrow> True)) t"
      proof (rule wp_conseq [OF f [unfolded traced_def, rule_format]], goal_cases)
        case (1 r' u)
        then obtain ys where "calls u = calls t @ ys" "list_all P ys"
          "case r' of Halt h \<Rightarrow> R h ys | Ret a \<Rightarrow> True" by blast
        with xs show ?case
          by (intro exI [of _ "xs @ ys"]) (auto intro: R_prefix split: outcome.splits)
      qed
      with Ret show ?thesis by simp
    next
      case (Halt h)
      with xs show ?thesis by auto
    qed
  qed
qed

lemma traced_bindE:
  fixes m :: "('w session, goerr + 'a) go" and f :: "'a \<Rightarrow> ('w session, goerr + 'b) go"
  assumes "traced P R m" "\<And>a. traced P R (f a)"
  shows "traced P R (bindE m w f)"
  unfolding bindE_def
  by (rule traced_gobind [OF assms(1)]) (auto intro: traced_ret assms(2) split: sum.split)

lemma traced_of_err:
  fixes m :: "('w session, goerr option) go"
  shows "traced P R m \<Longrightarrow> traced P R (of_err m)"
  unfolding of_err_def by (erule traced_gobind) (rule traced_ret)

lemma traced_foldG:
  fixes body :: "'a \<Rightarrow> 'l \<Rightarrow> ('w session, 'e + 'l) go"
  assumes "\<And>x l. traced P R (body x l)"
  shows "traced P R (foldG body xs l)"
proof (induction xs arbitrary: l)
  case Nil
  show ?case by (simp add: traced_ret)
next
  case (Cons x xs)
  show ?case
    unfolding foldG.simps
    by (rule traced_gobind [OF assms]) (auto intro: traced_ret Cons.IH split: sum.split)
qed

lemma traced_cases:
  fixes a :: "('w session, 'r) go"
  shows "traced P R a \<Longrightarrow> traced P R b \<Longrightarrow> traced P R (if c then a else b)"
    and "traced P R a \<Longrightarrow> (\<And>x. traced P R (f x)) \<Longrightarrow> traced P R (case opt of None \<Rightarrow> a | Some x \<Rightarrow> f x)"
    and "(\<And>x. traced P R (g x)) \<Longrightarrow> (\<And>x. traced P R (h x)) \<Longrightarrow>
      traced P R (case sm of Inl x \<Rightarrow> g x | Inr x \<Rightarrow> h x)"
    and "(\<And>x y. traced P R (k x y)) \<Longrightarrow> traced P R (case pr of (x, y) \<Rightarrow> k x y)"
  by (auto split: option.split sum.split prod.split)

lemmas rules = traced_cases traced_ret traced_gets traced_retE traced_throw traced_deref traced_call traced_other
  traced_gobind traced_bindE traced_of_err traced_foldG

end

section \<open>What a run never does, and how it can exit\<close>

fun is_delete :: "bcall \<Rightarrow> bool" where
  "is_delete (BDelete ns name e) = True"
| "is_delete c = False"

text \<open>The calls after which \<^verbatim>\<open>pkg/minio\<close> ends the process.\<close>

fun minio_failed :: "bcall \<Rightarrow> bool" where
  "minio_failed (BMinioNew ep ssl e) = (e \<noteq> None)"
| "minio_failed (BBucketExists name ex e) = (e \<noteq> None \<or> \<not> ex)"
| "minio_failed c = False"

definition halts_by_minio :: "halt \<Rightarrow> bcall list \<Rightarrow> bool" where
  "halts_by_minio h new \<longleftrightarrow> h = Panic \<or> (h = Exit 1 \<and> new \<noteq> [] \<and> minio_failed (last new))"

interpretation nodel: trace_contract "\<lambda>c. \<not> is_delete c" halts_by_minio
  by unfold_locales (auto simp: halts_by_minio_def)

abbreviation tidy :: "('w session, 'a) go \<Rightarrow> bool" where
  "tidy \<equiv> traced (\<lambda>c. \<not> is_delete c) halts_by_minio"

lemma tidy_halting: "tidy (halting Panic)"
  by (simp add: traced_def wp_simps halts_by_minio_def)

lemmas tidy_rules = nodel.rules nodel.traced_modify

lemma tidy_filterRunningPod: "tidy (filterRunningPod X ns txt)"
  unfolding filterRunningPod_def resetWorkloads_def depApply_def depWaitReady_def depGetPods_def
  by (intro tidy_rules) simp_all

lemma tidy_minioNew: "tidy (minioNew X ep ak sk ssl)"
  unfolding traced_def minioNew_def wp_gobind
  by (auto intro!: wp_call_ext simp: wp_simps halts_by_minio_def split: sum.split)

lemma tidy_MakeBucket: "tidy (MakeBucket X cl name loc)"
  unfolding traced_def MakeBucket_def wp_gobind
  by (auto intro!: wp_call_ext simp: wp_simps halts_by_minio_def split: option.split prod.split)

lemma tidy_podExec: "tidy (podExec X ns pod cmd)"
  unfolding podExec_def by (intro tidy_rules) simp

lemma tidy_retryFind: "tidy (retryFind X pod cmd dep n buf)"
  by (induction n arbitrary: buf) (auto intro!: tidy_rules tidy_podExec)

lemma tidy_createFindpvdir: "tidy (createFindpvdirDeployment X b meta)"
  unfolding createFindpvdirDeployment_def locateVolume_def Let_def
  by (intro tidy_rules tidy_filterRunningPod tidy_retryFind) simp_all

lemma tidy_nfs: "tidy (createBackup2nfsDeployment X b meta)"
  unfolding createBackup2nfsDeployment_def Let_def
  by (intro tidy_rules tidy_filterRunningPod) simp_all

lemma tidy_minio: "tidy (createBackup2minioDepoyment X b meta)"
  unfolding createBackup2minioDepoyment_def Let_def secGet_def MakeFolder_def
  by (intro tidy_rules tidy_filterRunningPod tidy_minioNew tidy_MakeBucket) simp_all

lemma tidy_sftp: "tidy (createBackup2sftpDeployment X b meta)"
  unfolding createBackup2sftpDeployment_def Let_def secGet_def MakeDirOnSftp_def
  by (intro tidy_rules tidy_filterRunningPod) simp_all

lemma tidy_execute: "tidy (executeBackupCommand X b pod pvc meta)"
  unfolding executeBackupCommand_def Let_def
  by (intro tidy_rules tidy_podExec) simp_all

lemma tidy_factory: "tidy (backupFactory X storage b pvc meta)"
  unfolding backupFactory_def waitSource_def execPodFor_def
  by (intro tidy_rules tidy_nfs tidy_minio tidy_sftp tidy_execute) simp_all

lemma tidy_construct: "tidy (constructPvcpvMap X b)"
  unfolding constructPvcpvMap_def podsOf_def Let_def podPVCs_def collectPVC_def locatePVC_def depGetPods_def
  by (intro tidy_rules tidy_createFindpvdir) simp_all

lemma tidy_runBackup: "tidy (runBackup X ns name)"
  unfolding runBackup_def of_outcome_def backupAll_def parseStorage_def
  by (auto intro!: tidy_rules tidy_construct tidy_factory tidy_halting split: outcome.split option.splits)

section \<open>Cleanup\<close>

definition deploy_names :: "'w session \<Rightarrow> string list" where
  "deploy_names t = [DeployNameFindpvdir t, DeployNameBackup2nfs t, DeployNameBackup2minio t,
     DeployNameBackup2s3 t, DeployNameBackup2cephfs t, DeployNameBackup2sftp t,
     DeployNameBackup2rclone t, DeployNameBackup2restserver t]"

definition cleaned :: "'w cluster \<Rightarrow> bcall list \<Rightarrow> 'w session \<Rightarrow> bool" where
  "cleaned X old t \<longleftrightarrow> (\<exists>errs. length errs = 8 \<and>
     calls t = old @ map2 (BDelete (GetOperatorNamespace X)) (deploy_names t) errs)"

lemma wp_deletes:
  assumes "\<forall>sel \<in> set sels. \<forall>s w cs. sel (s\<lparr>ext := w, calls := cs\<rparr>) = sel s"
  shows "wp (seqG (map (depDelete X) sels))
    (\<lambda>r t. \<exists>w errs. r = Ret () \<and> length errs = length sels \<and>
       t = s\<lparr>ext := w, calls := calls s @ map2 (BDelete (depHandler s)) (map (\<lambda>sel. sel s) sels) errs\<rparr>) s"
  using assms
proof (induction sels arbitrary: s)
  case Nil
  show ?case by (simp add: wp_simps) (rule exI [of _ "ext s"], simp)
next
  case (Cons sel sels)
  have del: "wp (depDelete X sel) (\<lambda>r t. \<exists>w e. r = Ret () \<and>
      t = s\<lparr>ext := w, calls := calls s @ [BDelete (depHandler s) (sel s) e]\<rparr>) s"
    unfolding depDelete_def
    by (auto simp: wp_gobind wp_gets intro!: wp_call_ext) (auto simp: wp_simps)
  show ?case
    unfolding list.map seqG.simps wp_gobind
  proof (rule wp_conseq [OF del], goal_cases)
    case (1 r t)
    then obtain w e where t: "r = Ret ()" "t = s\<lparr>ext := w, calls := calls s @ [BDelete (depHandler s) (sel s) e]\<rparr>"
      by blast
    have sel: "map (\<lambda>sel. sel t) sels = map (\<lambda>sel. sel s) sels"
      unfolding t(2) using Cons.prems by auto
    have "wp (seqG (map (depDelete X) sels)) (\<lambda>r u. \<exists>w errs. r = Ret () \<and>
        length errs = Suc (length sels) \<and> u = s\<lparr>ext := w, calls := calls s @
          map2 (BDelete (depHandler s)) (sel s # map (\<lambda>sel. sel s) sels) errs\<rparr>) t"
    proof (rule wp_conseq [OF Cons.IH], goal_cases)
      case 1
      then show ?case using Cons.prems by simp
    next
      case (2 r u)
      then obtain w' errs where "r = Ret ()" "length errs = length sels" "u = t\<lparr>ext := w',
        calls := calls t @ map2 (BDelete (depHandler t)) (map (\<lambda>sel. sel s) sels) errs\<rparr>"
        unfolding sel by blast
      then show ?case
        by (intro exI [of _ w'] exI [of _ "e # errs"]) (simp add: t(2))
    qed
    with t(1) show ?case by simp
  qed
qed

lemma wp_cleanup:
  fixes s :: "'w session"
  shows "wp (cleanup X) (\<lambda>r t. r = Ret () \<and> cleaned X (calls s) t) s"
proof -
  let ?sels = "[DeployNameFindpvdir, DeployNameBackup2nfs, DeployNameBackup2minio, DeployNameBackup2s3,
    DeployNameBackup2cephfs, DeployNameBackup2sftp, DeployNameBackup2rclone, DeployNameBackup2restserver]
    :: ('w session \<Rightarrow> string) list"
  let ?s = "s\<lparr>depHandler := GetOperatorNamespace X\<rparr>"
  have run: "cleanup X = gobind (modify (\<lambda>s. s\<lparr>depHandler := GetOperatorNamespace X\<rparr>))
      (\<lambda>_. seqG (map (depDelete X) ?sels))"
    by (simp add: cleanup_def)
  show ?thesis
    unfolding run wp_gobind wp_modify outcome.case
  proof (rule wp_conseq [OF wp_deletes [of ?sels X ?s]], goal_cases)
    case (2 r t)
    then obtain w errs where t: "r = Ret ()" "length errs = length ?sels" "t = ?s\<lparr>ext := w, calls :=
        calls ?s @ map2 (BDelete (depHandler ?s)) (map (\<lambda>sel. sel ?s) ?sels) errs\<rparr>"
      by blast
    then show ?case unfolding cleaned_def by (intro conjI exI [of _ errs]) (simp_all add: deploy_names_def)
  qed simp
qed

text \<open>
  C15. However a backup run ends, by returning with or without an error or by panicking, its last eight
  calls delete, in the operator's namespace, the deployments whose names the package variables hold,
  and no deployment was deleted before.
\<close>

theorem Do_cleans_up:
  "wp (Do X ns name) (\<lambda>r t. case r of
      Halt (Exit n) \<Rightarrow> True
    | _ \<Rightarrow> \<exists>new. \<not> list_ex is_delete new \<and> cleaned X (calls s @ new) t) s"
  unfolding Do_def
proof (rule wp_defer_to, rule wp_conseq [OF tidy_runBackup [unfolded traced_def, rule_format]], goal_cases)
  case (1 r t)
  then obtain new where new: "calls t = calls s @ new" "\<not> list_ex is_delete new"
    by (auto simp: list_ex_iff list_all_iff)
  with wp_cleanup [of X t] show ?case
    by (auto split: outcome.splits halt.splits elim!: wp_conseq)
qed

text \<open>
  C17. The process exits in the middle of a run only through \<^verbatim>\<open>pkg/minio\<close>: with status 1, right after
  the client could not be made or the bucket neither created nor found. Nothing has then been deleted: the
  helper deployments of the run stay in the cluster.
\<close>

theorem Do_exit_leaves_deployments:
  "wp (Do X ns name) (\<lambda>r t. case r of
      Halt (Exit n) \<Rightarrow> n = 1 \<and> (\<exists>new. calls t = calls s @ new \<and> \<not> list_ex is_delete new \<and>
        new \<noteq> [] \<and> minio_failed (last new))
    | _ \<Rightarrow> True) s"
  unfolding Do_def
proof (rule wp_defer_to, rule wp_conseq [OF tidy_runBackup [unfolded traced_def, rule_format]], goal_cases)
  case (1 r t)
  with wp_cleanup [of X t] show ?case
    by (auto simp: halts_by_minio_def list_ex_iff list_all_iff split: outcome.splits halt.splits
        elim!: wp_conseq)
qed

section \<open>The namespace a run works in\<close>

fun in_ns :: "string \<Rightarrow> bcall \<Rightarrow> bool" where
  "in_ns ns (BApply n txt e) = (n = ns)"
| "in_ns ns (BDelete n name e) = (n = ns)"
| "in_ns ns (BExec n pod cmd e out) = (n = ns)"
| "in_ns ns c = True"

interpretation opns: trace_contract "in_ns ns" "\<lambda>_ _. True" for ns
  by unfold_locales auto

abbreviation confined :: "string \<Rightarrow> ('w session, 'a) go \<Rightarrow> bool" where
  "confined ns \<equiv> traced (in_ns ns) (\<lambda>_ _. True)"

lemmas confined_rules = opns.rules opns.traced_modify

lemma confined_podExec: "confined ns (podExec X ns pod cmd)"
  unfolding podExec_def by (intro confined_rules) simp

lemma wp_filterRunningPod:
  "wp (filterRunningPod X ns txt) (\<lambda>r t. podHandler t = ns \<and>
     (\<exists>new. calls t = calls s @ new \<and> list_all (in_ns ns) new)) s"
  unfolding filterRunningPod_def resetWorkloads_def depApply_def depWaitReady_def depGetPods_def other_def
  by (auto simp: wp_simps split: option.splits sum.splits intro!: wp_call_ext)


lemma confined_filterRunningPod: "confined ns (filterRunningPod X ns txt)"
  unfolding traced_def by (auto intro!: wp_conseq [OF wp_filterRunningPod] split: outcome.split)

text \<open>
  The commands that follow run where the pod handler was left, so their contract is one on states:
  \<open>stays ns s\<close> is the postcondition that all calls made since \<open>s\<close> are in \<open>ns\<close>.
\<close>

definition stays :: "string \<Rightarrow> 'w session \<Rightarrow> 'a outcome \<Rightarrow> 'w session \<Rightarrow> bool" where
  "stays ns s r t \<longleftrightarrow> (\<exists>new. calls t = calls s @ new \<and> list_all (in_ns ns) new)"

lemma confined_stays:
  fixes m :: "('w session, 'a) go"
  shows "confined ns m = (\<forall>s. wp m (stays ns s) s)"
proof -
  have "(case r of Ret a \<Rightarrow> True | Halt h \<Rightarrow> True) = True" for r :: "'a outcome" by (cases r) simp_all
  then show ?thesis by (simp add: traced_def stays_def [abs_def])
qed

lemma stays_trans: "stays ns s r t \<Longrightarrow> stays ns t r' u \<Longrightarrow> stays ns s r' u"
  by (auto simp: stays_def)

lemma wp_retryFind:
  "podHandler s = ns \<Longrightarrow> wp (retryFind X pod cmd dep n buf) (stays ns s) s"
proof (induction n arbitrary: s buf)
  case (Suc n)
  have "wp (retryFind X pod cmd dep n buf') (stays ns s)
      (s\<lparr>ext := w, calls := calls s @ [BExec ns pod cmd e out]\<rparr>)" for buf' w e out
    by (rule wp_conseq [OF Suc.IH]) (use Suc.prems in \<open>auto simp: stays_def\<close>)
  with Suc.prems show ?case
    by (auto simp: wp_simps podExec_def stays_def [of _ _ "Ret _"] split: option.splits prod.splits
        intro!: wp_call_ext)
qed (simp add: wp_simps stays_def)

lemma wp_locateVolume: "podHandler s = ns \<Longrightarrow> wp (locateVolume X meta dep pod) (stays ns s) s"
  unfolding locateVolume_def Let_def other_def
  by (auto simp: wp_simps wp_retryFind stays_def [of _ _ "Ret _"] stays_def [of _ _ "Halt _"]
      split: option.splits sum.splits intro!: wp_call_ext)

lemma confined_createFindpvdir:
  "confined (GetOperatorNamespace X) (createFindpvdirDeployment X b meta)"
proof -
  let ?ns = "GetOperatorNamespace X"
  have "wp (bindE (filterRunningPod X ?ns man) w (locateVolume X meta dep)) (stays ?ns s) s"
    for man w dep and s :: "'a session"
    unfolding wp_bindE
  proof (rule wp_conseq [OF wp_filterRunningPod], goal_cases)
    case (1 r t)
    then have t: "podHandler t = ?ns" "stays ?ns s r t" by (auto simp: stays_def)
    then have "wp (locateVolume X meta dep pod) (stays ?ns s) t" for pod
      by (intro wp_conseq [OF wp_locateVolume [OF t(1)]]) (rule stays_trans)
    with t(2) show ?case by (auto simp: stays_def split: outcome.splits sum.splits)
  qed
  then have "confined ?ns (bindE (filterRunningPod X ?ns man) w (locateVolume X meta dep) :: ('a, string) bgo)"
    for man w dep by (simp add: confined_stays)
  then show ?thesis
    unfolding createFindpvdirDeployment_def Let_def
    by (intro opns.traced_gobind opns.traced_other opns.traced_modify) simp_all
qed

lemma confined_nfs: "confined (GetOperatorNamespace X) (createBackup2nfsDeployment X b meta)"
  unfolding createBackup2nfsDeployment_def Let_def
  by (intro confined_rules confined_filterRunningPod) simp_all

lemma confined_minio: "confined (GetOperatorNamespace X) (createBackup2minioDepoyment X b meta)"
proof -
  have halt: "confined ns (halting h)" for ns h by (simp add: traced_def wp_simps)
  show ?thesis
    unfolding createBackup2minioDepoyment_def Let_def secGet_def MakeFolder_def minioNew_def MakeBucket_def
    by (intro confined_rules confined_filterRunningPod halt) simp_all
qed

lemma confined_sftp: "confined (GetOperatorNamespace X) (createBackup2sftpDeployment X b meta)"
  unfolding createBackup2sftpDeployment_def Let_def secGet_def MakeDirOnSftp_def
  by (intro confined_rules confined_filterRunningPod) simp_all

lemma confined_execute:
  "confined (GetOperatorNamespace X) (executeBackupCommand X b pod pvc meta)"
  unfolding executeBackupCommand_def Let_def traced_def podExec_def
  by (auto simp: wp_simps split: option.splits prod.splits outcome.split intro!: wp_call_ext)

lemma confined_factory: "confined (GetOperatorNamespace X) (backupFactory X storage b pvc meta)"
  unfolding backupFactory_def waitSource_def execPodFor_def
  by (intro confined_rules confined_nfs confined_minio confined_sftp confined_execute) simp_all

lemma confined_construct: "confined (GetOperatorNamespace X) (constructPvcpvMap X b)"
  unfolding constructPvcpvMap_def podsOf_def Let_def podPVCs_def collectPVC_def locatePVC_def depGetPods_def
  by (intro confined_rules confined_createFindpvdir) simp_all

lemma confined_runBackup: "confined (GetOperatorNamespace X) (runBackup X ns name)"
proof -
  have "confined (GetOperatorNamespace X) (of_outcome r)" for r
    by (simp add: of_outcome_def traced_def wp_simps split: outcome.split)
  then show ?thesis
    unfolding runBackup_def backupAll_def
    by (intro confined_rules confined_construct confined_factory) simp_all
qed

text \<open>
  C18. Whatever the cluster answers, a backup run applies and deletes deployments, and runs commands in
  pods, in the namespace of the operator only, never in the namespace of the workload it backs up.
\<close>

theorem Do_works_in_operator_namespace:
  "wp (Do X ns name) (\<lambda>r t. \<exists>new. calls t = calls s @ new \<and> list_all (in_ns (GetOperatorNamespace X)) new) s"
  unfolding Do_def
proof (rule wp_defer_to, rule wp_conseq [OF confined_runBackup [unfolded confined_stays, rule_format]], goal_cases)
  case (1 r t)
  then obtain xs where xs: "calls t = calls s @ xs" "list_all (in_ns (GetOperatorNamespace X)) xs"
    by (auto simp: stays_def)
  have "list_all (in_ns (GetOperatorNamespace X)) (map2 (BDelete (GetOperatorNamespace X)) ns es)" for ns es
    by (auto simp: list_all_iff)
  with xs wp_cleanup [of X t] show ?case
    by (auto simp: cleaned_def split: outcome.splits halt.splits elim!: wp_conseq)
qed

end
