(* ===== verification/BackupNames.thy ===== *)
theory BackupNames
  imports BackupTrace
begin

text \<open>
  Whose helper deployments a run deletes. The names to clean up are package variables; this theory follows them through a run with a
  contract on pairs of states, the locale \<open>session_order\<close>, interpreted on the relation that lets a name change only to one
  made for the Backup of the run.
\<close>

section \<open>Contracts on pairs of states\<close>

definition keeps :: "('w session \<Rightarrow> 'w session \<Rightarrow> bool) \<Rightarrow> ('w session, 'a) go \<Rightarrow> bool" where
  "keeps G m \<longleftrightarrow> (\<forall>s. G s (snd (m s)))"

locale session_order =
  fixes G :: "'w session \<Rightarrow> 'w session \<Rightarrow> bool"
  assumes refl: "G s s" and trans: "\<lbrakk>G s t; G t u\<rbrakk> \<Longrightarrow> G s u"
    and outside: "G s (s\<lparr>ext := w, calls := cs\<rparr>)"
begin

lemma keeps_ret: "keeps G (ret a)" and keeps_halting: "keeps G (halting h)" and keeps_gets: "keeps G (gets f)"
  and keeps_retE: "keeps G (retE b)" and keeps_throw: "keeps G (throw e)" and keeps_deref: "keeps G (deref p)"
  by (auto simp: keeps_def go_run retE_def throw_def deref_def refl split: option.split)

lemma keeps_modify: "(\<And>s. G s (g s)) \<Longrightarrow> keeps G (modify g)"
  by (simp add: keeps_def go_run)

lemma keeps_call: "keeps G (call_ext ev f)" and keeps_other: "keeps G (other f')"
  by (simp_all add: keeps_def go_run other_def outside)

lemma keeps_gobind:
  assumes "keeps G m" "\<And>a. keeps G (f a)"
  shows "keeps G (gobind m f)"
  unfolding keeps_def gobind_run
proof
  fix s
  obtain r t where t: "m s = (r, t)" by force
  with assms(1) have "G s t" unfolding keeps_def by (metis snd_conv)
  with assms(2) show "G s (snd (case m s of (Ret a, s') \<Rightarrow> f a s' | (Halt h, s') \<Rightarrow> (Halt h, s')))"
    by (cases r) (auto simp: t keeps_def intro: trans)
qed

lemma keeps_cases:
  "keeps G a \<Longrightarrow> keeps G b \<Longrightarrow> keeps G (if c then a else b)"
  "keeps G a \<Longrightarrow> (\<And>x. keeps G (f x)) \<Longrightarrow> keeps G (case opt of None \<Rightarrow> a | Some x \<Rightarrow> f x)"
  "(\<And>x. keeps G (g x)) \<Longrightarrow> (\<And>x. keeps G (h x)) \<Longrightarrow> keeps G (case sm of Inl x \<Rightarrow> g x | Inr x \<Rightarrow> h x)"
  "(\<And>x y. keeps G (k x y)) \<Longrightarrow> keeps G (case pr of (x, y) \<Rightarrow> k x y)"
  by (auto split: option.split sum.split prod.split)

lemma keeps_bindE: "keeps G m \<Longrightarrow> (\<And>a. keeps G (f a)) \<Longrightarrow> keeps G (bindE m w f)"
  unfolding bindE_def by (intro keeps_gobind keeps_cases keeps_ret)

lemma keeps_of_err: "keeps G m \<Longrightarrow> keeps G (of_err m)"
  unfolding of_err_def by (intro keeps_gobind keeps_ret)

lemma keeps_foldG: "(\<And>x l. keeps G (body x l)) \<Longrightarrow> keeps G (foldG body xs l)"
  by (induction xs arbitrary: l) (auto intro!: keeps_gobind keeps_cases keeps_ret)

lemmas keeps_rules = keeps_cases keeps_ret keeps_halting keeps_gets keeps_retE keeps_throw keeps_deref keeps_call
  keeps_other keeps_gobind keeps_bindE keeps_of_err keeps_foldG

end

section \<open>The names of a run\<close>

definition own_name :: "Backup \<Rightarrow> string \<Rightarrow> string \<Rightarrow> string \<Rightarrow> bool" where
  "own_name b kind old new \<longleftrightarrow> new = old \<or> (\<exists>meta. new = theDeployName kind (Some b) meta)"

text \<open>Four of the eight names are never set.\<close>

definition renames :: "Backup \<Rightarrow> 'w session \<Rightarrow> 'w session \<Rightarrow> bool" where
  "renames b s t \<longleftrightarrow>
     own_name b findpvdirName (DeployNameFindpvdir s) (DeployNameFindpvdir t) \<and>
     own_name b backup2nfsName (DeployNameBackup2nfs s) (DeployNameBackup2nfs t) \<and>
     own_name b backup2minioName (DeployNameBackup2minio s) (DeployNameBackup2minio t) \<and>
     own_name b backup2sftpName (DeployNameBackup2sftp s) (DeployNameBackup2sftp t) \<and>
     DeployNameBackup2s3 t = DeployNameBackup2s3 s \<and> DeployNameBackup2cephfs t = DeployNameBackup2cephfs s \<and>
     DeployNameBackup2rclone t = DeployNameBackup2rclone s \<and>
     DeployNameBackup2restserver t = DeployNameBackup2restserver s"

lemma own_name_trans: "own_name b kind x y \<Longrightarrow> own_name b kind y z \<Longrightarrow> own_name b kind x z"
  by (auto simp: own_name_def)

lemma own_name_refl: "own_name b kind x x" and own_name_new: "own_name b kind x (theDeployName kind (Some b) meta)"
  by (auto simp: own_name_def)

interpretation nm: session_order "renames b" for b
  by unfold_locales (auto simp: renames_def own_name_refl elim: own_name_trans)

lemmas name_rules = nm.keeps_rules nm.keeps_modify

abbreviation named :: "Backup \<Rightarrow> ('w session, 'a) go \<Rightarrow> bool" where
  "named b \<equiv> keeps (renames b)"

lemma named_filterRunningPod: "named b (filterRunningPod X ns txt)"
  unfolding filterRunningPod_def resetWorkloads_def depApply_def depWaitReady_def depGetPods_def
  by (intro name_rules) (simp add: renames_def own_name_refl)

lemma named_retryFind: "named b (retryFind X pod cmd dep n buf)"
  by (induction n arbitrary: buf) (auto intro!: name_rules simp: podExec_def)

lemma named_createFindpvdir: "named b (createFindpvdirDeployment X b meta)"
  unfolding createFindpvdirDeployment_def locateVolume_def Let_def
  by (intro name_rules named_filterRunningPod named_retryFind) (simp add: renames_def own_name_refl own_name_new)

lemma named_nfs: "named b (createBackup2nfsDeployment X b meta)"
  unfolding createBackup2nfsDeployment_def Let_def
  by (intro name_rules named_filterRunningPod) (simp add: renames_def own_name_refl own_name_new)

lemma named_minio: "named b (createBackup2minioDepoyment X b meta)"
  unfolding createBackup2minioDepoyment_def Let_def secGet_def MakeFolder_def minioNew_def MakeBucket_def
  by (intro name_rules named_filterRunningPod) (simp_all add: renames_def own_name_refl own_name_new)

lemma named_sftp: "named b (createBackup2sftpDeployment X b meta)"
  unfolding createBackup2sftpDeployment_def Let_def secGet_def MakeDirOnSftp_def
  by (intro name_rules named_filterRunningPod) (simp_all add: renames_def own_name_refl own_name_new)

lemma named_execute: "named b (executeBackupCommand X b pod pvc meta)"
  unfolding executeBackupCommand_def Let_def podExec_def
  by (intro name_rules) (simp_all add: renames_def own_name_refl)

lemma named_factory: "named b (backupFactory X storage b pvc meta)"
  unfolding backupFactory_def waitSource_def execPodFor_def
  by (intro name_rules named_nfs named_minio named_sftp named_execute)

lemma named_construct: "named b (constructPvcpvMap X b)"
  unfolding constructPvcpvMap_def podsOf_def Let_def podPVCs_def collectPVC_def locatePVC_def depGetPods_def
  by (intro name_rules named_createFindpvdir) (simp_all add: renames_def own_name_refl)

text \<open>The Backup a run reads, if it can.\<close>

definition backup_read :: "'w cluster \<Rightarrow> string \<Rightarrow> string \<Rightarrow> 'w \<Rightarrow> Backup option" where
  "backup_read X ns name w =
     (case fst (x_DynGet X (GroupStorage, VersionStorage, KindBackup) ns name w) of
        Inl e \<Rightarrow> None
      | Inr u \<Rightarrow> (case x_FromUnstructured X u of Inl e \<Rightarrow> None | Inr b \<Rightarrow> Some b))"

lemma bindE_run:
  "bindE m w f s = (case m s of (Ret (Inl e), t) \<Rightarrow> (Ret (Inl (w e)), t) | (Ret (Inr a), t) \<Rightarrow> f a t | (Halt h, t) \<Rightarrow> (Halt h, t))"
  by (simp add: bindE_def gobind_run ret_run split: prod.split outcome.split sum.split)

lemma runBackup_names:
  "case backup_read X ns name (ext s) of
     None \<Rightarrow> deploy_names (snd (runBackup X ns name s)) = deploy_names s
   | Some b \<Rightarrow> renames b s (snd (runBackup X ns name s))"
proof -
  let ?rest = "\<lambda>b. gobind (deref (sp_BackupFrom (b_Spec b))) (\<lambda>from.
     bindE (constructPvcpvMap X b) (\<lambda>e. e) (\<lambda>m.
     gobind (of_outcome (parseStorage b)) (\<lambda>storages. foldG (backupAll X b m) storages ())))"
  have "named b (of_outcome r)" for b and r :: "Storage list outcome"
    unfolding of_outcome_def by (cases r) (auto intro: name_rules)
  then have "named b (?rest b)" for b
    unfolding backupAll_def by (intro name_rules named_construct named_factory)
  then have rest: "renames b s (snd (?rest b s))" for b s by (simp add: keeps_def)
  let ?get = "x_DynGet X (GroupStorage, VersionStorage, KindBackup) ns name" and ?dec = "x_FromUnstructured X"
  let ?s = "s\<lparr>ext := snd (?get (ext s)), calls := calls s @ [BOther]\<rparr>"
  have same: "deploy_names ?s = deploy_names s" by (simp add: deploy_names_def)
  show ?thesis
  proof (cases "fst (?get (ext s))")
    case (Inl e)
    then have "snd (runBackup X ns name s) = ?s"
      unfolding runBackup_def bindE_run other_def call_ext_run by simp
    with Inl same show ?thesis by (simp add: backup_read_def)
  next
    case get: (Inr u)
    show ?thesis
    proof (cases "?dec u")
      case (Inl e)
      then have "snd (runBackup X ns name s) = ?s"
        unfolding runBackup_def bindE_run other_def call_ext_run ret_run using get by simp
      with get Inl same show ?thesis by (simp add: backup_read_def)
    next
      case (Inr b)
      then have "runBackup X ns name s = ?rest b ?s"
        by (simp only: runBackup_def bindE_run other_def call_ext_run ret_run get Inr prod.case outcome.case sum.case)
      with get Inr nm.trans [OF nm.outside rest] show ?thesis by (simp add: backup_read_def)
    qed
  qed
qed

section \<open>The deletions of a run\<close>

definition helper_kinds :: "string list" where
  "helper_kinds = [findpvdirName, backup2nfsName, backup2minioName, backup2sftpName]"

fun deletes_own :: "Backup option \<Rightarrow> string list \<Rightarrow> bcall \<Rightarrow> bool" where
  "deletes_own bo olds (BDelete ns n e) \<longleftrightarrow> n \<in> set olds \<or>
     (\<exists>b node. bo = Some b \<and> n \<in> set (map (\<lambda>kind. kind @ ''-'' @ node @ ''-'' @ b_Name b) helper_kinds))"
| "deletes_own bo olds c = True"

lemma own_name_deletes:
  assumes "own_name b kind old n" "kind \<in> set helper_kinds" "old \<in> set olds"
  shows "deletes_own (Some b) olds (BDelete ns n e)"
  using assms by (auto simp: own_name_def theDeployName_def Sprintf_eval)

lemma own_names:
  assumes "renames b s t" "n \<in> set (deploy_names t)"
  shows "deletes_own (Some b) (deploy_names s) (BDelete ns n e)"
proof -
  have kinds: "findpvdirName \<in> set helper_kinds" "backup2nfsName \<in> set helper_kinds" "backup2minioName \<in> set helper_kinds"
    "backup2sftpName \<in> set helper_kinds" by (simp_all add: helper_kinds_def)
  from assms(2) consider "n = DeployNameFindpvdir t" | "n = DeployNameBackup2nfs t" | "n = DeployNameBackup2minio t"
    | "n = DeployNameBackup2sftp t" | "n \<in> {DeployNameBackup2s3 t, DeployNameBackup2cephfs t, DeployNameBackup2rclone t,
        DeployNameBackup2restserver t}"
    by (auto simp: deploy_names_def)
  then show ?thesis
  proof cases
    case 1
    show ?thesis
      by (rule own_name_deletes [OF _ kinds(1), of _ "DeployNameFindpvdir s"])
        (use assms(1) 1 in \<open>simp add: renames_def, simp add: deploy_names_def\<close>)
  next
    case 2
    show ?thesis
      by (rule own_name_deletes [OF _ kinds(2), of _ "DeployNameBackup2nfs s"])
        (use assms(1) 2 in \<open>simp add: renames_def, simp add: deploy_names_def\<close>)
  next
    case 3
    show ?thesis
      by (rule own_name_deletes [OF _ kinds(3), of _ "DeployNameBackup2minio s"])
        (use assms(1) 3 in \<open>simp add: renames_def, simp add: deploy_names_def\<close>)
  next
    case 4
    show ?thesis
      by (rule own_name_deletes [OF _ kinds(4), of _ "DeployNameBackup2sftp s"])
        (use assms(1) 4 in \<open>simp add: renames_def, simp add: deploy_names_def\<close>)
  next
    case 5
    with assms(1) show ?thesis by (auto simp: renames_def deploy_names_def)
  qed
qed

text \<open>The cleanup itself changes no name.\<close>

interpretation keep: session_order "\<lambda>s t. deploy_names t = deploy_names s"
  by unfold_locales (auto simp: deploy_names_def)

lemma cleanup_names: "wp (cleanup X) (\<lambda>r t. deploy_names t = deploy_names s) s"
proof -
  have "keeps (\<lambda>s t. deploy_names t = deploy_names s) (depDelete X sel)" for sel
    unfolding depDelete_def by (intro keep.keeps_rules)
  then have "keeps (\<lambda>s t. deploy_names t = deploy_names s) (cleanup X)"
    unfolding cleanup_def seqG.simps
    by (intro keep.keeps_rules keep.keeps_modify) (simp_all add: deploy_names_def)
  then show ?thesis by (simp add: keeps_def wp_def split: prod.split) (metis snd_conv)
qed

text \<open>
  The deletions of a run: their names are those the package variables hold at its end, and the names at its end come from those
  before and from the helpers made for the Backup read.
\<close>

definition names_after :: "'w session \<Rightarrow> Backup option \<Rightarrow> 'w session \<Rightarrow> bool" where
  "names_after s bo t \<longleftrightarrow> (case bo of None \<Rightarrow> deploy_names t = deploy_names s | Some b \<Rightarrow> renames b s t)"

definition deletes_only :: "string list \<Rightarrow> bcall list \<Rightarrow> bool" where
  "deletes_only names new \<longleftrightarrow> (\<forall>ns n e. BDelete ns n e \<in> set new \<longrightarrow> n \<in> set names)"

lemma Do_deletions:
  "wp (Do X ns name) (\<lambda>r t. \<exists>new u. calls t = calls s @ new \<and> names_after s (backup_read X ns name (ext s)) u \<and>
     deletes_only (deploy_names u) new) s"
  unfolding Do_def
proof (rule wp_defer_to)
  obtain r t where t: "runBackup X ns name s = (r, t)" by force
  then obtain new where new: "calls t = calls s @ new" "list_all (\<lambda>c. \<not> is_delete c) new"
    using tidy_runBackup [of X ns name, unfolded traced_def wp_def, THEN spec, of s] by auto
  have names: "names_after s (backup_read X ns name (ext s)) t"
    using runBackup_names [of X ns name s] by (simp add: names_after_def t split: option.splits)
  let ?Q = "\<lambda>u. \<exists>new v. calls u = calls s @ new \<and> names_after s (backup_read X ns name (ext s)) v \<and>
    deletes_only (deploy_names v) new"
  have none: "deletes_only (deploy_names t) new" using new(2) by (auto simp: deletes_only_def list_all_iff)
  have del: "deletes_only (deploy_names t) (new @ map2 (BDelete op) (deploy_names t) errs)" for op errs
    using none by (auto simp: deletes_only_def dest: set_zip_leftD)
  have clean: "wp (cleanup X) (\<lambda>d u. d = Ret () \<and> ?Q u) t"
  proof (rule wp_conseq [OF wp_conj [OF wp_cleanup cleanup_names]], goal_cases)
    case (1 d u)
    then obtain errs where "d = Ret ()" "calls u = calls t @ map2 (BDelete (GetOperatorNamespace X)) (deploy_names u) errs"
      "deploy_names u = deploy_names t"
      by (auto simp: cleaned_def)
    with del names new(1) show ?case by (metis append.assoc)
  qed
  have halted: "?Q t" using new(1) names none by blast
  show "wp (runBackup X ns name) (\<lambda>r s'. case r of Halt (Exit n) \<Rightarrow> ?Q s'
      | _ \<Rightarrow> wp (cleanup X) (\<lambda>d' s''. case d' of Ret _ \<Rightarrow> ?Q s'' | Halt h \<Rightarrow> ?Q s'') s') s"
    using halted clean
    by (auto simp: wp_def [of "runBackup X ns name"] t split: outcome.split halt.split elim!: wp_conseq)
qed

text \<open>
  C16. A run deletes only helper deployments of its own: each of its deletions carries a name the package variables held
  before the run, empty in a fresh process, or one that joins a helper kind, a node and the name of the Backup
  the run has read. That name is all that tells the runs of different Backups apart; the namespace of the Backup is not in it.
\<close>

theorem Do_deletes_its_own:
  "wp (Do X ns name) (\<lambda>r t. \<exists>new. calls t = calls s @ new \<and>
     list_all (deletes_own (backup_read X ns name (ext s)) (deploy_names s)) new) s"
proof (rule wp_conseq [OF Do_deletions], goal_cases)
  case (1 r t)
  then obtain new u where new: "calls t = calls s @ new" "names_after s (backup_read X ns name (ext s)) u"
    "deletes_only (deploy_names u) new" by blast
  let ?D = "deletes_own (backup_read X ns name (ext s)) (deploy_names s)"
  have "?D c" if "c \<in> set new" for c
  proof (cases c)
    case (BDelete op n e)
    with that new(3) have "n \<in> set (deploy_names u)" by (auto simp: deletes_only_def)
    with new(2) own_names [of _ s u n op e] show ?thesis
      by (auto simp: BDelete names_after_def split: option.splits)
  qed simp_all
  with new(1) show ?case by (auto simp: list_all_iff)
qed

section \<open>Workloads on several nodes\<close>

text \<open>The package variables hold one name for the search deployments, and the names of the other kinds begin differently.\<close>

lemma search_name_once:
  assumes "renames b s u" "theDeployName findpvdirName (Some b) meta \<in> set (deploy_names u)"
    "theDeployName findpvdirName (Some b) meta \<notin> set (deploy_names s)"
  shows "theDeployName findpvdirName (Some b) meta = DeployNameFindpvdir u"
  using assms
  by (auto simp: deploy_names_def renames_def own_name_def theDeployName_def Sprintf_eval findpvdirName_def
      backup2nfsName_def backup2minioName_def backup2sftpName_def)

lemma search_name_node:
  "theDeployName findpvdirName (Some b) meta = theDeployName findpvdirName (Some b) meta' \<Longrightarrow> nodeName meta = nodeName meta'"
  by (simp add: theDeployName_def Sprintf_eval)

text \<open>
  C35. The cleanup forgets all but one of the nodes a run has searched. However the run ends and whatever the cluster answers,
  there is one node such that no search deployment made for any other node is ever deleted: of the deployments a run applies to
  search the volumes of pods on several nodes all but one stay in the cluster. A process that has run before may still hold the name of a
  search deployment of this Backup and delete that too; without such a name there is no exception.
\<close>

theorem other_nodes_keep_deployments:
  assumes "backup_read X ns name (ext s) = Some b"
    and "\<forall>meta. theDeployName findpvdirName (Some b) meta \<notin> set (deploy_names s)"
  shows "wp (Do X ns name) (\<lambda>r t. \<exists>new node. calls t = calls s @ new \<and>
     (\<forall>meta op e. nodeName meta \<noteq> node \<longrightarrow> BDelete op (theDeployName findpvdirName (Some b) meta) e \<notin> set new)) s"
proof (rule wp_conseq [OF Do_deletions], goal_cases)
  case (1 r t)
  then obtain new u where new: "calls t = calls s @ new" "renames b s u" "deletes_only (deploy_names u) new"
    using assms(1) by (auto simp: names_after_def)
  have one: "theDeployName findpvdirName (Some b) meta = DeployNameFindpvdir u"
    if "BDelete op (theDeployName findpvdirName (Some b) meta) e \<in> set new" for meta op e
    using search_name_once [OF new(2)] new(3) assms(2) that unfolding deletes_only_def by blast
  show ?case
  proof (cases "\<exists>meta. theDeployName findpvdirName (Some b) meta = DeployNameFindpvdir u")
    case True
    then obtain meta where "theDeployName findpvdirName (Some b) meta = DeployNameFindpvdir u" by blast
    then show ?thesis using new(1) one search_name_node by (metis (no_types, lifting))
  next
    case False
    then show ?thesis using new(1) one by blast
  qed
qed

end
