(* ===== verification/VolumeMap.thy ===== *)
theory VolumeMap
  imports BackupNames
begin

text \<open>
  What the map of volumes (\<^verbatim>\<open>pvcpvMap\<close> of \<^verbatim>\<open>pkg/backup/backup.go\<close>) has to be, as a function of what the cluster has
  answered. The answers about one pod are a report; \<open>volume_of\<close> says, from the reports of all pods, what the map holds for a
  pvc, and \<open>right_map\<close> that a map is right for all of them. The lemmas follow the two loops over the pvcs of a pod without
  the calls they make.
\<close>

section \<open>Reports\<close>

text \<open>
  The report on a pod: the pod, its node and its uid; for each pvc it mounts the volume and its source, or nothing if one of
  the two could not be read; and for each pvc the metadata its directory was searched with and the directory found, empty
  if none was.
\<close>

record pod_report =
  r_pod :: Pod
  r_node :: string
  r_uid :: string
  r_reads :: "(string \<times> (string \<times> string) option) list"
  r_searches :: "(string \<times> pvdataMeta \<times> string) list"

definition read_meta :: "pod_report \<Rightarrow> string \<Rightarrow> string \<Rightarrow> pvdataMeta" where
  "read_meta r pv src = \<lparr>volumeSource = src, nodeName = r_node r, podName = p_Name (r_pod r), podUID = r_uid r,
     pvdir = [], pvname = pv\<rparr>"

definition no_dir :: "pvdataMeta \<Rightarrow> pvdataMeta" where
  "no_dir meta = meta\<lparr>pvdir := []\<rparr>"

text \<open>What a report says of a pvc: the metadata of the volume, once for each time it was read, and the searches.\<close>

definition metas_in :: "string \<Rightarrow> pod_report \<Rightarrow> pvdataMeta list" where
  "metas_in pvc r = map (\<lambda>(q, vol). read_meta r (fst (the vol)) (snd (the vol)))
     (filter (\<lambda>(q, vol). q = pvc \<and> vol \<noteq> None) (r_reads r))"

definition searches_in :: "string \<Rightarrow> pod_report \<Rightarrow> (pvdataMeta \<times> string) list" where
  "searches_in pvc r = map snd (filter (\<lambda>x. fst x = pvc) (r_searches r))"

definition metas_of :: "pod_report list \<Rightarrow> string \<Rightarrow> pvdataMeta list" where
  "metas_of rs pvc = concat (map (metas_in pvc) rs)"

definition searches_of :: "pod_report list \<Rightarrow> string \<Rightarrow> (pvdataMeta \<times> string) list" where
  "searches_of rs pvc = concat (map (searches_in pvc) rs)"

text \<open>
  The entry of a pvc. But for the directory it is what was read last: volume, source, and the pod that mounts it with
  its node and uid; zero if the volume was never read. The directory, if there is one, was found by a search for this pvc
  with these metadata, and the last search is never ignored when it found one. A pvc without an entry is one of which nothing was read and nothing found.
\<close>

definition expected_meta :: "pod_report list \<Rightarrow> string \<Rightarrow> pvdataMeta" where
  "expected_meta rs pvc = (if metas_of rs pvc = [] then zeroMeta else last (metas_of rs pvc))"

definition volume_of :: "pod_report list \<Rightarrow> string \<Rightarrow> pvdataMeta option \<Rightarrow> bool" where
  "volume_of rs pvc v \<longleftrightarrow>
     (case v of
        None \<Rightarrow> metas_of rs pvc = [] \<and> (\<forall>(q, dir) \<in> set (searches_of rs pvc). dir = [])
      | Some meta \<Rightarrow> no_dir meta = expected_meta rs pvc \<and> (metas_of rs pvc \<noteq> [] \<or> pvdir meta \<noteq> []) \<and>
          (pvdir meta \<noteq> [] \<longrightarrow> (\<exists>q. (q, pvdir meta) \<in> set (searches_of rs pvc) \<and> no_dir q = no_dir meta)) \<and>
          (searches_of rs pvc \<noteq> [] \<and> snd (last (searches_of rs pvc)) \<noteq> [] \<longrightarrow>
             pvdir meta = snd (last (searches_of rs pvc))))"

text \<open>A search for a pvc whose volume the same pod has read uses that; one for a pvc never read uses the zero metadata.\<close>

definition searched_with :: "pod_report list \<Rightarrow> bool" where
  "searched_with rs \<longleftrightarrow>
     (\<forall>r \<in> set rs. \<forall>pvc. \<forall>(q, dir) \<in> set (searches_in pvc r). metas_in pvc r \<noteq> [] \<longrightarrow> no_dir q = last (metas_in pvc r)) \<and>
     (\<forall>pvc. \<forall>(q, dir) \<in> set (searches_of rs pvc). metas_of rs pvc = [] \<longrightarrow> no_dir q = zeroMeta)"

definition right_map :: "pod_report list \<Rightarrow> pvcpv \<Rightarrow> bool" where
  "right_map rs m \<longleftrightarrow> distinct (map fst m) \<and> (\<forall>pvc. volume_of rs pvc (map_of m pvc)) \<and> searched_with rs"


section \<open>The two loops over the pvcs of a pod\<close>

definition put_read :: "pod_report \<Rightarrow> string \<times> (string \<times> string) option \<Rightarrow> pvcpv \<Rightarrow> pvcpv" where
  "put_read r = (\<lambda>(pvc, vol) m. case vol of None \<Rightarrow> m | Some (pv, src) \<Rightarrow> AList.update pvc (read_meta r pv src) m)"

definition put_dir :: "string \<times> pvdataMeta \<times> string \<Rightarrow> pvcpv \<Rightarrow> pvcpv" where
  "put_dir = (\<lambda>(pvc, q, dir) m. if dir = [] then m else AList.update pvc (q\<lparr>pvdir := dir\<rparr>) m)"

fun put_dirs :: "pvcpv \<Rightarrow> (string \<times> pvdataMeta \<times> string) list \<Rightarrow> pvcpv \<Rightarrow> bool" where
  "put_dirs m [] m' \<longleftrightarrow> m' = m"
| "put_dirs m ((pvc, q, dir) # ss) m' \<longleftrightarrow> q = at m pvc \<and> put_dirs (put_dir (pvc, q, dir) m) ss m'"

lemma put_dirs_snoc:
  "put_dirs m (ss @ [(pvc, q, dir)]) m' \<longleftrightarrow> (\<exists>m1. put_dirs m ss m1 \<and> q = at m1 pvc \<and> m' = put_dir (pvc, q, dir) m1)"
  by (induction m ss m' rule: put_dirs.induct) auto

lemma no_dir_simps [simp]:
  "no_dir (meta\<lparr>pvdir := dir\<rparr>) = no_dir meta" "no_dir zeroMeta = zeroMeta" "no_dir (no_dir meta) = no_dir meta"
  "no_dir (read_meta r pv src) = read_meta r pv src" "pvdir (read_meta r pv src) = []" "pvdir zeroMeta = []"
  by (simp_all add: no_dir_def zeroMeta_def read_meta_def)

lemma metas_in_snoc:
  "metas_in pvc (r\<lparr>r_reads := rd @ [(k, vol)]\<rparr>) = metas_in pvc (r\<lparr>r_reads := rd\<rparr>) @
     (if k = pvc then case vol of None \<Rightarrow> [] | Some (pv, src) \<Rightarrow> [read_meta r pv src] else [])"
  by (auto simp: metas_in_def read_meta_def split: option.split)

lemma map_of_put_read: "map_of (put_read r (k, vol) m) pvc =
    (case vol of None \<Rightarrow> map_of m pvc | Some (pv, src) \<Rightarrow> if k = pvc then Some (read_meta r pv src) else map_of m pvc)"
  by (simp add: put_read_def update_conv' split: option.split)

lemma map_of_put_dir: "map_of (put_dir (k, q, dir) m) pvc =
    (if k = pvc \<and> dir \<noteq> [] then Some (q\<lparr>pvdir := dir\<rparr>) else map_of m pvc)"
  by (simp add: put_dir_def update_conv')

lemma put_read_map_of:
  "map_of (fold (put_read r) rd m) pvc =
     (if metas_in pvc (r\<lparr>r_reads := rd\<rparr>) = [] then map_of m pvc else Some (last (metas_in pvc (r\<lparr>r_reads := rd\<rparr>))))"
proof (induction rd rule: rev_induct)
  case Nil
  show ?case by (simp add: metas_in_def)
next
  case (snoc x rd)
  obtain k vol where x: "x = (k, vol)" by force
  show ?case
    by (simp add: x metas_in_snoc map_of_put_read snoc.IH split: option.split)
qed

lemma put_read_distinct: "distinct (map fst m) \<Longrightarrow> distinct (map fst (fold (put_read r) rd m))"
  by (induction rd arbitrary: m) (auto simp: put_read_def distinct_update split: option.split prod.split)

lemma put_dir_distinct: "distinct (map fst m) \<Longrightarrow> put_dirs m ss m' \<Longrightarrow> distinct (map fst m')"
  by (induction m ss m' rule: put_dirs.induct) (auto simp: put_dir_def distinct_update split: if_splits)

text \<open>The searches of a pod for one pvc: all with the same metadata but for the directory, and the last find stays.\<close>

definition for_pvc :: "string \<Rightarrow> (string \<times> pvdataMeta \<times> string) list \<Rightarrow> (pvdataMeta \<times> string) list" where
  "for_pvc pvc ss = map snd (filter (\<lambda>x. fst x = pvc) ss)"

definition found_dirs :: "(pvdataMeta \<times> string) list \<Rightarrow> (pvdataMeta \<times> string) list" where
  "found_dirs fs = filter (\<lambda>(q, dir). dir \<noteq> []) fs"

definition found_in :: "(pvdataMeta \<times> string) list \<Rightarrow> pvdataMeta option \<Rightarrow> pvdataMeta option \<Rightarrow> bool" where
  "found_in fs v v' \<longleftrightarrow>
     (if found_dirs fs = [] then v' = v else \<exists>meta. v' = Some meta \<and> pvdir meta = snd (last (found_dirs fs)))"

lemma for_pvc_snoc: "for_pvc pvc (ss @ [(k, x)]) = for_pvc pvc ss @ (if k = pvc then [x] else [])"
  by (simp add: for_pvc_def)

lemma found_dirs_snoc: "found_dirs (fs @ [(q, dir)]) = found_dirs fs @ (if dir = [] then [] else [(q, dir)])"
  by (simp add: found_dirs_def)

lemma at_put_dir: "no_dir (at (put_dir (k, at m k, dir) m) pvc) = no_dir (at m pvc)"
  by (cases "map_of m pvc") (auto simp: at_def map_of_put_dir)

lemma put_dirs_found:
  assumes "put_dirs m ss m'"
  shows "found_in (for_pvc pvc ss) (map_of m pvc) (map_of m' pvc)" "no_dir (at m' pvc) = no_dir (at m pvc)"
    "(q, dir) \<in> set (for_pvc pvc ss) \<Longrightarrow> no_dir q = no_dir (at m pvc)"
  using assms
proof (induction ss arbitrary: m' q dir rule: rev_induct)
  case (snoc x ss)
  {
    case 1
    then show ?case
      using snoc.IH(1) by (cases x) (auto simp: put_dirs_snoc for_pvc_snoc found_in_def found_dirs_snoc map_of_put_dir)
  next
    case 2
    then show ?case
      using snoc.IH(2) by (cases x) (auto simp: put_dirs_snoc at_put_dir)
  next
    case 3
    then show ?case
      using snoc.IH(2,3) by (cases x) (auto simp: put_dirs_snoc for_pvc_snoc split: if_splits)
  }
qed (simp_all add: for_pvc_def found_in_def found_dirs_def)

text \<open>So the report of a pod extends what the map has to be.\<close>

lemma searches_in_for: "searches_in pvc r = for_pvc pvc (r_searches r)"
  by (simp add: searches_in_def for_pvc_def)

lemma answers_snoc:
  "metas_of (rs @ [r]) pvc = metas_of rs pvc @ metas_in pvc r"
  "searches_of (rs @ [r]) pvc = searches_of rs pvc @ for_pvc pvc (r_searches r)"
  by (simp_all add: metas_of_def searches_of_def searches_in_for)

lemma metas_searched:
  "map fst (r_searches r) = map fst (r_reads r) \<Longrightarrow> metas_in pvc r \<noteq> [] \<Longrightarrow> for_pvc pvc (r_searches r) \<noteq> []"
proof -
  assume keys: "map fst (r_searches r) = map fst (r_reads r)" and "metas_in pvc r \<noteq> []"
  then have "pvc \<in> fst ` set (r_reads r)" by (force simp: metas_in_def filter_empty_conv)
  then have "pvc \<in> fst ` set (r_searches r)" using keys by (metis list.set_map)
  then show ?thesis by (auto simp: for_pvc_def filter_empty_conv)
qed

lemma found_dirs_last: "fs \<noteq> [] \<Longrightarrow> snd (last fs) \<noteq> [] \<Longrightarrow> found_dirs fs \<noteq> [] \<and> last (found_dirs fs) = last fs"
  by (cases fs rule: rev_cases) (auto simp: found_dirs_def)

lemma found_dirs_in: "found_dirs fs \<noteq> [] \<Longrightarrow> last (found_dirs fs) \<in> set fs \<and> snd (last (found_dirs fs)) \<noteq> []"
  using last_in_set [of "found_dirs fs"] by (auto simp: found_dirs_def)

lemma right_map_extend:
  assumes "right_map rs m" "put_dirs (fold (put_read r) (r_reads r) m) (r_searches r) m'"
    and keys: "map fst (r_searches r) = map fst (r_reads r)"
  shows "right_map (rs @ [r]) m'"
proof -
  let ?m1 = "fold (put_read r) (r_reads r) m"
  have old: "volume_of rs pvc (map_of m pvc)" for pvc using assms(1) by (simp add: right_map_def)
  note found = put_dirs_found [OF assms(2)]
  have m1: "map_of ?m1 pvc = (if metas_in pvc r = [] then map_of m pvc else Some (last (metas_in pvc r)))" for pvc
    using put_read_map_of [of r "r_reads r"] by simp
  have read: "no_dir (last (metas_in pvc r)) = last (metas_in pvc r)" "pvdir (last (metas_in pvc r)) = []"
    if "metas_in pvc r \<noteq> []" for pvc
    using last_in_set [OF that] by (auto simp: metas_in_def)
  have exp: "no_dir (at ?m1 pvc) = expected_meta (rs @ [r]) pvc" for pvc
    using old [of pvc] read [of pvc]
    by (auto simp: at_def m1 expected_meta_def volume_of_def answers_snoc split: option.splits)
  have now: "no_dir (at m' pvc) = expected_meta (rs @ [r]) pvc" for pvc using found(2) [of pvc] exp [of pvc] by simp
  have "volume_of (rs @ [r]) pvc (map_of m' pvc)" for pvc
  proof (cases "found_dirs (for_pvc pvc (r_searches r)) = []")
    case True
    then have same: "map_of m' pvc = map_of ?m1 pvc" using found(1) [of pvc] by (simp add: found_in_def)
    from True have none: "snd x = []" if "x \<in> set (for_pvc pvc (r_searches r))" for x
      using that by (auto simp: found_dirs_def filter_empty_conv)
    then have last: "for_pvc pvc (r_searches r) \<noteq> [] \<Longrightarrow> snd (last (for_pvc pvc (r_searches r))) = []" by simp
    show ?thesis
    proof (cases "metas_in pvc r = []")
      case unread: True
      then have v: "map_of m' pvc = map_of m pvc" and e: "expected_meta (rs @ [r]) pvc = expected_meta rs pvc"
        using same by (simp_all add: m1 expected_meta_def answers_snoc)
      show ?thesis
      proof (cases "for_pvc pvc (r_searches r) = []")
        case True
        with old [of pvc] unread e v show ?thesis
          by (cases "map_of m pvc") (auto simp: volume_of_def answers_snoc)
      next
        case False
        with old [of pvc] none last unread e v show ?thesis
          by (cases "map_of m pvc") (auto simp: volume_of_def answers_snoc)
      qed
    next
      case False
      then have "map_of m' pvc = Some (last (metas_in pvc r))" using same by (simp add: m1)
      with False read [OF False] last metas_searched [OF keys False] show ?thesis
        by (simp add: volume_of_def answers_snoc expected_meta_def)
    qed
  next
    case False
    then obtain meta where meta: "map_of m' pvc = Some meta" "pvdir meta = snd (last (found_dirs (for_pvc pvc (r_searches r))))"
      using found(1) [of pvc] by (auto simp: found_in_def)
    obtain q where q: "(q, pvdir meta) \<in> set (for_pvc pvc (r_searches r))" "pvdir meta \<noteq> []"
      using found_dirs_in [OF False] meta(2) by (metis prod.collapse)
    have "no_dir meta = expected_meta (rs @ [r]) pvc" using now [of pvc] meta(1) by (simp add: at_def)
    moreover have "no_dir q = no_dir meta"
      using found(3) [OF q(1)] found(2) [of pvc] meta(1) by (simp add: at_def [of m'])
    moreover have "for_pvc pvc (r_searches r) \<noteq> []" using q(1) by auto
    ultimately show ?thesis
      using q meta found_dirs_last [of "for_pvc pvc (r_searches r)"] by (auto simp: volume_of_def answers_snoc)
  qed
  moreover have "searched_with (rs @ [r])"
    using assms(1) found(3) exp read
    by (auto simp: right_map_def searched_with_def searches_in_for at_def m1 answers_snoc expected_meta_def)
  moreover have "distinct (map fst m')"
    using assms(1,2) by (auto simp: right_map_def intro: put_dir_distinct put_read_distinct)
  ultimately show ?thesis by (simp add: right_map_def)
qed


lemma put_read_same [simp]: "put_read (r\<lparr>r_reads := rd, r_searches := ss\<rparr>) = put_read r"
proof -
  have "read_meta (r\<lparr>r_reads := rd, r_searches := ss\<rparr>) = read_meta r" by (simp add: fun_eq_iff read_meta_def)
  then show ?thesis by (simp only: put_read_def)
qed

lemma right_map_none: "right_map [] []"
  by (simp add: right_map_def volume_of_def metas_of_def searches_of_def searched_with_def)

section \<open>Reports of a run\<close>

text \<open>
  A report is true of the calls of a run: the node, the uid and the pvcs are the answers for the pod; each volume was
  asked for in the namespace of the Backup; and each search is a run of a search deployment for these metadata.
\<close>

definition volume_read :: "'w cluster \<Rightarrow> string \<Rightarrow> string \<times> (string \<times> string) option \<Rightarrow> bcall list \<Rightarrow> bool" where
  "volume_read X ns = (\<lambda>(pvc, vol) seg. \<exists>w w'.
     (case vol of
        Some (pv, src) \<Rightarrow> fst (x_PvcGetPV X ns pvc w) = Inr pv \<and> fst (x_PvVolumeSource X pv w') = Inr src \<and>
          seg = [BGetPV pvc (Inr pv), BVolumeSource pv (Inr src)]
      | None \<Rightarrow> (\<exists>e. fst (x_PvcGetPV X ns pvc w) = Inl e \<and> seg = [BGetPV pvc (Inl e)]) \<or>
          (\<exists>pv e. fst (x_PvcGetPV X ns pvc w) = Inr pv \<and> fst (x_PvVolumeSource X pv w') = Inl e \<and>
             seg = [BGetPV pvc (Inr pv), BVolumeSource pv (Inl e)])))"

definition searched :: "'w cluster \<Rightarrow> Backup \<Rightarrow> string \<times> pvdataMeta \<times> string \<Rightarrow> bcall list \<Rightarrow> bool" where
  "searched X b = (\<lambda>(pvc, q, dir) seg. \<exists>s t. createFindpvdirDeployment X b q s = (Ret (Inr dir), t) \<and> calls t = calls s @ seg)"

definition pod_run :: "'w cluster \<Rightarrow> Backup \<Rightarrow> pod_report \<Rightarrow> bcall list \<Rightarrow> bool" where
  "pod_run X b r seg \<longleftrightarrow>
     (\<exists>reads ss. seg = BNodeName (p_Name (r_pod r)) (Inr (r_node r)) # BPodUID (p_Name (r_pod r)) (Inr (r_uid r)) #
          BPodPVC (p_Name (r_pod r)) (map fst (r_reads r)) # concat reads @ concat ss \<and>
        map fst (r_searches r) = map fst (r_reads r) \<and>
        list_all2 (volume_read X (b_Namespace b)) (r_reads r) reads \<and> list_all2 (searched X b) (r_searches r) ss)"

text \<open>The pods of the workload, by the kind of its resource.\<close>

definition source_pods :: "'w cluster \<Rightarrow> Backup \<Rightarrow> 'w \<Rightarrow> Pod list \<Rightarrow> bool" where
  "source_pods X b w pods \<longleftrightarrow>
     (\<exists>frm. sp_BackupFrom (b_Spec b) = Some frm \<and>
       (let ns = b_Namespace b; name = bf_Name frm; res = bf_Resource frm in
        res = PodResource \<and> (\<exists>p. pods = [p] \<and> fst (x_PodGet X ns name w) = Inr p) \<or>
        res = DeploymentResource \<and> fst (x_DepGetPods X ns name w) = Inr pods \<or>
        res = StatefulSetResource \<and> fst (x_StsGetPods X ns name w) = Inr pods \<or>
        res = DaemonSetResource \<and> fst (x_DsGetPods X ns name w) = Inr pods))"

text \<open>The map \<open>m\<close> is what a run gathered by the calls \<open>new\<close>, from \<open>w\<close> on: there is one true report for each pod of the workload.\<close>

definition gathered :: "'w cluster \<Rightarrow> Backup \<Rightarrow> 'w \<Rightarrow> pvcpv \<Rightarrow> bcall list \<Rightarrow> bool" where
  "gathered X b w m new \<longleftrightarrow> m \<noteq> [] \<and>
     (\<exists>rs segs. source_pods X b w (map r_pod rs) \<and> new = BOther # concat segs \<and> list_all2 (pod_run X b) rs segs \<and> right_map rs m)"

end
