(* ===== verification/BackupResult.thy ===== *)
theory BackupResult
  imports VolumeMap
begin

text \<open>
  What a run that succeeds has done: the restic protocol in the helper pod, the volumes collected, and
  every one of them backed up to every storage.
\<close>

section \<open>Successful runs\<close>

text \<open>\<open>wps m Q s\<close>: if \<open>m\<close> returns without error from \<open>s\<close>, its value and the state satisfy \<open>Q\<close>.\<close>

definition wps :: "('s, goerr + 'a) go \<Rightarrow> ('a \<Rightarrow> 's \<Rightarrow> bool) \<Rightarrow> 's \<Rightarrow> bool" where
  "wps m Q s \<longleftrightarrow> wp m (\<lambda>r t. case r of Ret (Inr a) \<Rightarrow> Q a t | _ \<Rightarrow> True) s"

named_theorems wps_simps \<open>success weakest preconditions, as equations\<close>

lemma wps_bindE [wps_simps]: "wps (bindE m w f) Q s = wps m (\<lambda>a t. wps (f a) Q t) s"
  unfolding wps_def wp_bindE
  by (rule arg_cong [where f = "\<lambda>P. wp m P s"]) (auto simp: fun_eq_iff split: outcome.splits sum.splits)

lemma wps_gobind [wps_simps]:
  "wps (gobind m f) Q s = wp m (\<lambda>r t. case r of Ret a \<Rightarrow> wps (f a) Q t | Halt h \<Rightarrow> True) s"
  unfolding wps_def wp_gobind
  by (rule arg_cong [where f = "\<lambda>P. wp m P s"]) (auto simp: fun_eq_iff split: outcome.splits)

lemma wps_retE [wps_simps]: "wps (retE a) Q s = Q a s"
  and wps_throw [wps_simps]: "wps (throw e) R s = True"
  and wps_halting [wps_simps]: "wps (halting h) S s = True"
  by (simp_all add: wps_def wp_simps)

lemma wps_of_err [wps_simps]:
  "wps (of_err m) Q s = wp m (\<lambda>r t. case r of Ret None \<Rightarrow> Q () t | _ \<Rightarrow> True) s"
  unfolding wps_def wp_of_err
  by (rule arg_cong [where f = "\<lambda>P. wp m P s"]) (auto simp: fun_eq_iff split: outcome.splits option.splits)

lemma wps_call:
  assumes "\<And>a w. Q a (s\<lparr>ext := w, calls := calls s @ [ev (Inr a)]\<rparr>)"
  shows "wps (call_ext ev f) Q s"
  unfolding wps_def by (rule wp_call_ext) (auto split: sum.split intro: assms)

lemma wps_call_answer:
  assumes "\<And>a w. f (ext s) = (Inr a, w) \<Longrightarrow> Q a (s\<lparr>ext := w, calls := calls s @ [ev (Inr a)]\<rparr>)"
  shows "wps (call_ext ev f) Q s"
  using assms by (cases "f (ext s)") (auto simp: wps_def wp_def call_ext_run split: sum.split)

lemma wps_conseq: "wps m P s \<Longrightarrow> (\<And>a t. P a t \<Longrightarrow> Q a t) \<Longrightarrow> wps m Q s"
  unfolding wps_def by (erule wp_conseq) (auto split: outcome.splits sum.splits)

lemma wps_foldG:
  assumes "I [] l s"
    and "\<And>xs x ys t k. zs = xs @ x # ys \<Longrightarrow> I xs k t \<Longrightarrow> wps (body x k) (\<lambda>k' t'. I (xs @ [x]) k' t') t"
  shows "wps (foldG body zs l) (I zs) s"
  unfolding wps_def
proof (rule wp_foldG [where I = I])
  fix xs x ys t k assume "zs = xs @ x # ys" "I xs k t"
  from assms(2) [OF this] show "wp (body x k) (\<lambda>r t'. case r of
      Ret (Inr k') \<Rightarrow> I (xs @ [x]) k' t'
    | _ \<Rightarrow> (case r of Ret (Inr a) \<Rightarrow> I zs a t' | _ \<Rightarrow> True)) t"
    unfolding wps_def by (rule wp_conseq) (auto split: outcome.splits sum.splits)
qed (simp_all add: assms(1))

lemma traced_wps: "traced P R m \<Longrightarrow> wps m (\<lambda>a t. \<exists>new. calls t = calls s @ new \<and> list_all P new) s"
  unfolding traced_def wps_def by (erule allE, erule wp_conseq) (auto split: outcome.splits sum.splits)

section \<open>The restic protocol\<close>

text \<open>
  The commands one pvc takes in the helper pod: the repository is looked for, made when it is not
  there, and only then is the volume backed up. The flag says whether the backup succeeded.
\<close>

inductive restic_run :: "'w cluster \<Rightarrow> string \<Rightarrow> string list \<Rightarrow> bcall list \<Rightarrow> bool \<Rightarrow> bool"
  for X :: "'w cluster" and pod :: string and cmd :: "string list" where
  known: "restic_run X pod cmd
    [BExec (GetOperatorNamespace X) pod (Split (x_CmdListKeys X) CHR '' '') None out1,
     BExec (GetOperatorNamespace X) pod cmd e out2] (e = None)"
| fresh: "restic_run X pod cmd
    [BExec (GetOperatorNamespace X) pod (Split (x_CmdListKeys X) CHR '' '') (Some e1) out1,
     BExec (GetOperatorNamespace X) pod (Split (x_CmdInit X) CHR '' '') None out2,
     BExec (GetOperatorNamespace X) pod cmd e out3] (e = None)"
| init_failed: "restic_run X pod cmd
    [BExec (GetOperatorNamespace X) pod (Split (x_CmdListKeys X) CHR '' '') (Some e1) out1,
     BExec (GetOperatorNamespace X) pod (Split (x_CmdInit X) CHR '' '') (Some e2) out2] False"

inductive_simps restic_run_two: "restic_run X pod cmd [c1, c2] ok"
inductive_simps restic_run_three: "restic_run X pod cmd [c1, c2, c3] ok"

definition restic_post :: "'w cluster \<Rightarrow> Backup \<Rightarrow> Pod option \<Rightarrow> string \<Rightarrow> pvdataMeta \<Rightarrow>
    'w session \<Rightarrow> (goerr + unit) outcome \<Rightarrow> 'w session \<Rightarrow> bool" where
  "restic_post X b execPod pvc meta s r t =
     (if pvdir meta = [] \<or> pvname meta = [] then calls t = calls s \<and> (\<exists>e. r = Ret (Inl e))
      else case (execPod, sp_BackupFrom (b_Spec b)) of
        (Some pod, Some from) \<Rightarrow>
          (\<exists>new v. calls t = calls s @ new \<and> r = Ret v \<and>
             restic_run X (p_Name pod) (backup_cmd X b from pvc meta) new (v = Inr ()))
      | _ \<Rightarrow> r = Halt Panic \<and> calls t = calls s)"

lemma wp_executeBackupCommand:
  "wp (executeBackupCommand X b execPod pvc meta) (restic_post X b execPod pvc meta s) s"
proof (cases "pvdir meta = [] \<or> pvname meta = [] \<or> execPod = None \<or> sp_BackupFrom (b_Spec b) = None")
  case True
  then show ?thesis
    by (auto simp: executeBackupCommand_def restic_post_def wp_simps split: option.splits)
next
  case False
  then obtain pod frm where p: "execPod = Some pod" "sp_BackupFrom (b_Spec b) = Some frm"
    "pvdir meta \<noteq> []" "pvname meta \<noteq> []" by auto
  then show ?thesis
    unfolding executeBackupCommand_def Let_def podExec_def
    by (auto simp: wp_simps restic_post_def restic_run_two restic_run_three
        split: option.splits prod.splits intro!: wp_call_ext)
qed

text \<open>
  C13. For every answer of the cluster: a pvc without a data directory or a volume name runs no command and
  gives an error; a missing helper pod panics; otherwise the commands are those of the restic protocol, in
  the helper pod and in this order, and the result is an error exactly when one of them that matters
  failed.
\<close>

theorem executeBackupCommand_protocol:
  "wp (executeBackupCommand X b execPod pvc meta) (restic_post X b execPod pvc meta s) s"
  by (rule wp_executeBackupCommand)

section \<open>One pvc to one storage\<close>

text \<open>
  The manifest of a storage's helper deployment: made for this Backup and this volume, with the settings
  the Backup has for the storage.
\<close>

definition storage_manifest :: "'w cluster \<Rightarrow> Backup \<Rightarrow> Storage \<Rightarrow> pvdataMeta \<Rightarrow> string \<Rightarrow> bool" where
  "storage_manifest X b storage meta man \<longleftrightarrow>
     (\<exists>to now. sp_BackupTo (b_Spec b) = Some to \<and>
       (storage = StorageNFS \<and> (\<exists>nfs. bt_NFS to = Some nfs \<and>
           man = backup2nfs_manifest b nfs meta (GetOperatorNamespace X) now) \<or>
        storage = StorageMinIO \<and> (\<exists>m ep. bt_MinIO to = Some m \<and> minio_Endpoint m = Some ep \<and>
           man = backup2minio_manifest b (minio_repo m ep) meta (GetOperatorNamespace X) now) \<or>
        storage = StorageSFTP \<and> (\<exists>t user. bt_SFTP to = Some t \<and>
           man = backup2sftp_manifest b (sftp_repo t user) meta (GetOperatorNamespace X) now)))"

lemma storage_manifestI:
  "sp_BackupTo (b_Spec b) = Some to \<Longrightarrow> bt_NFS to = Some nfs \<Longrightarrow>
     storage_manifest X b StorageNFS meta (backup2nfs_manifest b nfs meta (GetOperatorNamespace X) now)"
  "sp_BackupTo (b_Spec b) = Some to \<Longrightarrow> bt_MinIO to = Some m \<Longrightarrow> minio_Endpoint m = Some ep \<Longrightarrow>
     storage_manifest X b StorageMinIO meta (backup2minio_manifest b (minio_repo m ep) meta (GetOperatorNamespace X) now)"
  "sp_BackupTo (b_Spec b) = Some to \<Longrightarrow> bt_SFTP to = Some t \<Longrightarrow>
     storage_manifest X b StorageSFTP meta (backup2sftp_manifest b (sftp_repo t user) meta (GetOperatorNamespace X) now)"
  unfolding storage_manifest_def by blast+

text \<open>
  The calls of one successful backup of a pvc: the workload was waited for, the helper deployment of the
  storage was applied, and the restic protocol succeeded.
\<close>

definition pvc_run :: "'w cluster \<Rightarrow> Backup \<Rightarrow> BackupFrom \<Rightarrow> Storage \<Rightarrow> string \<Rightarrow> pvdataMeta \<Rightarrow> bcall list \<Rightarrow> bool" where
  "pvc_run X b from storage pvc meta seg \<longleftrightarrow>
     (\<exists>mid man pod rr. seg = BWaitReady (bf_Resource from) (b_Namespace b) (bf_Name from) None # mid @ rr \<and>
        storage_manifest X b storage meta man \<and> BApply (GetOperatorNamespace X) man None \<in> set mid \<and>
        restic_run X pod (backup_cmd X b from pvc meta) rr True)"

lemma waitSource_done:
  "wps (waitSource X ns res name) (\<lambda>_ t. calls t = calls s @ [BWaitReady res ns name None]) s"
  unfolding waitSource_def
  by (auto simp: wps_simps split: option.splits intro!: wp_call_ext)

lemma filterRunningPod_done:
  "wps (filterRunningPod X ns man)
     (\<lambda>_ t. \<exists>new. calls t = calls s @ new \<and> BApply ns man None \<in> set new) s"
  unfolding filterRunningPod_def resetWorkloads_def depApply_def depWaitReady_def depGetPods_def other_def
  by (auto simp: wps_simps wp_simps split: option.splits intro!: wps_call wp_call_ext)


text \<open>
  The three storages that have a helper pod share a contract: the pod comes from a deployment applied
  in the operator's namespace with the manifest of the storage. The rest of the backup relies on that alone.
\<close>

definition applied :: "(string \<Rightarrow> bool) \<Rightarrow> string \<Rightarrow> 'w session \<Rightarrow> 'w session \<Rightarrow> bool" where
  "applied P ns s t \<longleftrightarrow> (\<exists>new man. calls t = calls s @ new \<and> P man \<and> BApply ns man None \<in> set new)"

lemma filterRunningPod_applied: "P man \<Longrightarrow> wps (filterRunningPod X ns man) (\<lambda>_. applied P ns s) s"
  by (rule wps_conseq [OF filterRunningPod_done]) (auto simp: applied_def)

lemma applied_later: "prefix (calls s) (calls t) \<Longrightarrow> applied P ns t u \<Longrightarrow> applied P ns s u"
  by (fastforce simp: applied_def prefix_def)

lemma filterRunningPod_later:
  "P man \<Longrightarrow> prefix (calls s) (calls t) \<Longrightarrow> wps (filterRunningPod X ns man) (\<lambda>_. applied P ns s) t"
  by (rule wps_conseq [OF filterRunningPod_applied]) (assumption | rule applied_later)+

locale pod_provider =
  fixes create :: "('w, Pod) bgo" and X :: "'w cluster" and b :: Backup and storage :: Storage and meta :: pvdataMeta
  assumes applies: "wps create (\<lambda>_. applied (storage_manifest X b storage meta) (GetOperatorNamespace X) s) s"
begin

lemma then_execute:
  assumes "sp_BackupFrom (b_Spec b) = Some frm"
    and "calls s = old @ [BWaitReady (bf_Resource frm) (b_Namespace b) (bf_Name frm) None]"
  shows "wps (bindE (bindE create (\<lambda>e. e) (\<lambda>p. retE (Some p))) (\<lambda>e. e)
      (\<lambda>p. executeBackupCommand X b p pvc meta))
    (\<lambda>_ t. \<exists>seg. calls t = old @ seg \<and> pvc_run X b frm storage pvc meta seg) s"
  unfolding wps_bindE wps_retE
proof (rule wps_conseq [OF applies], goal_cases)
  case (1 pod t)
  then obtain mid man where t: "calls t = calls s @ mid" "BApply (GetOperatorNamespace X) man None \<in> set mid"
    "storage_manifest X b storage meta man"
    by (auto simp: applied_def)
  show ?case
    unfolding wps_def
  proof (rule wp_conseq [OF wp_executeBackupCommand], goal_cases)
    case (1 r u)
    with assms(1) show ?case
      by (auto simp: restic_post_def assms(2) t(1) pvc_run_def split: if_splits outcome.splits sum.splits)
        (use t(2,3) in blast)
  qed
qed

end

interpretation nfs: pod_provider "createBackup2nfsDeployment X b meta" X b StorageNFS meta for X b meta
  by unfold_locales
    (auto simp: createBackup2nfsDeployment_def Let_def other_def wps_simps wp_simps split: option.split
      intro!: wp_call_ext filterRunningPod_later storage_manifestI; simp)

interpretation minio: pod_provider "createBackup2minioDepoyment X b meta" X b StorageMinIO meta for X b meta
  by unfold_locales
    (auto simp: createBackup2minioDepoyment_def Let_def other_def secGet_def minioNew_def MakeBucket_def
      MakeFolder_def wps_simps wp_simps split: option.split sum.split
      intro!: wp_call_ext wps_call filterRunningPod_later storage_manifestI; simp)

interpretation sftp: pod_provider "createBackup2sftpDeployment X b meta" X b StorageSFTP meta for X b meta
  by unfold_locales
    (auto simp: createBackup2sftpDeployment_def Let_def other_def secGet_def MakeDirOnSftp_def
      wps_simps wp_simps split: option.split sum.split
      intro!: wp_call_ext wps_call filterRunningPod_later storage_manifestI; simp)


lemma factory_done:
  "wps (backupFactory X storage b pvc meta)
     (\<lambda>_ t. \<exists>frm seg. sp_BackupFrom (b_Spec b) = Some frm \<and> calls t = calls s @ seg \<and>
        pvc_run X b frm storage pvc meta seg) s"
proof (cases "sp_BackupFrom (b_Spec b)")
  case None
  then show ?thesis by (simp add: backupFactory_def wps_simps wp_simps)
next
  case (Some frm)
  have tail: "wps (bindE (execPodFor X storage b meta) (\<lambda>e. e) (\<lambda>p. executeBackupCommand X b p pvc meta))
      (\<lambda>_ u. \<exists>seg. calls u = calls s @ seg \<and> pvc_run X b frm storage pvc meta seg) t"
    if t: "calls t = calls s @ [BWaitReady (bf_Resource frm) (b_Namespace b) (bf_Name frm) None]" for t
  proof -
    have "wps (executeBackupCommand X b None pvc meta) Q t" for Q
      unfolding wps_def by (rule wp_conseq [OF wp_executeBackupCommand])
        (auto simp: restic_post_def Some split: if_splits)
    with nfs.then_execute [OF Some t] minio.then_execute [OF Some t] sftp.then_execute [OF Some t]
    show ?thesis by (simp add: execPodFor_def wps_simps)
  qed
  from Some show ?thesis
    by (auto simp: backupFactory_def wps_simps wp_deref
        intro!: wps_conseq [OF waitSource_done] wps_conseq [OF tail, unfolded wps_bindE])
qed

section \<open>All pvcs to all storages\<close>

definition range_law :: "'w cluster \<Rightarrow> bool" where
  "range_law X \<longleftrightarrow> (\<forall>ks w. mset (fst (x_Range X ks w)) = mset ks)"

text \<open>The calls of one storage: an order of the pvcs, each of them backed up, none twice.\<close>

definition storage_run :: "'w cluster \<Rightarrow> Backup \<Rightarrow> BackupFrom \<Rightarrow> pvcpv \<Rightarrow> Storage \<Rightarrow> bcall list \<Rightarrow> bool" where
  "storage_run X b from m storage new \<longleftrightarrow>
     (\<exists>order segs. mset order = mset (map fst m) \<and> new = BRange (map fst m) order # concat segs \<and>
        list_all2 (\<lambda>pvc. pvc_run X b from storage pvc (at m pvc)) order segs)"

lemma wp_range:
  assumes "range_law X"
  shows "wp (call_ext (BRange ks) (x_Range X ks))
    (\<lambda>r t. \<exists>order. r = Ret order \<and> mset order = mset ks \<and> calls t = calls s @ [BRange ks order]) s"
  using assms by (auto simp: wp_def call_ext_run range_law_def)

lemma backupAll_done:
  assumes "range_law X" "sp_BackupFrom (b_Spec b) = Some frm"
  shows "wps (backupAll X b m storage u)
    (\<lambda>_ t. \<exists>new. calls t = calls s @ new \<and> storage_run X b frm m storage new) s"
  unfolding backupAll_def wps_gobind
proof (rule wp_conseq [OF wp_range [OF assms(1)]], goal_cases)
  case (1 r t)
  then obtain order where o: "r = Ret order" "mset order = mset (map fst m)"
    "calls t = calls s @ [BRange (map fst m) order]" by blast
  let ?I = "\<lambda>xs u u'. \<exists>segs. calls u' = calls t @ concat segs \<and>
    list_all2 (\<lambda>pvc. pvc_run X b frm storage pvc (at m pvc)) xs segs"
  have "wps (foldG (\<lambda>pvc u. bindE (backupFactory X storage b pvc (at m pvc)) (w pvc) retE) order ())
      (?I order) t" for w
  proof (rule wps_foldG [where I = ?I], goal_cases)
    case (2 xs x ys u k)
    then obtain segs where segs: "calls u = calls t @ concat segs"
      "list_all2 (\<lambda>pvc. pvc_run X b frm storage pvc (at m pvc)) xs segs" by blast
    show ?case
      unfolding wps_bindE wps_retE
    proof (rule wps_conseq [OF factory_done], goal_cases)
      case (1 a v)
      then obtain seg where "calls v = calls u @ seg" "pvc_run X b frm storage x (at m x) seg"
        using assms(2) by auto
      with segs show ?case
        by (intro exI [of _ "segs @ [seg]"]) (simp add: list_all2_appendI)
    qed
  qed (simp add: exI [of _ "[]"])
  then show ?case
    unfolding o(1) outcome.case
    by (rule wps_conseq) (auto simp: storage_run_def o(2,3))
qed

section \<open>The volumes collected\<close>

lemma wp_call: "wp (call_ext ev f) Q s = (case f (ext s) of (a, w) \<Rightarrow> Q (Ret a) (s\<lparr>ext := w, calls := calls s @ [ev a]\<rparr>))"
  by (simp add: wp_def call_ext_run split: prod.split)

lemma wps_returns: "wps m (\<lambda>a t. m s = (Ret (Inr a), t)) s"
  by (auto simp: wps_def wp_def split: prod.split outcome.split sum.split)

text \<open>The search for a directory leaves the namespace of the pvcs alone.\<close>

interpretation pvcns: session_order "\<lambda>s t. pvcHandler t = pvcHandler s"
  by unfold_locales simp_all

lemma pvcns_search: "keeps (\<lambda>s t. pvcHandler t = pvcHandler s) (createFindpvdirDeployment X b q)"
proof -
  have "keeps (\<lambda>s t. pvcHandler t = pvcHandler s) (retryFind X pod cmd dep n buf)" for pod cmd dep n buf
    by (induction n arbitrary: buf) (auto intro!: pvcns.keeps_rules simp: podExec_def)
  then show ?thesis
    unfolding createFindpvdirDeployment_def locateVolume_def filterRunningPod_def resetWorkloads_def
      depApply_def depWaitReady_def depGetPods_def Let_def
    by (intro pvcns.keeps_rules pvcns.keeps_modify) simp_all
qed

lemma search_done:
  "wps (createFindpvdirDeployment X b q)
     (\<lambda>dir t. \<exists>seg. calls t = calls s @ seg \<and> searched X b (pvc, q, dir) seg \<and> pvcHandler t = pvcHandler s) s"
  unfolding wps_def
proof (rule wp_conseq [OF wp_conj [OF wps_returns [unfolded wps_def] tidy_createFindpvdir [unfolded traced_def, rule_format]]], goal_cases)
  case (1 r t)
  have "pvcHandler t = pvcHandler s" if "createFindpvdirDeployment X b q s = (r, t)"
    using pvcns_search [of X b q] that unfolding keeps_def by (metis snd_conv)
  with 1 show ?case
    by (auto simp: searched_def split: outcome.split sum.split) blast
qed

lemma collectPVC_done:
  assumes "pvcHandler s = ns"
  shows "wps (collectPVC X (r_pod r) (r_node r) (r_uid r) pvc m)
     (\<lambda>m' t. \<exists>vol seg. m' = put_read r (pvc, vol) m \<and> calls t = calls s @ seg \<and> volume_read X ns (pvc, vol) seg \<and>
        pvcHandler t = ns) s"
proof -
  let ?Q = "\<lambda>m' t. \<exists>vol seg. m' = put_read r (pvc, vol) m \<and> calls t = calls s @ seg \<and> volume_read X ns (pvc, vol) seg \<and>
    pvcHandler t = ns"
  have pv: "zeroMeta\<lparr>volumeSource := src, nodeName := r_node r, podName := p_Name (r_pod r), podUID := r_uid r, pvname := pv\<rparr>
      = read_meta r pv src" for pv src
    by (simp add: zeroMeta_def read_meta_def)
  obtain a w where a: "x_PvcGetPV X ns pvc (ext s) = (a, w)" by force
  show ?thesis
  proof (cases a)
    case (Inl e)
    have "?Q m (s\<lparr>ext := w, calls := calls s @ [BGetPV pvc a]\<rparr>)"
      using a assms Inl by (intro exI [of _ None] exI [of _ "[BGetPV pvc a]"])
        (simp add: put_read_def volume_read_def, metis fst_conv)
    with a assms Inl show ?thesis by (simp add: collectPVC_def wps_simps wp_simps wp_call)
  next
    case (Inr pv)
    obtain a' w' where a': "x_PvVolumeSource X pv w = (a', w')" by force
    have "?Q (case a' of Inl e \<Rightarrow> m | Inr src \<Rightarrow> AList.update pvc (read_meta r pv src) m)
        (s\<lparr>ext := w', calls := calls s @ [BGetPV pvc a, BVolumeSource pv a']\<rparr>)"
      using a a' assms Inr
      by (intro exI [of _ "case a' of Inl e \<Rightarrow> None | Inr src \<Rightarrow> Some (pv, src)"] exI [of _ "[BGetPV pvc a, BVolumeSource pv a']"])
        (simp add: put_read_def volume_read_def split: sum.split, metis fst_conv)
    with a a' assms Inr pv show ?thesis
      by (simp add: collectPVC_def wps_simps wp_simps wp_call split: sum.splits)
  qed
qed

lemma collect_all:
  assumes "pvcHandler s = ns"
  shows "wps (foldG (collectPVC X (r_pod r) (r_node r) (r_uid r)) l m)
     (\<lambda>m' t. \<exists>rd segs. map fst rd = l \<and> m' = fold (put_read r) rd m \<and> calls t = calls s @ concat segs \<and>
        list_all2 (volume_read X ns) rd segs \<and> pvcHandler t = ns) s"
    (is "wps _ (?I l) s")
proof (rule wps_foldG [where I = ?I], goal_cases)
  case 1
  show ?case using assms by (simp add: exI [of _ "[]"])
next
  case (2 xs x ys t k)
  then obtain rd segs where old: "map fst rd = xs" "k = fold (put_read r) rd m" "calls t = calls s @ concat segs"
    "list_all2 (volume_read X ns) rd segs" "pvcHandler t = ns" by blast
  show ?case
  proof (rule wps_conseq [OF collectPVC_done [OF old(5)]], goal_cases)
    case (1 m' u)
    then obtain vol seg where "m' = put_read r (x, vol) k" "calls u = calls t @ seg" "volume_read X ns (x, vol) seg"
      "pvcHandler u = ns" by blast
    with old show ?case
      by (intro exI [of _ "rd @ [(x, vol)]"] exI [of _ "segs @ [seg]"]) (simp add: list_all2_appendI)
  qed
qed

lemma locatePVC_done:
  "wps (locatePVC X b pvc m)
     (\<lambda>m' t. \<exists>dir seg. m' = put_dir (pvc, at m pvc, dir) m \<and> calls t = calls s @ seg \<and> searched X b (pvc, at m pvc, dir) seg \<and>
        pvcHandler t = pvcHandler s) s"
  unfolding locatePVC_def wps_bindE
  by (rule wps_conseq [OF search_done [where pvc = pvc]]) (auto simp: wps_simps put_dir_def)

lemma locate_all:
  "wps (foldG (locatePVC X b) l m)
     (\<lambda>m' t. \<exists>ss segs. map fst ss = l \<and> put_dirs m ss m' \<and> calls t = calls s @ concat segs \<and>
        list_all2 (searched X b) ss segs \<and> pvcHandler t = pvcHandler s) s"
    (is "wps _ (?I l) s")
proof (rule wps_foldG [where I = ?I], goal_cases)
  case 1
  show ?case by (simp add: exI [of _ "[]"])
next
  case (2 xs x ys t k)
  then obtain ss segs where old: "map fst ss = xs" "put_dirs m ss k" "calls t = calls s @ concat segs"
    "list_all2 (searched X b) ss segs" "pvcHandler t = pvcHandler s" by blast
  show ?case
  proof (rule wps_conseq [OF locatePVC_done], goal_cases)
    case (1 m' u)
    then obtain dir seg where "m' = put_dir (x, at k x, dir) k" "calls u = calls t @ seg" "searched X b (x, at k x, dir) seg"
      "pvcHandler u = pvcHandler t" by blast
    with old show ?case
      by (intro exI [of _ "ss @ [(x, at k x, dir)]"] exI [of _ "segs @ [seg]"]) (auto simp: list_all2_appendI put_dirs_snoc)
  qed
qed

lemma podPVCs_done:
  assumes "right_map rs m" and ns: "pvcHandler s = b_Namespace b"
  shows "wps (podPVCs X b pod m)
     (\<lambda>m' t. \<exists>r seg. r_pod r = pod \<and> calls t = calls s @ seg \<and> pod_run X b r seg \<and> right_map (rs @ [r]) m' \<and>
        pvcHandler t = b_Namespace b) s"
    (is "wps _ ?Q s")
proof -
  have loops: "wps (foldG (collectPVC X pod node uid) l m) (\<lambda>m'. wps (foldG (locatePVC X b) l m') ?Q) t"
    if t: "calls t = calls s @ [BNodeName (p_Name pod) (Inr node), BPodUID (p_Name pod) (Inr uid), BPodPVC (p_Name pod) l]"
      "pvcHandler t = b_Namespace b" for t l node uid
  proof -
    let ?r = "\<lparr>r_pod = pod, r_node = node, r_uid = uid, r_reads = [], r_searches = []\<rparr>"
    show ?thesis
    proof (rule wps_conseq [OF collect_all [OF t(2), where r = ?r, simplified]], goal_cases)
      case (1 m' u)
      then obtain rd reads where rd: "map fst rd = l" "m' = fold (put_read ?r) rd m" "calls u = calls t @ concat reads"
        "list_all2 (volume_read X (b_Namespace b)) rd reads" "pvcHandler u = b_Namespace b" by blast
      show ?case
      proof (rule wps_conseq [OF locate_all], goal_cases)
        case (1 m'' v)
        then obtain ss segs where ss: "map fst ss = l" "put_dirs m' ss m''" "calls v = calls u @ concat segs"
          "list_all2 (searched X b) ss segs" "pvcHandler v = pvcHandler u" by blast
        let ?report = "?r\<lparr>r_reads := rd, r_searches := ss\<rparr>"
        have "put_read ?report = put_read ?r" by (rule put_read_same)
        then have "right_map (rs @ [?report]) m''"
          using assms(1) rd(1,2) ss(1,2) by (intro right_map_extend) simp_all
        moreover have "pod_run X b ?report ([BNodeName (p_Name pod) (Inr node), BPodUID (p_Name pod) (Inr uid),
            BPodPVC (p_Name pod) l] @ concat reads @ concat segs)"
          unfolding pod_run_def using rd ss by (intro exI [of _ reads] exI [of _ segs]) simp
        ultimately show ?case
          using t rd(3,5) ss(3,5) by (intro exI [of _ ?report] exI [of _ "[BNodeName (p_Name pod) (Inr node),
            BPodUID (p_Name pod) (Inr uid), BPodPVC (p_Name pod) l] @ concat reads @ concat segs"]) simp
      qed
    qed
  qed
  define Q where "Q = ?Q"
  have "wps (podPVCs X b pod m) Q s"
    unfolding podPVCs_def
    by (auto simp: wps_simps wp_simps ns intro!: wps_call loops [folded Q_def])
  then show ?thesis by (simp only: Q_def)
qed

lemma podsOf_done:
  assumes "podHandler s = b_Namespace b" "depHandler s = b_Namespace b" "stsHandler s = b_Namespace b" "dsHandler s = b_Namespace b"
  shows "wps (podsOf X b) (\<lambda>pods t. source_pods X b (ext s) pods \<and> calls t = calls s @ [BOther] \<and> pvcHandler t = pvcHandler s) s"
  unfolding podsOf_def Let_def depGetPods_def other_def
  using assms
  by (auto simp: wps_simps wp_simps source_pods_def Let_def split: option.split intro!: wps_call_answer)

lemma construct_done:
  "wps (constructPvcpvMap X b) (\<lambda>m t. \<exists>new. calls t = calls s @ new \<and> gathered X b (ext s) m new) s"
proof -
  let ?s = "s\<lparr>podHandler := b_Namespace b, depHandler := b_Namespace b, rsHandler := b_Namespace b,
    stsHandler := b_Namespace b, dsHandler := b_Namespace b, pvcHandler := b_Namespace b\<rparr>"
  let ?I = "\<lambda>t xs m u. \<exists>rs segs. map r_pod rs = xs \<and> calls u = calls t @ concat segs \<and> list_all2 (pod_run X b) rs segs \<and>
    right_map rs m \<and> pvcHandler u = b_Namespace b"
  have pods: "wps (foldG (podPVCs X b) pods []) (?I t pods) t" if t: "pvcHandler t = b_Namespace b" for t pods
  proof (rule wps_foldG [where I = "?I t"], goal_cases)
    case 1
    show ?case using t right_map_none by (intro exI [of _ "[]"]) simp
  next
    case (2 xs x ys u k)
    then obtain rs segs where old: "map r_pod rs = xs" "calls u = calls t @ concat segs" "list_all2 (pod_run X b) rs segs"
      "right_map rs k" "pvcHandler u = b_Namespace b" by blast
    show ?case
    proof (rule wps_conseq [OF podPVCs_done [OF old(4,5)]], goal_cases)
      case (1 m' v)
      then obtain r seg where "r_pod r = x" "calls v = calls u @ seg" "pod_run X b r seg" "right_map (rs @ [r]) m'"
        "pvcHandler v = b_Namespace b" by blast
      with old show ?case
        by (intro exI [of _ "rs @ [r]"] exI [of _ "segs @ [seg]"]) (simp add: list_all2_appendI)
    qed
  qed
  have source: "wps (podsOf X b) (\<lambda>pods t. source_pods X b (ext s) pods \<and> calls t = calls s @ [BOther] \<and>
      pvcHandler t = b_Namespace b) ?s"
    using podsOf_done [of ?s b X] by simp
  show ?thesis
    unfolding constructPvcpvMap_def wps_gobind wp_modify outcome.case wps_bindE
  proof (rule wps_conseq [OF source], goal_cases)
    case (1 ps t)
    show ?case
    proof (rule wps_conseq [OF pods], goal_cases)
      case 1
      with \<open>source_pods X b (ext s) ps \<and> _\<close> show ?case by simp
    next
      case (2 m u)
      with 1 show ?case
        by (auto simp: wps_simps wp_simps gathered_def split: option.split)
    qed
  qed
qed

text \<open>
  C14. When the volumes of a workload could be collected, the map is what the cluster answered about the pods of the
  workload. There is one report for each pod that the cluster lists for the source, no pod left out, made of the answers of the run: the node and the uid
  of the pod, the pvcs it mounts, for each of them the volume and its source as the cluster gives them in the Backup's namespace, and the
  search for its directory. The map is not empty and names no pvc twice. Every pvc of which a pod could read the volume is in it, with
  the metadata read last, and with the directory the last search found, if it found one; a pvc of which nothing was read and
  nothing found is not. A pvc whose volume was never read is searched for with zero metadata, and is in the map with them when that found_dirs a directory.
\<close>

theorem constructPvcpvMap_complete:
  "wps (constructPvcpvMap X b) (\<lambda>m t. \<exists>new. calls t = calls s @ new \<and> gathered X b (ext s) m new) s"
  by (rule construct_done)

lemma storages_done:
  assumes "range_law X" "sp_BackupFrom (b_Spec b) = Some frm"
  shows "wps (foldG (backupAll X b m) storages ())
    (\<lambda>_ t. \<exists>runs. calls t = calls s @ concat runs \<and> list_all2 (storage_run X b frm m) storages runs) s"
proof (rule wps_foldG [where I = "\<lambda>xs _ t. \<exists>runs. calls t = calls s @ concat runs \<and>
    list_all2 (storage_run X b frm m) xs runs"], goal_cases)
  case (2 xs x ys t k)
  then obtain runs where runs: "calls t = calls s @ concat runs" "list_all2 (storage_run X b frm m) xs runs"
    by blast
  show ?case
  proof (rule wps_conseq [OF backupAll_done [OF assms]], goal_cases)
    case (1 a u)
    then obtain new where "calls u = calls t @ new" "storage_run X b frm m x new" by blast
    with runs show ?case by (intro exI [of _ "runs @ [new]"]) (simp add: list_all2_appendI)
  qed
qed (simp add: exI [of _ "[]"])

text \<open>What a run that succeeds has done, before the cleanup.\<close>

definition backed_up :: "'w cluster \<Rightarrow> string \<Rightarrow> string \<Rightarrow> 'w \<Rightarrow> bcall list \<Rightarrow> bool" where
  "backed_up X ns name w new \<longleftrightarrow>
     (\<exists>u w' b frm m storages pre runs. x_DynGet X (GroupStorage, VersionStorage, KindBackup) ns name w = (Inr u, w') \<and>
        x_FromUnstructured X u = Inr b \<and> sp_BackupFrom (b_Spec b) = Some frm \<and>
        parseStorage b = Ret storages \<and> gathered X b w' m pre \<and>
        list_all2 (storage_run X b frm m) storages runs \<and> new = BOther # pre @ concat runs)"

lemma backed_upI:
  assumes "x_DynGet X (GroupStorage, VersionStorage, KindBackup) ns name w = (Inr u, w')"
    "x_FromUnstructured X u = Inr b" "sp_BackupFrom (b_Spec b) = Some frm"
    "parseStorage b = Ret storages" "gathered X b w' m pre" "list_all2 (storage_run X b frm m) storages runs"
  shows "backed_up X ns name w (BOther # pre @ concat runs)"
  unfolding backed_up_def using assms by (intro exI conjI) (assumption | rule refl)+

lemma runBackup_done:
  assumes "range_law X"
  shows "wps (runBackup X ns name) (\<lambda>_ t. \<exists>new. calls t = calls s @ new \<and> backed_up X ns name (ext s) new) s"
proof -
  have run: "wps (bindE (constructPvcpvMap X b) (\<lambda>e. e) (\<lambda>m.
      gobind (of_outcome (parseStorage b)) (\<lambda>storages. foldG (backupAll X b m) storages ())))
      (\<lambda>_ u. \<exists>new. calls u = calls s @ new \<and> backed_up X ns name (ext s) new) t"
    if b: "x_FromUnstructured X un = Inr b" "sp_BackupFrom (b_Spec b) = Some frm" "calls t = calls s @ [BOther]"
      "x_DynGet X (GroupStorage, VersionStorage, KindBackup) ns name (ext s) = (Inr un, ext t)" for un b frm t
    unfolding wps_bindE
  proof (rule wps_conseq [OF construct_done], goal_cases)
    case (1 m u)
    then obtain pre where m: "calls u = calls t @ pre" "gathered X b (ext t) m pre" by blast
    show ?case
    proof (cases "parseStorage b")
      case (Ret storages)
      have "wps (foldG (backupAll X b m) storages ())
          (\<lambda>_ v. \<exists>new. calls v = calls s @ new \<and> backed_up X ns name (ext s) new) u"
      proof (rule wps_conseq [OF storages_done [OF assms b(2)]], goal_cases)
        case (1 a v)
        then obtain runs where runs: "calls v = calls u @ concat runs"
          "list_all2 (storage_run X b frm m) storages runs" by blast
        from backed_upI [OF b(4,1,2) Ret m(2) runs(2)] runs(1) b(3) m(1) show ?case by auto
      qed
      with Ret show ?thesis by (simp add: of_outcome_def)
    next
      case (Halt h)
      then show ?thesis by (simp add: of_outcome_def wps_simps wp_simps)
    qed
  qed
  show ?thesis
    unfolding runBackup_def other_def
    by (auto simp: wps_simps wp_simps wps_def [of "ret _"] split: option.split sum.split
        intro!: wps_call_answer run [unfolded wps_bindE wps_gobind])
qed

text \<open>
  C12. A run that returns no error has backed up everything: it read and decoded the Backup it was asked for, collected the
  volumes of all pods of the workload (the map of C14: one report for each pod the cluster lists for the source, and every pvc whose volume a pod
  could read), and for each storage the Backup configures, in the order of the configuration, and each
  volume, exactly once in some order, it waited for the workload, applied the helper deployment of
  that storage and ran the
  restic protocol to success; then it cleaned up.
\<close>

theorem Do_backs_up_everything:
  assumes "range_law X" and run: "Do X ns name s = (Ret (Inr ()), t)"
  shows "\<exists>new. backed_up X ns name (ext s) new \<and> cleaned X (calls s @ new) t"
proof -
  from run obtain t' where t': "runBackup X ns name s = (Ret (Inr ()), t')" "snd (cleanup X t') = t"
    unfolding Do_def defer_to_def by (auto split: prod.splits outcome.splits halt.splits)
  from runBackup_done [OF assms(1), of ns name s] t'(1) obtain new where
    "calls t' = calls s @ new" "backed_up X ns name (ext s) new"
    by (auto simp: wps_def wp_def)
  moreover have "cleaned X (calls t') t"
    using wp_cleanup [of X t'] t'(2) by (auto simp: wp_def split: prod.splits)
  ultimately show ?thesis by auto
qed

end
