(* ===== verification/BackupProps.thy ===== *)
theory BackupProps
  imports BackupResult
begin

text \<open>
  Properties of the parts of the backup: the choice of the storage, the manifests of the helper
  deployments, the search for the data directory; and what the run does on inputs the code does not
  foresee.
\<close>

section \<open>A cluster to run on\<close>

text \<open>
  A cluster whose calls all succeed: the workload \<^verbatim>\<open>web\<close> in the namespace \<^verbatim>\<open>default\<close> has the given pods, each
  with its node and its pvcs; every helper deployment has one running pod; the data directory is
  always found.
\<close>

definition demo_backup :: Backup where
  "demo_backup = (sample_backup ''default'' None [])\<lparr>b_Spec := sample_spec\<lparr>sp_BackupTo :=
     Some (emptyBackupTo\<lparr>bt_NFS := Some \<lparr>nfs_Server = ''nas'', nfs_Path = ''/export''\<rparr>\<rparr>)\<rparr>\<rparr>"

definition demo_pod :: "string \<Rightarrow> Pod" where
  "demo_pod name = \<lparr>p_Name = name, p_DeletionTimestamp = None, p_Phase = ''Running''\<rparr>"

definition demo_cluster :: "(string \<times> string \<times> string list) list \<Rightarrow> unit cluster" where
  "demo_cluster pods = \<lparr>
     x_Getenv = (\<lambda>_. []),
     x_Now = (\<lambda>w. (''2022-10-01T00:00:00Z'', w)),
     x_Wrap = WithMessage,
     x_IsNotFound = is_not_found,
     x_IsZero = (\<lambda>t. t = None),
     x_Range = (\<lambda>ks w. (ks, w)),
     x_DynGet = (\<lambda>gvk ns n w. (Inr n, w)),
     x_FromUnstructured = (\<lambda>u. Inr demo_backup),
     x_PodGet = (\<lambda>ns n w. (Inr (demo_pod n), w)),
     x_PodNodeName = (\<lambda>ns p w. (case map_of pods (p_Name p) of Some (node, l) \<Rightarrow> Inr node | None \<Rightarrow> Inl notFound, w)),
     x_PodUID = (\<lambda>ns p w. (Inr (p_Name p @ ''-uid''), w)),
     x_PodPVC = (\<lambda>ns p w. (case map_of pods (p_Name p) of Some (node, l) \<Rightarrow> Inr l | None \<Rightarrow> Inl notFound, w)),
     x_PodWaitReady = (\<lambda>ns n w. (None, w)),
     x_Exec = (\<lambda>ns p cmd w. ((None, ''/var/lib/kubelet/pods/uid/volumes''), w)),
     x_DepGet = (\<lambda>ns d w. (Inl notFound, w)),
     x_DepApply = (\<lambda>ns d w. (Inr \<lparr>d_Name = metadata_field ''name'' d, d_TemplateAnnotations = None\<rparr>, w)),
     x_DepWaitReady = (\<lambda>ns n w. (None, w)),
     x_DepGetPods = (\<lambda>ns n w. (Inr (if ns = ''default'' then map (demo_pod \<circ> fst) pods else [demo_pod ''helper'']), w)),
     x_DepGetRS = (\<lambda>ns n w. (Inr [], w)),
     x_DepDelete = (\<lambda>ns n w. (None, w)),
     x_RsGetPods = (\<lambda>ns n w. (Inr [], w)),
     x_StsGetPods = (\<lambda>ns n w. (Inr [], w)),
     x_StsWaitReady = (\<lambda>ns n w. (None, w)),
     x_DsGetPods = (\<lambda>ns n w. (Inr [], w)),
     x_DsWaitReady = (\<lambda>ns n w. (None, w)),
     x_PvcGetPV = (\<lambda>ns pvc w. (Inr (''pv-'' @ pvc), w)),
     x_PvVolumeSource = (\<lambda>pv w. (Inr ''nfs'', w)),
     x_PvGet = (\<lambda>pv w. (Inr \<lparr>pv_HostPath = None, pv_Local = None\<rparr>, w)),
     x_SecGet = (\<lambda>ns n w. (Inr [], w)),
     x_MinioNew = (\<lambda>ep ak sk ssl w. (Inr 0, w)),
     x_MakeBucket = (\<lambda>c n l w. (None, w)),
     x_BucketExists = (\<lambda>c n w. ((True, None), w)),
     x_SshDial = (\<lambda>a u p w. (Inr 0, w)),
     x_SftpNewClient = (\<lambda>c w. (Inr 0, w)),
     x_SftpMkdirAll = (\<lambda>c d w. (None, w)),
     x_CmdListKeys = ''restic list keys'',
     x_CmdInit = ''restic init'',
     x_CmdBackup = (\<lambda>tags host path. ''restic backup '' @ path)\<rparr>"

text \<open>One pod; and two pods on two nodes, with a pvc each.\<close>

definition one_node :: "unit cluster" where
  "one_node = demo_cluster [(''web-0'', ''node-a'', [''data''])]"

definition two_nodes :: "unit cluster" where
  "two_nodes = demo_cluster [(''web-0'', ''node-a'', [''data-0'']), (''web-1'', ''node-b'', [''data-1''])]"

definition demo_meta :: "string \<Rightarrow> string \<Rightarrow> string \<Rightarrow> string \<Rightarrow> pvdataMeta" where
  "demo_meta node pod pvc dir = \<lparr>volumeSource = ''nfs'', nodeName = node, podName = pod, podUID = pod @ ''-uid'',
     pvdir = dir, pvname = ''pv-'' @ pvc\<rparr>"

lemma demo_range: "range_law (demo_cluster pods)"
  by (simp add: range_law_def demo_cluster_def)

lemma demo_operator: "GetOperatorNamespace (demo_cluster pods) = ''horus-operator-system''"
  by (simp add: GetOperatorNamespace_def demo_cluster_def DefaultOperatorNamespace_def)

lemma demo_fields:
  "x_PodNodeName (demo_cluster pods) ns p w = (case map_of pods (p_Name p) of Some (node, l) \<Rightarrow> Inr node | None \<Rightarrow> Inl notFound, w)"
  "x_PodUID (demo_cluster pods) ns p w = (Inr (p_Name p @ ''-uid''), w)"
  "x_PodPVC (demo_cluster pods) ns p w = (case map_of pods (p_Name p) of Some (node, l) \<Rightarrow> Inr l | None \<Rightarrow> Inl notFound, w)"
  "x_DynGet (demo_cluster pods) gvk ns n w = (Inr n, w)"
  "x_FromUnstructured (demo_cluster pods) n = Inr demo_backup"
  "x_Range (demo_cluster pods) ks w = (ks, w)"
  "x_DepGetPods (demo_cluster pods) ns n w = (Inr (if ns = ''default'' then map (demo_pod \<circ> fst) pods else [demo_pod ''helper'']), w)"
  "x_DepDelete (demo_cluster pods) ns n w = (None, w)"
  by (simp_all add: demo_cluster_def)

lemma demo_running: "find (running (demo_cluster pods)) [demo_pod n] = Some (demo_pod n)"
  by (simp add: running_def demo_cluster_def demo_pod_def PodRunning_def)

lemma demo_trim: "TrimSpace ''/var/lib/kubelet/pods/uid/volumes'' = ''/var/lib/kubelet/pods/uid/volumes''"
  by (rule TrimSpace_id) (simp_all add: is_space_def)

text \<open>How the operations run on it.\<close>

lemma demo_filterRunningPod:
  "filterRunningPod (demo_cluster pods) ''horus-operator-system'' man s =
    (Ret (Inr (demo_pod ''helper'')), s\<lparr>depHandler := ''horus-operator-system'',
       rsHandler := ''horus-operator-system'', podHandler := ''horus-operator-system'',
       calls := calls s @ [BApply ''horus-operator-system'' man None,
         BWaitReady ''deployment'' ''horus-operator-system'' (metadata_field ''name'' man) None, BOther]\<rparr>)"
  unfolding filterRunningPod_def resetWorkloads_def depApply_def depWaitReady_def depGetPods_def other_def
    bindE_def of_err_def retE_def
  using demo_running [of pods "''helper''"]
  by (simp add: go_run demo_cluster_def)

abbreviation op_ns :: string where "op_ns \<equiv> ''horus-operator-system''"
abbreviation demo_now :: string where "demo_now \<equiv> ''2022-10-01T00:00:00Z''"
abbreviation demo_dir :: string where "demo_dir \<equiv> ''/var/lib/kubelet/pods/uid/volumes''"

definition find_events :: "pvdataMeta \<Rightarrow> bcall list" where
  "find_events meta = [BOther, BApply op_ns (findpvdir_manifest demo_backup meta op_ns demo_now) None,
     BWaitReady ''deployment'' op_ns (metadata_field ''name'' (findpvdir_manifest demo_backup meta op_ns demo_now)) None,
     BOther, BExec op_ns ''helper'' [''findpvdir'', ''--pod-uid'', podUID meta, ''--storage-type'', ''nfs''] None demo_dir]"

lemma demo_createFindpvdir:
  "volumeSource meta = ''nfs'' \<Longrightarrow> createFindpvdirDeployment (demo_cluster pods) demo_backup meta s =
    (Ret (Inr demo_dir), s\<lparr>DeployNameFindpvdir := theDeployName findpvdirName (Some demo_backup) meta,
       depHandler := op_ns, rsHandler := op_ns, podHandler := op_ns, calls := calls s @ find_events meta\<rparr>)"
  unfolding createFindpvdirDeployment_def Let_def demo_operator other_def locateVolume_def volume_defs podExec_def
  by (simp add: go_run bindE_def retE_def demo_filterRunningPod numeral_eq_Suc podExec_def demo_trim
      find_events_def)
    (simp add: demo_cluster_def demo_pod_def demo_trim retE_def go_run)


definition factory_events :: "string \<Rightarrow> pvdataMeta \<Rightarrow> bcall list" where
  "factory_events pvc meta =
     (let man = backup2nfs_manifest demo_backup \<lparr>nfs_Server = ''nas'', nfs_Path = ''/export''\<rparr> meta op_ns demo_now in
      [BWaitReady ''deployment'' ''default'' ''web'' None, BOther, BApply op_ns man None,
       BWaitReady ''deployment'' op_ns (metadata_field ''name'' man) None, BOther,
       BExec op_ns ''helper'' (Split ''restic list keys'' CHR '' '') None demo_dir,
       BExec op_ns ''helper'' (Split (''restic backup '' @ pv_path meta) CHR '' '') None demo_dir])"

lemma demo_spec:
  "sp_BackupFrom (b_Spec demo_backup) = Some \<lparr>bf_Name = ''web'', bf_Resource = ''deployment''\<rparr>"
  "sp_BackupTo (b_Spec demo_backup) =
     Some (emptyBackupTo\<lparr>bt_NFS := Some \<lparr>nfs_Server = ''nas'', nfs_Path = ''/export''\<rparr>\<rparr>)"
  "b_Namespace demo_backup = ''default''" "b_Name demo_backup = ''daily''"
  by (simp_all add: demo_backup_def sample_backup_def sample_spec_def emptyMeta_def)

lemma demo_nfs:
  "createBackup2nfsDeployment (demo_cluster pods) demo_backup meta s =
    (Ret (Inr (demo_pod ''helper'')), s\<lparr>DeployNameBackup2nfs := theDeployName backup2nfsName (Some demo_backup) meta,
       depHandler := op_ns, rsHandler := op_ns, podHandler := op_ns,
       calls := calls s @ [BOther, BApply op_ns (backup2nfs_manifest demo_backup
           \<lparr>nfs_Server = ''nas'', nfs_Path = ''/export''\<rparr> meta op_ns demo_now) None,
         BWaitReady ''deployment'' op_ns (metadata_field ''name'' (backup2nfs_manifest demo_backup
           \<lparr>nfs_Server = ''nas'', nfs_Path = ''/export''\<rparr> meta op_ns demo_now)) None, BOther]\<rparr>)"
  unfolding createBackup2nfsDeployment_def Let_def demo_operator other_def deref_def demo_spec
  by (simp add: go_run demo_filterRunningPod) (simp add: demo_cluster_def)

lemma demo_wait:
  "waitSource (demo_cluster pods) ''default'' ''deployment'' ''web'' s =
    (Ret (Inr ()), s\<lparr>calls := calls s @ [BWaitReady ''deployment'' ''default'' ''web'' None]\<rparr>)"
  by (simp add: waitSource_def resource_defs bindE_def of_err_def retE_def go_run demo_cluster_def)

lemma demo_factory:
  assumes "pvdir meta \<noteq> []" "pvname meta \<noteq> []"
  shows "backupFactory (demo_cluster pods) StorageNFS demo_backup pvc meta s =
    (Ret (Inr ()), s\<lparr>DeployNameBackup2nfs := theDeployName backup2nfsName (Some demo_backup) meta,
       depHandler := op_ns, rsHandler := op_ns, podHandler := op_ns,
       calls := calls s @ factory_events pvc meta\<rparr>)"
proof -
  have exec: "executeBackupCommand (demo_cluster pods) demo_backup (Some (demo_pod ''helper'')) pvc meta t =
      (Ret (Inr ()), t\<lparr>podHandler := op_ns, calls := calls t @
        [BExec op_ns ''helper'' (Split ''restic list keys'' CHR '' '') None demo_dir,
         BExec op_ns ''helper'' (Split (''restic backup '' @ pv_path meta) CHR '' '') None demo_dir]\<rparr>)" for t
    using assms
    by (simp add: executeBackupCommand_def deref_def demo_spec demo_operator podExec_def bindE_def retE_def
        backup_cmd_def go_run Let_def del: Split.simps)
      (simp add: demo_cluster_def demo_pod_def retE_def go_run del: Split.simps)
  show ?thesis
    by (simp add: backupFactory_def supported_storages_def demo_spec deref_def execPodFor_def bindE_def retE_def
        demo_wait demo_nfs exec go_run factory_events_def Let_def del: Split.simps)
qed


lemma demo_collect:
  "collectPVC (demo_cluster pods) pod node uid pvc m s =
    (Ret (Inr (AList.update pvc (zeroMeta\<lparr>volumeSource := ''nfs'', nodeName := node, podName := p_Name pod,
        podUID := uid, pvname := ''pv-'' @ pvc\<rparr>) m)),
     s\<lparr>calls := calls s @ [BGetPV pvc (Inr (''pv-'' @ pvc)), BVolumeSource (''pv-'' @ pvc) (Inr ''nfs'')]\<rparr>)"
  by (simp add: collectPVC_def retE_def go_run demo_cluster_def)

lemma demo_locate:
  assumes "volumeSource (at m pvc) = ''nfs''"
  shows "locatePVC (demo_cluster pods) demo_backup pvc m s =
    (Ret (Inr (AList.update pvc ((at m pvc)\<lparr>pvdir := demo_dir\<rparr>) m)),
     s\<lparr>DeployNameFindpvdir := theDeployName findpvdirName (Some demo_backup) (at m pvc),
       depHandler := op_ns, rsHandler := op_ns, podHandler := op_ns, calls := calls s @ find_events (at m pvc)\<rparr>)"
  by (simp add: locatePVC_def bindE_def retE_def go_run demo_createFindpvdir [OF assms])

lemma demo_podPVCs:
  assumes "map_of pods name = Some (node, [pvc])" "map_of m pvc = None"
  shows "podPVCs (demo_cluster pods) demo_backup (demo_pod name) m s =
    (Ret (Inr (m @ [(pvc, demo_meta node name pvc demo_dir)])),
     s\<lparr>DeployNameFindpvdir := theDeployName findpvdirName (Some demo_backup) (demo_meta node name pvc []),
       depHandler := op_ns, rsHandler := op_ns, podHandler := op_ns,
       calls := calls s @ [BNodeName name (Inr node), BPodUID name (Inr (name @ ''-uid'')), BPodPVC name [pvc],
         BGetPV pvc (Inr (''pv-'' @ pvc)), BVolumeSource (''pv-'' @ pvc) (Inr ''nfs'')] @
         find_events (demo_meta node name pvc [])\<rparr>)"
proof -
  have new: "AList.update k v m' = m' @ [(k, v)]" if "map_of m' k = None" for k and v :: pvdataMeta and m'
    using that by (induction m') auto
  have same: "AList.update k v (m' @ [(k, v')]) = m' @ [(k, v)]" if "map_of m' k = None"
    for k and v v' :: pvdataMeta and m'
    using that by (induction m') auto
  have at: "at (m @ [(pvc, x)]) pvc = x" for x
    using assms(2) by (simp add: at_def map_add_def)
  show ?thesis
    unfolding podPVCs_def other_def bindE_def
    using assms
    by (simp add: go_run demo_collect demo_locate at new same zeroMeta_def demo_meta_def demo_fields demo_pod_def)
qed


lemma demo_parse: "parseStorage demo_backup = Ret [StorageNFS]"
  by (simp add: parseStorage_def demo_spec backupTo_fields_def emptyBackupTo_def storage_defs)

lemma demo_podsOf:
  "depHandler s = ''default'' \<Longrightarrow> podsOf (demo_cluster pods) demo_backup s =
     (Ret (Inr (map (demo_pod \<circ> fst) pods)), s\<lparr>calls := calls s @ [BOther]\<rparr>)"
  by (simp add: podsOf_def demo_spec deref_def depGetPods_def other_def resource_defs bindE_def retE_def go_run
      demo_fields Let_def)

lemma one_node_run:
  "fst (Do one_node ''default'' ''daily'' (init_session ())) = Ret (Inr ())"
  unfolding one_node_def Do_def defer_to_def runBackup_def constructPvcpvMap_def backupAll_def cleanup_def
    depDelete_def other_def bindE_def of_outcome_def deref_def demo_parse demo_spec demo_operator
  by (simp add: go_run retE_def demo_fields demo_podsOf demo_podPVCs demo_factory init_session_def at_def
      demo_meta_def demo_spec demo_parse demo_operator)


lemma two_nodes_run:
  "fst (Do two_nodes ''default'' ''daily'' (init_session ())) = Ret (Inr ())"
  unfolding two_nodes_def Do_def defer_to_def runBackup_def constructPvcpvMap_def backupAll_def cleanup_def
    depDelete_def other_def bindE_def of_outcome_def deref_def demo_parse demo_spec demo_operator
  by (simp add: go_run retE_def demo_fields demo_podsOf demo_podPVCs demo_factory init_session_def at_def
      demo_meta_def demo_spec demo_parse demo_operator)


lemma two_nodes_calls:
  "calls (snd (Do two_nodes ''default'' ''daily'' (init_session ()))) =
     [BOther, BOther] @
     concat (map (\<lambda>(node, pod, pvc). [BNodeName pod (Inr node), BPodUID pod (Inr (pod @ ''-uid'')), BPodPVC pod [pvc],
         BGetPV pvc (Inr (''pv-'' @ pvc)), BVolumeSource (''pv-'' @ pvc) (Inr ''nfs'')] @ find_events (demo_meta node pod pvc []))
       [(''node-a'', ''web-0'', ''data-0''), (''node-b'', ''web-1'', ''data-1'')]) @
     [BRange [''data-0'', ''data-1''] [''data-0'', ''data-1'']] @
     factory_events ''data-0'' (demo_meta ''node-a'' ''web-0'' ''data-0'' demo_dir) @
     factory_events ''data-1'' (demo_meta ''node-b'' ''web-1'' ''data-1'' demo_dir) @
     map (\<lambda>n. BDelete op_ns n None)
       [theDeployName findpvdirName (Some demo_backup) (demo_meta ''node-b'' ''web-1'' ''data-1'' []),
        theDeployName backup2nfsName (Some demo_backup) (demo_meta ''node-b'' ''web-1'' ''data-1'' demo_dir),
        [], [], [], [], [], []]"
  unfolding two_nodes_def Do_def defer_to_def runBackup_def constructPvcpvMap_def backupAll_def cleanup_def
    depDelete_def other_def bindE_def of_outcome_def deref_def demo_parse demo_spec demo_operator
  by (simp add: go_run retE_def demo_fields demo_podsOf demo_podPVCs demo_factory init_session_def at_def
      demo_meta_def demo_spec demo_parse demo_operator)

theorem Do_backs_up_everything_witness:
  "\<exists>new. backed_up one_node ''default'' ''daily'' (ext (init_session ())) new \<and>
     cleaned one_node (calls (init_session ()) @ new) (snd (Do one_node ''default'' ''daily'' (init_session ())))"
proof (rule Do_backs_up_everything)
  show "range_law one_node" by (simp add: one_node_def demo_range)
  show "Do one_node ''default'' ''daily'' (init_session ()) =
      (Ret (Inr ()), snd (Do one_node ''default'' ''daily'' (init_session ())))"
    using one_node_run by (metis prod.collapse)
qed

section \<open>Storages\<close>

lemma storage_of_tags:
  "list_all (\<lambda>tag. storage_of_fields ((tag, True) # fs) = Split tag CHR '','' ! 0)
     (map fst (backupTo_fields t))"
  by (simp add: backupTo_fields_def storage_defs)

lemma storage_of_tag:
  assumes "(tag, v) \<in> set (backupTo_fields t)"
  shows "storage_of_fields ((tag, True) # fs) = Split tag CHR '','' ! 0"
proof -
  have "tag \<in> set (map fst (backupTo_fields t))"
    using assms by (simp only: set_map) (rule image_eqI [where x = "(tag, v)"], simp_all)
  with storage_of_tags [of fs t] show ?thesis by (simp only: list_all_iff)
qed

lemma storage_of_fields_hd:
  assumes "set fs \<subseteq> set (backupTo_fields t)"
  shows "storage_of_fields fs = (case parse_fields fs of [] \<Rightarrow> [] | x # xs \<Rightarrow> x)"
  using assms
proof (induction fs)
  case (Cons f fs)
  obtain tag v where f: "f = (tag, v)" by (cases f)
  have "f \<in> set (backupTo_fields t)" using Cons.prems by (meson list.set_intros(1) subsetD)
  with f storage_of_tag [of tag v t fs] Cons show ?case by (cases v) simp_all
qed simp

text \<open>
  C29. \<^verbatim>\<open>util.GetBackupToStorage\<close> gives the first of the storages that \<^verbatim>\<open>parseStorage\<close> lists, and the empty
  storage when there is none; both panic on a Backup without \<^verbatim>\<open>backupTo\<close>.
\<close>

theorem GetBackupToStorage_first:
  "GetBackupToStorage b = (case parseStorage b of
      Ret [] \<Rightarrow> Ret [] | Ret (storage # rest) \<Rightarrow> Ret storage | Halt h \<Rightarrow> Halt h)"
  using storage_of_fields_hd [of "backupTo_fields t" t for t]
  by (auto simp: GetBackupToStorage_def parseStorage_def split: option.splits list.splits)

lemma factory_unsupported:
  "storage \<notin> set supported_storages \<Longrightarrow> backupFactory X storage b pvc meta s =
     (Ret (Inl (Errorf (Sprintf ''not support storage type: %s'' [storage]))), s)"
  by (simp add: backupFactory_def throw_def go_run)

text \<open>
  C30. A Backup to any storage other than NFS, MinIO and SFTP never succeeds. For S3, CephFS, RClone and the REST
  server, which the dispatch accepts, no helper pod is made and the run panics on the nil pod as soon
  as the workload is ready and the volume is known.
\<close>

theorem other_storages_never_succeed:
  assumes "storage \<notin> {StorageNFS, StorageMinIO, StorageSFTP}"
  shows "wps (backupFactory X storage b pvc meta) (\<lambda>_ _. False) s \<and>
    (storage \<in> set supported_storages \<and> sp_BackupFrom (b_Spec b) = Some frm \<and>
     fst (waitSource X (b_Namespace b) (bf_Resource frm) (bf_Name frm) s) = Ret (Inr ()) \<and>
     pvdir meta \<noteq> [] \<and> pvname meta \<noteq> []
     \<longrightarrow> fst (backupFactory X storage b pvc meta s) = Halt Panic)"
proof -
  have none: "execPodFor X storage b meta = retE None"
    using assms by (simp add: execPodFor_def)
  have "wps (executeBackupCommand X b None pvc meta) (\<lambda>_ _. False) t" for t
    unfolding wps_def by (rule wp_conseq [OF wp_executeBackupCommand])
      (auto simp: restic_post_def split: if_splits option.splits)
  then have "wps (backupFactory X storage b pvc meta) (\<lambda>_ _. False) s"
    unfolding backupFactory_def none
    by (cases "sp_BackupFrom (b_Spec b)")
      (auto simp: wps_simps wp_simps intro!: wps_conseq [OF waitSource_done])
  moreover have "fst (backupFactory X storage b pvc meta s) = Halt Panic"
    if "storage \<in> set supported_storages" "sp_BackupFrom (b_Spec b) = Some frm"
      "fst (waitSource X (b_Namespace b) (bf_Resource frm) (bf_Name frm) s) = Ret (Inr ())"
      "pvdir meta \<noteq> []" "pvname meta \<noteq> []"
    using that
    by (cases "waitSource X (b_Namespace b) (bf_Resource frm) (bf_Name frm) s")
      (simp add: backupFactory_def none bindE_def retE_def deref_def executeBackupCommand_def go_run)
  ultimately show ?thesis by blast
qed

theorem other_storages_never_succeed_witness:
  "wps (backupFactory one_node StorageS3 demo_backup ''data'' (demo_meta ''node-a'' ''web-0'' ''data'' demo_dir))
      (\<lambda>_ _. False) (init_session ()) \<and>
   fst (backupFactory one_node StorageS3 demo_backup ''data'' (demo_meta ''node-a'' ''web-0'' ''data'' demo_dir)
      (init_session ())) = Halt Panic"
proof -
  have "StorageS3 \<notin> {StorageNFS, StorageMinIO, StorageSFTP}" "StorageS3 \<in> set supported_storages"
    by (simp_all add: storage_defs supported_storages_def)
  moreover have "fst (waitSource one_node (b_Namespace demo_backup) ''deployment'' ''web'' (init_session ())) = Ret (Inr ())"
    by (simp add: one_node_def demo_spec demo_wait)
  ultimately show ?thesis
    using other_storages_never_succeed [of StorageS3 one_node demo_backup "''data''"
        "demo_meta ''node-a'' ''web-0'' ''data'' demo_dir" "init_session ()"
        "\<lparr>bf_Name = ''web'', bf_Resource = ''deployment''\<rparr>"]
    by (simp add: demo_spec demo_meta_def)
qed

section \<open>Manifests\<close>

lemma Sprintf_line:
  "verbs l \<le> length xs \<Longrightarrow>
   Sprintf (l @ newline # f) xs = Sprintf l (take (verbs l) xs) @ newline # Sprintf f (drop (verbs l) xs)"
proof (induction l xs rule: Sprintf.induct)
  case (1 xs)
  then show ?case by (cases f) (auto simp: Sprintf_eval)
next
  case (2 c xs)
  then show ?case by (cases f) (auto simp: Sprintf_eval)
next
  case (3 c v l xs)
  show ?case
  proof (cases "c = CHR ''%'' \<and> is_verb v")
    case True
    with 3 show ?thesis by (cases xs) (auto simp: Sprintf.simps)
  next
    case False
    with 3 show ?thesis by (auto simp: Sprintf.simps)
  qed
qed

text \<open>A scalar of a manifest: on one line and without quotes.\<close>

definition plain_scalar :: "string \<Rightarrow> bool" where
  "plain_scalar x \<longleftrightarrow> one_line x \<and> CHR 0x22 \<notin> set x"

text \<open>The first lines of a deployment, up to those of its name and namespace.\<close>

definition deployment_text :: "string \<Rightarrow> string \<Rightarrow> string \<Rightarrow> string" where
  "deployment_text m c tail = newline # ''apiVersion: apps/v1'' @ newline # ''kind: Deployment'' @ newline #
     ''metadata:'' @ newline # m @ newline # c @ newline # tail"

lemma metadata_text:
  assumes "one_line m" "one_line c"
  shows "metadata_field f (deployment_text m c tail) =
    (case find (\<lambda>l. HasPrefix l (''  '' @ f @ '': ''))
       (takeWhile (\<lambda>l. HasPrefix l ''  '') (m # c # Split tail newline)) of
       None \<Rightarrow> [] | Some l \<Rightarrow> unquote (drop (length f + 4) l))"
proof -
  have lines: "one_line ''apiVersion: apps/v1''" "one_line ''kind: Deployment''" "one_line ''metadata:''"
    by (simp_all add: one_line_def)
  have nl: "Split (newline # x) newline = [] # Split x newline" for x by simp
  show ?thesis
    unfolding metadata_field_def Let_def deployment_text_def
    by (simp only: nl Split_line lines assms) simp
qed

definition names_deployment :: "string \<Rightarrow> string \<Rightarrow> string \<Rightarrow> bool" where
  "names_deployment man name ns \<longleftrightarrow>
     metadata_field ''name'' man = name \<and> metadata_field ''namespace'' man = ns"

lemma unquote_quoted: "unquote (CHR 0x22 # x @ [CHR 0x22]) = x"
  by (simp add: unquote_def)

lemma unquote_plain: "CHR 0x22 \<notin> set x \<Longrightarrow> unquote x = x"
  by (cases x) (auto simp: unquote_def)

lemma names_quoted:
  assumes "plain_scalar name" "plain_scalar ns"
  shows "names_deployment (deployment_text (''  name: '' @ CHR 0x22 # name @ [CHR 0x22])
      (''  namespace: '' @ CHR 0x22 # ns @ [CHR 0x22]) tail) name ns"
proof -
  have "one_line (''  name: '' @ CHR 0x22 # name @ [CHR 0x22])"
    "one_line (''  namespace: '' @ CHR 0x22 # ns @ [CHR 0x22])"
    using assms by (simp_all add: one_line_def plain_scalar_def)
  then show ?thesis
    unfolding names_deployment_def by (simp only: metadata_text) (simp add: unquote_quoted)
qed

lemma names_plain:
  assumes "plain_scalar name" "plain_scalar ns"
  shows "names_deployment (deployment_text (''  name: '' @ name) (''  namespace: '' @ ns) tail) name ns"
proof -
  have "one_line (''  name: '' @ name)" "one_line (''  namespace: '' @ ns)"
    using assms by (simp_all add: one_line_def plain_scalar_def)
  then show ?thesis
    using assms unfolding names_deployment_def plain_scalar_def
    by (simp only: metadata_text) (simp add: unquote_plain)
qed

lemma Sprintf_quoted:
  "\<exists>tail. Sprintf (unlines ('''' # ''apiVersion: apps/v1'' # ''kind: Deployment'' # ''metadata:'' #
      (''  name: '' @ [CHR 0x22] @ ''%s'' @ [CHR 0x22]) # (''  namespace: '' @ [CHR 0x22] @ ''%s'' @ [CHR 0x22]) # ls))
      (name # ns # xs) =
    deployment_text (''  name: '' @ CHR 0x22 # name @ [CHR 0x22])
      (''  namespace: '' @ CHR 0x22 # ns @ [CHR 0x22]) tail"
  unfolding unlines_Cons deployment_text_def
  by (subst Sprintf_line, simp add: is_verb_def)+ (simp add: is_verb_def Sprintf_eval)

lemma Sprintf_unquoted:
  "\<exists>tail. Sprintf (unlines ('''' # ''apiVersion: apps/v1'' # ''kind: Deployment'' # ''metadata:'' #
      ''  name: %s'' # ''  namespace: %s'' # ls)) (name # ns # xs) =
    deployment_text (''  name: '' @ name) (''  namespace: '' @ ns) tail"
  unfolding unlines_Cons deployment_text_def
  by (subst Sprintf_line, simp add: is_verb_def)+ (simp add: is_verb_def Sprintf_eval)

definition quoted_head :: "string \<Rightarrow> bool" where
  "quoted_head T \<longleftrightarrow> (\<exists>ls. T = unlines ('''' # ''apiVersion: apps/v1'' # ''kind: Deployment'' # ''metadata:'' #
     (''  name: '' @ [CHR 0x22] @ ''%s'' @ [CHR 0x22]) # (''  namespace: '' @ [CHR 0x22] @ ''%s'' @ [CHR 0x22]) # ls))"

definition plain_head :: "string \<Rightarrow> bool" where
  "plain_head T \<longleftrightarrow> (\<exists>ls. T = unlines ('''' # ''apiVersion: apps/v1'' # ''kind: Deployment'' # ''metadata:'' #
     ''  name: %s'' # ''  namespace: %s'' # ls))"

lemma plain_head_Findpvdir: "plain_head TemplateFindpvdir"
  unfolding plain_head_def TemplateFindpvdir_def by (rule exI, rule refl)

lemma quoted_head_nfs: "quoted_head TemplateBackup2nfs"
  unfolding quoted_head_def TemplateBackup2nfs_def append.simps by (rule exI, rule refl)

lemma quoted_head_minio: "quoted_head TemplateBackup2minio"
  unfolding quoted_head_def TemplateBackup2minio_def append.simps by (rule exI, rule refl)

lemma quoted_head_sftp: "quoted_head TemplateBackup2sftp"
  unfolding quoted_head_def TemplateBackup2sftp_def append.simps by (rule exI, rule refl)

lemma findpvdir_names:
  assumes "plain_scalar name" "plain_scalar ns"
  shows "names_deployment (Sprintf TemplateFindpvdir (name # ns # xs)) name ns"
  using plain_head_Findpvdir Sprintf_unquoted [of _ name ns xs] names_plain [OF assms]
  unfolding plain_head_def by metis

lemma quoted_names:
  assumes "quoted_head T" "plain_scalar name" "plain_scalar ns"
  shows "names_deployment (Sprintf T (name # ns # xs)) name ns"
  using assms(1) Sprintf_quoted [of _ name ns xs] names_quoted [OF assms(2,3)]
  unfolding quoted_head_def by metis

text \<open>
  C32. The manifests of the four helper deployments have an operand for every verb of their template and no
  operand too many, and they name the deployment that the cleanup will look for, in the operator's namespace.
\<close>

theorem helper_manifests:
  assumes "plain_scalar (theDeployName findpvdirName (Some b) meta)" "plain_scalar (theDeployName backup2nfsName (Some b) meta)"
    and "plain_scalar (theDeployName backup2minioName (Some b) meta)" "plain_scalar (theDeployName backup2sftpName (Some b) meta)"
    and "plain_scalar ns"
  shows "names_deployment (findpvdir_manifest b meta ns now) (theDeployName findpvdirName (Some b) meta) ns \<and>
    names_deployment (backup2nfs_manifest b nfs meta ns now) (theDeployName backup2nfsName (Some b) meta) ns \<and>
    names_deployment (backup2minio_manifest b repo meta ns now) (theDeployName backup2minioName (Some b) meta) ns \<and>
    names_deployment (backup2sftp_manifest b repo meta ns now) (theDeployName backup2sftpName (Some b) meta) ns \<and>
    (\<exists>xs. length xs = verbs TemplateFindpvdir \<and>
       findpvdir_manifest b meta ns now = interleave (verb_texts TemplateFindpvdir) xs) \<and>
    (\<exists>xs. length xs = verbs TemplateBackup2nfs \<and>
       backup2nfs_manifest b nfs meta ns now = interleave (verb_texts TemplateBackup2nfs) xs) \<and>
    (\<exists>xs. length xs = verbs TemplateBackup2minio \<and>
       backup2minio_manifest b repo meta ns now = interleave (verb_texts TemplateBackup2minio) xs) \<and>
    (\<exists>xs. length xs = verbs TemplateBackup2sftp \<and>
       backup2sftp_manifest b repo meta ns now = interleave (verb_texts TemplateBackup2sftp) xs)"
proof -
  note defs = findpvdir_manifest_def backup2nfs_manifest_def backup2minio_manifest_def
    backup2sftp_manifest_def Let_def
  have full: "\<exists>ys. length ys = verbs T \<and> Sprintf T xs = interleave (verb_texts T) ys"
    if "length xs = verbs T" for T xs
    using that Sprintf_interleave by blast
  show ?thesis
    unfolding defs
    by (intro conjI findpvdir_names quoted_names quoted_head_nfs quoted_head_minio quoted_head_sftp assms full) (simp_all add: verbs_templates)
qed

lemma demo_names:
  "theDeployName k (Some demo_backup) (demo_meta node pod pvc dir) = k @ ''-'' @ node @ ''-daily''"
  by (simp add: theDeployName_def demo_spec demo_meta_def Sprintf_eval)

lemma plain_scalar_append [simp]: "plain_scalar (x @ y) = (plain_scalar x \<and> plain_scalar y)"
  by (auto simp: plain_scalar_def one_line_def)

theorem helper_manifests_witness:
  "names_deployment (findpvdir_manifest demo_backup (demo_meta ''node-a'' ''web-0'' ''data'' []) op_ns demo_now)
     (theDeployName findpvdirName (Some demo_backup) (demo_meta ''node-a'' ''web-0'' ''data'' [])) op_ns"
  by (rule helper_manifests [THEN conjunct1])
    (simp_all add: demo_names findpvdirName_def backup2nfsName_def backup2minioName_def backup2sftpName_def
      plain_scalar_def one_line_def)

text \<open>
  The name of a helper deployment joins the node and the name of the Backup by a dash, without the Backup's namespace: Backups of
  the same name in two namespaces share their helper deployments on a node, and each run applies its own manifest to them and deletes
  them at its end.
\<close>

theorem helper_names_join:
  "theDeployName kind (Some b) meta = theDeployName kind (Some b') meta' \<longleftrightarrow>
    nodeName meta @ ''-'' @ b_Name b = nodeName meta' @ ''-'' @ b_Name b'"
  by (simp add: theDeployName_def Sprintf_eval)

section \<open>The search for the data directory\<close>

definition blank :: "string \<Rightarrow> bool" where
  "blank out \<longleftrightarrow> TrimSpace out = []"

text \<open>
  How a search of at most \<open>n\<close> tries can end: with the trimmed output of tries of which only the last may have
  written something, empty only when all tries were used up; or with an error, right after a try that
  failed.
\<close>

definition found :: "'w session \<Rightarrow> string \<Rightarrow> string list \<Rightarrow> nat \<Rightarrow> string \<Rightarrow>
    (goerr + string) outcome \<Rightarrow> 'w session \<Rightarrow> bool" where
  "found s pod cmd n buf r t \<longleftrightarrow> (\<exists>outs bad.
     calls t = calls s @ map (BExec (podHandler s) pod cmd None) outs @
       map (\<lambda>(e, out). BExec (podHandler s) pod cmd (Some e) out) bad \<and>
     list_all blank (butlast outs) \<and>
     (case r of
        Ret (Inr dir) \<Rightarrow> bad = [] \<and> length outs \<le> n \<and> dir = TrimSpace (buf @ concat outs) \<and>
          (dir = [] \<longrightarrow> length outs = n)
      | Ret (Inl e) \<Rightarrow> length bad = 1 \<and> length outs < n \<and> list_all blank outs
      | Halt h \<Rightarrow> False))"

lemma blank_append [simp]: "blank (xs @ ys) = (blank xs \<and> blank ys)"
  by (auto simp: blank_def TrimSpace_empty)

lemma found_more:
  assumes "found (s\<lparr>ext := w, calls := calls s @ [BExec (podHandler s) pod cmd None out]\<rparr>) pod cmd n (buf @ out) r t"
    and "blank out"
  shows "found s pod cmd (Suc n) buf r t"
proof -
  from assms(1) obtain outs bad where o: "calls t = calls s @ map (BExec (podHandler s) pod cmd None) (out # outs) @
      map (\<lambda>(e, out). BExec (podHandler s) pod cmd (Some e) out) bad" "list_all blank (butlast outs)"
    "case r of
        Ret (Inr dir) \<Rightarrow> bad = [] \<and> length outs \<le> n \<and> dir = TrimSpace ((buf @ out) @ concat outs) \<and>
          (dir = [] \<longrightarrow> length outs = n)
      | Ret (Inl e) \<Rightarrow> length bad = 1 \<and> length outs < n \<and> list_all blank outs
      | Halt h \<Rightarrow> False"
    by (auto simp: found_def)
  then show ?thesis
    unfolding found_def using assms(2)
    by (intro exI [of _ "out # outs"] exI [of _ bad]) (auto split: outcome.splits sum.splits)
qed

lemma wp_retryFind_found:
  "blank buf \<Longrightarrow> wp (retryFind X pod cmd dep n buf) (found s pod cmd n buf) s"
proof (induction n arbitrary: buf s)
  case 0
  then show ?case by (auto simp: wp_simps found_def blank_def intro!: exI [of _ "[]"])
next
  case (Suc n)
  let ?ns = "podHandler s"
  have fail: "found s pod cmd (Suc n) buf (Ret (Inl e)) (s\<lparr>ext := w, calls := calls s @ [BExec ?ns pod cmd (Some e') out]\<rparr>)"
    for e e' w out
    unfolding found_def by (intro exI [of _ "[]"] exI [of _ "[(e', out)]"]) simp
  have hit: "found s pod cmd (Suc n) buf (Ret (Inr (TrimSpace (buf @ out))))
      (s\<lparr>ext := w, calls := calls s @ [BExec ?ns pod cmd None out]\<rparr>)" if "TrimSpace (buf @ out) \<noteq> []" for w out
    unfolding found_def using that by (intro exI [of _ "[out]"] exI [of _ "[]"]) simp
  have more: "wp (retryFind X pod cmd dep n (buf @ out)) (found s pod cmd (Suc n) buf)
      (s\<lparr>ext := w, calls := calls s @ [BExec ?ns pod cmd None out]\<rparr>)" if "TrimSpace (buf @ out) = []" for w out
  proof -
    from that have "blank (buf @ out)" by (simp only: blank_def)
    then show ?thesis
      by (intro wp_conseq [OF Suc.IH]) (auto intro: found_more)
  qed
  show ?case
    unfolding retryFind.simps podExec_def
    by (auto simp: wp_simps split: option.splits prod.splits intro!: wp_call_ext fail hit more)
qed

text \<open>
  C33. The search for the data directory runs the command \<^verbatim>\<open>findpvdir\<close> at most twelve times. It gives up with
  the empty path only after twelve tries without output; otherwise it stops at the first try that writes
  something, with that output trimmed, or at the first try that fails.
\<close>

theorem findpvdir_tries: "wp (retryFind X pod cmd dep 12 []) (found s pod cmd 12 []) s"
  by (rule wp_retryFind_found) (simp add: blank_def TrimSpace_def)

section \<open>Volumes that could not be read\<close>

fun not_listing :: "bcall \<Rightarrow> bool" where
  "not_listing (BPodPVC pod l) = False"
| "not_listing c = True"

interpretation nolist: trace_contract not_listing "\<lambda>_ _. True"
  by unfold_locales auto

lemma nolist_retryFind: "traced not_listing (\<lambda>_ _. True) (retryFind X pod cmd dep n buf)"
  by (induction n arbitrary: buf) (auto intro!: nolist.rules simp: podExec_def)

lemma nolist_search: "traced not_listing (\<lambda>_ _. True) (createFindpvdirDeployment X b meta)"
  unfolding createFindpvdirDeployment_def locateVolume_def filterRunningPod_def resetWorkloads_def
    depApply_def depWaitReady_def depGetPods_def Let_def
  by (intro nolist.rules nolist.traced_modify nolist_retryFind) simp_all

lemma nolist_locateVolume: "traced not_listing (\<lambda>_ _. True) (locateVolume X meta dep pod)"
  unfolding locateVolume_def Let_def
  by (intro nolist.rules nolist_retryFind) simp_all

text \<open>A search that returns has applied its deployment, and lists no pvcs.\<close>

definition search_manifest :: "'w cluster \<Rightarrow> Backup \<Rightarrow> pvdataMeta \<Rightarrow> string \<Rightarrow> bool" where
  "search_manifest X b q man \<longleftrightarrow> (\<exists>now. man = findpvdir_manifest b q (GetOperatorNamespace X) now)"

lemma search_applies:
  "wps (createFindpvdirDeployment X b q) (\<lambda>_ t. applied (search_manifest X b q) (GetOperatorNamespace X) s t) s"
proof -
  let ?op = "GetOperatorNamespace X"
  let ?Q = "\<lambda>_. applied (search_manifest X b q) ?op s"
  have "wps (locateVolume X q dep pod) ?Q t" if t: "applied (search_manifest X b q) ?op s t" for dep pod t
    by (rule wps_conseq [OF traced_wps [OF nolist_locateVolume]]) (use t in \<open>auto simp: applied_def; blast\<close>)
  note rest = this
  have "wps (filterRunningPod X ?op (findpvdir_manifest b q ?op now)) (\<lambda>pod. wps (locateVolume X q dep pod) ?Q) t"
    if "prefix (calls s) (calls t)" for now dep t
    by (rule wps_conseq [OF filterRunningPod_later [OF _ that, where P = "search_manifest X b q"]])
      (auto simp: search_manifest_def intro: rest)
  then show ?thesis
    unfolding createFindpvdirDeployment_def Let_def other_def
    by (auto simp: wps_simps wp_simps intro!: wp_call_ext)
qed

lemma searched_applies:
  assumes "searched X b (pvc, q, dir) seg"
  shows "\<exists>now. BApply (GetOperatorNamespace X) (findpvdir_manifest b q (GetOperatorNamespace X) now) None \<in> set seg"
    "list_all not_listing seg"
proof -
  obtain s t where run: "createFindpvdirDeployment X b q s = (Ret (Inr dir), t)" "calls t = calls s @ seg"
    using assms by (auto simp: searched_def)
  from search_applies [of X b q s] run show
    "\<exists>now. BApply (GetOperatorNamespace X) (findpvdir_manifest b q (GetOperatorNamespace X) now) None \<in> set seg"
    by (auto simp: wps_def wp_def applied_def search_manifest_def)
  from nolist_search [of X b q, unfolded traced_def wp_def, THEN spec, of s] run show "list_all not_listing seg" by auto
qed

lemma findpvdir_manifest_node: "nodeName q = nodeName q' \<Longrightarrow> findpvdir_manifest b q = findpvdir_manifest b q'"
  by (simp add: fun_eq_iff findpvdir_manifest_def theDeployName_def)

lemma list_all2_left: "list_all2 P xs ys \<Longrightarrow> x \<in> set xs \<Longrightarrow> \<exists>y \<in> set ys. P x y"
  and list_all2_right: "list_all2 P xs ys \<Longrightarrow> y \<in> set ys \<Longrightarrow> \<exists>x \<in> set xs. P x y"
  by (induction rule: list_all2_induct) auto

text \<open>A listing in the trace is that of a report, and each pvc of a report has been searched for.\<close>

lemma pod_run_listing:
  assumes "pod_run X b r seg" "BPodPVC pod l \<in> set seg"
  shows "l = map fst (r_reads r)"
proof -
  obtain reads ss where seg: "seg = BNodeName (p_Name (r_pod r)) (Inr (r_node r)) # BPodUID (p_Name (r_pod r)) (Inr (r_uid r)) #
      BPodPVC (p_Name (r_pod r)) (map fst (r_reads r)) # concat reads @ concat ss"
    "list_all2 (volume_read X (b_Namespace b)) (r_reads r) reads" "list_all2 (searched X b) (r_searches r) ss"
    using assms(1) by (auto simp: pod_run_def)
  have "BPodPVC pod l \<notin> set sg" if "sg \<in> set reads" for sg
    using list_all2_right [OF seg(2) that] by (auto simp: volume_read_def split: option.splits)
  moreover have "BPodPVC pod l \<notin> set sg" if "sg \<in> set ss" for sg
    using list_all2_right [OF seg(3) that] searched_applies(2) [of X b _ _ _ sg] by (fastforce simp: list_all_iff)
  ultimately show ?thesis using assms(2) by (auto simp: seg(1))
qed

lemma pod_run_search:
  assumes "pod_run X b r seg" "pvc \<in> set (map fst (r_reads r))"
  shows "\<exists>q dir now. (q, dir) \<in> set (searches_in pvc r) \<and>
    BApply (GetOperatorNamespace X) (findpvdir_manifest b q (GetOperatorNamespace X) now) None \<in> set seg"
proof -
  obtain ss where ss: "set (concat ss) \<subseteq> set seg" "list_all2 (searched X b) (r_searches r) ss"
    "map fst (r_searches r) = map fst (r_reads r)"
    using assms(1) unfolding pod_run_def by (elim exE conjE) (rule that, auto)
  have "pvc \<in> set (map fst (r_searches r))" using assms(2) by (simp only: ss(3))
  then obtain q dir where q: "(pvc, q, dir) \<in> set (r_searches r)" by force
  obtain sg where sg: "sg \<in> set ss" "searched X b (pvc, q, dir) sg" using list_all2_left [OF ss(2) q] by blast
  obtain now where "BApply (GetOperatorNamespace X) (findpvdir_manifest b q (GetOperatorNamespace X) now) None \<in> set sg"
    using searched_applies(1) [OF sg(2)] by blast
  with ss(1) sg(1) have "BApply (GetOperatorNamespace X) (findpvdir_manifest b q (GetOperatorNamespace X) now) None \<in> set seg"
    by auto
  moreover have "(q, dir) \<in> set (searches_in pvc r)" using q by (force simp: searches_in_def)
  ultimately show ?thesis by blast
qed

text \<open>
  C34. A pvc whose volume cannot be read is skipped by the first loop of \<^verbatim>\<open>constructPvcpvMap\<close> but not by the second. When
  no query for the volume of a pvc succeeds and the map is constructed all the same, then a search deployment made from the zero
  metadata, without a node name, was applied for the pvc if any pod of the workload mounts it; and the pvc is not in the map, or it
  is there without a volume name, so that its backup is refused.
\<close>

theorem skipped_pvc_is_searched:
  assumes "\<forall>w. \<exists>e. fst (x_PvcGetPV X (b_Namespace b) pvc w) = Inl e"
  shows "wps (constructPvcpvMap X b) (\<lambda>m t. \<exists>new. calls t = calls s @ new \<and>
     (\<forall>pod l. BPodPVC pod l \<in> set new \<and> pvc \<in> set l \<longrightarrow>
        (\<exists>now. BApply (GetOperatorNamespace X) (findpvdir_manifest b zeroMeta (GetOperatorNamespace X) now) None \<in> set new)) \<and>
     (\<forall>meta. map_of m pvc = Some meta \<longrightarrow> meta = zeroMeta\<lparr>pvdir := pvdir meta\<rparr> \<and> pvdir meta \<noteq> [] \<and>
        (\<forall>pod u. \<exists>e. executeBackupCommand X b pod pvc meta u = (Ret (Inl e), u)))) s"
proof (rule wps_conseq [OF construct_done], goal_cases)
  case (1 m t)
  then obtain rs segs where run: "calls t = calls s @ BOther # concat segs" "list_all2 (pod_run X b) rs segs" "right_map rs m"
    by (auto simp: gathered_def)
  have "metas_in pvc r = []" if r: "r \<in> set rs" for r
  proof -
    obtain seg where "pod_run X b r seg" using list_all2_left [OF run(2) r] by blast
    then obtain reads where "list_all2 (volume_read X (b_Namespace b)) (r_reads r) reads" by (auto simp: pod_run_def)
    note reads = list_all2_left [OF this]
    have "vol = None" if vol: "(pvc, vol) \<in> set (r_reads r)" for vol
    proof (cases vol)
      case (Some v)
      obtain w where "fst (x_PvcGetPV X (b_Namespace b) pvc w) = Inr (fst v)"
        using reads [OF vol] by (cases v) (auto simp: volume_read_def Some)
      with assms show ?thesis by (metis sum.distinct(1))
    qed
    then show ?thesis by (auto simp: metas_in_def filter_empty_conv)
  qed
  then have unread: "metas_of rs pvc = []" by (simp add: metas_of_def)
  have zero: "nodeName q = nodeName zeroMeta" if "r \<in> set rs" "(q, dir) \<in> set (searches_in pvc r)" for r q dir
  proof -
    have "(q, dir) \<in> set (searches_of rs pvc)" using that by (auto simp: searches_of_def)
    with run(3) unread have "no_dir q = zeroMeta" by (auto simp: right_map_def searched_with_def)
    then show ?thesis by (cases q) (simp add: no_dir_def zeroMeta_def)
  qed
  have search: "\<exists>now. BApply (GetOperatorNamespace X) (findpvdir_manifest b zeroMeta (GetOperatorNamespace X) now) None \<in>
      set (BOther # concat segs)" if l: "BPodPVC pod l \<in> set (BOther # concat segs)" "pvc \<in> set l" for pod l
  proof -
    obtain seg where seg: "seg \<in> set segs" "BPodPVC pod l \<in> set seg" using l(1) by auto
    obtain r where r: "r \<in> set rs" "pod_run X b r seg" using list_all2_right [OF run(2) seg(1)] by blast
    from pod_run_search [OF r(2)] pod_run_listing [OF r(2) seg(2)] l(2) obtain q dir now where
      "(q, dir) \<in> set (searches_in pvc r)"
      "BApply (GetOperatorNamespace X) (findpvdir_manifest b q (GetOperatorNamespace X) now) None \<in> set seg" by blast
    with findpvdir_manifest_node [OF zero [OF r(1)]] seg(1) show ?thesis by auto
  qed
  have entry: "meta = zeroMeta\<lparr>pvdir := pvdir meta\<rparr> \<and> pvdir meta \<noteq> [] \<and>
      (\<forall>pod u. \<exists>e. executeBackupCommand X b pod pvc meta u = (Ret (Inl e), u))" if "map_of m pvc = Some meta" for meta
  proof -
    have "volume_of rs pvc (Some meta)" using run(3) that by (metis right_map_def)
    then have meta: "no_dir meta = zeroMeta" "pvdir meta \<noteq> []"
      using unread by (auto simp: volume_of_def expected_meta_def)
    then have "meta = zeroMeta\<lparr>pvdir := pvdir meta\<rparr>" by (cases meta) (simp add: no_dir_def zeroMeta_def)
    moreover from this have "pvname meta = []" by (simp add: zeroMeta_def) (metis pvdataMeta.select_convs(6) pvdataMeta.update_convs(5))
    ultimately show ?thesis using meta(2) by (auto simp: executeBackupCommand_def throw_def go_run)
  qed
  from run(1) search entry show ?case by (intro exI [of _ "BOther # concat segs"]) blast
qed

text \<open>The workload of one pod, in a cluster that cannot tell the volume of any pvc.\<close>

definition unreadable_node :: "unit cluster" where
  "unreadable_node = one_node\<lparr>x_PvcGetPV := \<lambda>ns pvc w. (Inl notFound, w)\<rparr>"

lemma unreadable_search: "createFindpvdirDeployment (X\<lparr>x_PvcGetPV := f\<rparr>) = createFindpvdirDeployment X"
proof -
  have "retryFind (X\<lparr>x_PvcGetPV := f\<rparr>) pod cmd dep n buf = retryFind X pod cmd dep n buf" for pod cmd dep n buf
    by (induction n arbitrary: buf) (simp_all add: podExec_def cong: option.case_cong if_cong)
  then have "locateVolume (X\<lparr>x_PvcGetPV := f\<rparr>) = locateVolume X"
    by (intro ext) (simp add: locateVolume_def Let_def cong: if_cong)
  then show ?thesis
    by (intro ext) (simp add: createFindpvdirDeployment_def filterRunningPod_def depApply_def depWaitReady_def
        depGetPods_def GetOperatorNamespace_def running_def [abs_def])
qed

lemma demo_search:
  "volumeSource q \<notin> {VolumeHostPath, VolumeLocal} \<Longrightarrow>
     fst (createFindpvdirDeployment (demo_cluster pods) demo_backup q s) = Ret (Inr demo_dir)"
  unfolding createFindpvdirDeployment_def Let_def demo_operator other_def locateVolume_def podExec_def
  by (simp add: go_run bindE_def retE_def demo_filterRunningPod numeral_eq_Suc podExec_def demo_trim)
    (simp add: demo_cluster_def demo_pod_def demo_trim retE_def go_run)

lemma unreadable_run:
  "fst (constructPvcpvMap unreadable_node demo_backup (init_session ())) = Ret (Inr [(''data'', zeroMeta\<lparr>pvdir := demo_dir\<rparr>)]) \<and>
   BPodPVC ''web-0'' [''data''] \<in> set (calls (snd (constructPvcpvMap unreadable_node demo_backup (init_session ()))))"
proof -
  have pods: "podsOf unreadable_node demo_backup s = (Ret (Inr [demo_pod ''web-0'']), s\<lparr>calls := calls s @ [BOther]\<rparr>)"
    if "depHandler s = ''default''" for s
    using demo_podsOf [OF that] that
    by (simp add: podsOf_def demo_spec deref_def depGetPods_def other_def resource_defs bindE_def retE_def go_run
      unreadable_node_def one_node_def demo_fields Let_def)
  have collect: "collectPVC unreadable_node pod node uid pvc m s = (Ret (Inr m), s\<lparr>calls := calls s @ [BGetPV pvc (Inl notFound)]\<rparr>)"
    for pod node uid pvc m s
    by (simp add: collectPVC_def retE_def go_run unreadable_node_def)
  have locate: "fst (locatePVC unreadable_node demo_backup ''data'' [] s) = Ret (Inr [(''data'', zeroMeta\<lparr>pvdir := demo_dir\<rparr>)])"
    "\<exists>new. calls (snd (locatePVC unreadable_node demo_backup ''data'' [] s)) = calls s @ new" for s
  proof -
    have zero: "volumeSource zeroMeta \<notin> {VolumeHostPath, VolumeLocal}"
      by (simp add: zeroMeta_def VolumeHostPath_def VolumeLocal_def)
    obtain t where t: "createFindpvdirDeployment unreadable_node demo_backup zeroMeta s = (Ret (Inr demo_dir), t)"
      unfolding unreadable_node_def one_node_def unreadable_search using demo_search [OF zero] by (metis prod.collapse)
    moreover have "\<exists>new. calls t = calls s @ new"
      using tidy_createFindpvdir [of unreadable_node demo_backup zeroMeta, unfolded traced_def wp_def, THEN spec, of s] t by auto
    ultimately show "fst (locatePVC unreadable_node demo_backup ''data'' [] s) = Ret (Inr [(''data'', zeroMeta\<lparr>pvdir := demo_dir\<rparr>)])"
      "\<exists>new. calls (snd (locatePVC unreadable_node demo_backup ''data'' [] s)) = calls s @ new"
      by (simp_all add: locatePVC_def bindE_run at_def retE_def ret_run)
  qed
  define run where "run s = snd (locatePVC unreadable_node demo_backup ''data'' [] s)" for s
  have run: "locatePVC unreadable_node demo_backup ''data'' [] s =
      (Ret (Inr [(''data'', zeroMeta\<lparr>pvdir := demo_dir\<rparr>)]), run s)" "\<exists>new. calls (run s) = calls s @ new" for s
    using locate [of s] by (simp_all add: run_def prod_eq_iff)
  let ?ev = "[BNodeName ''web-0'' (Inr ''node-a''), BPodUID ''web-0'' (Inr ''web-0-uid''), BPodPVC ''web-0'' [''data''],
      BGetPV ''data'' (Inl notFound)]"
  have fields: "x_PodNodeName unreadable_node ns (demo_pod ''web-0'') w = (Inr ''node-a'', w)"
    "x_PodUID unreadable_node ns (demo_pod ''web-0'') w = (Inr ''web-0-uid'', w)"
    "x_PodPVC unreadable_node ns (demo_pod ''web-0'') w = (Inr [''data''], w)" for ns w
    by (simp_all add: unreadable_node_def one_node_def demo_fields demo_pod_def)
  have pod: "podPVCs unreadable_node demo_backup (demo_pod ''web-0'') [] s =
      (Ret (Inr [(''data'', zeroMeta\<lparr>pvdir := demo_dir\<rparr>)]), run (s\<lparr>ext := (), calls := calls s @ ?ev\<rparr>))" for s
    by (simp add: podPVCs_def bindE_run go_run fields collect run) (simp add: demo_pod_def)
  let ?s = "(init_session ())\<lparr>podHandler := ''default'', depHandler := ''default'', rsHandler := ''default'',
    stsHandler := ''default'', dsHandler := ''default'', pvcHandler := ''default'', calls := BOther # ?ev\<rparr>"
  have "constructPvcpvMap unreadable_node demo_backup (init_session ()) =
      (Ret (Inr [(''data'', zeroMeta\<lparr>pvdir := demo_dir\<rparr>)]), run ?s)"
    by (simp add: constructPvcpvMap_def bindE_run go_run demo_spec pods pod retE_def) (simp add: init_session_def)
  with run(2) [of ?s] show ?thesis by auto
qed

theorem skipped_pvc_is_searched_witness:
  "fst (constructPvcpvMap unreadable_node demo_backup (init_session ())) = Ret (Inr [(''data'', zeroMeta\<lparr>pvdir := demo_dir\<rparr>)]) \<and>
   (\<exists>now. BApply op_ns (findpvdir_manifest demo_backup zeroMeta op_ns now) None
      \<in> set (calls (snd (constructPvcpvMap unreadable_node demo_backup (init_session ())))))"
proof -
  have op: "GetOperatorNamespace unreadable_node = op_ns"
    using demo_operator by (simp add: GetOperatorNamespace_def unreadable_node_def one_node_def)
  have "\<forall>w. \<exists>e. fst (x_PvcGetPV unreadable_node (b_Namespace demo_backup) ''data'' w) = Inl e"
    by (simp add: unreadable_node_def)
  from skipped_pvc_is_searched [OF this, where s = "init_session ()", unfolded op] unreadable_run show ?thesis
    by (auto simp: wps_def wp_def init_session_def split: prod.splits) (meson list.set_intros(1))
qed

section \<open>A run on two nodes\<close>

theorem other_nodes_keep_deployments_witness:
  "fst (Do two_nodes ''default'' ''daily'' (init_session ())) = Ret (Inr ()) \<and>
   (\<exists>meta \<in> {demo_meta ''node-a'' ''web-0'' ''data-0'' [], demo_meta ''node-b'' ''web-1'' ''data-1'' []}.
      BApply op_ns (findpvdir_manifest demo_backup meta op_ns demo_now) None
        \<in> set (calls (snd (Do two_nodes ''default'' ''daily'' (init_session ())))) \<and>
      (\<forall>op e. BDelete op (theDeployName findpvdirName (Some demo_backup) meta) e
        \<notin> set (calls (snd (Do two_nodes ''default'' ''daily'' (init_session ()))))))"
proof -
  let ?a = "demo_meta ''node-a'' ''web-0'' ''data-0'' []" and ?b = "demo_meta ''node-b'' ''web-1'' ''data-1'' []"
  let ?t = "snd (Do two_nodes ''default'' ''daily'' (init_session ()))"
  have read: "backup_read two_nodes ''default'' ''daily'' (ext (init_session ())) = Some demo_backup"
    by (simp add: backup_read_def two_nodes_def demo_fields)
  have fresh: "\<forall>meta. theDeployName findpvdirName (Some demo_backup) meta \<notin> set (deploy_names (init_session ()))"
    by (simp add: deploy_names_def init_session_def theDeployName_def Sprintf_eval findpvdirName_def)
  have applied: "BApply op_ns (findpvdir_manifest demo_backup meta op_ns demo_now) None \<in> set (calls ?t)" if "meta \<in> {?a, ?b}" for meta
    using that unfolding two_nodes_calls find_events_def by auto
  obtain node where node: "\<And>meta op e. nodeName meta \<noteq> node \<Longrightarrow>
      BDelete op (theDeployName findpvdirName (Some demo_backup) meta) e \<notin> set (calls ?t)"
    using other_nodes_keep_deployments [OF read fresh]
    by (auto simp: wp_def init_session_def split: prod.splits)
  have "nodeName ?a \<noteq> node \<or> nodeName ?b \<noteq> node" by (auto simp: demo_meta_def)
  with node applied two_nodes_run show ?thesis by blast
qed

text \<open>
  The path handed to restic lies below the mount of the node's root file system when neither the data directory nor the
  volume name contains a parent component.
\<close>

theorem pv_path_below_host_root:
  assumes "no_dotdot (pvdir meta)" "no_dotdot (pvname meta)"
  shows "\<exists>rest. pv_path meta = ''/host-root'' @ rest \<and> (rest = [] \<or> hd rest = CHR ''/'')"
proof -
  have root: "is_rooted mountHostRootPath" "no_dotdot mountHostRootPath"
    by (simp_all add: mountHostRootPath_def is_rooted_def no_dotdot_def)
  have join: "\<exists>rest. filepath_Join (mountHostRootPath # ps) = ''/host-root'' @ rest \<and> (rest = [] \<or> hd rest = CHR ''/'')"
    if "\<And>p. p \<in> set ps \<Longrightarrow> no_dotdot p" for ps
  proof -
    let ?cs = "filter plain_comp (concat (map (\<lambda>p. Split p CHR ''/'') ps))"
    have "filepath_Join (mountHostRootPath # ps) = CHR ''/'' # Join_str (''host-root'' # ?cs) ''/''"
      using Join_rooted [OF root(1), of ps] that root(2)
      by (auto simp: mountHostRootPath_def plain_comp_def)
    then show ?thesis by (cases ?cs) auto
  qed
  have "\<exists>rest. filepath_Join [mountHostRootPath, pvdir meta] = ''/host-root'' @ rest \<and> (rest = [] \<or> hd rest = CHR ''/'')"
    by (rule join) (use assms in auto)
  moreover have "\<exists>rest. filepath_Join [mountHostRootPath, pvdir meta, pvname meta] = ''/host-root'' @ rest \<and>
      (rest = [] \<or> hd rest = CHR ''/'')"
    by (rule join) (use assms in auto)
  ultimately show ?thesis unfolding pv_path_def by (simp only: split: if_split) blast
qed

theorem pv_path_below_host_root_witness:
  "\<exists>rest. pv_path (demo_meta ''node-a'' ''web-0'' ''data'' demo_dir) = ''/host-root'' @ rest \<and>
     (rest = [] \<or> hd rest = CHR ''/'')"
  by (rule pv_path_below_host_root) (simp_all add: demo_meta_def no_dotdot_def)


end
