(* ===== verification/Permissions.thy ===== *)
theory Permissions
  imports BackupProps Reconciler
begin

text \<open>
  The manifests of permissions. The operator installs a ClusterRole for \<^verbatim>\<open>horusctl\<close> and, for each Backup, a ClusterRoleBinding and a CronJob
  (\<^verbatim>\<open>pkg/template\<close>). This theory reads the three manifests and compares what they say of each other: the role that the binding
  refers to, the account it is for, the account the job runs as, and the permissions the rules of the role list.
\<close>

section \<open>Reading the manifests\<close>

text \<open>A permission: an API group, a resource and a verb.\<close>

type_synonym permission = "string \<times> string \<times> string"

text \<open>The lines of a rule: its three lists, each after a line with its key. Lines that start with a hash are comments.\<close>

fun add_item :: "string \<Rightarrow> string \<Rightarrow> PolicyRule list \<Rightarrow> PolicyRule list" where
  "add_item sec x [] = []"
| "add_item sec x [r] =
     [if sec = ''apiGroups'' then r\<lparr>pr_APIGroups := pr_APIGroups r @ [x]\<rparr>
      else if sec = ''resources'' then r\<lparr>pr_Resources := pr_Resources r @ [x]\<rparr>
      else r\<lparr>pr_Verbs := pr_Verbs r @ [x]\<rparr>]"
| "add_item sec x (r # rs) = r # add_item sec x rs"

definition rule_line :: "string \<Rightarrow> PolicyRule list \<times> string \<Rightarrow> PolicyRule list \<times> string" where
  "rule_line l = (\<lambda>(rs, sec).
     if HasPrefix l ''#'' then (rs, sec)
     else if l = ''- apiGroups:'' then (rs @ [\<lparr>pr_APIGroups = [], pr_Resources = [], pr_Verbs = []\<rparr>], ''apiGroups'')
     else if l = ''  resources:'' then (rs, ''resources'')
     else if l = ''  verbs:'' then (rs, ''verbs'')
     else if HasPrefix l ''  - '' then (add_item sec (unquote (drop 4 l)) rs, sec)
     else (rs, sec))"

definition role_rules :: "string \<Rightarrow> PolicyRule list" where
  "role_rules txt = fst (fold rule_line (drop 1 (dropWhile (\<lambda>l. l \<noteq> ''rules:'') (Split txt newline))) ([], []))"

text \<open>The value of a field in the block below a key.\<close>

definition block_field :: "string \<Rightarrow> string \<Rightarrow> string \<Rightarrow> string" where
  "block_field key f txt =
     (let block = takeWhile (\<lambda>l. HasPrefix l ''  '' \<or> HasPrefix l ''- '') (drop 1 (dropWhile (\<lambda>l. l \<noteq> key) (Split txt newline)))
      in case find (\<lambda>l. HasPrefix l (''  '' @ f @ '': '')) block of
           None \<Rightarrow> []
         | Some l \<Rightarrow> unquote (drop (length f + 4) l))"

text \<open>The account of a binding, the role it refers to, and the account a CronJob runs as, with its namespace.\<close>

definition bound_account :: "string \<Rightarrow> string \<times> string" where
  "bound_account txt = (block_field ''subjects:'' ''namespace'' txt, block_field ''subjects:'' ''name'' txt)"

definition bound_role :: "string \<Rightarrow> string" where
  "bound_role txt = block_field ''roleRef:'' ''name'' txt"

definition account_key :: string where
  "account_key = ''          serviceAccountName: ''"

definition job_account :: "string \<Rightarrow> string \<times> string" where
  "job_account txt = (metadata_field ''namespace'' txt,
     case find (\<lambda>l. HasPrefix l account_key) (Split txt newline) of
       None \<Rightarrow> [] | Some l \<Rightarrow> unquote (drop (length account_key) l))"

text \<open>Some rule lists the group, the resource and the verb.\<close>

definition listed_permission :: "PolicyRule list \<Rightarrow> permission \<Rightarrow> bool" where
  "listed_permission rs p = (case p of (g, r, v) \<Rightarrow>
     list_ex (\<lambda>rule. g \<in> set (pr_APIGroups rule) \<and> r \<in> set (pr_Resources rule) \<and> v \<in> set (pr_Verbs rule)) rs)"

lemma Split_lines: "list_all one_line ls \<Longrightarrow> Split (unlines ls) newline = ls @ ['''']"
  by (induction ls) (simp_all add: unlines_Cons Split_line, simp add: unlines_def)

lemma role_rules_ClusterRole:
  "role_rules ClusterRoleForBackup =
    [\<lparr>pr_APIGroups = [''storage.hybfkuf.io'', ''networking.hybfkuf.io''],
      pr_Resources = [''backups'', ''restores'', ''clones'', ''migrations'', ''traffics''], pr_Verbs = [''get'', ''list'', ''watch'']\<rparr>,
     \<lparr>pr_APIGroups = [''storage.hybfkuf.io'', ''networking.hybfkuf.io''],
      pr_Resources = [''backups/status'', ''restores/status'', ''clones/status'', ''migrations/status'', ''traffics/status''],
      pr_Verbs = [''get'']\<rparr>,
     \<lparr>pr_APIGroups = ['''', ''apps''], pr_Resources = [''deployments'', ''namespaces''],
      pr_Verbs = [''get'', ''list'', ''watch'', ''create'', ''delete'', ''update'', ''patch'']\<rparr>,
     \<lparr>pr_APIGroups = ['''', ''apps''],
      pr_Resources = [''pods'', ''deployments'', ''statefulsets'', ''daemonsets'', ''replicasets'', ''secrets'',
        ''persistentvolumes'', ''persistentvolumeclaims''],
      pr_Verbs = [''get'', ''list'', ''watch'']\<rparr>,
     \<lparr>pr_APIGroups = [''''], pr_Resources = [''pods/exec''], pr_Verbs = [''get'', ''create'']\<rparr>,
     \<lparr>pr_APIGroups = [''''], pr_Resources = [''pods/logs''], pr_Verbs = [''get'']\<rparr>]"
proof -
  show ?thesis
    unfolding role_rules_def ClusterRoleForBackup_def
    apply (subst Split_lines)
     apply (simp add: one_line_def)
    apply (simp add: rule_line_def unquote_def)
    done
qed

section \<open>What the role lists\<close>

definition reading :: "string list" where "reading = [''get'', ''list'', ''watch'']"

text \<open>
  Reading of Backups, of workloads with their pods, of volumes and of secrets; every verb on deployments; and the execution of
  commands in pods.
\<close>

definition job_permissions_wanted :: "permission list" where
  "job_permissions_wanted = ('''', ''pods/exec'', ''create'') #
     map (\<lambda>v. (''apps'', ''deployments'', v)) (reading @ [''create'', ''update'', ''patch'', ''delete'']) @
     [(GroupStorage, ResourceBackup, v). v \<leftarrow> reading] @
     [('''', r, v). r \<leftarrow> [''pods'', ''secrets'', ''persistentvolumes'', ''persistentvolumeclaims''], v \<leftarrow> reading] @
     [(''apps'', r, v). r \<leftarrow> [''replicasets'', ''statefulsets'', ''daemonsets''], v \<leftarrow> reading]"

text \<open>Reading changes nothing; what else the role lists is on deployments and namespaces, or runs commands in pods.\<close>

definition within_limits :: "permission \<Rightarrow> bool" where
  "within_limits p = (case p of (g, r, v) \<Rightarrow>
     v \<in> set reading \<or> r \<in> {''deployments'', ''namespaces''} \<or> (r = ''pods/exec'' \<and> v = ''create''))"

lemma role_lists: "list_all (listed_permission (role_rules ClusterRoleForBackup)) job_permissions_wanted"
  unfolding role_rules_ClusterRole
  by (simp add: job_permissions_wanted_def reading_def listed_permission_def GroupStorage_def ResourceBackup_def)

lemma role_lists_only: "listed_permission (role_rules ClusterRoleForBackup) p \<Longrightarrow> within_limits p"
  unfolding role_rules_ClusterRole
  by (cases p) (auto simp: listed_permission_def within_limits_def reading_def)

section \<open>The job of a Backup\<close>

text \<open>The manifests of a Backup, read: its job runs as \<^verbatim>\<open>horusctl\<close> of the namespace default, its binding is for \<^verbatim>\<open>horusctl\<close> of its own namespace.\<close>

lemma binding_text:
  assumes "plain_scalar (b_Namespace b)"
  shows "bound_account (clusterrolebinding_text b) = (b_Namespace b, ''horusctl'')"
    "bound_role (clusterrolebinding_text b) = ''horusctl-role''"
proof -
  have lines: "Split (clusterrolebinding_text b) newline =
      ['''', ''apiVersion: rbac.authorization.k8s.io/v1'', ''kind: ClusterRoleBinding'', ''metadata:'',
       ''  name: horusctl-'' @ b_Namespace b @ ''-binding'', ''subjects:'', ''- kind: ServiceAccount'',
       ''  name: horusctl'', ''  namespace: '' @ b_Namespace b, ''roleRef:'', ''  apiGroup: rbac.authorization.k8s.io'',
       ''  kind: ClusterRole'', ''  name: horusctl-role'', '''']"
    unfolding clusterrolebinding_text_def
    by (subst Split_lines) (use assms in \<open>simp_all add: one_line_def plain_scalar_def\<close>)
  show "bound_account (clusterrolebinding_text b) = (b_Namespace b, ''horusctl'')"
    "bound_role (clusterrolebinding_text b) = ''horusctl-role''"
    using assms unfolding bound_account_def bound_role_def block_field_def lines
    by (simp_all add: plain_scalar_def unquote_plain)
qed

lemma job_text:
  assumes "one_line (b_Name b)" "one_line (b_Namespace b)" "one_line (sp_LogLevel (b_Spec b))" "one_line (sp_LogFormat (b_Spec b))"
    "one_line (sp_TimeZone (b_Spec b))" "one_line from"
  shows "job_account (cronjob_text b from) = (''default'', ''horusctl'')"
proof -
  have "find (\<lambda>l. HasPrefix l account_key) (Split (cronjob_text b from) newline) = Some ''          serviceAccountName: horusctl''"
    unfolding cronjob_text_def
    by (subst Split_lines) (use assms in \<open>simp_all add: one_line_def account_key_def\<close>)
  then show ?thesis
    using cronjob_metadata(2) [OF assms(1)]
    by (simp add: job_account_def account_key_def unquote_def)
qed

text \<open>
  C25. The manifests a Backup gets for its permissions fit together in namespace default only. The binding refers to the role by the name the
  role has, and is for the ServiceAccount that the reconciler makes for the Backup, in the Backup's namespace. The job of the
  CronJob runs as \<^verbatim>\<open>horusctl\<close> of namespace default: for a Backup of any other namespace that is not the account of its
  binding. The role lists the permissions to read Backups, workloads, volumes and secrets, to change deployments and to run commands
  in pods; of all it lists nothing else changes anything, but for what it lists on namespaces.
\<close>

theorem job_permissions:
  assumes "sp_BackupFrom (b_Spec b) = Some frm" "one_line (b_Name b)" "plain_scalar (b_Namespace b)"
    "one_line (sp_LogLevel (b_Spec b))" "one_line (sp_LogFormat (b_Spec b))" "one_line (sp_TimeZone (b_Spec b))"
    "one_line (bf_Name frm)" "metadata_helpers K"
  shows "\<exists>man crb role. Parse CronJobForBackup b = Inr man \<and> Parse ClusterRoleBindingForBackup b = Inr crb \<and>
    Parse ClusterRoleForBackup b = Inr role \<and> bound_role crb = metadata_field ''name'' role \<and>
    (let sa = sa_ObjectMeta (serviceAccountForBackup K b) in bound_account crb = (om_Namespace sa, om_Name sa)) \<and>
    (job_account man = bound_account crb \<longleftrightarrow> b_Namespace b = ''default'') \<and>
    list_all (listed_permission (role_rules role)) job_permissions_wanted \<and>
    (\<forall>p. listed_permission (role_rules role) p \<longrightarrow> within_limits p)"
proof -
  let ?man = "cronjob_text b (bf_Name frm)" and ?crb = "clusterrolebinding_text b"
  have one: "one_line (b_Namespace b)" using assms(3) by (simp add: plain_scalar_def)
  have "Parse CronJobForBackup b = Inr ?man"
    using assms(1) by (intro Parse_render(1)) (simp add: CronJob_render)
  moreover have "let sa = sa_ObjectMeta (serviceAccountForBackup K b) in bound_account ?crb = (om_Namespace sa, om_Name sa)"
    using owned_and_labelled_identity [OF assms(8), of "emptyMeta\<lparr>om_Name := ''horusctl'', om_Namespace := b_Namespace b\<rparr>" b]
      binding_text(1) [OF assms(3)]
    by (simp add: serviceAccountForBackup_def same_identity_def Let_def)
  moreover have "job_account ?man = bound_account ?crb \<longleftrightarrow> b_Namespace b = ''default''"
    using job_text [OF assms(2) one assms(4-7)] binding_text(1) [OF assms(3)] by auto
  moreover have "bound_role ?crb = metadata_field ''name'' ClusterRoleForBackup"
    using binding_text(2) [OF assms(3)] by (simp add: clusterrole_metadata)
  ultimately show ?thesis
    using Parse_ClusterRoleBinding [of b] Parse_ClusterRole [of b] role_lists role_lists_only
    by (intro exI [of _ ?man] exI [of _ ?crb] exI [of _ ClusterRoleForBackup]) blast
qed

theorem job_permissions_witness:
  "\<exists>man crb role. Parse CronJobForBackup demo_backup = Inr man \<and> Parse ClusterRoleBindingForBackup demo_backup = Inr crb \<and>
     Parse ClusterRoleForBackup demo_backup = Inr role \<and> job_account man = bound_account crb \<and>
     bound_role crb = metadata_field ''name'' role \<and> listed_permission (role_rules role) ('''', ''pods/exec'', ''create'')"
proof -
  have "list_all P job_permissions_wanted \<Longrightarrow> P ('''', ''pods/exec'', ''create'')" for P
    by (simp add: job_permissions_wanted_def)
  moreover have "b_Namespace demo_backup = ''default''" by (rule demo_spec)
  ultimately show ?thesis
    using job_permissions [of demo_backup "\<lparr>bf_Name = ''web'', bf_Resource = ''deployment''\<rparr>" mem_kube] mem_helpers(1)
    by (simp add: demo_spec one_line_def plain_scalar_def demo_backup_def sample_backup_def sample_spec_def emptyMeta_def) blast
qed

end
