(* ===== verification/Cli.thy ===== *)
theory Cli
  imports BackupProps
begin

text \<open>
  The command line tools: \<^verbatim>\<open>pkg/args\<close>, \<^verbatim>\<open>pkg/logger\<close>, the commands of \<^verbatim>\<open>cmd/horusctl\<close>, \<^verbatim>\<open>pkg/restic\<close>
  and the program \<^verbatim>\<open>build/findpvdir\<close> that the backup runs in its search pods.
\<close>

section \<open>pkg/args\<close>

text \<open>
  The holder and its builder. The builder locks around each write and the readers do not lock; the
  tools set the arguments before they start anything that reads them.
\<close>

record holder =
  kubeconfig :: string
  logLevel :: string
  logFormat :: string
  logFile :: string

definition newHolder :: holder where
  "newHolder = \<lparr>kubeconfig = [], logLevel = [], logFormat = [], logFile = []\<rparr>"

definition SetKubeconfig :: "string \<Rightarrow> holder \<Rightarrow> holder" where "SetKubeconfig v h = h\<lparr>kubeconfig := v\<rparr>"
definition SetLogLevel :: "string \<Rightarrow> holder \<Rightarrow> holder" where "SetLogLevel v h = h\<lparr>logLevel := v\<rparr>"
definition SetLogFormat :: "string \<Rightarrow> holder \<Rightarrow> holder" where "SetLogFormat v h = h\<lparr>logFormat := v\<rparr>"
definition SetLogFile :: "string \<Rightarrow> holder \<Rightarrow> holder" where "SetLogFile v h = h\<lparr>logFile := v\<rparr>"
definition GetKubeconfig :: "holder \<Rightarrow> string" where "GetKubeconfig h = kubeconfig h"
definition GetLogLevel :: "holder \<Rightarrow> string" where "GetLogLevel h = logLevel h"
definition GetLogFormat :: "holder \<Rightarrow> string" where "GetLogFormat h = logFormat h"
definition GetLogFile :: "holder \<Rightarrow> string" where "GetLogFile h = logFile h"

lemmas args_defs = SetKubeconfig_def SetLogLevel_def SetLogFormat_def SetLogFile_def
  GetKubeconfig_def GetLogLevel_def GetLogFormat_def GetLogFile_def

section \<open>pkg/logger\<close>

datatype Level = ErrorLevel | WarnLevel | InfoLevel | DebugLevel | TraceLevel
datatype Formatter = TextFormatter | JSONFormatter
datatype Output = Stdout | Stderr | File string

record logger =
  lg_Level :: Level
  lg_Formatter :: Formatter
  lg_Output :: Output

definition level_of :: "string \<Rightarrow> Level" where
  "level_of s =
     (let u = ToUpper s in
      if u = ''ERROR'' then ErrorLevel
      else if u = ''WARN'' then WarnLevel
      else if u = ''WARNING'' then WarnLevel
      else if u = ''INFO'' then InfoLevel
      else if u = ''DEBUG'' then DebugLevel
      else if u = ''TRACE'' then TraceLevel
      else InfoLevel)"

definition format_of :: "string \<Rightarrow> Formatter" where
  "format_of s =
     (let u = ToUpper s in
      if u = ''TEXT'' then TextFormatter else if u = ''JSON'' then JSONFormatter else TextFormatter)"

text \<open>\<open>openFile\<close> is \<^verbatim>\<open>os.OpenFile\<close> with the flags of the source; a file that cannot be opened panics.\<close>

definition output_of :: "(string \<Rightarrow> goerr option) \<Rightarrow> string \<Rightarrow> Output outcome" where
  "output_of openFile file =
     (let f = (if length file = 0 then ''/dev/stdout'' else file) in
      if f = ''/dev/stdout'' then Ret Stdout
      else if f = ''/dev/stderr'' then Ret Stderr
      else case openFile f of Some e \<Rightarrow> Halt Panic | None \<Rightarrow> Ret (File f))"

text \<open>
  \<^verbatim>\<open>Init\<close> changes the standard logger field by field, so a panic leaves the level and the formatter set;
  \<^verbatim>\<open>New\<close> sets up the logger that \<^verbatim>\<open>logrus.New\<close> gives it, a parameter.
\<close>

definition Init :: "(string \<Rightarrow> goerr option) \<Rightarrow> holder \<Rightarrow> logger \<Rightarrow> unit outcome \<times> logger" where
  "Init openFile h std =
     (let l = std\<lparr>lg_Level := level_of (GetLogLevel h), lg_Formatter := format_of (GetLogFormat h)\<rparr> in
      case output_of openFile (GetLogFile h) of
        Halt e \<Rightarrow> (Halt e, l)
      | Ret out \<Rightarrow> (Ret (), l\<lparr>lg_Output := out\<rparr>))"

text \<open>\<^verbatim>\<open>New\<close> repeats the three switches of \<^verbatim>\<open>Init\<close> on its own logger.\<close>

definition newLevel :: "string \<Rightarrow> Level" where
  "newLevel s =
     (let u = ToUpper s in
      if u = ''ERROR'' then ErrorLevel
      else if u = ''WARN'' then WarnLevel
      else if u = ''WARNING'' then WarnLevel
      else if u = ''INFO'' then InfoLevel
      else if u = ''DEBUG'' then DebugLevel
      else if u = ''TRACE'' then TraceLevel
      else InfoLevel)"

definition newFormatter :: "string \<Rightarrow> Formatter" where
  "newFormatter s =
     (let u = ToUpper s in
      if u = ''TEXT'' then TextFormatter else if u = ''JSON'' then JSONFormatter else TextFormatter)"

definition newOutput :: "(string \<Rightarrow> goerr option) \<Rightarrow> string \<Rightarrow> Output outcome" where
  "newOutput openFile file =
     (let f = (if length file = 0 then ''/dev/stdout'' else file) in
      if f = ''/dev/stdout'' then Ret Stdout
      else if f = ''/dev/stderr'' then Ret Stderr
      else case openFile f of Some e \<Rightarrow> Halt Panic | None \<Rightarrow> Ret (File f))"

definition New :: "(string \<Rightarrow> goerr option) \<Rightarrow> logger \<Rightarrow> holder \<Rightarrow> logger outcome" where
  "New openFile logrusNew h =
     (let l = logrusNew\<lparr>lg_Level := newLevel (GetLogLevel h), lg_Formatter := newFormatter (GetLogFormat h)\<rparr> in
      case newOutput openFile (GetLogFile h) of
        Halt e \<Rightarrow> Halt e
      | Ret out \<Rightarrow> Ret (l\<lparr>lg_Output := out\<rparr>))"

section \<open>cmd/horusctl\<close>

text \<open>The process of the tool: its arguments, its standard logger and the state of the backup package.\<close>

record 'w process =
  pr_holder :: holder
  pr_logger :: logger
  pr_session :: "'w session"

definition setupLogging :: "(string \<Rightarrow> goerr option) \<Rightarrow> string \<Rightarrow> string \<Rightarrow> ('w process, unit) go" where
  "setupLogging openFile level fmt =
     gobind (modify (\<lambda>p. p\<lparr>pr_holder := SetLogFormat fmt (SetLogLevel level (pr_holder p))\<rparr>)) (\<lambda>_ p.
       case Init openFile (pr_holder p) (pr_logger p) of (r, l) \<Rightarrow> (r, p\<lparr>pr_logger := l\<rparr>))"

definition in_session :: "('w session, 'a) go \<Rightarrow> ('w process, 'a) go" where
  "in_session m p = (case m (pr_session p) of (r, t) \<Rightarrow> (r, p\<lparr>pr_session := t\<rparr>))"

text \<open>The command \<^verbatim>\<open>horusctl backup\<close>: one run per argument, whose error is dropped.\<close>

fun backupEach :: "'w cluster \<Rightarrow> string \<Rightarrow> string list \<Rightarrow> ('w process, unit) go" where
  "backupEach X namespace [] = ret ()"
| "backupEach X namespace (backupObj # args) =
     gobind (in_session (Do X namespace backupObj)) (\<lambda>_. backupEach X namespace args)"

definition backupCmd :: "'w cluster \<Rightarrow> (string \<Rightarrow> goerr option) \<Rightarrow> string \<Rightarrow> string \<Rightarrow> string \<Rightarrow> string list \<Rightarrow>
    ('w process, unit) go" where
  "backupCmd X openFile level fmt namespace args =
     gobind (setupLogging openFile level fmt) (\<lambda>_. backupEach X namespace args)"

definition rootCmd :: "(string \<Rightarrow> goerr option) \<Rightarrow> string \<Rightarrow> string \<Rightarrow> ('w process, unit) go" where
  "rootCmd openFile level fmt = setupLogging openFile level fmt"

section \<open>pkg/restic\<close>

record 'w resticlib =
  y_ListByLabel :: "string \<Rightarrow> string \<Rightarrow> 'w \<Rightarrow> (goerr + Pod list) \<times> 'w"
  y_Exec :: "string \<Rightarrow> string \<Rightarrow> string list \<Rightarrow> 'w \<Rightarrow> (goerr option \<times> string) \<times> 'w"
  y_Wrapf :: "goerr option \<Rightarrow> string \<Rightarrow> goerr option"
  y_CmdSnapshots :: "bool \<Rightarrow> string list \<Rightarrow> string list \<Rightarrow> string"

datatype rcall =
    RList string string "goerr option"
  | RExec string string "string list" "goerr option" string

type_synonym 'w rworld = "('w, rcall) world"

definition firstRunning :: "Pod list \<Rightarrow> Pod option" where
  "firstRunning podsObj = find (\<lambda>p. p_Phase p = PodRunning) podsObj"

definition snapshotPod :: "'w resticlib \<Rightarrow> string \<Rightarrow> string \<Rightarrow> ('w rworld, goerr option + Pod) go" where
  "snapshotPod Y ns lbl =
     gobind (call_ext (\<lambda>r. RList ns lbl (err_of r)) (y_ListByLabel Y ns lbl)) (\<lambda>r.
       case r of
         Inl e \<Rightarrow> ret (Inl (y_Wrapf Y (Some e)
           (Sprintf ''pod handler list pods in namespace/%s by labels failed'' [ns])))
       | Inr podsObj \<Rightarrow>
           (case firstRunning podsObj of
              None \<Rightarrow> ret (Inl (y_Wrapf Y None
                (Sprintf ''not found running pod in namespace/%s with label %s'' [ns, lbl])))
            | Some execPod \<Rightarrow> ret (Inr execPod)))"

definition runSnapshots :: "'w resticlib \<Rightarrow> string \<Rightarrow> string list \<Rightarrow> string list \<Rightarrow> bool \<Rightarrow> Pod \<Rightarrow>
    ('w rworld, goerr option) go" where
  "runSnapshots Y ns cluster tags json execPod =
     (let cmdSnapshot = y_CmdSnapshots Y json tags cluster in
      gobind (call_ext (\<lambda>r. RExec ns (p_Name execPod) (Split cmdSnapshot CHR '' '') (fst r) (snd r))
                (y_Exec Y ns (p_Name execPod) (Split cmdSnapshot CHR '' ''))) (\<lambda>(err, _).
        case err of
          None \<Rightarrow> ret None
        | Some e \<Rightarrow> ret (y_Wrapf Y (Some e) (Sprintf
            (''pod handler exec command '' @ [CHR 0x22] @ ''%s'' @ [CHR 0x22] @ '' within pod/%s failed'')
            [cmdSnapshot, p_Name execPod]))))"

definition Snapshots :: "'w resticlib \<Rightarrow> string \<Rightarrow> Storage \<Rightarrow> string list \<Rightarrow> string list \<Rightarrow> bool \<Rightarrow>
    ('w rworld, goerr option) go" where
  "Snapshots Y operatorNamespace storage cluster tags json =
     (let withPod = (\<lambda>lbl. gobind (snapshotPod Y operatorNamespace lbl) (\<lambda>r.
            case r of Inl err \<Rightarrow> ret err | Inr execPod \<Rightarrow> runSnapshots Y operatorNamespace cluster tags json execPod))
      in
      if storage = StorageNFS then withPod Backup2NFSDeployLabel
      else if storage = StorageMinIO then withPod Backup2MinioDeployLabel
      else if storage \<in> {StorageS3, StorageCephFS, StorageSFTP, StorageRClone, StorageRestServer} then ret None
      else ret (Some (Errorf (Sprintf ''not support storage type: %s'' [storage]))))"

section \<open>build/findpvdir\<close>

record DirEntry =
  de_Name :: string
  de_IsDir :: bool

text \<open>What the program prints; \<open>readDir\<close> is \<^verbatim>\<open>os.ReadDir\<close>.\<close>

definition findpvdir_main :: "(string \<Rightarrow> goerr + DirEntry list) \<Rightarrow> string \<Rightarrow> string \<Rightarrow> string \<Rightarrow> string" where
  "findpvdir_main readDir argPodUid argStorageType argKubeletHome =
     (let dirname = filepath_Join [argKubeletHome, ''pods'', argPodUid, ''volumes''] in
      case readDir dirname of
        Inl err \<Rightarrow> []
      | Inr dirEntries \<Rightarrow>
          concat (map (\<lambda>file. if de_IsDir file \<and> Contains (de_Name file) argStorageType
                             then filepath_Join [dirname, de_Name file] @ [newline] else []) dirEntries))"

section \<open>pkg/version\<close>

record build_info =
  Version :: string
  BuildTime :: string
  Commit :: string
  GoVersion :: string
  GOOS :: string
  GOARCH :: string

definition printVersionSlice :: "build_info \<Rightarrow> string list" where
  "printVersionSlice i =
     [Sprintf ''Version: %v'' [Version i], Sprintf ''Build time: %v'' [BuildTime i],
      Sprintf ''Git Commit: %v'' [Commit i], Sprintf ''Go Version: %s'' [GoVersion i],
      Sprintf ''Go OS/Arch: %s/%s'' [GOOS i, GOARCH i]]"
text \<open>The text format of \<^verbatim>\<open>PrintVersionWriter\<close>, and its answer to any other format but JSON.\<close>

definition printVersionText :: "build_info \<Rightarrow> string" where
  "printVersionText i = ''Version:'' @ [newline] @
     concat (map (\<lambda>val. Sprintf ''- %s'' [val] @ [newline]) (printVersionSlice i))"

definition PrintVersionWriter :: "build_info \<Rightarrow> string \<Rightarrow> string \<Rightarrow> string" where
  "PrintVersionWriter i json fmt =
     (if fmt = ''text'' then printVersionText i
      else if fmt = ''json'' then json
      else Sprintf ''Unknown format: %s'' [fmt])"

section \<open>Arguments as settings\<close>

text \<open>An argument of the holder is read and written through a pair of functions with the usual laws.\<close>

locale setting =
  fixes get :: "holder \<Rightarrow> string" and put :: "string \<Rightarrow> holder \<Rightarrow> holder"
  assumes get_put [simp]: "get (put v h) = v"
    and put_put: "put v (put w h) = put v h"
    and put_get: "put (get h) h = h"
begin

lemma last_write_wins: "get (foldl (\<lambda>h v. put v h) h (vs @ [v])) = v"
  by simp

lemma put_injective: "put v h = put w h \<Longrightarrow> v = w"
  using get_put by metis

end

interpretation kc: setting GetKubeconfig SetKubeconfig by unfold_locales (simp_all add: args_defs)
interpretation lvl: setting GetLogLevel SetLogLevel by unfold_locales (simp_all add: args_defs)
interpretation fmt: setting GetLogFormat SetLogFormat by unfold_locales (simp_all add: args_defs)
interpretation lfile: setting GetLogFile SetLogFile by unfold_locales (simp_all add: args_defs)

text \<open>Two settings that do not touch each other.\<close>

locale two_settings = a: setting geta seta + b: setting getb setb
  for geta seta getb setb +
  assumes commute: "seta v (setb w h) = setb w (seta v h)"
    and apart: "geta (setb w h) = geta h" "getb (seta v h) = getb h"
begin

lemma both_read: "geta (setb w (seta v h)) = v" "getb (setb w (seta v h)) = w"
  by (simp_all add: apart)

end

interpretation lvl_fmt: two_settings GetLogLevel SetLogLevel GetLogFormat SetLogFormat
  by unfold_locales (simp_all add: args_defs)

section \<open>Properties\<close>

text \<open>
  \<^verbatim>\<open>logger.New\<close> and \<^verbatim>\<open>logger.Init\<close> configure alike: for the same arguments both panic, or the logger that \<^verbatim>\<open>New\<close>
  returns has the level, the formatter and the output that \<^verbatim>\<open>Init\<close> gives the standard logger, whatever
  either started from.
\<close>

theorem New_is_Init:
  "New openFile l0 h = (case Init openFile h std of (Ret u, l) \<Rightarrow> Ret l | (Halt e, l) \<Rightarrow> Halt e)"
proof -
  have "newLevel = level_of" "newFormatter = format_of" "newOutput = output_of"
    by (simp_all add: fun_eq_iff newLevel_def level_of_def newFormatter_def format_of_def newOutput_def output_of_def)
  then show ?thesis by (simp add: New_def Init_def Let_def split: outcome.split)
qed

definition demo_logger :: logger where
  "demo_logger = \<lparr>lg_Level = InfoLevel, lg_Formatter = TextFormatter, lg_Output = Stderr\<rparr>"

text \<open>
  Without a log file among the arguments, which the tools never set, setting up logging does not panic whatever
  files can be opened, and gives the standard logger the level and the format of the flags, on standard output.
\<close>

theorem setupLogging_follows_flags:
  "GetLogFile (pr_holder p) = [] \<Longrightarrow> setupLogging openFile level fm p =
     (Ret (), p\<lparr>pr_holder := SetLogFormat fm (SetLogLevel level (pr_holder p)),
        pr_logger := \<lparr>lg_Level = level_of level, lg_Formatter = format_of fm, lg_Output = Stdout\<rparr>\<rparr>)"
  by (cases "pr_logger p")
    (simp add: setupLogging_def go_run Init_def Let_def output_of_def lvl_fmt.both_read, simp add: args_defs)

theorem setupLogging_follows_flags_witness:
  "setupLogging (\<lambda>f. Some notFound) ''debug'' ''json''
      \<lparr>pr_holder = newHolder, pr_logger = demo_logger, pr_session = init_session ()\<rparr> =
    (Ret (), \<lparr>pr_holder = SetLogFormat ''json'' (SetLogLevel ''debug'' newHolder),
       pr_logger = \<lparr>lg_Level = level_of ''debug'', lg_Formatter = format_of ''json'', lg_Output = Stdout\<rparr>,
       pr_session = init_session ()\<rparr>)"
  using setupLogging_follows_flags [of "\<lparr>pr_holder = newHolder, pr_logger = demo_logger, pr_session = init_session ()\<rparr>"
      "\<lambda>f. Some notFound" "''debug''" "''json''"]
  by (simp add: newHolder_def GetLogFile_def)

definition offline :: "unit cluster" where
  "offline = (demo_cluster [])\<lparr>x_DynGet := (\<lambda>gvk ns n w. (Inl notFound, w))\<rparr>"

lemma Do_returns:
  assumes "runBackup X ns n s = (Ret v, t)"
  shows "Do X ns n s = (Ret v, snd (cleanup X t))"
proof -
  obtain u where "cleanup X t = (Ret (), u)"
    using wp_cleanup [of X t] by (cases "cleanup X t") (auto simp: wp_def)
  with assms show ?thesis by (simp add: Do_def defer_to_def)
qed

lemma run_without_backup:
  assumes "fst (x_DynGet X (GroupStorage, VersionStorage, KindBackup) ns name (ext s)) = Inl e"
  shows "\<exists>err. fst (Do X ns name s) = Ret (Inl err)"
proof -
  from assms obtain err where "fst (runBackup X ns name s) = Ret (Inl err)"
    by (simp add: runBackup_def bindE_def other_def go_run)
  then show ?thesis by (cases "runBackup X ns name s") (simp add: Do_returns)
qed

lemma offline_run: "\<exists>e. fst (Do offline ns n s) = Ret (Inl e)"
  by (rule run_without_backup [where e = notFound]) (simp add: offline_def)

text \<open>The runs of the Backups one after the other, none of which exits or panics; their errors are not looked at.\<close>

inductive all_returned :: "'w cluster \<Rightarrow> string \<Rightarrow> string list \<Rightarrow> 'w session \<Rightarrow> 'w session \<Rightarrow> bool"
  for X :: "'w cluster" and ns :: string where
  done_all: "all_returned X ns [] s s"
| next_run: "Do X ns name s = (Ret v, u) \<Longrightarrow> all_returned X ns names u t \<Longrightarrow> all_returned X ns (name # names) s t"

inductive_simps all_returned_simps [simp]:
  "all_returned X ns [] s t" "all_returned X ns (name # names) s t"

lemma backupEach_returns:
  "(backupEach X ns names p = (Ret (), q)) =
     (\<exists>t. all_returned X ns names (pr_session p) t \<and> q = p\<lparr>pr_session := t\<rparr>)"
proof (induction names arbitrary: p)
  case Nil
  show ?case by (auto simp: go_run)
next
  case (Cons name names)
  show ?case
  proof (cases "Do X ns name (pr_session p)")
    case (Pair r u)
    then show ?thesis
      by (cases r) (auto simp: gobind_def in_session_def Cons.IH)
  qed
qed

text \<open>
  C39. The command \<^verbatim>\<open>horusctl backup\<close> ends in success exactly when none of its runs exits or panics: every Backup is
  run in turn, and the errors of the runs play no part. Against a cluster in which no Backup can be read each
  run returns an error, and the command, and with it the Job that runs it, succeeds.
\<close>

theorem backup_errors_are_dropped:
  "(backupEach X ns names p = (Ret (), q)) =
     (\<exists>t. all_returned X ns names (pr_session p) t \<and> q = p\<lparr>pr_session := t\<rparr>) \<and>
   (\<exists>e. fst (Do offline ns n s) = Ret (Inl e)) \<and> fst (backupEach offline ns ms p') = Ret ()"
proof -
  have "\<exists>t. all_returned offline ns ms u t" for u
  proof (induction ms arbitrary: u)
    case (Cons m ms)
    obtain e where "fst (Do offline ns m u) = Ret (Inl e)" using offline_run by blast
    with Cons.IH show ?case by (cases "Do offline ns m u") auto
  qed auto
  then obtain t where "backupEach offline ns ms p' = (Ret (), p'\<lparr>pr_session := t\<rparr>)"
    using backupEach_returns by metis
  then show ?thesis using backupEach_returns [of X ns names p q] offline_run [of ns n s] by simp
qed

text \<open>
  \<^verbatim>\<open>restic.Snapshots\<close> reports success without running anything when no pod of the helper deployment runs: it wraps
  the nil error of the listing, and \<^verbatim>\<open>errors.Wrapf\<close> of nil is nil.
\<close>

theorem snapshots_without_pod:
  assumes "\<And>m. y_Wrapf Y None m = None" and "storage \<in> {StorageNFS, StorageMinIO}"
    and "\<And>lbl w. \<exists>pods. fst (y_ListByLabel Y ns lbl w) = Inr pods \<and> list_all (\<lambda>p. p_Phase p \<noteq> PodRunning) pods"
  shows "fst (Snapshots Y ns storage cluster tags json s) = Ret None \<and>
    (\<exists>lbl. calls (snd (Snapshots Y ns storage cluster tags json s)) = calls s @ [RList ns lbl None])"
proof -
  have pod: "fst (snapshotPod Y ns lbl s) = Ret (Inl None)"
    "calls (snd (snapshotPod Y ns lbl s)) = calls s @ [RList ns lbl None]" for lbl
  proof -
    obtain pods where "fst (y_ListByLabel Y ns lbl (ext s)) = Inr pods" "firstRunning pods = None"
      using assms(3) [of lbl "ext s"] by (auto simp: firstRunning_def find_None_iff list_all_iff)
    then show "fst (snapshotPod Y ns lbl s) = Ret (Inl None)"
      "calls (snd (snapshotPod Y ns lbl s)) = calls s @ [RList ns lbl None]"
      using assms(1) by (simp_all add: snapshotPod_def go_run)
  qed
  have "fst (gobind (snapshotPod Y ns lbl) (\<lambda>r. case r of Inl err \<Rightarrow> ret err | Inr p \<Rightarrow> f p) s) = Ret None \<and>
    calls (snd (gobind (snapshotPod Y ns lbl) (\<lambda>r. case r of Inl err \<Rightarrow> ret err | Inr p \<Rightarrow> f p) s)) =
      calls s @ [RList ns lbl None]" for lbl f
    using pod [of lbl] by (cases "snapshotPod Y ns lbl s") (simp add: go_run)
  with assms(2) show ?thesis by (auto simp: Snapshots_def Let_def storage_defs)
qed

definition empty_restic :: "unit resticlib" where
  "empty_restic = \<lparr>y_ListByLabel = (\<lambda>ns l w. (Inr [], w)), y_Exec = (\<lambda>ns p c w. ((None, []), w)),
     y_Wrapf = (\<lambda>e m. map_option (\<lambda>x. WithMessage x m) e), y_CmdSnapshots = (\<lambda>j t c. ''restic snapshots'')\<rparr>"

theorem snapshots_without_pod_witness:
  "fst (Snapshots empty_restic ''ops'' StorageNFS [] [] False \<lparr>ext = (), calls = []\<rparr>) = Ret None"
  using snapshots_without_pod [of empty_restic StorageNFS "''ops''" "[]" "[]" False "\<lparr>ext = (), calls = []\<rparr>"]
  by (simp add: empty_restic_def)

definition trimmed :: "string \<Rightarrow> bool" where
  "trimmed p \<longleftrightarrow> p \<noteq> [] \<and> \<not> is_space (hd p) \<and> \<not> is_space (last p)"

definition volume_dirs :: "string \<Rightarrow> string \<Rightarrow> DirEntry list \<Rightarrow> string list" where
  "volume_dirs dirname styp es =
     map (\<lambda>f. filepath_Join [dirname, de_Name f]) (filter (\<lambda>f. de_IsDir f \<and> Contains (de_Name f) styp) es)"

lemma findpvdir_prints:
  "readDir (filepath_Join [home, ''pods'', uid, ''volumes'']) = Inr es \<Longrightarrow>
   findpvdir_main readDir uid styp home =
     unlines (volume_dirs (filepath_Join [home, ''pods'', uid, ''volumes'']) styp es)"
proof -
  have "concat (map (\<lambda>f. if P f then g f @ [newline] else []) xs) = unlines (map g (filter P xs))" for P g and xs :: "DirEntry list"
    by (induction xs) (simp_all add: unlines_def)
  then show "readDir (filepath_Join [home, ''pods'', uid, ''volumes'']) = Inr es \<Longrightarrow> ?thesis"
    by (simp add: findpvdir_main_def volume_dirs_def Let_def)
qed

lemma TrimSpace_lines:
  assumes "trimmed a" "trimmed c"
  shows "TrimSpace (a @ newline # mid @ c @ [newline]) = a @ newline # mid @ c"
proof -
  have "TrimSpace ((a @ newline # mid @ c) @ [newline]) = a @ newline # mid @ c"
    using assms by (intro TrimSpace_append_newline) (simp_all add: trimmed_def)
  then show ?thesis by simp
qed

lemma newline_between_lines:
  assumes "list_all trimmed ps" "2 \<le> length ps"
  shows "newline \<in> set (TrimSpace (unlines ps))"
proof -
  from assms(2) obtain a qs c where ps: "ps = a # qs @ [c]"
    by (cases ps; cases "tl ps" rule: rev_cases) auto
  with assms(1) TrimSpace_lines [of a c "unlines qs"] show ?thesis
    by (simp add: unlines_def)
qed

lemma one_line: "trimmed p \<Longrightarrow> TrimSpace (unlines [p]) = p"
  by (simp add: unlines_def trimmed_def TrimSpace_append_newline)

text \<open>
  The program \<^verbatim>\<open>findpvdir\<close> prints the directories of the pod's volumes whose name contains the storage type, and the
  backup takes its trimmed output as one path: with one match the path of that directory, with none the
  empty path, but with several a text of several lines that is no path. An empty storage type matches every
  directory.
\<close>

theorem findpvdir_output:
  assumes "readDir (filepath_Join [home, ''pods'', uid, ''volumes'']) = Inr es"
    and "volume_dirs (filepath_Join [home, ''pods'', uid, ''volumes'']) styp es = ps"
    and "list_all trimmed ps"
  shows "(ps = [] \<longrightarrow> TrimSpace (findpvdir_main readDir uid styp home) = []) \<and>
    (\<forall>p. ps = [p] \<longrightarrow> TrimSpace (findpvdir_main readDir uid styp home) = p) \<and>
    (2 \<le> length ps \<longrightarrow> newline \<in> set (TrimSpace (findpvdir_main readDir uid styp home))) \<and>
    (styp = [] \<longrightarrow> length ps = length (filter de_IsDir es))"
proof -
  have out: "findpvdir_main readDir uid styp home = unlines ps"
    using findpvdir_prints [where readDir = readDir, OF assms(1)] assms(2) by simp
  note many = newline_between_lines [OF assms(3)]
  have "Contains n []" for n by (cases n) simp_all
  with assms(2,3) many show ?thesis
    unfolding out
    by (auto simp: unlines_def TrimSpace_def [of "[]"] trimmed_def TrimSpace_append_newline volume_dirs_def)
qed

theorem findpvdir_output_witness:
  "TrimSpace (findpvdir_main (\<lambda>d. Inr [\<lparr>de_Name = ''kubernetes.io~nfs'', de_IsDir = True\<rparr>,
      \<lparr>de_Name = ''kubernetes.io~secret'', de_IsDir = True\<rparr>]) ''u1'' ''nfs'' ''/var/lib/kubelet/'') =
    ''/var/lib/kubelet/pods/u1/volumes/kubernetes.io~nfs''"
proof -
  let ?es = "[\<lparr>de_Name = ''kubernetes.io~nfs'', de_IsDir = True\<rparr>,
      \<lparr>de_Name = ''kubernetes.io~secret'', de_IsDir = True\<rparr>]"
  have one: "volume_dirs (filepath_Join [''/var/lib/kubelet/'', ''pods'', ''u1'', ''volumes'']) ''nfs'' ?es =
      [''/var/lib/kubelet/pods/u1/volumes/kubernetes.io~nfs'']"
    by code_simp
  have "list_all trimmed [''/var/lib/kubelet/pods/u1/volumes/kubernetes.io~nfs'']"
    by (simp add: trimmed_def is_space_def)
  from findpvdir_output [where readDir = "\<lambda>d. Inr ?es", OF refl one this] show ?thesis by blast
qed

end
