(* ===== verification/VolumePath.thy ===== *)
theory VolumePath
  imports BackupProps Cli
begin

text \<open>
  From the search for a volume to the path restic is given: the backup runs the program \<^verbatim>\<open>build/findpvdir\<close> in a pod on the node
  of the volume, takes what it prints as the directory of the volume, and hands restic a path below the mount of
  the node's root. This theory joins the three.
\<close>

section \<open>The program and its flags\<close>

record findpvdir_flags =
  argPodUid :: string
  argStorageType :: string
  argKubeletHome :: string

definition findpvdirFlags :: findpvdir_flags where
  "findpvdirFlags = \<lparr>argPodUid = '''', argStorageType = '''', argKubeletHome = ''/var/lib/kubelet/''\<rparr>"

text \<open>
  The program on its arguments; \<open>parse\<close> is \<^verbatim>\<open>pflag\<close>, given the flags with their defaults. The flags of Go's own flag set
  are added after the parsing and are none.
\<close>

definition findpvdir :: "(findpvdir_flags \<Rightarrow> string list \<Rightarrow> findpvdir_flags) \<Rightarrow> (string \<Rightarrow> goerr + DirEntry list) \<Rightarrow>
    string list \<Rightarrow> string" where
  "findpvdir parse readDir args =
     (let F = parse findpvdirFlags args in findpvdir_main readDir (argPodUid F) (argStorageType F) (argKubeletHome F))"

text \<open>\<^verbatim>\<open>pflag\<close>: a flag and its value as two arguments; a flag that is not given keeps its default.\<close>

definition pflag_package :: "(findpvdir_flags \<Rightarrow> string list \<Rightarrow> findpvdir_flags) \<Rightarrow> bool" where
  "pflag_package parse \<longleftrightarrow> (\<forall>F u t. parse F [''--pod-uid'', u, ''--storage-type'', t] = F\<lparr>argPodUid := u, argStorageType := t\<rparr>)"

text \<open>The search pod runs the program, on the file system of its node.\<close>

definition runs_findpvdir :: "'w cluster \<Rightarrow> (findpvdir_flags \<Rightarrow> string list \<Rightarrow> findpvdir_flags) \<Rightarrow>
    (string \<Rightarrow> goerr + DirEntry list) \<Rightarrow> string \<Rightarrow> bool" where
  "runs_findpvdir X parse readDir pod \<longleftrightarrow>
     (\<forall>ns args w. fst (x_Exec X ns pod (''findpvdir'' # args) w) = (None, findpvdir parse readDir args))"

section \<open>Paths\<close>

text \<open>A name that is one component of a path and does not end in a space.\<close>

definition component :: "string \<Rightarrow> bool" where
  "component c \<longleftrightarrow> plain_comp c \<and> CHR ''/'' \<notin> set c \<and> \<not> is_space (last c)"

definition kubelet_dir :: "string \<Rightarrow> string" where
  "kubelet_dir uid = ''/var/lib/kubelet/pods/'' @ uid @ ''/volumes''"

lemma component_simps:
  "component c \<Longrightarrow> c \<noteq> []" "component c \<Longrightarrow> Split c CHR ''/'' = [c]" "component c \<Longrightarrow> plain_comp c"
  "component c \<Longrightarrow> no_dotdot c" "component c \<Longrightarrow> \<not> is_space (last c)"
  by (auto simp: component_def plain_comp_def no_dotdot_def Split_no_sep)

lemma kubelet_split:
  assumes "component uid"
  shows "Split (kubelet_dir uid) CHR ''/'' = ['''', ''var'', ''lib'', ''kubelet'', ''pods'', uid, ''volumes'']"
proof -
  have "Split (kubelet_dir uid) CHR ''/'' =
      Split ''/var/lib/kubelet/pods'' CHR ''/'' @ Split uid CHR ''/'' @ Split ''volumes'' CHR ''/''"
    using Split_append_path [of "''/var/lib/kubelet/pods''" "uid @ ''/volumes''"] Split_append_path [of uid "''volumes''"]
    by (simp add: kubelet_dir_def)
  with component_simps(2) [OF assms] show ?thesis by simp
qed

lemma kubelet_rooted: "component uid \<Longrightarrow> is_rooted (kubelet_dir uid)" "component uid \<Longrightarrow> no_dotdot (kubelet_dir uid)"
  using kubelet_split [of uid] component_simps(4) [of uid]
  by (auto simp: is_rooted_def kubelet_dir_def no_dotdot_def component_def plain_comp_def)

lemma kubelet_comps: "component uid \<Longrightarrow>
    filter plain_comp (Split (kubelet_dir uid) CHR ''/'') = [''var'', ''lib'', ''kubelet'', ''pods'', uid, ''volumes'']"
  by (simp add: kubelet_split component_simps) (simp add: plain_comp_def)

lemma kubelet_join:
  assumes uid: "component uid"
  shows "filepath_Join [''/var/lib/kubelet/'', ''pods'', uid, ''volumes''] = kubelet_dir uid"
    and "component e \<Longrightarrow> filepath_Join [kubelet_dir uid, e] = kubelet_dir uid @ ''/'' @ e"
    and "component e \<Longrightarrow> component pv \<Longrightarrow> filepath_Join [mountHostRootPath, kubelet_dir uid @ ''/'' @ e, pv] =
      ''/host-root'' @ kubelet_dir uid @ ''/'' @ e @ ''/'' @ pv"
proof -
  note c = component_simps
  have "is_rooted ''/var/lib/kubelet/''" "no_dotdot ''/var/lib/kubelet/''" "no_dotdot ''pods''" "no_dotdot ''volumes''"
    by (simp_all add: is_rooted_def no_dotdot_def)
  then show "filepath_Join [''/var/lib/kubelet/'', ''pods'', uid, ''volumes''] = kubelet_dir uid"
    using c [OF uid] by (subst Join_rooted) (auto simp: kubelet_dir_def, simp_all add: plain_comp_def)
  show "filepath_Join [kubelet_dir uid, e] = kubelet_dir uid @ ''/'' @ e" if e: "component e"
    using kubelet_rooted [OF uid] kubelet_comps [OF uid] c [OF e]
    by (subst Join_rooted) (auto, simp add: kubelet_dir_def)
  have root: "is_rooted mountHostRootPath" "no_dotdot mountHostRootPath" "filter plain_comp (Split mountHostRootPath CHR ''/'') = [''host-root'']"
    by (simp_all add: mountHostRootPath_def is_rooted_def no_dotdot_def plain_comp_def)
  show "filepath_Join [mountHostRootPath, kubelet_dir uid @ ''/'' @ e, pv] = ''/host-root'' @ kubelet_dir uid @ ''/'' @ e @ ''/'' @ pv"
    if e: "component e" and pv: "component pv"
  proof -
    have sp: "Split (kubelet_dir uid @ ''/'' @ e) CHR ''/'' = Split (kubelet_dir uid) CHR ''/'' @ [e]"
      using Split_append_path [of "kubelet_dir uid" e] c(2) [OF e] by simp
    then have "no_dotdot (kubelet_dir uid @ ''/'' @ e)"
      using kubelet_rooted(2) [OF uid] c(4) [OF e] c(2) [OF e] by (auto simp: no_dotdot_def)
    then show ?thesis
      using root kubelet_comps [OF uid] c [OF e] c [OF pv] sp
      by (subst Join_rooted) (auto, simp add: kubelet_dir_def)
  qed
qed

section \<open>The path of a volume\<close>

definition volume_entries :: "string \<Rightarrow> DirEntry list \<Rightarrow> DirEntry list" where
  "volume_entries styp es = filter (\<lambda>f. de_IsDir f \<and> Contains (de_Name f) styp) es"

lemma search_runs:
  assumes "runs_findpvdir X parse readDir pod" "TrimSpace (findpvdir parse readDir args) \<noteq> []"
  shows "fst (retryFind X pod (''findpvdir'' # args) dep (Suc n) [] s) = Ret (Inr (TrimSpace (findpvdir parse readDir args)))"
proof -
  have "fst (x_Exec X ns pod (''findpvdir'' # args) w) = (None, findpvdir parse readDir args)" for ns w
    using assms(1) by (simp add: runs_findpvdir_def)
  with assms(2) show ?thesis by (simp add: podExec_def go_run retE_def)
qed

text \<open>The paths of the volumes of a type; \<^verbatim>\<open>findpvdir\<close> prints them, and the search returns its output.\<close>

definition volume_paths :: "string \<Rightarrow> string \<Rightarrow> DirEntry list \<Rightarrow> string list" where
  "volume_paths uid styp es = map (\<lambda>f. kubelet_dir uid @ ''/'' @ de_Name f) (volume_entries styp es)"

lemma volume_paths_trimmed: "\<forall>f \<in> set es. component (de_Name f) \<Longrightarrow> list_all trimmed (volume_paths uid styp es)"
  using component_simps
  by (auto simp: volume_paths_def volume_entries_def list_all_iff trimmed_def kubelet_dir_def is_space_def)

lemma volume_paths_printed:
  assumes uid: "component uid" and es: "readDir (kubelet_dir uid) = Inr es"
    and comps: "\<forall>f \<in> set es. component (de_Name f)" and parse: "pflag_package parse"
  shows "findpvdir parse readDir [''--pod-uid'', uid, ''--storage-type'', styp] = unlines (volume_paths uid styp es)"
proof -
  have home: "argKubeletHome (findpvdirFlags\<lparr>argPodUid := uid, argStorageType := styp\<rparr>) = ''/var/lib/kubelet/''"
    by (simp add: findpvdirFlags_def)
  have "volume_dirs (kubelet_dir uid) styp es = volume_paths uid styp es"
    unfolding volume_dirs_def volume_paths_def volume_entries_def
    using comps by (intro map_cong refl) (auto simp del: filepath_Join.simps simp: kubelet_join(2) [OF uid])
  moreover have "findpvdir_main readDir uid styp ''/var/lib/kubelet/'' = unlines (volume_dirs (kubelet_dir uid) styp es)"
    using findpvdir_prints [of readDir "''/var/lib/kubelet/''" uid es styp, unfolded kubelet_join(1) [OF uid], OF es] .
  ultimately show ?thesis
    using parse home by (simp add: findpvdir_def pflag_package_def Let_def)
qed

lemma search_volume:
  assumes X: "runs_findpvdir X parse readDir (p_Name pod)" and parse: "pflag_package parse"
    and styp: "volumeSource meta \<notin> {VolumeHostPath, VolumeLocal}" and uid: "component (podUID meta)"
    and es: "readDir (kubelet_dir (podUID meta)) = Inr es"
    and comps: "\<forall>f \<in> set es. component (de_Name f)"
    and ps: "volume_paths (podUID meta) (volumeSource meta) es = ps" and some: "TrimSpace (unlines ps) \<noteq> []"
  shows "fst (locateVolume X meta dep pod s) = Ret (Inr (TrimSpace (unlines ps)))"
proof -
  note out = volume_paths_printed [where readDir = readDir and parse = parse, OF uid es comps parse, of "volumeSource meta", unfolded ps]
  from search_runs [OF X, of "[''--pod-uid'', podUID meta, ''--storage-type'', volumeSource meta]", unfolded out, OF some]
  show ?thesis using styp by (simp add: locateVolume_def Let_def numeral_eq_Suc)
qed

text \<open>
  C40. The backup hands restic the volume of the pod. Where the search pod runs \<^verbatim>\<open>findpvdir\<close> on the file system of
  the volume's node, and the pod has one volume directory whose name contains the volume's type, the search returns that
  directory, and the path given to restic is the kubelet's path of the volume below the mount of the node's root. With
  several such directories (\<^verbatim>\<open>findpvdir\<close> compares by substring: \<^verbatim>\<open>kubernetes.io~rbd\<close> and \<^verbatim>\<open>example.com~rbd\<close> both have the type
  \<^verbatim>\<open>rbd\<close>) the search returns a text of several lines as if it were one path.
\<close>

theorem restic_gets_the_volume:
  assumes "runs_findpvdir X parse readDir (p_Name pod)" and "pflag_package parse"
    and "volumeSource meta \<notin> {VolumeHostPath, VolumeLocal}" and "component (podUID meta)" and "component (pvname meta)"
    and "readDir (kubelet_dir (podUID meta)) = Inr es" and "\<forall>f \<in> set es. component (de_Name f)"
    and "volume_entries (volumeSource meta) es = f # fs"
  shows "\<exists>dir. fst (locateVolume X meta dep pod s) = Ret (Inr dir) \<and>
    (if fs = [] then dir = kubelet_dir (podUID meta) @ ''/'' @ de_Name f \<and>
       pv_path (meta\<lparr>pvdir := dir\<rparr>) = ''/host-root'' @ kubelet_dir (podUID meta) @ ''/'' @ de_Name f @ ''/'' @ pvname meta
     else newline \<in> set dir)"
proof -
  let ?ps = "volume_paths (podUID meta) (volumeSource meta) es" and ?d = "\<lambda>f. kubelet_dir (podUID meta) @ ''/'' @ de_Name f"
  have ps: "?ps = ?d f # map ?d fs" by (simp add: volume_paths_def assms(8))
  note trim = volume_paths_trimmed [OF assms(7), of "podUID meta" "volumeSource meta", unfolded ps]
  have one: "TrimSpace (unlines ?ps) = ?d f" if "fs = []"
    using trim that one_line [of "?d f"] by (simp add: ps)
  have more: "newline \<in> set (TrimSpace (unlines ?ps))" if "fs \<noteq> []"
    unfolding ps by (rule newline_between_lines [OF trim]) (use that in \<open>cases fs, auto\<close>)
  have some: "TrimSpace (unlines ?ps) \<noteq> []"
    using one more by (cases "fs = []") (auto simp: kubelet_dir_def)
  have f: "component (de_Name f)" using assms(7,8) by (auto simp: volume_entries_def filter_eq_Cons_iff)
  have "fst (locateVolume X meta dep pod s) = Ret (Inr (TrimSpace (unlines ?ps)))"
    by (rule search_volume [OF assms(1-4,6,7) refl some])
  moreover have "pv_path (meta\<lparr>pvdir := ?d f\<rparr>) = ''/host-root'' @ kubelet_dir (podUID meta) @ ''/'' @ de_Name f @ ''/'' @ pvname meta"
    using kubelet_join(3) [OF assms(4) f assms(5)] assms(3) by (simp add: pv_path_def del: filepath_Join.simps)
  ultimately show ?thesis using one more by auto
qed

text \<open>A node whose pod has a volume of type nfs and a secret.\<close>

definition nfs_entries :: "DirEntry list" where
  "nfs_entries = [\<lparr>de_Name = ''kubernetes.io~nfs'', de_IsDir = True\<rparr>, \<lparr>de_Name = ''kubernetes.io~secret'', de_IsDir = True\<rparr>]"

definition two_flags :: "findpvdir_flags \<Rightarrow> string list \<Rightarrow> findpvdir_flags" where
  "two_flags F args = F\<lparr>argPodUid := args ! 1, argStorageType := args ! 3\<rparr>"

definition searching_cluster :: "unit cluster" where
  "searching_cluster = one_node\<lparr>x_Exec := \<lambda>ns pod cmd w. ((None, findpvdir two_flags (\<lambda>d. Inr nfs_entries) (tl cmd)), w)\<rparr>"

theorem restic_gets_the_volume_witness:
  "(\<forall>dep s. fst (locateVolume searching_cluster (demo_meta ''node-a'' ''web-0'' ''data'' '''') dep (demo_pod ''helper'') s) =
    Ret (Inr ''/var/lib/kubelet/pods/web-0-uid/volumes/kubernetes.io~nfs'')) \<and>
   pv_path (demo_meta ''node-a'' ''web-0'' ''data'' ''/var/lib/kubelet/pods/web-0-uid/volumes/kubernetes.io~nfs'') =
    ''/host-root/var/lib/kubelet/pods/web-0-uid/volumes/kubernetes.io~nfs/pv-data''"
proof -
  let ?m = "demo_meta ''node-a'' ''web-0'' ''data'' ''''"
  have "runs_findpvdir searching_cluster two_flags (\<lambda>d. Inr nfs_entries) (p_Name (demo_pod ''helper''))" "pflag_package two_flags"
    by (simp_all add: runs_findpvdir_def pflag_package_def searching_cluster_def two_flags_def)
  moreover have "volumeSource ?m \<notin> {VolumeHostPath, VolumeLocal}" "component (podUID ?m)" "component (pvname ?m)"
    by (simp_all add: demo_meta_def VolumeHostPath_def VolumeLocal_def component_def plain_comp_def is_space_def)
  moreover have "\<forall>f \<in> set nfs_entries. component (de_Name f)"
    by (simp add: nfs_entries_def component_def plain_comp_def is_space_def)
  moreover have "volume_entries (volumeSource ?m) nfs_entries = [\<lparr>de_Name = ''kubernetes.io~nfs'', de_IsDir = True\<rparr>]"
    by (simp add: volume_entries_def nfs_entries_def demo_meta_def)
  ultimately have "\<exists>dir. fst (locateVolume searching_cluster ?m dep (demo_pod ''helper'') s) = Ret (Inr dir) \<and>
      dir = kubelet_dir (podUID ?m) @ ''/kubernetes.io~nfs'' \<and>
      pv_path (?m\<lparr>pvdir := dir\<rparr>) = ''/host-root'' @ kubelet_dir (podUID ?m) @ ''/kubernetes.io~nfs/'' @ pvname ?m" for dep s
    using restic_gets_the_volume [where readDir = "\<lambda>d. Inr nfs_entries" and fs = "[]"] by fastforce
  then show ?thesis by (simp add: demo_meta_def kubelet_dir_def del: filepath_Join.simps)
qed

end
