(* ===== verification/Predicates.thy ===== *)
theory Predicates
  imports ApiServer
begin

text \<open>
  \<^verbatim>\<open>controllers/common/predicate.go\<close> and the event filter of \<^verbatim>\<open>SetupWithManager\<close>: which events of the watched
  objects reach the reconciler. \<^verbatim>\<open>predicate.Funcs\<close> and \<^verbatim>\<open>predicate.Or\<close> belong to controller-runtime and are
  parameters.
\<close>

section \<open>Events and predicates\<close>

datatype event =
    CreateEvent ObjectMeta
  | UpdateEvent ObjectMeta ObjectMeta
  | DeleteEvent ObjectMeta bool
  | GenericEvent ObjectMeta

text \<open>The fields of \<^verbatim>\<open>predicate.Funcs\<close>; \<open>None\<close> is a function that is not given.\<close>

record Funcs =
  CreateFunc :: "(ObjectMeta \<Rightarrow> bool) option"
  UpdateFunc :: "(ObjectMeta \<Rightarrow> ObjectMeta \<Rightarrow> bool) option"
  DeleteFunc :: "(ObjectMeta \<Rightarrow> bool \<Rightarrow> bool) option"
  GenericFunc :: "(ObjectMeta \<Rightarrow> bool) option"

definition noFuncs :: Funcs where
  "noFuncs = \<lparr>CreateFunc = None, UpdateFunc = None, DeleteFunc = None, GenericFunc = None\<rparr>"

record predlib =
  pl_Funcs :: "Funcs \<Rightarrow> event \<Rightarrow> bool"
  pl_Or :: "(event \<Rightarrow> bool) list \<Rightarrow> event \<Rightarrow> bool"

definition generationChanged :: "ObjectMeta \<Rightarrow> ObjectMeta \<Rightarrow> bool" where
  "generationChanged old new = (om_Generation old \<noteq> om_Generation new)"

definition stateKnown :: "ObjectMeta \<Rightarrow> bool \<Rightarrow> bool" where
  "stateKnown ob unknown = (\<not> unknown)"

definition BackupPredicate :: Funcs where
  "BackupPredicate = noFuncs\<lparr>UpdateFunc := Some generationChanged\<rparr>"

definition RestorePredicate :: Funcs where
  "RestorePredicate = noFuncs\<lparr>UpdateFunc := Some generationChanged, DeleteFunc := Some stateKnown\<rparr>"

definition ClonePredicate :: Funcs where
  "ClonePredicate = noFuncs\<lparr>UpdateFunc := Some generationChanged, DeleteFunc := Some stateKnown\<rparr>"

definition MigrationPredicate :: Funcs where
  "MigrationPredicate = noFuncs\<lparr>UpdateFunc := Some generationChanged, DeleteFunc := Some stateKnown\<rparr>"

definition TrafficPredicate :: Funcs where
  "TrafficPredicate = noFuncs\<lparr>UpdateFunc := Some generationChanged, DeleteFunc := Some stateKnown\<rparr>"

definition managed :: "'w kube \<Rightarrow> ObjectMeta \<Rightarrow> bool" where
  "managed K ob = k_LabelsHas K ob LabelPairManagedBy"

definition ServiceAccountPredicate :: "'w kube \<Rightarrow> Funcs" where
  "ServiceAccountPredicate K = noFuncs\<lparr>CreateFunc := Some (managed K),
     UpdateFunc := Some generationChanged, DeleteFunc := Some stateKnown\<rparr>"

definition ClusterRolePredicate :: "'w kube \<Rightarrow> Funcs" where
  "ClusterRolePredicate K = noFuncs\<lparr>CreateFunc := Some (managed K), UpdateFunc := Some generationChanged\<rparr>"

definition ClusterRoleBindingPredicate :: "'w kube \<Rightarrow> Funcs" where
  "ClusterRoleBindingPredicate K =
     noFuncs\<lparr>CreateFunc := Some (managed K), UpdateFunc := Some generationChanged\<rparr>"

text \<open>The filter of the Backup controller, applied to the events of every object it watches.\<close>

definition eventFilter :: "predlib \<Rightarrow> 'w kube \<Rightarrow> event \<Rightarrow> bool" where
  "eventFilter L K = pl_Or L
     [pl_Funcs L BackupPredicate, pl_Funcs L (ServiceAccountPredicate K),
      pl_Funcs L (ClusterRolePredicate K), pl_Funcs L (ClusterRoleBindingPredicate K)]"

section \<open>Documented behaviour\<close>

definition default_true :: "'f option \<Rightarrow> ('f \<Rightarrow> bool) \<Rightarrow> bool" where
  "default_true f call = (case f of None \<Rightarrow> True | Some g \<Rightarrow> call g)"

fun funcs_accept :: "Funcs \<Rightarrow> event \<Rightarrow> bool" where
  "funcs_accept p (CreateEvent ob) = default_true (CreateFunc p) (\<lambda>f. f ob)"
| "funcs_accept p (UpdateEvent old new) = default_true (UpdateFunc p) (\<lambda>f. f old new)"
| "funcs_accept p (DeleteEvent ob unknown) = default_true (DeleteFunc p) (\<lambda>f. f ob unknown)"
| "funcs_accept p (GenericEvent ob) = default_true (GenericFunc p) (\<lambda>f. f ob)"

text \<open>
  A function that is not given accepts the event; \<^verbatim>\<open>Or\<close> accepts what one of its predicates accepts.
\<close>

definition predicate_package :: "predlib \<Rightarrow> bool" where
  "predicate_package L \<longleftrightarrow> (\<forall>p ev. pl_Funcs L p ev = funcs_accept p ev) \<and>
     (\<forall>ps ev. pl_Or L ps ev = list_ex (\<lambda>p. p ev) ps)"

definition std_predicates :: predlib where
  "std_predicates = \<lparr>pl_Funcs = funcs_accept, pl_Or = (\<lambda>ps ev. list_ex (\<lambda>p. p ev) ps)\<rparr>"

lemma std_predicate_package: "predicate_package std_predicates"
  by (simp add: predicate_package_def std_predicates_def)

lemmas predicate_defs = BackupPredicate_def ServiceAccountPredicate_def ClusterRolePredicate_def
  ClusterRoleBindingPredicate_def noFuncs_def generationChanged_def stateKnown_def managed_def

section \<open>Properties\<close>

text \<open>
  C28. The filter of the Backup controller accepts every creation, every deletion and every generic event,
  of any object, and an update exactly when the generation changed. The tests of the managed-by label and
  of deletions in an unknown state have no effect, since the filter takes an event that one of
  the four predicates takes.
\<close>

theorem eventFilter_accepts:
  assumes "predicate_package L"
  shows "eventFilter L K ev = (case ev of
      UpdateEvent old new \<Rightarrow> om_Generation old \<noteq> om_Generation new
    | _ \<Rightarrow> True)"
  using assms
  by (cases ev) (simp_all add: eventFilter_def predicate_package_def predicate_defs default_true_def)

theorem eventFilter_accepts_witness:
  "eventFilter std_predicates mem_kube (CreateEvent emptyMeta) \<and>
   \<not> managed mem_kube emptyMeta \<and>
   eventFilter std_predicates mem_kube (UpdateEvent emptyMeta emptyMeta) = False"
  using eventFilter_accepts [OF std_predicate_package, of mem_kube "CreateEvent emptyMeta"]
    eventFilter_accepts [OF std_predicate_package, of mem_kube "UpdateEvent emptyMeta emptyMeta"]
  by (simp add: managed_def mem_kube_def emptyMeta_def)

end
