(* ===== verification/Startup.thy ===== *)
theory Startup
  imports Reconciler Predicates Cli
begin

text \<open>
  \<^verbatim>\<open>main.go\<close>: how the operator starts, with the registration of its controllers (\<^verbatim>\<open>SetupWithManager\<close>) and of its
  webhooks; the webhooks of the Backup; and the reconcilers of the resources that have no logic yet. The
  manager of controller-runtime is the parameter \<open>manager\<close>. The flags are given as parsed.
\<close>

section \<open>Flags, options and steps\<close>

record flags =
  metricsAddr :: string
  probeAddr :: string
  enableLeaderElection :: bool
  logEncoder :: string
  zapLevel :: int
  printVersion :: bool
  pprofActive :: bool
  webhookEnabled :: bool

text \<open>The defaults of the flags.\<close>

definition defaultFlags :: flags where
  "defaultFlags = \<lparr>metricsAddr = '':8080'', probeAddr = '':8081'', enableLeaderElection = False,
     logEncoder = ''json'', zapLevel = 0, printVersion = False, pprofActive = False, webhookEnabled = False\<rparr>"

record 'c Options =
  o_Scheme :: 'c
  o_MetricsBindAddress :: string
  o_Port :: int
  o_HealthProbeBindAddress :: string
  o_LeaderElection :: bool
  o_LeaderElectionID :: string
  o_Namespace :: string

text \<open>A controller under construction: the kind it is for, the kinds it owns and its event filter.\<close>

record Builder =
  bl_For :: string
  bl_Owns :: "string list"
  bl_EventFilter :: "(event \<Rightarrow> bool) option"

datatype 'c step = NewManager "'c Options" | Controller string | Webhook string | HealthzCheck | ReadyzCheck | Start

datatype 'c start_call =
    GetHandler "halt option"
  | SetLogger string "8 word"
  | Printed string
  | GetConfig "halt option"
  | Step "'c step" "goerr option"

record ('w, 'c) manager =
  mg_CronJobNewOrDie :: "'w \<Rightarrow> halt option \<times> 'w"
  mg_Getenv :: "string \<Rightarrow> string"
  mg_GetConfigOrDie :: "'w \<Rightarrow> halt option \<times> 'w"
  mg_NewManager :: "'c Options \<Rightarrow> 'w \<Rightarrow> goerr option \<times> 'w"
  mg_Complete :: "Builder \<Rightarrow> 'w \<Rightarrow> goerr option \<times> 'w"
  mg_Webhook :: "string \<Rightarrow> 'w \<Rightarrow> goerr option \<times> 'w"
  mg_AddHealthzCheck :: "'w \<Rightarrow> goerr option \<times> 'w"
  mg_AddReadyzCheck :: "'w \<Rightarrow> goerr option \<times> 'w"
  mg_Start :: "'w \<Rightarrow> goerr option \<times> 'w"

type_synonym ('w, 'c) startup = "('w, 'c start_call) world"

definition noted :: "'c start_call \<Rightarrow> (('w, 'c) startup, unit) go" where
  "noted c = modify (\<lambda>s. s\<lparr>calls := calls s @ [c]\<rparr>)"

section \<open>Controllers\<close>

definition backupController :: "predlib \<Rightarrow> 'k kube \<Rightarrow> Builder" where
  "backupController L K = \<lparr>bl_For = KindBackup,
     bl_Owns = [''CronJob'', ''ServiceAccount'', ''ClusterRole'', ''ClusterRoleBinding''],
     bl_EventFilter = Some (eventFilter L K)\<rparr>"

definition restoreController :: Builder where
  "restoreController = \<lparr>bl_For = ''Restore'', bl_Owns = [], bl_EventFilter = None\<rparr>"
definition cloneController :: Builder where
  "cloneController = \<lparr>bl_For = ''Clone'', bl_Owns = [], bl_EventFilter = None\<rparr>"
definition migrationController :: Builder where
  "migrationController = \<lparr>bl_For = ''Migration'', bl_Owns = [], bl_EventFilter = None\<rparr>"
definition trafficController :: Builder where
  "trafficController = \<lparr>bl_For = ''Traffic'', bl_Owns = [], bl_EventFilter = None\<rparr>"

text \<open>The reconcilers without logic: they make no call and ask for nothing.\<close>

definition RestoreReconcile :: "NamespacedName \<Rightarrow> ('w operator, reply) go" where
  "RestoreReconcile req = ret (noRequeue, None)"
definition CloneReconcile :: "NamespacedName \<Rightarrow> ('w operator, reply) go" where
  "CloneReconcile req = ret (noRequeue, None)"
definition MigrationReconcile :: "NamespacedName \<Rightarrow> ('w operator, reply) go" where
  "MigrationReconcile req = ret (noRequeue, None)"
definition TrafficReconcile :: "NamespacedName \<Rightarrow> ('w operator, reply) go" where
  "TrafficReconcile req = ret (noRequeue, None)"

section \<open>The webhooks of the Backup\<close>

definition Default :: "Backup \<Rightarrow> Backup" where "Default b = b"
definition ValidateCreate :: "Backup \<Rightarrow> goerr option" where "ValidateCreate b = None"
definition ValidateUpdate :: "Backup \<Rightarrow> Backup \<Rightarrow> goerr option" where "ValidateUpdate b old = None"
definition ValidateDelete :: "Backup \<Rightarrow> goerr option" where "ValidateDelete b = None"

section \<open>main.go\<close>

text \<open>\<^verbatim>\<open>zapcore.Level\<close> is an 8-bit integer: the conversion keeps the low byte of the flag.\<close>

definition customSetupLogging :: "8 word \<Rightarrow> string \<Rightarrow> (('w, 'c) startup, goerr option) go" where
  "customSetupLogging level encoder =
     (if encoder = ''console'' \<or> encoder = ''json'' then gobind (noted (SetLogger encoder level)) (\<lambda>_. ret None)
      else ret (Some (Errorf (Sprintf ''unknow log encoder: %s'' [encoder]))))"

definition mgrOpts :: "('w, 'c) manager \<Rightarrow> 'c \<Rightarrow> flags \<Rightarrow> 'c Options" where
  "mgrOpts M scheme F =
     (let operatorNamespace = mg_Getenv M ''NAMESPACE'';
          opts = \<lparr>o_Scheme = scheme, o_MetricsBindAddress = metricsAddr F, o_Port = 9443, o_HealthProbeBindAddress = probeAddr F,
            o_LeaderElection = enableLeaderElection F, o_LeaderElectionID = ''ef6e0032.hybfkuf.io'', o_Namespace = []\<rparr>
      in if length operatorNamespace \<noteq> 0 then opts\<lparr>o_Namespace := operatorNamespace\<rparr> else opts)"

text \<open>A step whose error is logged and ends the process with status 1.\<close>

definition must :: "'c step \<Rightarrow> ('w \<Rightarrow> goerr option \<times> 'w) \<Rightarrow> (('w, 'c) startup, unit) go" where
  "must st f = gobind (call_ext (Step st) f) (\<lambda>err. case err of None \<Rightarrow> ret () | Some e \<Rightarrow> halting (Exit 1))"

definition Traffic_SetupWebhookWithManager :: "('w, 'c) manager \<Rightarrow> 'w \<Rightarrow> goerr option \<times> 'w" where
  "Traffic_SetupWebhookWithManager M = mg_Webhook M ''Traffic''"
definition Backup_SetupWebhookWithManager :: "('w, 'c) manager \<Rightarrow> 'w \<Rightarrow> goerr option \<times> 'w" where
  "Backup_SetupWebhookWithManager M = mg_Webhook M ''Backup''"
definition Restore_SetupWebhookWithManager :: "('w, 'c) manager \<Rightarrow> 'w \<Rightarrow> goerr option \<times> 'w" where
  "Restore_SetupWebhookWithManager M = mg_Webhook M ''Restore''"
definition Clone_SetupWebhookWithManager :: "('w, 'c) manager \<Rightarrow> 'w \<Rightarrow> goerr option \<times> 'w" where
  "Clone_SetupWebhookWithManager M = mg_Webhook M ''Clone''"
definition Migration_SetupWebhookWithManager :: "('w, 'c) manager \<Rightarrow> 'w \<Rightarrow> goerr option \<times> 'w" where
  "Migration_SetupWebhookWithManager M = mg_Webhook M ''Migration''"

definition setupWebhooks :: "('w, 'c) manager \<Rightarrow> (('w, 'c) startup, unit) go" where
  "setupWebhooks M = seqG
     [must (Webhook ''Traffic'') (Traffic_SetupWebhookWithManager M),
      must (Webhook ''Backup'') (Backup_SetupWebhookWithManager M),
      must (Webhook ''Restore'') (Restore_SetupWebhookWithManager M), must (Webhook ''Clone'') (Clone_SetupWebhookWithManager M),
      must (Webhook ''Migration'') (Migration_SetupWebhookWithManager M)]"

definition startManager :: "('w, 'c) manager \<Rightarrow> predlib \<Rightarrow> 'k kube \<Rightarrow> 'c \<Rightarrow> flags \<Rightarrow> (('w, 'c) startup, unit) go" where
  "startManager M L K scheme F = seqG
     [must (NewManager (mgrOpts M scheme F)) (mg_NewManager M (mgrOpts M scheme F)),
      must (Controller ''Backup'') (mg_Complete M (backupController L K)),
      must (Controller ''Restore'') (mg_Complete M restoreController),
      must (Controller ''Clone'') (mg_Complete M cloneController),
      must (Controller ''Migration'') (mg_Complete M migrationController),
      must (Controller ''Traffic'') (mg_Complete M trafficController),
      if webhookEnabled F then setupWebhooks M else ret (),
      must HealthzCheck (mg_AddHealthzCheck M),
      must ReadyzCheck (mg_AddReadyzCheck M),
      must Start (mg_Start M)]"

definition main :: "('w, 'c) manager \<Rightarrow> predlib \<Rightarrow> 'k kube \<Rightarrow> 'c \<Rightarrow> build_info \<Rightarrow> flags \<Rightarrow> (('w, 'c) startup, unit) go" where
  "main M L K scheme info F =
     gobind (customSetupLogging (word_of_int (zapLevel F)) (logEncoder F)) (\<lambda>err.
       case err of
         Some e \<Rightarrow> halting (Exit 1)
       | None \<Rightarrow>
           if printVersion F then
             gobind (noted (Printed (PrintVersionWriter info [] ''text''))) (\<lambda>_. halting (Exit 0))
           else
             gobind (call_ext GetConfig (mg_GetConfigOrDie M)) (\<lambda>died.
               case died of
                 Some h \<Rightarrow> halting h
               | None \<Rightarrow> startManager M L K scheme F))"

section \<open>The start-up sequence\<close>

text \<open>The steps in their order; the webhooks only when they are enabled.\<close>

definition plan :: "('w, 'c) manager \<Rightarrow> 'c \<Rightarrow> flags \<Rightarrow> 'c step list" where
  "plan M scheme F = [NewManager (mgrOpts M scheme F)] @ map Controller [''Backup'', ''Restore'', ''Clone'', ''Migration'', ''Traffic''] @
     (if webhookEnabled F then map Webhook [''Traffic'', ''Backup'', ''Restore'', ''Clone'', ''Migration''] else []) @
     [HealthzCheck, ReadyzCheck, Start]"

text \<open>
  A run of a plan: its steps in order, all successful and the process goes on; or up to the first one that
  fails, and the process has exited with status 1.
\<close>

inductive ran :: "'c step list \<Rightarrow> 'c start_call list \<Rightarrow> unit outcome \<Rightarrow> bool" where
  finished: "ran [] [] (Ret ())"
| continues: "ran sts cs r \<Longrightarrow> ran (st # sts) (Step st None # cs) r"
| failed: "ran (st # sts) [Step st (Some e)] (Halt (Exit 1))"

lemma ran_append:
  "ran xs cs r \<Longrightarrow> (case r of Ret u \<Rightarrow> ran ys ds q | Halt h \<Rightarrow> ds = [] \<and> q = Halt h) \<Longrightarrow> ran (xs @ ys) (cs @ ds) q"
  by (induction rule: ran.induct) (auto intro: ran.intros)

text \<open>The contract of a part of the start-up: it runs its plan.\<close>

locale startup_part =
  fixes m :: "(('w, 'c) startup, unit) go" and sts :: "'c step list"
  assumes runs: "wp m (\<lambda>r t. \<exists>new. calls t = calls s @ new \<and> ran sts new r) s"
begin

lemma then_part:
  assumes "\<And>s. wp n (\<lambda>r t. \<exists>new. calls t = calls s @ new \<and> ran sts' new r) s"
  shows "wp (gobind m (\<lambda>_. n)) (\<lambda>r t. \<exists>new. calls t = calls s @ new \<and> ran (sts @ sts') new r) s"
  unfolding wp_gobind
proof (rule wp_conseq [OF runs], goal_cases)
  case (1 r t)
  then obtain cs where cs: "calls t = calls s @ cs" "ran sts cs r" by blast
  show ?case
  proof (cases r)
    case (Ret u)
    show ?thesis
      unfolding Ret outcome.case
    proof (rule wp_conseq [OF assms], goal_cases)
      case (1 q v)
      then obtain ds where "calls v = calls t @ ds" "ran sts' ds q" by blast
      with cs Ret ran_append [OF cs(2), of sts' ds q] show ?case by auto
    qed
  next
    case (Halt h)
    with cs ran_append [OF cs(2), of sts' "[]" "Halt h"] show ?thesis by auto
  qed
qed

end

lemma must_runs: "wp (must st f) (\<lambda>r t. \<exists>new. calls t = calls s @ new \<and> ran [st] new r) s"
  unfolding must_def by (auto simp: wp_simps split: option.split intro!: wp_call_ext ran.intros)

interpretation single: startup_part "must st f" "[st]" for st f
  by unfold_locales (rule must_runs)

lemmas must_then = single.then_part [simplified]

lemma nothing_runs: "wp (ret ()) (\<lambda>r t. \<exists>new. calls t = calls s @ new \<and> ran [] new r) s"
  by (auto simp: wp_simps intro: ran.intros)

interpretation hooks: startup_part "setupWebhooks M"
  "map Webhook [''Traffic'', ''Backup'', ''Restore'', ''Clone'', ''Migration'']" for M
  unfolding setupWebhooks_def seqG.simps list.map by unfold_locales (intro must_then nothing_runs)

lemma startManager_runs:
  "wp (startManager M L K scheme F) (\<lambda>r t. \<exists>new. calls t = calls s @ new \<and> ran (plan M scheme F) new r) s"
proof (cases "webhookEnabled F")
  case True
  then show ?thesis
    unfolding startManager_def plan_def
    by (simp only: seqG.simps list.map append.simps if_True)
      (intro must_then hooks.then_part [simplified] nothing_runs)
next
  case False
  have "gobind (ret ()) (\<lambda>_. m) = m" for m :: "(('a, 'b) startup, unit) go"
    by (simp add: fun_eq_iff go_run)
  with False show ?thesis
    unfolding startManager_def plan_def
    by (simp only: seqG.simps list.map append.simps if_False) (intro must_then nothing_runs)
qed

text \<open>What a whole start has done and how it has ended.\<close>

definition started :: "('w, 'c) manager \<Rightarrow> 'c \<Rightarrow> build_info \<Rightarrow> flags \<Rightarrow> 'c start_call list \<Rightarrow> unit outcome \<Rightarrow> bool" where
  "started M scheme info F new r =
     (if logEncoder F \<notin> {''console'', ''json''} then new = [] \<and> r = Halt (Exit 1)
      else if printVersion F then
        new = [SetLogger (logEncoder F) (word_of_int (zapLevel F)), Printed (printVersionText info)] \<and> r = Halt (Exit 0)
      else \<exists>died rest. new = SetLogger (logEncoder F) (word_of_int (zapLevel F)) # GetConfig died # rest \<and>
        (case died of Some h \<Rightarrow> rest = [] \<and> r = Halt h | None \<Rightarrow> ran (plan M scheme F) rest r))"

text \<open>
  For every manager and scheme, \<^verbatim>\<open>main\<close> goes through its steps in order; the first one that fails is the last one made.
\<close>

lemma main_runs:
  "wp (main M L K scheme info F) (\<lambda>r t. \<exists>new. calls t = calls s @ new \<and> started M scheme info F new r) s"
proof -
  have run: "wp (startManager M L K scheme F) (\<lambda>r t. \<exists>new. calls t = calls s @ new \<and> started M scheme info F new r) t"
    if "logEncoder F \<in> {''console'', ''json''}" "\<not> printVersion F"
      "calls t = calls s @ [SetLogger (logEncoder F) (word_of_int (zapLevel F)), GetConfig None]" for t
    by (rule wp_conseq [OF startManager_runs]) (use that in \<open>auto simp: started_def\<close>)
  show ?thesis
    unfolding main_def customSetupLogging_def noted_def
    by (auto simp: wp_simps PrintVersionWriter_def started_def [of _ _ _ _ _ "Halt _"] split: option.split
        intro!: wp_call_ext run)
qed

end
