(* ===== verification/Program.thy ===== *)
theory Program
  imports Startup
begin

text \<open>
  The operator as a program: what the Go runtime does before \<^verbatim>\<open>main\<close>, and \<^verbatim>\<open>main\<close> after it. The packages of the two API groups
  make a builder each (\<^verbatim>\<open>groupversion_info.go\<close>) and the files of their types register with it in their \<^verbatim>\<open>init\<close> functions; the
  package of the controllers makes its CronJob handler; \<^verbatim>\<open>main.go\<close> makes the scheme and adds the groups to it in its
  own \<^verbatim>\<open>init\<close>. \<^verbatim>\<open>runtime.Scheme\<close> and the builder of controller-runtime are the parameter \<open>schemelib\<close>.
\<close>

section \<open>Registration of the types\<close>

record ('b, 'c) schemelib =
  sl_NewScheme :: 'c
  sl_NewBuilder :: "GroupVersion \<Rightarrow> 'b"
  sl_Register :: "string list \<Rightarrow> 'b \<Rightarrow> 'b"
  sl_AddToScheme :: "'b \<Rightarrow> 'c \<Rightarrow> goerr option \<times> 'c"
  sl_ClientGoAddToScheme :: "'c \<Rightarrow> goerr option \<times> 'c"
  sl_Recognizes :: "'c \<Rightarrow> GroupVersion \<Rightarrow> string \<Rightarrow> bool"

text \<open>The package variables \<^verbatim>\<open>SchemeBuilder\<close>: pointers, so that what is registered later reaches the \<^verbatim>\<open>AddToScheme\<close> bound to them.\<close>

record 'b builders =
  storageBuilder :: 'b
  networkingBuilder :: 'b

definition newBuilders :: "('b, 'c) schemelib \<Rightarrow> 'b builders" where
  "newBuilders SL = \<lparr>storageBuilder = sl_NewBuilder SL storage_GroupVersion,
     networkingBuilder = sl_NewBuilder SL networking_GroupVersion\<rparr>"

definition Traffic_init :: "('b, 'c) schemelib \<Rightarrow> 'b builders \<Rightarrow> 'b builders" where
  "Traffic_init SL g = g\<lparr>networkingBuilder := sl_Register SL [''Traffic'', ''TrafficList''] (networkingBuilder g)\<rparr>"
definition Backup_init :: "('b, 'c) schemelib \<Rightarrow> 'b builders \<Rightarrow> 'b builders" where
  "Backup_init SL g = g\<lparr>storageBuilder := sl_Register SL [''Backup'', ''BackupList''] (storageBuilder g)\<rparr>"
definition Clone_init :: "('b, 'c) schemelib \<Rightarrow> 'b builders \<Rightarrow> 'b builders" where
  "Clone_init SL g = g\<lparr>storageBuilder := sl_Register SL [''Clone'', ''CloneList''] (storageBuilder g)\<rparr>"
definition Migration_init :: "('b, 'c) schemelib \<Rightarrow> 'b builders \<Rightarrow> 'b builders" where
  "Migration_init SL g = g\<lparr>storageBuilder := sl_Register SL [''Migration'', ''MigrationList''] (storageBuilder g)\<rparr>"
definition Restore_init :: "('b, 'c) schemelib \<Rightarrow> 'b builders \<Rightarrow> 'b builders" where
  "Restore_init SL g = g\<lparr>storageBuilder := sl_Register SL [''Restore'', ''RestoreList''] (storageBuilder g)\<rparr>"

text \<open>The init functions of a package run in the order of its files.\<close>

definition api_packages :: "('b, 'c) schemelib \<Rightarrow> 'b builders" where
  "api_packages SL =
     Restore_init SL (Migration_init SL (Clone_init SL (Backup_init SL (Traffic_init SL (newBuilders SL)))))"

text \<open>\<^verbatim>\<open>utilruntime.Must\<close> panics on an error.\<close>

definition Must :: "goerr option \<times> 'c \<Rightarrow> 'c outcome" where
  "Must r = (case r of (None, c) \<Rightarrow> Ret c | (Some e, c) \<Rightarrow> Halt Panic)"

definition main_init :: "('b, 'c) schemelib \<Rightarrow> 'b builders \<Rightarrow> 'c outcome" where
  "main_init SL g =
     (case Must (sl_ClientGoAddToScheme SL (sl_NewScheme SL)) of
        Halt h \<Rightarrow> Halt h
      | Ret c \<Rightarrow>
          (case Must (sl_AddToScheme SL (storageBuilder g) c) of
             Halt h \<Rightarrow> Halt h
           | Ret d \<Rightarrow> Must (sl_AddToScheme SL (networkingBuilder g) d)))"

section \<open>The program\<close>

text \<open>\<^verbatim>\<open>cjHandler\<close> is made when the package of the controllers is initialised, which is before \<^verbatim>\<open>main\<close> and its flags.\<close>

definition cjHandler :: "('w, 'c) manager \<Rightarrow> (('w, 'c) startup, unit) go" where
  "cjHandler M = gobind (call_ext GetHandler (mg_CronJobNewOrDie M)) (\<lambda>died.
     case died of Some h \<Rightarrow> halting h | None \<Rightarrow> ret ())"

definition program ::
  "('w, 'c) manager \<Rightarrow> ('b, 'c) schemelib \<Rightarrow> predlib \<Rightarrow> 'k kube \<Rightarrow> build_info \<Rightarrow> flags \<Rightarrow> (('w, 'c) startup, unit) go" where
  "program M SL L K info F =
     gobind (cjHandler M) (\<lambda>_.
       case main_init SL (api_packages SL) of
         Halt h \<Rightarrow> halting h
       | Ret scheme \<Rightarrow> main M L K scheme info F)"

section \<open>What is registered\<close>

text \<open>
  The documented behaviour of the builder and the scheme: \<open>known b\<close> are the types a builder holds and \<open>gv b\<close> their group. Adding
  a builder that holds something succeeds, makes its types known and forgets none; the scheme of client-go holds the kinds of Kubernetes.
\<close>

definition storageTypes :: "string set" where "storageTypes = {''Backup'', ''Clone'', ''Migration'', ''Restore''}"
definition storageLists :: "string set" where
  "storageLists = {''BackupList'', ''CloneList'', ''MigrationList'', ''RestoreList''}"
definition networkingTypes :: "string set" where "networkingTypes = {''Traffic'', ''TrafficList''}"
definition ownedTypes :: "string set" where
  "ownedTypes = {''CronJob'', ''ServiceAccount'', ''ClusterRole'', ''ClusterRoleBinding''}"

definition scheme_package ::
  "('b, 'c) schemelib \<Rightarrow> ('b \<Rightarrow> string set) \<Rightarrow> ('b \<Rightarrow> GroupVersion) \<Rightarrow> bool" where
  "scheme_package SL known gv \<longleftrightarrow>
     (\<forall>v. known (sl_NewBuilder SL v) = {} \<and> gv (sl_NewBuilder SL v) = v) \<and>
     (\<forall>ts b. known (sl_Register SL ts b) = known b \<union> set ts \<and> gv (sl_Register SL ts b) = gv b) \<and>
     (\<forall>b c. fst (sl_AddToScheme SL b c) = None \<and>
        (\<forall>v t. sl_Recognizes SL c v t \<or> v = gv b \<and> t \<in> known b \<longrightarrow>
           sl_Recognizes SL (snd (sl_AddToScheme SL b c)) v t)) \<and>
     (\<forall>c. fst (sl_ClientGoAddToScheme SL c) = None \<and>
        (\<forall>t \<in> ownedTypes. \<exists>v. sl_Recognizes SL (snd (sl_ClientGoAddToScheme SL c)) v t))"

lemma Must_ok: "fst r = None \<Longrightarrow> Must r = Ret (snd r)"
  by (cases r) (simp add: Must_def)

lemma registered:
  assumes "scheme_package SL known gv"
  shows "known (storageBuilder (api_packages SL)) = storageTypes \<union> storageLists"
    and "gv (storageBuilder (api_packages SL)) = storage_GroupVersion"
    and "known (networkingBuilder (api_packages SL)) = networkingTypes"
    and "gv (networkingBuilder (api_packages SL)) = networking_GroupVersion"
  using assms
  by (auto simp: scheme_package_def api_packages_def newBuilders_def Traffic_init_def Backup_init_def
      Clone_init_def Migration_init_def Restore_init_def storageTypes_def storageLists_def networkingTypes_def)

lemma scheme_laws:
  assumes "scheme_package SL known gv"
  shows "fst (sl_ClientGoAddToScheme SL c) = None" "fst (sl_AddToScheme SL b c) = None"
    "sl_Recognizes SL c v t \<Longrightarrow> sl_Recognizes SL (snd (sl_AddToScheme SL b c)) v t"
    "t \<in> known b \<Longrightarrow> sl_Recognizes SL (snd (sl_AddToScheme SL b c)) (gv b) t"
    "t \<in> ownedTypes \<Longrightarrow> \<exists>v. sl_Recognizes SL (snd (sl_ClientGoAddToScheme SL c)) v t"
  using assms by (simp_all add: scheme_package_def)

lemma main_init_scheme:
  assumes "scheme_package SL known gv"
  obtains S where "main_init SL (api_packages SL) = Ret S"
    "\<And>t. t \<in> storageTypes \<union> storageLists \<Longrightarrow> sl_Recognizes SL S storage_GroupVersion t"
    "\<And>t. t \<in> networkingTypes \<Longrightarrow> sl_Recognizes SL S networking_GroupVersion t"
    "\<And>t. t \<in> ownedTypes \<Longrightarrow> \<exists>v. sl_Recognizes SL S v t"
proof -
  let ?g = "api_packages SL"
  let ?c = "snd (sl_ClientGoAddToScheme SL (sl_NewScheme SL))"
  let ?d = "snd (sl_AddToScheme SL (storageBuilder ?g) ?c)"
  let ?e = "snd (sl_AddToScheme SL (networkingBuilder ?g) ?d)"
  note laws = scheme_laws [OF assms]
  have "main_init SL ?g = Ret ?e" by (simp add: main_init_def Must_ok laws(1,2))
  then show thesis
  proof (rule that)
    fix t assume "t \<in> ownedTypes"
    from laws(5) [OF this] obtain v where "sl_Recognizes SL ?c v t" by blast
    from laws(3) [OF laws(3) [OF this]] show "\<exists>v. sl_Recognizes SL ?e v t" by blast
  next
    fix t assume "t \<in> storageTypes \<union> storageLists"
    then have "sl_Recognizes SL ?d storage_GroupVersion t"
      using laws(4) [of t "storageBuilder ?g"] by (simp add: registered [OF assms])
    then show "sl_Recognizes SL ?e storage_GroupVersion t" by (rule laws(3))
  next
    fix t assume "t \<in> networkingTypes"
    then show "sl_Recognizes SL ?e networking_GroupVersion t"
      using laws(4) [of t "networkingBuilder ?g"] by (simp add: registered [OF assms])
  qed
qed

section \<open>The operator starts\<close>

text \<open>
  The documented behaviour of a manager that can reach its cluster: \<open>scheme_of\<close> is the scheme it was made with. A
  controller and a webhook are accepted if their types are in the scheme.
\<close>

definition manager_accepts ::
  "('w, 'c) manager \<Rightarrow> ('b, 'c) schemelib \<Rightarrow> ('w \<Rightarrow> 'c option) \<Rightarrow> bool" where
  "manager_accepts M SL scheme_of \<longleftrightarrow>
     (\<forall>w. fst (mg_CronJobNewOrDie M w) = None \<and> fst (mg_GetConfigOrDie M w) = None) \<and>
     (\<forall>opts w. fst (mg_NewManager M opts w) = None \<and> scheme_of (snd (mg_NewManager M opts w)) = Some (o_Scheme opts)) \<and>
     (\<forall>B w S. scheme_of w = Some S \<longrightarrow> scheme_of (snd (mg_Complete M B w)) = Some S \<and>
        ((\<forall>t \<in> set (bl_For B # bl_Owns B). \<exists>v. sl_Recognizes SL S v t) \<longrightarrow> fst (mg_Complete M B w) = None)) \<and>
     (\<forall>t w S. scheme_of w = Some S \<longrightarrow> scheme_of (snd (mg_Webhook M t w)) = Some S \<and>
        ((\<exists>v. sl_Recognizes SL S v t) \<longrightarrow> fst (mg_Webhook M t w) = None)) \<and>
     (\<forall>f \<in> {mg_AddHealthzCheck M, mg_AddReadyzCheck M, mg_Start M}. \<forall>w.
        fst (f w) = None \<and> scheme_of (snd (f w)) = scheme_of w)"

text \<open>A part of the start-up that makes its steps, all successful, and keeps \<open>P\<close>.\<close>

definition goes :: "('w \<Rightarrow> bool) \<Rightarrow> (('w, 'c) startup, unit) go \<Rightarrow> 'c step list \<Rightarrow> ('w \<Rightarrow> bool) \<Rightarrow> bool" where
  "goes P m sts Q \<longleftrightarrow> (\<forall>s. P (ext s) \<longrightarrow>
     (\<exists>t. m s = (Ret (), t) \<and> Q (ext t) \<and> calls t = calls s @ map (\<lambda>st. Step st None) sts))"

lemma goes_must:
  "(\<And>w. P w \<Longrightarrow> fst (f w) = None \<and> Q (snd (f w))) \<Longrightarrow> goes P (must st f) [st] Q"
  by (auto simp: goes_def must_def go_run call_ext_run)

lemma goes_then:
  assumes "goes P m xs Q" "goes Q n ys R"
  shows "goes P (gobind m (\<lambda>_. n)) (xs @ ys) R"
  unfolding goes_def
proof (intro allI impI)
  fix s :: "('a, 'b) startup"
  assume "P (ext s)"
  with assms(1) obtain t where t: "m s = (Ret (), t)" "Q (ext t)" "calls t = calls s @ map (\<lambda>st. Step st None) xs"
    unfolding goes_def by blast
  from assms(2) t(2) obtain u where "n t = (Ret (), u)" "R (ext u)" "calls u = calls t @ map (\<lambda>st. Step st None) ys"
    unfolding goes_def by blast
  with t show "\<exists>u. gobind m (\<lambda>_. n) s = (Ret (), u) \<and> R (ext u) \<and>
      calls u = calls s @ map (\<lambda>st. Step st None) (xs @ ys)"
    by (simp add: go_run)
qed

lemma goes_ret: "goes P (ret ()) [] P"
  by (simp add: goes_def ret_run)

lemmas goes_step = goes_then [OF goes_must, simplified append.simps]

lemma startManager_goes:
  assumes acc: "manager_accepts M SL scheme_of"
    and own: "\<And>t. t \<in> storageTypes \<union> networkingTypes \<union> ownedTypes \<Longrightarrow> \<exists>v. sl_Recognizes SL S v t"
  shows "goes (\<lambda>_. True) (startManager M L K S F) (plan M S F) (\<lambda>w. scheme_of w = Some S)"
proof -
  let ?P = "\<lambda>w. scheme_of w = Some S"
  have new: "fst (mg_NewManager M (mgrOpts M S F) w) = None \<and> ?P (snd (mg_NewManager M (mgrOpts M S F) w))" for w
    using acc by (simp add: manager_accepts_def mgrOpts_def Let_def)
  have laws: "?P w \<Longrightarrow> \<forall>t \<in> set (bl_For B # bl_Owns B). \<exists>v. sl_Recognizes SL S v t \<Longrightarrow>
      fst (mg_Complete M B w) = None \<and> ?P (snd (mg_Complete M B w))"
    "?P w \<Longrightarrow> \<exists>v. sl_Recognizes SL S v t \<Longrightarrow> fst (mg_Webhook M t w) = None \<and> ?P (snd (mg_Webhook M t w))" for B t w
    using acc by (simp_all add: manager_accepts_def)
  let ?kinds = "storageTypes \<union> networkingTypes \<union> ownedTypes"
  have complete: "?P w \<Longrightarrow> set (bl_For B # bl_Owns B) \<subseteq> ?kinds \<Longrightarrow>
      fst (mg_Complete M B w) = None \<and> ?P (snd (mg_Complete M B w))" for B w
    using own by (intro laws(1)) blast+
  have webhook: "?P w \<Longrightarrow> t \<in> ?kinds \<Longrightarrow> fst (mg_Webhook M t w) = None \<and> ?P (snd (mg_Webhook M t w))" for t w
    using own by (intro laws(2)) blast+
  have rest: "?P w \<Longrightarrow> fst (mg_AddHealthzCheck M w) = None \<and> ?P (snd (mg_AddHealthzCheck M w))"
    "?P w \<Longrightarrow> fst (mg_AddReadyzCheck M w) = None \<and> ?P (snd (mg_AddReadyzCheck M w))"
    "?P w \<Longrightarrow> fst (mg_Start M w) = None \<and> ?P (snd (mg_Start M w))" for w
    using acc by (simp_all add: manager_accepts_def)
  note types = storageTypes_def networkingTypes_def ownedTypes_def
  note kinds = types KindBackup_def backupController_def restoreController_def cloneController_def migrationController_def trafficController_def
  have "goes ?P (setupWebhooks M) (map Webhook [''Traffic'', ''Backup'', ''Restore'', ''Clone'', ''Migration'']) ?P"
    unfolding setupWebhooks_def seqG.simps list.map Traffic_SetupWebhookWithManager_def Backup_SetupWebhookWithManager_def
      Restore_SetupWebhookWithManager_def Clone_SetupWebhookWithManager_def Migration_SetupWebhookWithManager_def
    by (intro goes_step [where Q = ?P] goes_ret [of ?P] webhook) (simp_all add: types)
  then have hooks: "goes ?P (if webhookEnabled F then setupWebhooks M else ret ())
      (if webhookEnabled F then map Webhook [''Traffic'', ''Backup'', ''Restore'', ''Clone'', ''Migration''] else []) ?P"
    by (simp add: goes_ret)
  show ?thesis
    unfolding startManager_def plan_def seqG.simps list.map append.simps
    by (intro goes_step [where Q = ?P] goes_then [OF hooks [unfolded list.map]] goes_ret [of ?P] new complete rest) (simp_all add: kinds)
qed


lemma call_logged: "fst (f (ext s)) = None \<Longrightarrow>
    call_ext ev f s = (Ret None, s\<lparr>ext := snd (f (ext s)), calls := calls s @ [ev None]\<rparr>)"
  by (simp add: call_ext_run)

text \<open>
  C36. The operator starts: against a manager that accepts every controller and webhook whose types are in its scheme, the program
  reaches the start of the manager without an error and without an exit, whatever its flags are but a wrong log encoder and
  the request for its version. So every type that \<^verbatim>\<open>main\<close> sets up a controller or a webhook for, and every type a controller
  owns, has been registered before.
\<close>

theorem operator_starts:
  assumes "scheme_package SL known gv" and acc: "manager_accepts M SL scheme_of"
    and flags: "logEncoder F \<in> {''console'', ''json''}" "\<not> printVersion F"
  shows "\<exists>S t. program M SL L K info F s = (Ret (), t) \<and> scheme_of (ext t) = Some S \<and>
    calls t = calls s @ [GetHandler None, SetLogger (logEncoder F) (word_of_int (zapLevel F)), GetConfig None] @
      map (\<lambda>st. Step st None) (plan M S F)"
proof -
  from main_init_scheme [OF assms(1)] obtain S where S: "main_init SL (api_packages SL) = Ret S"
    "\<And>t. t \<in> storageTypes \<union> storageLists \<Longrightarrow> sl_Recognizes SL S storage_GroupVersion t"
    "\<And>t. t \<in> networkingTypes \<Longrightarrow> sl_Recognizes SL S networking_GroupVersion t"
    "\<And>t. t \<in> ownedTypes \<Longrightarrow> \<exists>v. sl_Recognizes SL S v t" by blast
  let ?w = "snd (mg_GetConfigOrDie M (snd (mg_CronJobNewOrDie M (ext s))))"
  let ?new = "[GetHandler None, SetLogger (logEncoder F) (word_of_int (zapLevel F)), GetConfig None]"
  let ?u = "s\<lparr>ext := ?w, calls := calls s @ ?new\<rparr>"
  have "goes (\<lambda>_. True) (startManager M L K S F) (plan M S F) (\<lambda>w. scheme_of w = Some S)"
    by (rule startManager_goes [OF acc]) (use S(2-4) in blast)
  then obtain t where t: "startManager M L K S F ?u = (Ret (), t)" "scheme_of (ext t) = Some S"
    "calls t = calls s @ ?new @ map (\<lambda>st. Step st None) (plan M S F)"
    unfolding goes_def by (drule_tac spec [of _ ?u]) auto
  have "fst (mg_CronJobNewOrDie M w) = None" "fst (mg_GetConfigOrDie M w) = None" for w
    using acc by (simp_all add: manager_accepts_def)
  moreover have "logEncoder F = ''console'' \<or> logEncoder F = ''json''" using flags(1) by simp
  ultimately have "program M SL L K info F s = startManager M L K S F ?u"
    using flags(2) S(1)
    by (simp add: program_def cjHandler_def main_def customSetupLogging_def noted_def go_run call_logged modify_def)
  with t show ?thesis by (intro exI [of _ S] exI [of _ t]) simp
qed

section \<open>A scheme and a manager in memory\<close>

definition mem_schemelib :: "(GroupVersion \<times> string list, (GroupVersion \<times> string) list) schemelib" where
  "mem_schemelib = \<lparr>sl_NewScheme = [], sl_NewBuilder = (\<lambda>v. (v, [])),
     sl_Register = (\<lambda>ts b. (fst b, snd b @ ts)),
     sl_AddToScheme = (\<lambda>b c. (None, c @ map (Pair (fst b)) (snd b))),
     sl_ClientGoAddToScheme = (\<lambda>c. (None, c @ map (Pair \<lparr>gv_Group = ''k8s.io'', gv_Version = ''v1''\<rparr>)
        [''CronJob'', ''ServiceAccount'', ''ClusterRole'', ''ClusterRoleBinding''])),
     sl_Recognizes = (\<lambda>c v t. (v, t) \<in> set c)\<rparr>"

definition mem_manager :: "((GroupVersion \<times> string) list option, (GroupVersion \<times> string) list) manager" where
  "mem_manager =
     (let has = (\<lambda>t w. case w of None \<Rightarrow> False | Some c \<Rightarrow> t \<in> set (map snd c)); ok = Pair None;
          check = (\<lambda>b. if b then None else Some (Errorf ''no kind is registered''))
      in \<lparr>mg_CronJobNewOrDie = Pair None, mg_Getenv = (\<lambda>n. []), mg_GetConfigOrDie = Pair None,
        mg_NewManager = (\<lambda>opts w. (None, Some (o_Scheme opts))),
        mg_Complete = (\<lambda>B w. (check (list_all (\<lambda>t. has t w) (bl_For B # bl_Owns B)), w)),
        mg_Webhook = (\<lambda>t w. (check (has t w), w)),
        mg_AddHealthzCheck = ok, mg_AddReadyzCheck = ok, mg_Start = ok\<rparr>)"

lemma mem_scheme_package: "scheme_package mem_schemelib (\<lambda>b. set (snd b)) fst"
  by (auto simp: scheme_package_def mem_schemelib_def ownedTypes_def)

lemma mem_manager_accepts: "manager_accepts mem_manager mem_schemelib (\<lambda>w. w)"
  unfolding manager_accepts_def
  by (auto simp: mem_manager_def mem_schemelib_def Let_def list_all_iff image_iff) (metis snd_conv)+

definition sample_build :: build_info where
  "sample_build = \<lparr>Version = ''v0.1.0'', BuildTime = [], Commit = [], GoVersion = [], GOOS = ''linux'', GOARCH = ''amd64''\<rparr>"

theorem operator_starts_witness:
  "\<exists>S t. program mem_manager mem_schemelib std_predicates mem_kube sample_build (defaultFlags\<lparr>webhookEnabled := True\<rparr>)
      \<lparr>ext = None, calls = []\<rparr> = (Ret (), t) \<and> ext t = Some S \<and> last (calls t) = Step Start None"
proof -
  let ?F = "defaultFlags\<lparr>webhookEnabled := True\<rparr>"
  have "logEncoder ?F \<in> {''console'', ''json''}" "\<not> printVersion ?F" by (simp_all add: defaultFlags_def)
  from operator_starts [OF mem_scheme_package mem_manager_accepts this, of std_predicates mem_kube sample_build "\<lparr>ext = None, calls = []\<rparr>"]
  show ?thesis by (auto simp: plan_def)
qed

text \<open>
  C37. For every manager and every scheme library, the program runs in this order: the CronJob handler of the controllers is made,
  the types are registered, the logger is set up, the configuration read, the manager made, the controllers of
  Backup, Restore, Clone, Migration and Traffic registered, the webhooks if they are enabled, the two checks added, and the manager
  started last. A handler that cannot be made ends the process before the flags are looked at, so that not even the version is
  printed; a type that cannot be registered panics. The first step that fails is the last
  one made and the process exits with status 1. An unknown log encoder exits before anything else is done, and
  with the version flag the process only prints its version and exits with status 0.
\<close>

theorem program_runs:
  "wp (program M SL L K info F) (\<lambda>r t. \<exists>died new. calls t = calls s @ GetHandler died # new \<and>
     (case died of Some h \<Rightarrow> new = [] \<and> r = Halt h
      | None \<Rightarrow>
          (case main_init SL (api_packages SL) of
             Halt h \<Rightarrow> new = [] \<and> r = Halt h \<and> h = Panic
           | Ret S \<Rightarrow> started M S info F new r))) s"
proof -
  have panic: "main_init SL g = Halt h \<Longrightarrow> h = Panic" for g h
    by (auto simp: main_init_def Must_def split: prod.splits option.splits)
  show ?thesis
    unfolding program_def cjHandler_def
    by (auto simp: wp_simps split: option.split outcome.split intro!: wp_call_ext dest: panic)
      (rule wp_conseq [OF main_runs], auto)
qed

end
