(* ===== verification/Owners.thy ===== *)
theory Owners
  imports Startup ReconcilerServer
begin

text \<open>
  Owners and events. Every object constructor of the reconciler asks controller-runtime to make the Backup the controller of the object, and
  drops the error; the controller watches the kinds it owns, and an event of such an object becomes a request for its owner. This theory
  says which objects wake up which Backup.
\<close>

section \<open>Documented behaviour\<close>

text \<open>
  \<^verbatim>\<open>SetControllerReference\<close> refuses an owner in a namespace for an object of another namespace or of none, and leaves the
  object as it is; otherwise an object without a controller gets the owner as its controller.
\<close>

definition controller_references :: "'w kube \<Rightarrow> bool" where
  "controller_references K \<longleftrightarrow> (\<forall>b m.
     if b_Namespace b \<noteq> [] \<and> om_Namespace m \<noteq> b_Namespace b
     then fst (k_SetControllerReference K b m) = m \<and> snd (k_SetControllerReference K b m) \<noteq> None
     else om_OwnerReferences m = [] \<longrightarrow> snd (k_SetControllerReference K b m) = None \<and>
       om_Namespace (fst (k_SetControllerReference K b m)) = om_Namespace m \<and>
       om_OwnerReferences (fst (k_SetControllerReference K b m)) =
         [\<lparr>or_kind = KindBackup, or_name = b_Name b, or_controller = True\<rparr>])"

text \<open>\<^verbatim>\<open>labels.Set\<close> changes labels, and the manifests, which name no owner, decode to objects without one.\<close>

definition labels_only :: "'w kube \<Rightarrow> bool" where
  "labels_only K \<longleftrightarrow> (\<forall>m p m'. k_LabelsSet K m p = Inr m' \<longrightarrow>
     om_Namespace m' = om_Namespace m \<and> om_OwnerReferences m' = om_OwnerReferences m)"

definition manifests_unowned :: "'w kube \<Rightarrow> Backup \<Rightarrow> bool" where
  "manifests_unowned K b \<longleftrightarrow>
     (\<forall>x. k_UnmarshalClusterRole K ClusterRoleForBackup = Inr x \<longrightarrow> om_OwnerReferences (cr_ObjectMeta x) = []) \<and>
     (\<forall>x. k_UnmarshalClusterRoleBinding K (clusterrolebinding_text b) = Inr x \<longrightarrow> om_OwnerReferences (crb_ObjectMeta x) = []) \<and>
     (\<forall>f x. k_UnmarshalCronJob K (cronjob_text b f) = Inr x \<longrightarrow> om_OwnerReferences (cj_ObjectMeta x) = [])"

text \<open>
  \<open>W B kd m\<close>: the requests a controller made by the builder \<open>B\<close> gets for an event of an object of kind \<open>kd\<close> with the metadata
  \<open>m\<close>: the object itself for the kind it is for, its controlling owners of that kind for the kinds it owns.
\<close>

definition event_sources :: "(Builder \<Rightarrow> string \<Rightarrow> ObjectMeta \<Rightarrow> NamespacedName list) \<Rightarrow> bool" where
  "event_sources W \<longleftrightarrow> (\<forall>B kd m. W B kd m =
     (if kd = bl_For B then [\<lparr>nn_Namespace = om_Namespace m, nn_Name = om_Name m\<rparr>]
      else if kd \<in> set (bl_Owns B) then
        map (\<lambda>r. \<lparr>nn_Namespace = om_Namespace m, nn_Name = or_name r\<rparr>)
          (filter (\<lambda>r. or_controller r \<and> or_kind r = bl_For B) (om_OwnerReferences m))
      else []))"

section \<open>The owners of the objects\<close>

lemma set_labels_owners:
  "labels_only K \<Longrightarrow> om_Namespace (set_labels K ps m) = om_Namespace m \<and>
     om_OwnerReferences (set_labels K ps m) = om_OwnerReferences m"
  by (induction K ps m rule: set_labels.induct) (auto simp: labels_only_def split: sum.splits)

definition owned_by :: "Backup \<Rightarrow> ObjectMeta \<Rightarrow> bool" where
  "owned_by b m \<longleftrightarrow> om_OwnerReferences m = [\<lparr>or_kind = KindBackup, or_name = b_Name b, or_controller = True\<rparr>]"

lemma owned_and_labelled_owners:
  assumes "controller_references K" "labels_only K" "om_OwnerReferences m = []"
  shows "om_Namespace (owned_and_labelled K b m) = om_Namespace m"
    and "b_Namespace b = om_Namespace m \<Longrightarrow> owned_by b (owned_and_labelled K b m)"
    and "b_Namespace b \<noteq> [] \<Longrightarrow> b_Namespace b \<noteq> om_Namespace m \<Longrightarrow>
      om_OwnerReferences (owned_and_labelled K b m) = []"
proof -
  have ref: "if b_Namespace b \<noteq> [] \<and> om_Namespace m \<noteq> b_Namespace b
     then fst (k_SetControllerReference K b m) = m
     else om_Namespace (fst (k_SetControllerReference K b m)) = om_Namespace m \<and>
       owned_by b (fst (k_SetControllerReference K b m))"
    using assms(1,3) unfolding controller_references_def owned_by_def by (metis (mono_tags, lifting))
  have run: "owned_and_labelled K b m =
      set_labels K (k_MapOrder K LabelMap) (fst (k_SetControllerReference K b m))"
    by (simp add: owned_and_labelled_def SetRecommendedLabels_def)
  note keep = set_labels_owners [OF assms(2)]
  show "om_Namespace (owned_and_labelled K b m) = om_Namespace m"
    using ref by (auto simp: run keep split: if_splits)
  show "owned_by b (owned_and_labelled K b m)" if "b_Namespace b = om_Namespace m"
    using ref that by (auto simp: run keep owned_by_def split: if_splits)
  show "om_OwnerReferences (owned_and_labelled K b m) = []"
    if "b_Namespace b \<noteq> []" "b_Namespace b \<noteq> om_Namespace m"
    using ref that assms(3) by (auto simp: run keep split: if_splits)
qed

lemma clusterrole_no_namespace: "metadata_field ''namespace'' ClusterRoleForBackup = []"
  unfolding ClusterRoleForBackup_def
  by (subst metadata_lines; simp add: one_line_def unquote_def)+

lemma clusterrolebinding_no_namespace:
  assumes "one_line (b_Namespace b)"
  shows "metadata_field ''namespace'' (clusterrolebinding_text b) = []"
  using assms unfolding clusterrolebinding_text_def
  by (subst metadata_lines; simp add: one_line_def unquote_def)+

section \<open>Whom an event wakes up\<close>

lemma owned_requests:
  assumes "event_sources W" "kd \<in> {''CronJob'', ''ServiceAccount'', ''ClusterRole'', ''ClusterRoleBinding''}"
  shows "owned_by b m \<Longrightarrow> W (backupController L K) kd m = [\<lparr>nn_Namespace = om_Namespace m, nn_Name = b_Name b\<rparr>]"
    and "om_OwnerReferences m = [] \<Longrightarrow> W (backupController L K) kd m = []"
  using assms unfolding event_sources_def owned_by_def
  by (auto simp: backupController_def KindBackup_def)

text \<open>
  C10. Whom the events of the reconciler's objects wake up. The ServiceAccount that all Backups of a namespace share gives a request for
  one Backup only, the one that wrote it last. The ClusterRole and the ClusterRoleBinding give none, although the controller owns
  their kinds: an object without a namespace cannot have an owner in one, and the error that says so is dropped. So nobody is
  woken up when the binding is deleted. The CronJob gives a request in the namespace default only.
\<close>

theorem events_of_objects:
  assumes cr: "controller_references K" and lo: "labels_only K" and md: "manifests_decode K b" and un: "manifests_unowned K b"
    and W: "event_sources W" and rq: "request_for req b" and ns: "nn_Namespace req \<noteq> []"
  shows "W (backupController L K) ''ServiceAccount'' (sa_ObjectMeta (serviceAccountForBackup K b)) = [req] \<and>
    (\<exists>x. clusterRoleForBackup K b = Ret x \<and> W (backupController L K) ''ClusterRole'' (cr_ObjectMeta x) = []) \<and>
    (\<exists>x. clusterRoleBindingForBackup K b = Ret x \<and> W (backupController L K) ''ClusterRoleBinding'' (crb_ObjectMeta x) = []) \<and>
    (\<exists>x. cronJobForBackup K b = Ret x \<and>
       W (backupController L K) ''CronJob'' (cj_ObjectMeta x) = (if nn_Namespace req = ''default'' then [req] else []))"
proof -
  from rq have b: "b_Namespace b = nn_Namespace req" "b_Name b = nn_Name req" "one_line (b_Namespace b)" "one_line (b_Name b)"
    unfolding request_for_def by blast+
  note own = owned_and_labelled_owners [OF cr lo]
  have req: "\<lparr>nn_Namespace = nn_Namespace req, nn_Name = nn_Name req\<rparr> = req" by simp
  have sa: "W (backupController L K) ''ServiceAccount'' (sa_ObjectMeta (serviceAccountForBackup K b)) = [req]"
    using owned_requests(1) [OF W, where kd = "''ServiceAccount''" and b = b and L = L and K = K] own(1,2) [of "emptyMeta\<lparr>om_Name := ''horusctl'', om_Namespace := b_Namespace b\<rparr>" b] req
    by (simp add: serviceAccountForBackup_def emptyMeta_def b(1,2))
  from md obtain x y where
    x: "k_UnmarshalClusterRole K ClusterRoleForBackup = Inr x" "om_Namespace (cr_ObjectMeta x) = []" and
    y: "k_UnmarshalClusterRoleBinding K (clusterrolebinding_text b) = Inr y" "om_Namespace (crb_ObjectMeta y) = []"
    by (auto simp: manifests_decode_def decoded_meta_def clusterrole_no_namespace clusterrolebinding_no_namespace [OF b(3)])
  from un x y have none: "om_OwnerReferences (cr_ObjectMeta x) = []" "om_OwnerReferences (crb_ObjectMeta y) = []"
    by (auto simp: manifests_unowned_def)
  have role: "clusterRoleForBackup K b = Ret (x\<lparr>cr_ObjectMeta := owned_and_labelled K b (cr_ObjectMeta x)\<rparr>)"
    by (simp add: clusterRoleForBackup_def Parse_ClusterRole x(1))
  have binding: "clusterRoleBindingForBackup K b = Ret (y\<lparr>crb_ObjectMeta := owned_and_labelled K b (crb_ObjectMeta y)\<rparr>)"
    by (simp add: clusterRoleBindingForBackup_def Parse_ClusterRoleBinding y(1))
  from rq md obtain f z where f: "sp_BackupFrom (b_Spec b) = Some f" and
    z: "k_UnmarshalCronJob K (cronjob_text b (bf_Name f)) = Inr z" "om_Namespace (cj_ObjectMeta z) = ''default''"
    by (auto simp: request_for_def manifests_decode_def decoded_meta_def cronjob_metadata [OF b(4)])
  have zo: "om_OwnerReferences (cj_ObjectMeta z) = []" using un z(1) by (auto simp: manifests_unowned_def)
  have "Parse CronJobForBackup b = Inr (cronjob_text b (bf_Name f))"
    using f by (intro Parse_render(1)) (simp add: CronJob_render)
  with z(1) have cron: "cronJobForBackup K b = Ret (z\<lparr>cj_ObjectMeta := owned_and_labelled K b (cj_ObjectMeta z)\<rparr>)"
    by (simp add: cronJobForBackup_def)
  have "W (backupController L K) ''CronJob'' (owned_and_labelled K b (cj_ObjectMeta z)) =
      (if nn_Namespace req = ''default'' then [req] else [])"
  proof (cases "nn_Namespace req = ''default''")
    case True
    with own(1,2) [OF zo, of b] b z(2) owned_requests(1) [OF W, where kd = "''CronJob''" and b = b and L = L and K = K] show ?thesis by simp
  next
    case False
    with own(3) [OF zo, of b] b ns z(2) owned_requests(2) [OF W, where kd = "''CronJob''" and L = L and K = K] show ?thesis by simp
  qed
  moreover have "W (backupController L K) ''ClusterRole'' (owned_and_labelled K b (cr_ObjectMeta x)) = []"
    "W (backupController L K) ''ClusterRoleBinding'' (owned_and_labelled K b (crb_ObjectMeta y)) = []"
    using own(3) [OF none(1), of b] own(3) [OF none(2), of b] b(1) ns x(2) y(2) owned_requests(2) [OF W, where L = L and K = K] by simp_all
  ultimately show ?thesis using sa role binding cron by simp
qed

definition mem_events :: "Builder \<Rightarrow> string \<Rightarrow> ObjectMeta \<Rightarrow> NamespacedName list" where
  "mem_events B kd m =
     (if kd = bl_For B then [\<lparr>nn_Namespace = om_Namespace m, nn_Name = om_Name m\<rparr>]
      else if kd \<in> set (bl_Owns B) then
        map (\<lambda>r. \<lparr>nn_Namespace = om_Namespace m, nn_Name = or_name r\<rparr>)
          (filter (\<lambda>r. or_controller r \<and> or_kind r = bl_For B) (om_OwnerReferences m))
      else [])"

theorem events_of_objects_witness:
  "let B = backupController std_predicates mem_kube; b = sample_backup ''default'' None []; r = sample_request ''default''
   in mem_events B ''ServiceAccount'' (sa_ObjectMeta (serviceAccountForBackup mem_kube b)) = [r] \<and>
     (\<exists>x. clusterRoleBindingForBackup mem_kube b = Ret x \<and> mem_events B ''ClusterRoleBinding'' (crb_ObjectMeta x) = [])"
proof -
  let ?b = "sample_backup ''default'' None []"
  have "controller_references mem_kube" "labels_only mem_kube" "manifests_unowned mem_kube ?b"
    by (auto simp: controller_references_def labels_only_def manifests_unowned_def mem_kube_def KindBackup_def
        mem_meta_def mem_cronjob_def emptyMeta_def)
  note laws = this(1,2) mem_manifests_decode this(3)
  have "event_sources mem_events" by (simp add: event_sources_def mem_events_def)
  moreover have "nn_Namespace (sample_request ''default'') \<noteq> []" by (simp add: sample_request_def)
  ultimately show ?thesis
    using events_of_objects [OF laws _ sample_request_for [OF default_one_line(1)], of mem_events std_predicates]
    by (simp add: Let_def)
qed

end
