(* ===== verification/Util.thy ===== *)
theory Util
  imports Cli
begin

text \<open>
  The rest of \<^verbatim>\<open>pkg/util\<close> and \<^verbatim>\<open>pkg/version\<close>: the namespace a process runs in, jobs made from a command, the
  version as JSON and in the log, and the command \<^verbatim>\<open>horusctl restic snapshots\<close>. The operating system, the job
  handler of \<^verbatim>\<open>github.com/forbearing/k8s\<close> and \<^verbatim>\<open>json.Marshal\<close> are parameters.
\<close>

section \<open>pkg/util/util.go\<close>

record osapi =
  os_Stat :: "string \<Rightarrow> goerr + bool"
  os_ReadFile :: "string \<Rightarrow> goerr + string"
  os_Getenv :: "string \<Rightarrow> string"

definition EnvWatchNamespace :: string where "EnvWatchNamespace = ''WATCH_NAMESPACE''"
definition EnvCurrentNamespace :: string where "EnvCurrentNamespace = ''NAMESPACE''"
definition namespaceFile :: string where
  "namespaceFile = ''/var/run/secrets/kubernetes.io/serviceaccount/namespace''"

definition GetPodPVPath :: "Pod option \<Rightarrow> string list" where
  "GetPodPVPath p = []"

text \<open>\<open>os_Stat\<close> tells whether the file is a directory.\<close>

definition GetCurrentNamespace :: "osapi \<Rightarrow> string" where
  "GetCurrentNamespace V =
     (case os_Stat V namespaceFile of
        Inr isDir \<Rightarrow>
          if \<not> isDir then
            (case os_ReadFile V namespaceFile of
               Inr data \<Rightarrow> data
             | Inl err \<Rightarrow> os_Getenv V EnvCurrentNamespace)
          else os_Getenv V EnvCurrentNamespace
      | Inl err \<Rightarrow> os_Getenv V EnvCurrentNamespace)"

definition GetInClusterNamespace :: "osapi \<Rightarrow> string outcome" where
  "GetInClusterNamespace V =
     (case os_ReadFile V namespaceFile of
        Inl err \<Rightarrow> Halt (Exit 1)
      | Inr data \<Rightarrow> Ret data)"

lemma namespaces_agree:
  assumes "os_Stat V namespaceFile = Inr False"
  shows "GetInClusterNamespace V = Ret ns \<longleftrightarrow>
    os_ReadFile V namespaceFile = Inr ns \<and> GetCurrentNamespace V = ns"
  using assms by (auto simp: GetInClusterNamespace_def GetCurrentNamespace_def split: sum.splits)

section \<open>pkg/util/job.go\<close>

record Container =
  ct_Name :: string
  ct_Image :: string
  ct_Command :: "string list"

record Job =
  jb_Name :: string
  jb_Namespace :: string
  jb_RestartPolicy :: string
  jb_Containers :: "Container list"

record 'w jobapi =
  ja_New :: "string \<Rightarrow> string \<Rightarrow> 'w \<Rightarrow> goerr option \<times> 'w"
  ja_Delete :: "string \<Rightarrow> Job \<Rightarrow> 'w \<Rightarrow> goerr option \<times> 'w"
  ja_Create :: "string \<Rightarrow> Job \<Rightarrow> 'w \<Rightarrow> (goerr + Job) \<times> 'w"

datatype jcall =
    JNew string string "goerr option"
  | JDelete string Job "goerr option"
  | JCreate string Job "goerr + Job"

type_synonym 'w jworld = "('w, jcall) world"

definition jobOf :: "string \<Rightarrow> string \<Rightarrow> string list \<Rightarrow> Job" where
  "jobOf namespace jobName command =
     \<lparr>jb_Name = jobName, jb_Namespace = namespace, jb_RestartPolicy = ''Never'',
      jb_Containers = [\<lparr>ct_Name = jobName, ct_Image = ''hybfkuf/backup-tools-restic:latest'',
        ct_Command = command\<rparr>]\<rparr>"

definition JobWithCommand :: "'w jobapi \<Rightarrow> string \<Rightarrow> string \<Rightarrow> string \<Rightarrow> string list \<Rightarrow>
    ('w jworld, goerr + Job) go" where
  "JobWithCommand A config namespace jobName command =
     gobind (call_ext (JNew config namespace) (ja_New A config namespace)) (\<lambda>err.
       case err of
         Some e \<Rightarrow> ret (Inl e)
       | None \<Rightarrow>
           let job = jobOf namespace jobName command in
           gobind (call_ext (JDelete namespace job) (ja_Delete A namespace job)) (\<lambda>_.
           call_ext (JCreate namespace job) (ja_Create A namespace job)))"

definition JobWithScript :: "string \<Rightarrow> string \<Rightarrow> Job option" where
  "JobWithScript jobName script = None"

section \<open>pkg/version\<close>

record VersionJSON =
  vj_Version :: string
  vj_BuildTime :: string
  vj_Commit :: string
  vj_Go :: string
  vj_Os :: string
  vj_Error :: string

text \<open>The bytes of a failed second \<^verbatim>\<open>json.Marshal\<close> are nil.\<close>

definition newVersionJSON :: "(VersionJSON \<Rightarrow> goerr + string) \<Rightarrow> build_info \<Rightarrow> string" where
  "newVersionJSON marshal i =
     (case marshal \<lparr>vj_Version = Version i, vj_BuildTime = BuildTime i, vj_Commit = Commit i,
        vj_Go = GoVersion i, vj_Os = Sprintf ''%s/%s'' [GOOS i, GOARCH i], vj_Error = []\<rparr> of
        Inr bytes \<Rightarrow> bytes
      | Inl err \<Rightarrow>
          (case marshal \<lparr>vj_Version = [], vj_BuildTime = [], vj_Commit = [], vj_Go = [], vj_Os = [],
             vj_Error = Sprintf ''cannot get version: %v'' [Error err]\<rparr> of
             Inr bytes \<Rightarrow> bytes
           | Inl _ \<Rightarrow> []))"

text \<open>The log is the list of the messages given to \<^verbatim>\<open>logger.Info\<close>.\<close>

definition PrintVersionLogs :: "build_info \<Rightarrow> string list \<Rightarrow> string list" where
  "PrintVersionLogs i log = log @ printVersionSlice i"

section \<open>horusctl restic snapshots\<close>

text \<open>The command works on the process of the tool and on what \<^verbatim>\<open>pkg/restic\<close> reaches.\<close>

definition on_fst :: "('a, 'r) go \<Rightarrow> ('a \<times> 'b, 'r) go" where
  "on_fst m s = (case m (fst s) of (r, a) \<Rightarrow> (r, (a, snd s)))"

definition on_snd :: "('b, 'r) go \<Rightarrow> ('a \<times> 'b, 'r) go" where
  "on_snd m s = (case m (snd s) of (r, b) \<Rightarrow> (r, (fst s, b)))"

definition snapshotsCmd :: "'w resticlib \<Rightarrow> 'v cluster \<Rightarrow> (string \<Rightarrow> goerr option) \<Rightarrow> string \<Rightarrow> string \<Rightarrow>
    Storage \<Rightarrow> string list \<Rightarrow> string list \<Rightarrow> ('v process \<times> 'w rworld, unit) go" where
  "snapshotsCmd Y X openFile level fmt storage cluster tags =
     gobind (on_fst (setupLogging openFile level fmt)) (\<lambda>_.
     gobind (on_snd (Snapshots Y (GetOperatorNamespace X) storage cluster tags False)) (\<lambda>_.
     ret ()))"

section \<open>Properties\<close>

lemma setupLogging_returns:
  assumes "GetLogFile (pr_holder p) = []"
  shows "fst (setupLogging openFile level fm p) = Ret ()"
  using assms
  by (simp add: setupLogging_def go_run Init_def Let_def output_of_def args_defs split: prod.split)

lemma Snapshots_returns: "\<exists>err. fst (Snapshots Y ns storage cluster tags json s) = Ret err"
proof -
  have "wp (Snapshots Y ns storage cluster tags json) (\<lambda>r _. \<exists>err. r = Ret err) s"
    unfolding Snapshots_def snapshotPod_def runSnapshots_def Let_def
    by (auto simp: wp_simps intro!: wp_call_ext split: sum.split option.split)
  then show ?thesis by (simp add: wp_def case_prod_beta)
qed

lemma snapshots_return:
  assumes "GetLogFile (pr_holder p) = []"
  shows "fst (snapshotsCmd Y X openFile level fm storage cluster tags (p, w)) = Ret ()"
proof -
  obtain p' where "setupLogging openFile level fm p = (Ret (), p')"
    using setupLogging_returns [OF assms, of openFile level fm] by (metis prod.collapse)
  moreover obtain err w' where "Snapshots Y (GetOperatorNamespace X) storage cluster tags False w = (Ret err, w')"
    using Snapshots_returns [of Y "GetOperatorNamespace X" storage cluster tags False w]
    by (metis prod.collapse)
  ultimately show ?thesis
    by (simp add: snapshotsCmd_def on_fst_def on_snd_def go_run)
qed

text \<open>
  \<^verbatim>\<open>horusctl restic snapshots\<close> always ends in success once its logger is set up: whatever the API server, the pod
  and restic answer, and for every storage type, the unknown ones included, the error of
  \<^verbatim>\<open>restic.Snapshots\<close> is dropped.
\<close>

theorem snapshotsCmd_always_succeeds:
  assumes "GetLogFile (pr_holder p) = []"
  shows "fst (snapshotsCmd Y X openFile level fm storage cluster tags (p, w)) = Ret ()"
  by (rule snapshots_return [OF assms])

theorem snapshotsCmd_always_succeeds_witness:
  "fst (snapshotsCmd empty_restic offline (\<lambda>f. None) ''info'' ''text'' ''tape'' [] []
      (\<lparr>pr_holder = newHolder, pr_logger = demo_logger, pr_session = init_session ()\<rparr>, \<lparr>ext = (), calls = []\<rparr>)) = Ret () \<and>
   fst (Snapshots empty_restic (GetOperatorNamespace offline) ''tape'' [] [] False \<lparr>ext = (), calls = []\<rparr>) \<noteq> Ret None"
proof
  show "fst (snapshotsCmd empty_restic offline (\<lambda>f. None) ''info'' ''text'' ''tape'' [] []
      (\<lparr>pr_holder = newHolder, pr_logger = demo_logger, pr_session = init_session ()\<rparr>, \<lparr>ext = (), calls = []\<rparr>)) = Ret ()"
    by (rule snapshotsCmd_always_succeeds) (simp add: newHolder_def GetLogFile_def)
qed (simp add: Snapshots_def storage_defs ret_run)

text \<open>
  \<^verbatim>\<open>JobWithCommand\<close> replaces the job: without a handler it returns that error and touches nothing; otherwise it
  deletes the job of this name and then creates the new one, in this order, exactly once each and in the namespace
  asked for, whatever the deletion answers, and returns the answer of the creation.
\<close>

theorem JobWithCommand_replaces:
  "case JobWithCommand A config ns name command s of (r, t) \<Rightarrow>
     (\<exists>e. r = Ret (Inl e) \<and> calls t = calls s @ [JNew config ns (Some e)]) \<or>
     (\<exists>answer del. r = Ret answer \<and>
        calls t = calls s @ [JNew config ns None, JDelete ns (jobOf ns name command) del,
          JCreate ns (jobOf ns name command) answer])"
proof -
  have "wp (JobWithCommand A config ns name command) (\<lambda>r t.
     (\<exists>e. r = Ret (Inl e) \<and> calls t = calls s @ [JNew config ns (Some e)]) \<or>
     (\<exists>answer del. r = Ret answer \<and>
        calls t = calls s @ [JNew config ns None, JDelete ns (jobOf ns name command) del,
          JCreate ns (jobOf ns name command) answer])) s"
    unfolding JobWithCommand_def Let_def
    by (auto simp: wp_simps intro!: wp_call_ext split: option.split)
  then show ?thesis by (simp add: wp_def)
qed

end
