(* ===== verification/Tool.thy ===== *)
theory Tool
  imports Util
begin

text \<open>
  The tool \<^verbatim>\<open>horusctl\<close> as a program: the ten handlers its packages make before \<^verbatim>\<open>main\<close>, its tree of commands with their flags, and
  \<^verbatim>\<open>Execute\<close>. How cobra reads the arguments is the parameter \<open>parse\<close>: the command found with its flags and arguments, or an error.
\<close>

section \<open>Handlers of the packages\<close>

datatype tool_call = NewHandler string "halt option"

fun newHandlers :: "(string \<Rightarrow> 'w \<Rightarrow> halt option \<times> 'w) \<Rightarrow> string list \<Rightarrow> (('w, tool_call) world, unit) go" where
  "newHandlers NewOrDie [] = ret ()"
| "newHandlers NewOrDie (kind # kinds) =
     gobind (call_ext (NewHandler kind) (NewOrDie kind)) (\<lambda>died.
       case died of Some h \<Rightarrow> halting h | None \<Rightarrow> newHandlers NewOrDie kinds)"

definition backupHandlers :: "string list" where
  "backupHandlers = [''pod'', ''deployment'', ''replicaset'', ''statefulset'', ''daemonset'', ''persistentvolume'',
     ''persistentvolumeclaim'', ''secret'', ''dynamic'']"

definition resticHandlers :: "string list" where
  "resticHandlers = [''pod'']"

section \<open>The commands\<close>

record flag =
  fg_Name :: string
  fg_Short :: string
  fg_Default :: string
  fg_Required :: bool

datatype command =
  Command (use: string) (minArgs: nat) (persistentFlags: "flag list") (localFlags: "flag list") (subCommands: "command list")

definition AddCommand :: "command \<Rightarrow> command \<Rightarrow> command" where
  "AddCommand parent c =
     Command (use parent) (minArgs parent) (persistentFlags parent) (localFlags parent) (subCommands parent @ [c])"

definition backupCommand :: command where
  "backupCommand = Command ''backup'' 1 [] [] []"

definition resticCommand :: command where
  "resticCommand = Command ''restic'' 0 [] [] []"

definition snapshotsCommand :: command where
  "snapshotsCommand = Command ''snapshots'' 0 [] [] []"

definition snapshotsFlags :: "flag list" where
  "snapshotsFlags =
     [\<lparr>fg_Name = ''storage'', fg_Short = ''s'', fg_Default = [], fg_Required = True\<rparr>,
      \<lparr>fg_Name = ''cluster'', fg_Short = ''c'', fg_Default = [], fg_Required = False\<rparr>,
      \<lparr>fg_Name = ''tags'', fg_Short = ''t'', fg_Default = [], fg_Required = False\<rparr>]"

definition rootFlags :: "flag list" where
  "rootFlags =
     [\<lparr>fg_Name = ''log-level'', fg_Short = [], fg_Default = ''info'', fg_Required = False\<rparr>,
      \<lparr>fg_Name = ''log-format'', fg_Short = [], fg_Default = ''text'', fg_Required = False\<rparr>,
      \<lparr>fg_Name = ''namespace'', fg_Short = ''n'', fg_Default = DefaultNamespace, fg_Required = False\<rparr>]"

text \<open>The \<^verbatim>\<open>init\<close> functions of the files, and the tree they build. A parent is a pointer, so that what is added to it later is seen.\<close>

definition backupCmd_init :: "command \<Rightarrow> command" where
  "backupCmd_init root = AddCommand root backupCommand"

definition snapshotsCmd_init :: "command \<Rightarrow> command" where
  "snapshotsCmd_init restic = AddCommand restic
     (Command (use snapshotsCommand) (minArgs snapshotsCommand) [] snapshotsFlags (subCommands snapshotsCommand))"

definition resticCmd_init :: "command \<Rightarrow> command \<Rightarrow> command" where
  "resticCmd_init root restic = AddCommand root restic"

definition rootCmd_init :: "command \<Rightarrow> command" where
  "rootCmd_init root = Command (use root) (minArgs root) rootFlags (localFlags root) (subCommands root)"

definition rootCommand :: command where
  "rootCommand = Command ''horusctl'' 0 [] [] []"

definition commandTree :: command where
  "commandTree = rootCmd_init (resticCmd_init (backupCmd_init rootCommand) (snapshotsCmd_init resticCommand))"

section \<open>The program\<close>

text \<open>The command that the arguments select, with the values of its flags.\<close>

datatype invocation =
    InvokeRoot string string
  | InvokeBackup string string string "string list"
  | InvokeSnapshots string string Storage "string list" "string list"
  | ShowHelp

definition invoke :: "'w resticlib \<Rightarrow> 'v cluster \<Rightarrow> (string \<Rightarrow> goerr option) \<Rightarrow> invocation \<Rightarrow>
    ('v process \<times> 'w rworld, unit) go" where
  "invoke Y X openFile chosen =
     (case chosen of
        InvokeRoot level fmt \<Rightarrow> on_fst (rootCmd openFile level fmt)
      | InvokeBackup level fmt namespace args \<Rightarrow> on_fst (backupCmd X openFile level fmt namespace args)
      | InvokeSnapshots level fmt storage cluster tags \<Rightarrow> snapshotsCmd Y X openFile level fmt storage cluster tags
      | ShowHelp \<Rightarrow> ret ())"

text \<open>\<^verbatim>\<open>cobra.CheckErr\<close> prints an error and exits with status 1.\<close>

definition Execute :: "(command \<Rightarrow> string list \<Rightarrow> goerr + invocation) \<Rightarrow> 'w resticlib \<Rightarrow> 'v cluster \<Rightarrow>
    (string \<Rightarrow> goerr option) \<Rightarrow> string list \<Rightarrow> ('v process \<times> 'w rworld, unit) go" where
  "Execute parse Y X openFile args =
     (case parse commandTree args of
        Inl err \<Rightarrow> halting (Exit 1)
      | Inr chosen \<Rightarrow> invoke Y X openFile chosen)"

definition horusctl :: "(string \<Rightarrow> 't \<Rightarrow> halt option \<times> 't) \<Rightarrow> (command \<Rightarrow> string list \<Rightarrow> goerr + invocation) \<Rightarrow>
    'w resticlib \<Rightarrow> 'v cluster \<Rightarrow> (string \<Rightarrow> goerr option) \<Rightarrow> string list \<Rightarrow>
    (('t, tool_call) world \<times> 'v process \<times> 'w rworld, unit) go" where
  "horusctl NewOrDie parse Y X openFile args =
     gobind (on_fst (newHandlers NewOrDie (backupHandlers @ resticHandlers))) (\<lambda>_.
       on_snd (Execute parse Y X openFile args))"

section \<open>What the tool needs\<close>

text \<open>
  The handlers are made in order until one dies, and that ends the process before the arguments are read: without
  a cluster not even the help is shown.
\<close>

lemma newHandlers_runs:
  "wp (newHandlers NewOrDie kinds) (\<lambda>r t.
     (r = Ret () \<and> calls t = calls s @ map (\<lambda>k. NewHandler k None) kinds) \<or>
     (\<exists>made k rest h. kinds = made @ k # rest \<and> r = Halt h \<and>
        calls t = calls s @ map (\<lambda>k. NewHandler k None) made @ [NewHandler k (Some h)])) s"
proof (induction kinds arbitrary: s)
  case (Cons k ks)
  show ?case
    unfolding newHandlers.simps wp_gobind
  proof (rule wp_call_ext, goal_cases)
    case (1 r w)
    show ?case
    proof (cases r)
      case None
      show ?thesis
        unfolding outcome.case None option.case
      proof (rule wp_conseq [OF Cons.IH], goal_cases)
        case (1 q t)
        then show ?case by (fastforce intro: exI [of _ "k # _"])
      qed
    next
      case (Some h)
      then show ?thesis by (auto simp: wp_simps intro!: exI [of _ "[]"])
    qed
  qed
qed (simp add: wp_simps)

lemma horusctl_needs_cluster:
  assumes "fst (NewOrDie ''pod'' (ext w)) = Some h"
  shows "\<exists>t. horusctl NewOrDie parse Y X openFile args (w, p) = (Halt h, t, p) \<and> calls t = calls w @ [NewHandler ''pod'' (Some h)]"
  using assms by (simp add: horusctl_def on_fst_def backupHandlers_def go_run call_ext_run)

text \<open>With its handlers made, the tool that is asked for snapshots ends in success whatever the storage is.\<close>

lemma horusctl_snapshots_succeeds:
  assumes "newHandlers NewOrDie (backupHandlers @ resticHandlers) w = (Ret (), v)"
    and "parse commandTree args = Inr (InvokeSnapshots level fm storage cluster tags)"
    and "GetLogFile (pr_holder p) = []"
  shows "fst (horusctl NewOrDie parse Y X openFile args (w, p, u)) = Ret ()"
proof -
  have "fst (snapshotsCmd Y X openFile level fm storage cluster tags (p, u)) = Ret ()"
    by (rule snapshots_return [OF assms(3)])
  with assms(1,2) show ?thesis
    by (auto simp: horusctl_def on_fst_def on_snd_def Execute_def invoke_def go_run split: prod.splits)
qed

end
