(* ===== verification/GoHeap.thy ===== *)
theory GoHeap
  imports ApiTypes
begin

text \<open>
  The objects of the API packages as Go lays them out in memory: structs whose pointer and slice
  fields are addresses of other cells. Elsewhere in the development a pointer field is an option
  and a slice a list; that reading hides aliasing, which is what the generated
  \<^verbatim>\<open>DeepCopy\<close> functions are about.

  A heap is the list of the allocated cells, an address an index into it, so that allocation
  appends and a heap grows by \<open>prefix\<close>. A cell holds one struct or one array. \<open>typed\<close> is Go's
  type safety: every address stored in the heap leads to a cell of the field's type, and every
  slice stays within its array. \<open>view_*\<close> reads the value that a struct denotes, and \<open>reach_*\<close>
  collects the addresses it can be changed through.
\<close>

type_synonym addr = nat

record sliceHeader =
  sl_array :: addr
  sl_off :: nat
  sl_len :: nat

type_synonym slice = "sliceHeader option"

section \<open>Structs\<close>

text \<open>
  The structs of \<^verbatim>\<open>backup_types.go\<close> that hold a pointer or a slice; the others are the records of
  \<^verbatim>\<open>ApiTypes\<close>. \<open>ObjectMeta\<close>, \<open>ListMeta\<close>, \<open>EnvVar\<close> and the claim in \<open>PVC\<close> are Kubernetes types
  with copy methods of their own and are values here.
\<close>

record TypeMeta =
  tm_Kind :: string
  tm_APIVersion :: string

record ListMeta =
  lm_ResourceVersion :: string
  lm_Continue :: string
  lm_RemainingItemCount :: "int option"

record pCephFS =
  pc_Monitors :: slice
  pc_Path :: string
  pc_ReadOnly :: bool
  pc_SecretFile :: string
  pc_SecretRef :: string
  pc_User :: string
  pc_CredentialName :: string
  pc_CredentialNamespace :: string

record pMinIO =
  pm_Endpoint :: "addr option"
  pm_Bucket :: string
  pm_Folder :: string
  pm_InsecureTLSSkipVerify :: bool
  pm_Region :: string

record pBackupTo =
  pt_NFS :: "addr option"
  pt_PVC :: "addr option"
  pt_CephFS :: "addr option"
  pt_S3 :: "addr option"
  pt_MinIO :: "addr option"
  pt_RestServer :: "addr option"
  pt_SFTP :: "addr option"
  pt_Rclone :: "addr option"

record pBackupSpec =
  ps_Schedule :: string
  ps_Retention :: u64
  ps_BackupFrom :: "addr option"
  ps_BackupTo :: "addr option"
  ps_Timeout :: int
  ps_Env :: slice
  ps_TimeZone :: string
  ps_Cluster :: string
  ps_CredentialName :: string
  ps_LogLevel :: string
  ps_LogFormat :: string
  ps_SuccessfulJobsHistoryLimit :: u32
  ps_FailedJobsHistoryLimit :: u32

record pBackupStatus =
  pu_Conditions :: slice
  pu_LastBackupTime :: Time
  pu_NextBackupTime :: Time
  pu_ObservedGeneration :: u64
  pu_Storage :: slice
  pu_Message :: string
  pu_Reason :: string
  pu_ResourceType :: string
  pu_ResourceName :: string

record pBackup =
  pb_TypeMeta :: TypeMeta
  pb_ObjectMeta :: ObjectMeta
  pb_Spec :: pBackupSpec
  pb_Status :: pBackupStatus

record pList =
  pl_TypeMeta :: TypeMeta
  pl_ListMeta :: ListMeta
  pl_Items :: slice

text \<open>
  \<^verbatim>\<open>Clone\<close>, \<^verbatim>\<open>Migration\<close>, \<^verbatim>\<open>Restore\<close> and \<^verbatim>\<open>Traffic\<close> are scaffolded types that differ in their name only:
  a spec with the one field \<^verbatim>\<open>Foo\<close> and a status without fields.
\<close>

datatype StubKind = KClone | KMigration | KRestore | KTraffic

record StubSpec =
  ss_Foo :: string

type_synonym StubStatus = unit

record Stub =
  sb_TypeMeta :: TypeMeta
  sb_ObjectMeta :: ObjectMeta
  sb_Spec :: StubSpec
  sb_Status :: StubStatus

type_synonym CloneSpec = StubSpec
type_synonym CloneStatus = StubStatus
type_synonym Clone = Stub
type_synonym CloneList = pList
type_synonym MigrationSpec = StubSpec
type_synonym MigrationStatus = StubStatus
type_synonym Migration = Stub
type_synonym MigrationList = pList
type_synonym RestoreSpec = StubSpec
type_synonym RestoreStatus = StubStatus
type_synonym Restore = Stub
type_synonym RestoreList = pList
type_synonym TrafficSpec = StubSpec
type_synonym TrafficStatus = StubStatus
type_synonym Traffic = Stub
type_synonym TrafficList = pList
type_synonym BackupList = pList

section \<open>Cells and the heap\<close>

datatype cell =
    CBackup pBackup | CBackupList pList | CBackupSpec pBackupSpec
  | CBackupStatus pBackupStatus | CBackupFrom BackupFrom | CBackupTo pBackupTo
  | CNFS NFS | CPVC PVC | CCephFS pCephFS | CS3 S3 | CMinIO pMinIO | CMinioEndpoint MinioEndpoint
  | CRestServer RestServer | CSFTP SFTP | CRclone Rclone
  | CStub StubKind Stub | CStubList StubKind pList
  | CStubSpec StubKind StubSpec | CStubStatus StubKind StubStatus
  | AString "string list" | AEnvVar "EnvVar list" | ABackupCondition "BackupCondition list"
  | ABackup "pBackup list" | AStub StubKind "Stub list"

datatype tag =
    TBackup | TBackupList | TBackupSpec | TBackupStatus | TBackupFrom | TBackupTo
  | TNFS | TPVC | TCephFS | TS3 | TMinIO | TMinioEndpoint | TRestServer | TSFTP | TRclone
  | TStub StubKind | TStubList StubKind | TStubSpec StubKind | TStubStatus StubKind
  | TAString | TAEnvVar | TABackupCondition | TABackup | TAStub StubKind

type_synonym heap = "cell list"

fun tag_of :: "cell \<Rightarrow> tag" where
  "tag_of (CBackup _) = TBackup"
| "tag_of (CBackupList _) = TBackupList"
| "tag_of (CBackupSpec _) = TBackupSpec"
| "tag_of (CBackupStatus _) = TBackupStatus"
| "tag_of (CBackupFrom _) = TBackupFrom"
| "tag_of (CBackupTo _) = TBackupTo"
| "tag_of (CNFS _) = TNFS"
| "tag_of (CPVC _) = TPVC"
| "tag_of (CCephFS _) = TCephFS"
| "tag_of (CS3 _) = TS3"
| "tag_of (CMinIO _) = TMinIO"
| "tag_of (CMinioEndpoint _) = TMinioEndpoint"
| "tag_of (CRestServer _) = TRestServer"
| "tag_of (CSFTP _) = TSFTP"
| "tag_of (CRclone _) = TRclone"
| "tag_of (CStub k _) = TStub k"
| "tag_of (CStubList k _) = TStubList k"
| "tag_of (CStubSpec k _) = TStubSpec k"
| "tag_of (CStubStatus k _) = TStubStatus k"
| "tag_of (AString _) = TAString"
| "tag_of (AEnvVar _) = TAEnvVar"
| "tag_of (ABackupCondition _) = TABackupCondition"
| "tag_of (ABackup _) = TABackup"
| "tag_of (AStub k _) = TAStub k"

text \<open>The number of elements behind an address: one for a struct.\<close>

fun cell_len :: "cell \<Rightarrow> nat" where
  "cell_len (AString xs) = length xs"
| "cell_len (AEnvVar xs) = length xs"
| "cell_len (ABackupCondition xs) = length xs"
| "cell_len (ABackup xs) = length xs"
| "cell_len (AStub k xs) = length xs"
| "cell_len _ = 1"

section \<open>References and typed heaps\<close>

text \<open>A reference is an address, the type of its cell, and the least length of the cell.\<close>

type_synonym ref = "addr \<times> tag \<times> nat"

definition ptr_refs :: "tag \<Rightarrow> addr option \<Rightarrow> ref list" where
  "ptr_refs t q = (case q of None \<Rightarrow> [] | Some a \<Rightarrow> [(a, t, 1)])"

definition slice_refs :: "tag \<Rightarrow> slice \<Rightarrow> ref list" where
  "slice_refs t q = (case q of None \<Rightarrow> [] | Some s \<Rightarrow> [(sl_array s, t, sl_off s + sl_len s)])"

definition pCephFS_refs :: "pCephFS \<Rightarrow> ref list" where
  "pCephFS_refs p = slice_refs TAString (pc_Monitors p)"

definition pMinIO_refs :: "pMinIO \<Rightarrow> ref list" where
  "pMinIO_refs p = ptr_refs TMinioEndpoint (pm_Endpoint p)"

definition pBackupTo_refs :: "pBackupTo \<Rightarrow> ref list" where
  "pBackupTo_refs p =
     ptr_refs TNFS (pt_NFS p) @ ptr_refs TPVC (pt_PVC p) @ ptr_refs TCephFS (pt_CephFS p) @
     ptr_refs TS3 (pt_S3 p) @ ptr_refs TMinIO (pt_MinIO p) @
     ptr_refs TRestServer (pt_RestServer p) @ ptr_refs TSFTP (pt_SFTP p) @
     ptr_refs TRclone (pt_Rclone p)"

definition pBackupSpec_refs :: "pBackupSpec \<Rightarrow> ref list" where
  "pBackupSpec_refs p =
     ptr_refs TBackupFrom (ps_BackupFrom p) @ ptr_refs TBackupTo (ps_BackupTo p) @
     slice_refs TAEnvVar (ps_Env p)"

definition pBackupStatus_refs :: "pBackupStatus \<Rightarrow> ref list" where
  "pBackupStatus_refs p =
     slice_refs TABackupCondition (pu_Conditions p) @ slice_refs TAString (pu_Storage p)"

definition pBackup_refs :: "pBackup \<Rightarrow> ref list" where
  "pBackup_refs p = pBackupSpec_refs (pb_Spec p) @ pBackupStatus_refs (pb_Status p)"

definition pList_refs :: "tag \<Rightarrow> pList \<Rightarrow> ref list" where
  "pList_refs t p = slice_refs t (pl_Items p)"

fun refs_of :: "cell \<Rightarrow> ref list" where
  "refs_of (CBackup p) = pBackup_refs p"
| "refs_of (CBackupList p) = pList_refs TABackup p"
| "refs_of (CBackupSpec p) = pBackupSpec_refs p"
| "refs_of (CBackupStatus p) = pBackupStatus_refs p"
| "refs_of (CBackupTo p) = pBackupTo_refs p"
| "refs_of (CCephFS p) = pCephFS_refs p"
| "refs_of (CMinIO p) = pMinIO_refs p"
| "refs_of (CStubList k p) = pList_refs (TAStub k) p"
| "refs_of (ABackup ps) = concat (map pBackup_refs ps)"
| "refs_of _ = []"

definition ref_ok :: "heap \<Rightarrow> ref \<Rightarrow> bool" where
  "ref_ok h r = (case r of (a, t, n) \<Rightarrow>
     a < length h \<and> tag_of (h ! a) = t \<and> n \<le> cell_len (h ! a))"

definition refs_ok :: "heap \<Rightarrow> ref list \<Rightarrow> bool" where
  "refs_ok h rs \<longleftrightarrow> list_all (ref_ok h) rs"

definition typed :: "heap \<Rightarrow> bool" where
  "typed h \<longleftrightarrow> list_all (\<lambda>c. refs_ok h (refs_of c)) h"

section \<open>Heap operations\<close>

text \<open>
  \<open>load\<close> reads through a pointer. In a typed heap only \<^verbatim>\<open>nil\<close> cannot be read; the model panics at
  an address without a cell of the type too.
\<close>

definition load :: "(cell \<Rightarrow> 'p option) \<Rightarrow> addr \<Rightarrow> (heap, 'p) go" where
  "load unwrap a h =
     (if a < length h then
        (case unwrap (h ! a) of Some p \<Rightarrow> (Ret p, h) | None \<Rightarrow> (Halt Panic, h))
      else (Halt Panic, h))"

definition new_cell :: "cell \<Rightarrow> (heap, addr) go" where
  "new_cell c h = (Ret (length h), h @ [c])"

definition store :: "addr \<Rightarrow> cell \<Rightarrow> (heap, unit) go" where
  "store a c h = (Ret (), h[a := c])"

definition elems :: "sliceHeader \<Rightarrow> 'a list \<Rightarrow> 'a list" where
  "elems s xs = take (sl_len s) (drop (sl_off s) xs)"

fun mapG :: "('a \<Rightarrow> ('s, 'b) go) \<Rightarrow> 'a list \<Rightarrow> ('s, 'b list) go" where
  "mapG f [] = ret []"
| "mapG f (x # xs) = gobind (f x) (\<lambda>y. gobind (mapG f xs) (\<lambda>ys. ret (y # ys)))"

text \<open>
  The copy of a pointer field, as the generator writes it: \<^verbatim>\<open>*out = new(T)\<close> and then
  \<^verbatim>\<open>(*in).DeepCopyInto(*out)\<close>, whose first statement is \<^verbatim>\<open>**out = **in\<close>. The argument \<open>into\<close> gives
  the struct that \<^verbatim>\<open>DeepCopyInto\<close> leaves in \<^verbatim>\<open>*out\<close>. \<^verbatim>\<open>in.DeepCopy()\<close> is the same code.
\<close>

definition copy_pointer ::
  "('p \<Rightarrow> cell) \<Rightarrow> (cell \<Rightarrow> 'p option) \<Rightarrow> ('p \<Rightarrow> (heap, 'p) go) \<Rightarrow> addr option
   \<Rightarrow> (heap, addr option) go" where
  "copy_pointer wrap unwrap into q =
     (case q of
        None \<Rightarrow> ret None
      | Some a \<Rightarrow>
          gobind (load unwrap a) (\<lambda>p.
          gobind (new_cell (wrap p)) (\<lambda>b.
          gobind (into p) (\<lambda>p'.
          gobind (store b (wrap p')) (\<lambda>_.
          ret (Some b))))))"

text \<open>
  The copy of a slice field: \<^verbatim>\<open>*out = make([]T, len(*in))\<close> and a copy of every element, by
  \<^verbatim>\<open>DeepCopyInto\<close> or by the builtin \<^verbatim>\<open>copy\<close>. A nil slice stays nil.
\<close>

definition copy_slice ::
  "('p list \<Rightarrow> cell) \<Rightarrow> (cell \<Rightarrow> 'p list option) \<Rightarrow> ('p \<Rightarrow> (heap, 'p) go) \<Rightarrow> slice
   \<Rightarrow> (heap, slice) go" where
  "copy_slice wrap unwrap into q =
     (case q of
        None \<Rightarrow> ret None
      | Some s \<Rightarrow>
          gobind (load unwrap (sl_array s)) (\<lambda>xs.
          gobind (new_cell (wrap (elems s xs))) (\<lambda>b.
          gobind (mapG into (elems s xs)) (\<lambda>ys.
          gobind (store b (wrap ys)) (\<lambda>_.
          ret (Some \<lparr>sl_array = b, sl_off = 0, sl_len = length ys\<rparr>))))))"

section \<open>What a pointer and a slice denote and reach\<close>

definition view_ptr :: "(cell \<Rightarrow> 'p option) \<Rightarrow> (heap \<Rightarrow> 'p \<Rightarrow> 'v) \<Rightarrow> heap \<Rightarrow> addr option \<Rightarrow> 'v option" where
  "view_ptr unwrap view h q =
     (case q of None \<Rightarrow> None | Some a \<Rightarrow> map_option (view h) (unwrap (h ! a)))"

definition reach_ptr :: "(cell \<Rightarrow> 'p option) \<Rightarrow> (heap \<Rightarrow> 'p \<Rightarrow> addr set) \<Rightarrow> heap \<Rightarrow> addr option \<Rightarrow> addr set" where
  "reach_ptr unwrap reach h q =
     (case q of
        None \<Rightarrow> {}
      | Some a \<Rightarrow> insert a (case unwrap (h ! a) of None \<Rightarrow> {} | Some p \<Rightarrow> reach h p))"

definition view_slice :: "(cell \<Rightarrow> 'p list option) \<Rightarrow> (heap \<Rightarrow> 'p \<Rightarrow> 'v) \<Rightarrow> heap \<Rightarrow> slice \<Rightarrow> 'v list" where
  "view_slice unwrap view h q =
     (case q of
        None \<Rightarrow> []
      | Some s \<Rightarrow>
          (case unwrap (h ! sl_array s) of
             None \<Rightarrow> []
           | Some xs \<Rightarrow> map (view h) (elems s xs)))"

definition reach_slice :: "(cell \<Rightarrow> 'p list option) \<Rightarrow> (heap \<Rightarrow> 'p \<Rightarrow> addr set) \<Rightarrow> heap \<Rightarrow> slice \<Rightarrow> addr set" where
  "reach_slice unwrap reach h q =
     (case q of
        None \<Rightarrow> {}
      | Some s \<Rightarrow>
          insert (sl_array s)
            (case unwrap (h ! sl_array s) of
               None \<Rightarrow> {}
             | Some xs \<Rightarrow> (\<Union>p \<in> set (elems s xs). reach h p)))"

end
