(* ===== verification/CopyContract.thy ===== *)
theory CopyContract
  imports GoHeap
begin

text \<open>
  What a generated copy promises, as the locale \<open>copier\<close> over the memory \<open>layout\<close> of a type, and the
  constructions that keep the promise: a value without references, several fields one after the
  other, the elements of a slice, a struct around its fields, a pointer to a struct, a slice of
  structs. Each copy function of the API packages is an instance built from them.
\<close>

section \<open>Typing and growth\<close>

lemma refs_ok_simps [simp]:
  "refs_ok h []"
  "refs_ok h (r # rs) \<longleftrightarrow> ref_ok h r \<and> refs_ok h rs"
  "refs_ok h (rs @ ss) \<longleftrightarrow> refs_ok h rs \<and> refs_ok h ss"
  "refs_ok h (concat rss) \<longleftrightarrow> (\<forall>rs \<in> set rss. refs_ok h rs)"
  by (auto simp: refs_ok_def list_all_iff)

lemma prefix_nth: "prefix h h' \<Longrightarrow> a < length h \<Longrightarrow> h' ! a = h ! a"
  by (auto simp: prefix_def nth_append)

lemma refs_ok_mono:
  assumes "\<And>r. ref_ok h r \<Longrightarrow> ref_ok h' r" and "refs_ok h rs"
  shows "refs_ok h' rs"
  using assms by (auto simp: refs_ok_def list_all_iff)

lemma ref_ok_prefix: "prefix h h' \<Longrightarrow> ref_ok h r \<Longrightarrow> ref_ok h' r"
  by (auto simp: ref_ok_def prefix_nth dest: prefix_length_le)

lemma refs_ok_prefix: "prefix h h' \<Longrightarrow> refs_ok h rs \<Longrightarrow> refs_ok h' rs"
  by (rule refs_ok_mono [OF ref_ok_prefix])

lemma typed_nth: "typed h \<Longrightarrow> a < length h \<Longrightarrow> refs_ok h (refs_of (h ! a))"
  by (simp add: typed_def list_all_length)

lemma typed_snoc:
  assumes "typed h" and "refs_ok h (refs_of c)"
  shows "typed (h @ [c])"
  using assms refs_ok_prefix [of h "h @ [c]"] by (auto simp: typed_def list_all_iff)

lemma ref_ok_update:
  assumes "tag_of c = tag_of (h ! a)" and "cell_len (h ! a) \<le> cell_len c" and "ref_ok h r"
  shows "ref_ok (h[a := c]) r"
  using assms by (cases "a < length h") (auto simp: ref_ok_def nth_list_update)

lemma typed_update:
  assumes "typed h" and "refs_ok h (refs_of c)"
    and "tag_of c = tag_of (h ! a)" and "cell_len (h ! a) \<le> cell_len c"
  shows "typed (h[a := c])"
proof -
  have up: "refs_ok (h[a := c]) rs" if "refs_ok h rs" for rs
    using refs_ok_mono [OF ref_ok_update that] assms(3,4) by blast
  have "refs_ok (h[a := c]) (refs_of d)" if "d \<in> set (h[a := c])" for d
  proof -
    have "d = c \<or> d \<in> set h"
      using that set_update_subset_insert by fastforce
    then show ?thesis
      using assms(1,2) up by (auto simp: typed_def list_all_iff)
  qed
  then show ?thesis by (simp add: typed_def list_all_iff)
qed

lemma prefix_update: "prefix h h' \<Longrightarrow> length h \<le> a \<Longrightarrow> prefix h (h'[a := c])"
  by (auto simp: prefix_def list_update_append)

section \<open>The contract of a copy\<close>

text \<open>
  \<open>into\<close> copies a struct: in a typed heap it returns (it never panics), only allocates, leaves the
  heap typed, and its result denotes the same value. Whatever the result reaches is either new or
  in \<open>shared\<close>, the part of the original that the copy aliases; a deep copy shares nothing.
\<close>

definition copied ::
  "('p \<Rightarrow> ref list) \<Rightarrow> (heap \<Rightarrow> 'p \<Rightarrow> 'v) \<Rightarrow> (heap \<Rightarrow> 'p \<Rightarrow> addr set) \<Rightarrow> (heap \<Rightarrow> 'p \<Rightarrow> addr set)
   \<Rightarrow> heap \<Rightarrow> 'p \<Rightarrow> heap \<Rightarrow> 'p \<Rightarrow> bool" where
  "copied refs view reach shared h p h' p' \<longleftrightarrow>
     prefix h h' \<and> typed h' \<and> refs_ok h' (refs p') \<and> view h' p' = view h p \<and>
     reach h' p' \<subseteq> shared h p \<union> {length h..}"

locale layout =
  fixes refs :: "'p \<Rightarrow> ref list"
    and view :: "heap \<Rightarrow> 'p \<Rightarrow> 'v"
    and reach :: "heap \<Rightarrow> 'p \<Rightarrow> addr set"
    and shared :: "heap \<Rightarrow> 'p \<Rightarrow> addr set"
  assumes reach_bound: "\<lbrakk>typed h; refs_ok h (refs p); a \<in> reach h p\<rbrakk> \<Longrightarrow> a < length h"
    and local: "(\<And>a. a \<in> reach h p \<Longrightarrow> h' ! a = h ! a) \<Longrightarrow>
      view h' p = view h p \<and> reach h' p = reach h p \<and> shared h' p = shared h p"
    and shared_reach: "shared h p \<subseteq> reach h p"
begin

lemma grow:
  assumes "typed h" "refs_ok h (refs p)" "prefix h h'"
  shows "view h' p = view h p" "reach h' p = reach h p" "shared h' p = shared h p"
  using local [of h p h'] reach_bound [OF assms(1,2)] prefix_nth [OF assms(3)] by blast+

lemma write_elsewhere:
  assumes "a \<notin> reach h p"
  shows "view (h[a := c]) p = view h p" "reach (h[a := c]) p = reach h p"
  using local [of h p "h[a := c]"] assms by (metis nth_list_update_neq)+

end


locale copier = layout +
  fixes into :: "'a \<Rightarrow> (heap, 'a) go"
  assumes copies: "\<lbrakk>typed h; refs_ok h (refs p)\<rbrakk> \<Longrightarrow>
    \<exists>p' h'. into p h = (Ret p', h') \<and> copied refs view reach shared h p h' p'"

section \<open>Several fields, one after the other\<close>

definition pair_refs where
  "pair_refs refs1 refs2 = (\<lambda>(x, y). refs1 x @ refs2 y)"

definition pair_view where
  "pair_view view1 view2 h = (\<lambda>(x, y). (view1 h x, view2 h y))"

definition pair_reach :: "('h \<Rightarrow> 'a \<Rightarrow> addr set) \<Rightarrow> ('h \<Rightarrow> 'b \<Rightarrow> addr set) \<Rightarrow> 'h \<Rightarrow> 'a \<times> 'b \<Rightarrow> addr set" where
  "pair_reach reach1 reach2 h = (\<lambda>(x, y). reach1 h x \<union> reach2 h y)"

definition pair_into :: "('a \<Rightarrow> ('s, 'a) go) \<Rightarrow> ('b \<Rightarrow> ('s, 'b) go) \<Rightarrow> 'a \<times> 'b \<Rightarrow> ('s, 'a \<times> 'b) go" where
  "pair_into into1 into2 =
     (\<lambda>(x, y). gobind (into1 x) (\<lambda>x'. gobind (into2 y) (\<lambda>y'. ret (x', y'))))"

lemmas pair_defs = pair_refs_def pair_view_def pair_reach_def pair_into_def

lemma layout_pair:
  assumes "layout refs1 view1 reach1 shared1" and "layout refs2 view2 reach2 shared2"
  shows "layout (pair_refs refs1 refs2) (pair_view view1 view2) (pair_reach reach1 reach2)
    (pair_reach shared1 shared2)"
proof -
  note l1 = assms(1) and l2 = assms(2)
  show ?thesis
  proof
    fix h xy a
    assume "typed h" "refs_ok h (pair_refs refs1 refs2 xy)" "a \<in> pair_reach reach1 reach2 h xy"
    then show "a < length h"
      using layout.reach_bound [OF l1] layout.reach_bound [OF l2]
      by (cases xy) (auto simp: pair_defs)
  next
    fix h xy h'
    assume "\<And>a. a \<in> pair_reach reach1 reach2 h xy \<Longrightarrow> h' ! a = h ! a"
    then show "pair_view view1 view2 h' xy = pair_view view1 view2 h xy \<and>
      pair_reach reach1 reach2 h' xy = pair_reach reach1 reach2 h xy \<and>
      pair_reach shared1 shared2 h' xy = pair_reach shared1 shared2 h xy"
      using layout.local [OF l1, of h "fst xy" h'] layout.local [OF l2, of h "snd xy" h']
      by (cases xy) (simp add: pair_defs)
  next
    fix h xy
    show "pair_reach shared1 shared2 h xy \<subseteq> pair_reach reach1 reach2 h xy"
      using layout.shared_reach [OF l1] layout.shared_reach [OF l2]
      by (cases xy) (fastforce simp: pair_defs)
  qed
qed

lemma copied_pair:
  assumes "layout refs1 view1 reach1 shared1" and "layout refs2 view2 reach2 shared2"
    and "typed h" and "refs_ok h (refs2 y)"
    and "copied refs1 view1 reach1 shared1 h x h1 x'"
    and "copied refs2 view2 reach2 shared2 h1 y h2 y'"
  shows "copied (pair_refs refs1 refs2) (pair_view view1 view2) (pair_reach reach1 reach2)
    (pair_reach shared1 shared2) h (x, y) h2 (x', y')"
proof -
  note c1 = assms(5) [unfolded copied_def] and c2 = assms(6) [unfolded copied_def]
  have x': "view1 h2 x' = view1 h1 x'" "reach1 h2 x' = reach1 h1 x'" "refs_ok h2 (refs1 x')"
    using layout.grow [OF assms(1), of h1 x' h2] refs_ok_prefix c1 c2 by blast+
  have y: "view2 h1 y = view2 h y" "shared2 h1 y = shared2 h y"
    using layout.grow [OF assms(2,3,4)] c1 by blast+
  have "prefix h h2" using c1 c2 prefix_order.trans by blast
  moreover have "length h \<le> length h1" using c1 prefix_length_le by blast
  ultimately show ?thesis
    using c1 c2 x' y by (auto simp: copied_def pair_defs)
qed

lemma copier_pair:
  assumes "copier refs1 view1 reach1 shared1 into1" and "copier refs2 view2 reach2 shared2 into2"
  shows "copier (pair_refs refs1 refs2) (pair_view view1 view2) (pair_reach reach1 reach2)
    (pair_reach shared1 shared2) (pair_into into1 into2)"
proof (intro copier.intro copier_axioms.intro)
  note c1 = assms(1) and c2 = assms(2)
  have l1: "layout refs1 view1 reach1 shared1" and l2: "layout refs2 view2 reach2 shared2"
    using c1 c2 by (simp_all add: copier_def)
  from l1 l2 show "layout (pair_refs refs1 refs2) (pair_view view1 view2) (pair_reach reach1 reach2)
    (pair_reach shared1 shared2)" by (rule layout_pair)
  fix h xy
  assume h: "typed h" and ok: "refs_ok h (pair_refs refs1 refs2 xy)"
  obtain x y where xy: "xy = (x, y)" by force
  obtain x' h1 where 1: "into1 x h = (Ret x', h1)" "copied refs1 view1 reach1 shared1 h x h1 x'"
    using copier.copies [OF c1 h, of x] ok by (auto simp: xy pair_defs)
  have "typed h1" "refs_ok h1 (refs2 y)"
    using 1(2) ok refs_ok_prefix by (auto simp: xy pair_defs copied_def)
  then obtain y' h2 where 2: "into2 y h1 = (Ret y', h2)"
    "copied refs2 view2 reach2 shared2 h1 y h2 y'"
    using copier.copies [OF c2] by blast
  have "refs_ok h (refs2 y)" using ok by (simp add: xy pair_defs)
  from copied_pair [OF l1 l2 h this 1(2) 2(2)] 1(1) 2(1)
  show "\<exists>p' h'. pair_into into1 into2 xy h = (Ret p', h') \<and>
    copied (pair_refs refs1 refs2) (pair_view view1 view2) (pair_reach reach1 reach2)
      (pair_reach shared1 shared2) h xy h' p'"
    by (auto simp: xy pair_into_def go_run)
qed

text \<open>
  A struct copies by copying the fields that refer to other cells: \<open>parts\<close> reads them, \<open>put\<close>
  replaces them, and the remaining fields are values that the assignment \<^verbatim>\<open>*out = *in\<close> has copied.
\<close>

lemma copier_struct:
  assumes c: "copier refs view reach shared into"
    and parts: "\<And>p x. parts (put p x) = x"
    and shape: "\<And>p x y. build (put p x) y = build p y"
  shows "copier (\<lambda>p. refs (parts p)) (\<lambda>h p. build p (view h (parts p)))
    (\<lambda>h p. reach h (parts p)) (\<lambda>h p. shared h (parts p))
    (\<lambda>p. gobind (into (parts p)) (\<lambda>x. ret (put p x)))"
proof (intro copier.intro copier_axioms.intro layout.intro)
  have l: "layout refs view reach shared" using c by (simp add: copier_def)
  show "a < length h" if "typed h" "refs_ok h (refs (parts p))" "a \<in> reach h (parts p)" for h p a
    using layout.reach_bound [OF l that] .
  show "build p (view h' (parts p)) = build p (view h (parts p)) \<and>
    reach h' (parts p) = reach h (parts p) \<and> shared h' (parts p) = shared h (parts p)"
    if "\<And>a. a \<in> reach h (parts p) \<Longrightarrow> h' ! a = h ! a" for h p h'
    using layout.local [OF l, of h "parts p" h'] that by simp
  show "shared h (parts p) \<subseteq> reach h (parts p)" for h p
    by (rule layout.shared_reach [OF l])
  show "\<exists>p' h'. gobind (into (parts p)) (\<lambda>x. ret (put p x)) h = (Ret p', h') \<and>
      copied (\<lambda>p. refs (parts p)) (\<lambda>h p. build p (view h (parts p))) (\<lambda>h p. reach h (parts p))
       (\<lambda>h p. shared h (parts p)) h p h' p'"
    if "typed h" "refs_ok h (refs (parts p))" for h p
    using copier.copies [OF c that] by (auto simp: go_run copied_def parts shape)
qed

text \<open>A value without references, copied by an assignment or by a value of the library.\<close>

lemma copier_flat:
  assumes "\<And>p. f p = p"
  shows "copier (\<lambda>_. []) (\<lambda>_ p. p) (\<lambda>_ _. {}) (\<lambda>_ _. {}) (\<lambda>p. ret (f p))"
  using assms by unfold_locales (auto simp: go_run copied_def)

text \<open>A struct copied by an assignment shares whatever it refers to.\<close>

lemma copier_assign:
  assumes "copier refs view reach shared into"
  shows "copier refs view reach reach ret"
proof -
  have l: "layout refs view reach shared" using assms by (simp add: copier_def)
  show ?thesis
  proof
    show "a < length h" if "typed h" "refs_ok h (refs p)" "a \<in> reach h p" for h p a
      using layout.reach_bound [OF l that] .
    show "view h' p = view h p \<and> reach h' p = reach h p \<and> reach h' p = reach h p"
      if "\<And>a. a \<in> reach h p \<Longrightarrow> h' ! a = h ! a" for h p h'
      using layout.local [OF l that] by blast
  qed (auto simp: copied_def ret_run)
qed

section \<open>The elements of a slice\<close>

definition list_refs where
  "list_refs refs ps = concat (map refs ps)"

definition list_view where
  "list_view view h ps = map (view h) ps"

definition list_reach :: "('h \<Rightarrow> 'a \<Rightarrow> addr set) \<Rightarrow> 'h \<Rightarrow> 'a list \<Rightarrow> addr set" where
  "list_reach reach h ps = (\<Union>p \<in> set ps. reach h p)"

lemmas list_defs = list_refs_def list_view_def list_reach_def

lemma layout_list:
  assumes l: "layout refs view reach shared"
  shows "layout (list_refs refs) (list_view view) (list_reach reach) (list_reach shared)"
proof
  fix h ps a
  assume "typed h" "refs_ok h (list_refs refs ps)" "a \<in> list_reach reach h ps"
  then show "a < length h"
    using layout.reach_bound [OF l] by (auto simp: list_defs)
next
  fix h ps h'
  assume a: "\<And>a. a \<in> list_reach reach h ps \<Longrightarrow> h' ! a = h ! a"
  have "view h' p = view h p \<and> reach h' p = reach h p \<and> shared h' p = shared h p"
    if "p \<in> set ps" for p
    using layout.local [OF l, of h p h'] a that by (auto simp: list_defs)
  then show "list_view view h' ps = list_view view h ps \<and>
    list_reach reach h' ps = list_reach reach h ps \<and>
    list_reach shared h' ps = list_reach shared h ps"
    by (simp add: list_defs)
next
  fix h ps
  show "list_reach shared h ps \<subseteq> list_reach reach h ps"
    using layout.shared_reach [OF l] by (fastforce simp: list_defs)
qed

lemma copier_list:
  assumes c: "copier refs view reach shared into"
  shows "copier (list_refs refs) (list_view view) (list_reach reach) (list_reach shared) (mapG into)"
proof (intro copier.intro copier_axioms.intro)
  have l: "layout refs view reach shared" using c by (simp add: copier_def)
  then show ll: "layout (list_refs refs) (list_view view) (list_reach reach) (list_reach shared)"
    by (rule layout_list)
  fix h ps
  assume "typed h" "refs_ok h (list_refs refs ps)"
  then show "\<exists>qs h'. mapG into ps h = (Ret qs, h') \<and>
    copied (list_refs refs) (list_view view) (list_reach reach) (list_reach shared) h ps h' qs"
  proof (induction ps arbitrary: h)
    case Nil
    then show ?case by (simp add: ret_run copied_def list_defs)
  next
    case (Cons p ps)
    then have ok: "refs_ok h (refs p)" "refs_ok h (list_refs refs ps)" by (auto simp: list_defs)
    obtain p1 h1 where 1: "into p h = (Ret p1, h1)" "copied refs view reach shared h p h1 p1"
      using copier.copies [OF c Cons.prems(1) ok(1)] by blast
    obtain qs h2 where 2: "mapG into ps h1 = (Ret qs, h2)"
      "copied (list_refs refs) (list_view view) (list_reach reach) (list_reach shared) h1 ps h2 qs"
      using Cons.IH [of h1] 1(2) ok(2) refs_ok_prefix by (auto simp: copied_def)
    from copied_pair [OF l ll Cons.prems(1) ok(2) 1(2) 2(2)] 1(1) 2(1) show ?case
      by (auto simp: go_run copied_def pair_defs list_defs)
  qed
qed


section \<open>Cells behind pointers and slices\<close>

text \<open>How a type is kept in cells: the struct of a pointer, the array of a slice.\<close>

locale cell_type =
  fixes wrap :: "'p \<Rightarrow> cell"
    and unwrap :: "cell \<Rightarrow> 'p option"
    and t :: tag
    and refs :: "'p \<Rightarrow> ref list"
    and len :: "'p \<Rightarrow> nat"
  assumes unwrap_iff: "unwrap c = Some p \<longleftrightarrow> c = wrap p"
    and tag_iff: "tag_of c = t \<longleftrightarrow> (\<exists>p. c = wrap p)"
    and refs_of_wrap: "refs_of (wrap p) = refs p"
    and len_wrap: "cell_len (wrap p) = len p"
begin

lemma unwrap_wrap [simp]: "unwrap (wrap p) = Some p"
  by (simp add: unwrap_iff)

lemma tag_wrap [simp]: "tag_of (wrap p) = t"
  using tag_iff by blast

lemma ref_okD:
  assumes "typed h" and "ref_ok h (a, t, n)"
  obtains p where "a < length h" "h ! a = wrap p" "refs_ok h (refs p)" "n \<le> len p"
proof -
  from assms(2) have a: "a < length h" "tag_of (h ! a) = t" "n \<le> cell_len (h ! a)"
    by (simp_all add: ref_ok_def)
  then obtain p where "h ! a = wrap p" using tag_iff by blast
  with a that typed_nth [OF assms(1) a(1)] show thesis
    by (simp add: refs_of_wrap len_wrap)
qed

lemma load_run: "\<lbrakk>a < length h; h ! a = wrap p\<rbrakk> \<Longrightarrow> load unwrap a h = (Ret p, h)"
  by (simp add: load_def)

text \<open>\<^verbatim>\<open>new\<close>, \<^verbatim>\<open>DeepCopyInto\<close>, and the copy in the new cell.\<close>

lemma fill_new_cell:
  assumes c: "copier refs view reach shared into"
    and h: "typed h" and ok: "refs_ok h (refs p)"
    and len: "\<And>h' p'. view h' p' = view h p \<Longrightarrow> len p' = len p"
  obtains p' h' where
    "gobind (new_cell (wrap p)) (\<lambda>b. gobind (into p) (\<lambda>p'. gobind (store b (wrap p')) (\<lambda>_.
       ret (k b p')))) h = (Ret (k (length h) p'), h')"
    "prefix h h'" "typed h'" "length h < length h'" "h' ! length h = wrap p'"
    "view h' p' = view h p" "reach h' p' \<subseteq> shared h p \<union> {length h..}" "len p' = len p"
proof -
  have l: "layout refs view reach shared" using c by (simp add: copier_def)
  let ?h0 = "h @ [wrap p]"
  have 0: "typed ?h0" "refs_ok ?h0 (refs p)" "prefix h ?h0"
    using h ok by (auto simp: typed_snoc refs_of_wrap refs_ok_prefix [of h ?h0])
  obtain p' h1 where 1: "into p ?h0 = (Ret p', h1)"
    and c1: "copied refs view reach shared ?h0 p h1 p'"
    using copier.copies [OF c 0(1,2)] by blast
  note g = layout.grow [OF l h ok 0(3)]
  have pre: "prefix ?h0 h1" "typed h1" "refs_ok h1 (refs p')" "view h1 p' = view h p"
    "reach h1 p' \<subseteq> shared h p \<union> {Suc (length h)..}"
    using c1 by (auto simp: copied_def g)
  let ?h2 = "h1[length h := wrap p']"
  have cell: "h1 ! length h = wrap p" "length h < length h1"
    using prefix_nth [OF pre(1), of "length h"] prefix_length_le [OF pre(1)] by auto
  have "length h \<notin> shared h p"
    using layout.shared_reach [OF l] layout.reach_bound [OF l h ok] by blast
  then have "length h \<notin> reach h1 p'" using pre(5) by auto
  note w = layout.write_elsewhere [OF l this, of "wrap p'"]
  have lp: "len p' = len p" by (rule len [OF pre(4)])
  have "typed ?h2"
    using pre lp by (intro typed_update) (auto simp: cell refs_of_wrap len_wrap)
  moreover have "prefix h ?h2"
    using prefix_update [of h h1 "length h"] prefix_order.trans [OF 0(3) pre(1)] by simp
  moreover have "reach h1 p' \<subseteq> shared h p \<union> {length h..}"
    using pre(5) by force
  ultimately show thesis
    using that [of p' ?h2] cell 1 pre w lp by (auto simp: go_run new_cell_def store_def)
qed


end

text \<open>What the copy of a pointer or slice aliases: whatever its targets do. The cell itself is new.\<close>

definition shared_ptr :: "(cell \<Rightarrow> 'p option) \<Rightarrow> (heap \<Rightarrow> 'p \<Rightarrow> addr set) \<Rightarrow> heap \<Rightarrow> addr option \<Rightarrow> addr set" where
  "shared_ptr unwrap shared h q =
     (case q of
        None \<Rightarrow> {}
      | Some a \<Rightarrow> (case unwrap (h ! a) of None \<Rightarrow> {} | Some p \<Rightarrow> shared h p))"

definition shared_slice :: "(cell \<Rightarrow> 'p list option) \<Rightarrow> (heap \<Rightarrow> 'p \<Rightarrow> addr set) \<Rightarrow> heap \<Rightarrow> slice \<Rightarrow> addr set" where
  "shared_slice unwrap shared h q =
     (case q of
        None \<Rightarrow> {}
      | Some s \<Rightarrow>
          (case unwrap (h ! sl_array s) of
             None \<Rightarrow> {}
           | Some xs \<Rightarrow> list_reach shared h (elems s xs)))"

lemmas ptr_defs = ptr_refs_def view_ptr_def reach_ptr_def shared_ptr_def
lemmas slice_defs = slice_refs_def view_slice_def reach_slice_def shared_slice_def

lemma copier_ptr:
  assumes c: "copier refs view reach shared into"
    and ct: "cell_type wrap unwrap t refs (\<lambda>_. 1)"
  shows "copier (ptr_refs t) (view_ptr unwrap view) (reach_ptr unwrap reach)
    (shared_ptr unwrap shared) (copy_pointer wrap unwrap into)"
proof (intro copier.intro copier_axioms.intro layout.intro)
  have l: "layout refs view reach shared" using c by (simp add: copier_def)
  fix h q
  show "shared_ptr unwrap shared h q \<subseteq> reach_ptr unwrap reach h q"
    using layout.shared_reach [OF l] by (auto simp: ptr_defs split: option.splits)
  show "view_ptr unwrap view h' q = view_ptr unwrap view h q \<and>
    reach_ptr unwrap reach h' q = reach_ptr unwrap reach h q \<and>
    shared_ptr unwrap shared h' q = shared_ptr unwrap shared h q"
    if a: "\<And>a. a \<in> reach_ptr unwrap reach h q \<Longrightarrow> h' ! a = h ! a" for h'
    using a layout.local [OF l, of h _ h'] by (auto simp: ptr_defs split: option.splits)
  assume h: "typed h" and ok: "refs_ok h (ptr_refs t q)"
  have get: "\<exists>p. a < length h \<and> h ! a = wrap p \<and> unwrap (wrap p) = Some p \<and> refs_ok h (refs p)"
    if "q = Some a" for a
    using that ok cell_type.ref_okD [OF ct h, of a 1] cell_type.unwrap_wrap [OF ct]
    by (auto simp: ptr_defs)
  show "a < length h" if "a \<in> reach_ptr unwrap reach h q" for a
    using that get layout.reach_bound [OF l h]
    by (fastforce simp: ptr_defs split: option.splits)
  show "\<exists>q' h'. copy_pointer wrap unwrap into q h = (Ret q', h') \<and>
    copied (ptr_refs t) (view_ptr unwrap view) (reach_ptr unwrap reach)
      (shared_ptr unwrap shared) h q h' q'"
  proof (cases q)
    case None
    with h show ?thesis by (simp add: copy_pointer_def ret_run copied_def ptr_defs)
  next
    case (Some a)
    from get [OF this] obtain p where p: "a < length h" "h ! a = wrap p" "refs_ok h (refs p)"
      by blast
    obtain p' h' where f: "gobind (new_cell (wrap p)) (\<lambda>b. gobind (into p) (\<lambda>p'.
        gobind (store b (wrap p')) (\<lambda>_. ret (Some b)))) h = (Ret (Some (length h)), h')"
      "prefix h h'" "typed h'" "length h < length h'" "h' ! length h = wrap p'"
      "view h' p' = view h p" "reach h' p' \<subseteq> shared h p \<union> {length h..}"
      by (rule cell_type.fill_new_cell [OF ct c h p(3), of "\<lambda>b _. Some b"]) (simp, blast)
    have "copy_pointer wrap unwrap into q h = (Ret (Some (length h)), h')"
      unfolding copy_pointer_def Some option.case
      by (subst gobind_run) (simp add: cell_type.load_run [OF ct p(1,2)] f(1))
    moreover have "copied (ptr_refs t) (view_ptr unwrap view) (reach_ptr unwrap reach)
      (shared_ptr unwrap shared) h q h' (Some (length h))"
      using f(2-) p cell_type.unwrap_wrap [OF ct] cell_type.tag_wrap [OF ct]
        cell_type.len_wrap [OF ct]
      by (simp add: copied_def ptr_defs Some ref_ok_def)
    ultimately show ?thesis by blast
  qed
qed

lemma elems_all [simp]: "elems \<lparr>sl_array = b, sl_off = 0, sl_len = length xs\<rparr> xs = xs"
  by (simp add: elems_def)

lemma set_elems: "set (elems s xs) \<subseteq> set xs"
  unfolding elems_def by (meson order_trans set_drop_subset set_take_subset)

lemma length_elems [simp]:
  "sl_off s + sl_len s \<le> length xs \<Longrightarrow> length (elems s xs) = sl_len s"
  by (simp add: elems_def)

lemma refs_ok_elems: "refs_ok h (list_refs refs xs) \<Longrightarrow> refs_ok h (list_refs refs (elems s xs))"
  using set_elems [of s xs] by (auto simp: list_refs_def)

lemma copier_slice:
  assumes c: "copier refs view reach shared into"
    and ct: "cell_type wrap unwrap t (list_refs refs) length"
  shows "copier (slice_refs t) (view_slice unwrap view) (reach_slice unwrap reach)
    (shared_slice unwrap shared) (copy_slice wrap unwrap into)"
proof (intro copier.intro copier_axioms.intro layout.intro)
  note cl = copier_list [OF c]
  have l: "layout (list_refs refs) (list_view view) (list_reach reach) (list_reach shared)"
    using cl by (simp add: copier_def)
  fix h q
  show "shared_slice unwrap shared h q \<subseteq> reach_slice unwrap reach h q"
    using layout.shared_reach [OF l, of h]
    by (auto simp: slice_defs list_reach_def split: option.splits)
  show "view_slice unwrap view h' q = view_slice unwrap view h q \<and>
    reach_slice unwrap reach h' q = reach_slice unwrap reach h q \<and>
    shared_slice unwrap shared h' q = shared_slice unwrap shared h q"
    if a: "\<And>a. a \<in> reach_slice unwrap reach h q \<Longrightarrow> h' ! a = h ! a" for h'
  proof -
    have "list_view view h' (elems s xs) = list_view view h (elems s xs) \<and>
      list_reach reach h' (elems s xs) = list_reach reach h (elems s xs) \<and>
      list_reach shared h' (elems s xs) = list_reach shared h (elems s xs)"
      if "q = Some s" "unwrap (h ! sl_array s) = Some xs" for s xs
      using that a by (intro layout.local [OF l]) (simp add: slice_defs list_reach_def)
    then show ?thesis
      using a by (simp add: slice_defs list_defs split: option.split)
  qed
  assume h: "typed h" and ok: "refs_ok h (slice_refs t q)"
  have get: "\<exists>xs. sl_array s < length h \<and> h ! sl_array s = wrap xs \<and> unwrap (wrap xs) = Some xs \<and>
    refs_ok h (list_refs refs (elems s xs)) \<and> length (elems s xs) = sl_len s" if "q = Some s" for s
  proof -
    from that ok have "ref_ok h (sl_array s, t, sl_off s + sl_len s)" by (simp add: slice_defs)
    then show ?thesis
      by (rule cell_type.ref_okD [OF ct h])
        (use cell_type.unwrap_wrap [OF ct] refs_ok_elems [of h refs _ s] in \<open>auto\<close>)
  qed
  show "a < length h" if "a \<in> reach_slice unwrap reach h q" for a
    using that get layout.reach_bound [OF l h]
    by (fastforce simp: slice_defs list_reach_def split: option.splits)
  show "\<exists>q' h'. copy_slice wrap unwrap into q h = (Ret q', h') \<and>
    copied (slice_refs t) (view_slice unwrap view) (reach_slice unwrap reach)
      (shared_slice unwrap shared) h q h' q'"
  proof (cases q)
    case None
    with h show ?thesis by (simp add: copy_slice_def ret_run copied_def slice_defs)
  next
    case (Some s)
    from get [OF this] obtain xs where xs: "sl_array s < length h" "h ! sl_array s = wrap xs"
      "unwrap (wrap xs) = Some xs" "refs_ok h (list_refs refs (elems s xs))" by blast
    let ?k = "\<lambda>b ys. Some \<lparr>sl_array = b, sl_off = 0, sl_len = length ys\<rparr>"
    obtain ys h' where f: "gobind (new_cell (wrap (elems s xs))) (\<lambda>b.
        gobind (mapG into (elems s xs)) (\<lambda>ys. gobind (store b (wrap ys)) (\<lambda>_. ret (?k b ys)))) h
          = (Ret (?k (length h) ys), h')"
      "prefix h h'" "typed h'" "length h < length h'" "h' ! length h = wrap ys"
      "list_view view h' ys = list_view view h (elems s xs)"
      "list_reach reach h' ys \<subseteq> list_reach shared h (elems s xs) \<union> {length h..}"
      by (rule cell_type.fill_new_cell [OF ct cl h xs(4), of ?k])
        (unfold list_view_def, erule map_eq_imp_length_eq, blast)
    have "copy_slice wrap unwrap into q h = (Ret (?k (length h) ys), h')"
      unfolding copy_slice_def Some option.case
      by (subst gobind_run) (simp add: cell_type.load_run [OF ct xs(1,2)] f(1))
    moreover have "copied (slice_refs t) (view_slice unwrap view) (reach_slice unwrap reach)
      (shared_slice unwrap shared) h q h' (?k (length h) ys)"
      using f(2-) xs cell_type.unwrap_wrap [OF ct] cell_type.tag_wrap [OF ct]
        cell_type.len_wrap [OF ct]
      by (simp add: copied_def slice_defs Some ref_ok_def list_defs)
    ultimately show ?thesis by blast
  qed
qed

end
