(* ===== verification/DeepCopy.thy ===== *)
theory DeepCopy
  imports CopyContract
begin

text \<open>
  The generated copy methods of \<^verbatim>\<open>apis/storage/v1alpha1/zz_generated.deepcopy.go\<close> and
  \<^verbatim>\<open>apis/networking/v1alpha1/zz_generated.deepcopy.go\<close>, over the memory model of \<^verbatim>\<open>GoHeap\<close>.

  \<open>T_DeepCopyInto\<close> maps the struct \<^verbatim>\<open>*in\<close> to the struct that the method leaves in \<^verbatim>\<open>*out\<close>; the record
  update on the receiver is the first statement \<^verbatim>\<open>*out = *in\<close> followed by the assignments of the
  method. \<open>T_DeepCopy\<close> and \<open>T_DeepCopyObject\<close> take and return pointers; an object in an interface
  is its type with the pointer, and the nil interface is \<open>None\<close>.

  The copy methods of the Kubernetes packages are parameters: \<open>k8scopy\<close> gives the value that each
  one leaves in its \<^verbatim>\<open>out\<close>, and \<open>k8s_copies\<close> asks that it is the value copied.
\<close>

section \<open>Reading a cell at a type\<close>

definition un_Backup :: "cell \<Rightarrow> pBackup option" where
  "un_Backup c = (case c of CBackup p \<Rightarrow> Some p | _ \<Rightarrow> None)"

definition un_BackupList :: "cell \<Rightarrow> pList option" where
  "un_BackupList c = (case c of CBackupList p \<Rightarrow> Some p | _ \<Rightarrow> None)"

definition un_BackupSpec :: "cell \<Rightarrow> pBackupSpec option" where
  "un_BackupSpec c = (case c of CBackupSpec p \<Rightarrow> Some p | _ \<Rightarrow> None)"

definition un_BackupStatus :: "cell \<Rightarrow> pBackupStatus option" where
  "un_BackupStatus c = (case c of CBackupStatus p \<Rightarrow> Some p | _ \<Rightarrow> None)"

definition un_BackupTo :: "cell \<Rightarrow> pBackupTo option" where
  "un_BackupTo c = (case c of CBackupTo p \<Rightarrow> Some p | _ \<Rightarrow> None)"

definition un_CephFS :: "cell \<Rightarrow> pCephFS option" where
  "un_CephFS c = (case c of CCephFS p \<Rightarrow> Some p | _ \<Rightarrow> None)"

definition un_MinIO :: "cell \<Rightarrow> pMinIO option" where
  "un_MinIO c = (case c of CMinIO p \<Rightarrow> Some p | _ \<Rightarrow> None)"

definition un_BackupFrom :: "cell \<Rightarrow> BackupFrom option" where
  "un_BackupFrom c = (case c of CBackupFrom p \<Rightarrow> Some p | _ \<Rightarrow> None)"

definition un_NFS :: "cell \<Rightarrow> NFS option" where
  "un_NFS c = (case c of CNFS p \<Rightarrow> Some p | _ \<Rightarrow> None)"

definition un_PVC :: "cell \<Rightarrow> PVC option" where
  "un_PVC c = (case c of CPVC p \<Rightarrow> Some p | _ \<Rightarrow> None)"

definition un_S3 :: "cell \<Rightarrow> S3 option" where
  "un_S3 c = (case c of CS3 p \<Rightarrow> Some p | _ \<Rightarrow> None)"

definition un_MinioEndpoint :: "cell \<Rightarrow> MinioEndpoint option" where
  "un_MinioEndpoint c = (case c of CMinioEndpoint p \<Rightarrow> Some p | _ \<Rightarrow> None)"

definition un_RestServer :: "cell \<Rightarrow> RestServer option" where
  "un_RestServer c = (case c of CRestServer p \<Rightarrow> Some p | _ \<Rightarrow> None)"

definition un_SFTP :: "cell \<Rightarrow> SFTP option" where
  "un_SFTP c = (case c of CSFTP p \<Rightarrow> Some p | _ \<Rightarrow> None)"

definition un_Rclone :: "cell \<Rightarrow> Rclone option" where
  "un_Rclone c = (case c of CRclone p \<Rightarrow> Some p | _ \<Rightarrow> None)"

definition un_AString :: "cell \<Rightarrow> string list option" where
  "un_AString c = (case c of AString ps \<Rightarrow> Some ps | _ \<Rightarrow> None)"

definition un_AEnvVar :: "cell \<Rightarrow> EnvVar list option" where
  "un_AEnvVar c = (case c of AEnvVar ps \<Rightarrow> Some ps | _ \<Rightarrow> None)"

definition un_ABackupCondition :: "cell \<Rightarrow> BackupCondition list option" where
  "un_ABackupCondition c = (case c of ABackupCondition ps \<Rightarrow> Some ps | _ \<Rightarrow> None)"

definition un_ABackup :: "cell \<Rightarrow> pBackup list option" where
  "un_ABackup c = (case c of ABackup ps \<Rightarrow> Some ps | _ \<Rightarrow> None)"

definition un_Stub :: "StubKind \<Rightarrow> cell \<Rightarrow> Stub option" where
  "un_Stub k c = (case c of CStub k' p \<Rightarrow> if k' = k then Some p else None | _ \<Rightarrow> None)"

definition un_StubList :: "StubKind \<Rightarrow> cell \<Rightarrow> pList option" where
  "un_StubList k c = (case c of CStubList k' p \<Rightarrow> if k' = k then Some p else None | _ \<Rightarrow> None)"

definition un_StubSpec :: "StubKind \<Rightarrow> cell \<Rightarrow> StubSpec option" where
  "un_StubSpec k c = (case c of CStubSpec k' p \<Rightarrow> if k' = k then Some p else None | _ \<Rightarrow> None)"

definition un_StubStatus :: "StubKind \<Rightarrow> cell \<Rightarrow> StubStatus option" where
  "un_StubStatus k c = (case c of CStubStatus k' p \<Rightarrow> if k' = k then Some p else None | _ \<Rightarrow> None)"

definition un_AStub :: "StubKind \<Rightarrow> cell \<Rightarrow> Stub list option" where
  "un_AStub k c = (case c of AStub k' ps \<Rightarrow> if k' = k then Some ps else None | _ \<Rightarrow> None)"

lemmas unwrap_defs = un_Backup_def un_BackupList_def un_BackupSpec_def un_BackupStatus_def un_BackupTo_def
  un_CephFS_def un_MinIO_def un_BackupFrom_def un_NFS_def un_PVC_def
  un_S3_def un_MinioEndpoint_def un_RestServer_def un_SFTP_def un_Rclone_def
  un_AString_def un_AEnvVar_def un_ABackupCondition_def un_ABackup_def un_Stub_def
  un_StubList_def un_StubSpec_def un_StubStatus_def un_AStub_def

lemma tag_of_exhausts:
  "tag_of c = TBackup \<longleftrightarrow> (\<exists>p. c = CBackup p)"
  "tag_of c = TBackupList \<longleftrightarrow> (\<exists>p. c = CBackupList p)"
  "tag_of c = TBackupSpec \<longleftrightarrow> (\<exists>p. c = CBackupSpec p)"
  "tag_of c = TBackupStatus \<longleftrightarrow> (\<exists>p. c = CBackupStatus p)"
  "tag_of c = TBackupTo \<longleftrightarrow> (\<exists>p. c = CBackupTo p)"
  "tag_of c = TCephFS \<longleftrightarrow> (\<exists>p. c = CCephFS p)"
  "tag_of c = TMinIO \<longleftrightarrow> (\<exists>p. c = CMinIO p)"
  "tag_of c = TBackupFrom \<longleftrightarrow> (\<exists>p. c = CBackupFrom p)"
  "tag_of c = TNFS \<longleftrightarrow> (\<exists>p. c = CNFS p)"
  "tag_of c = TPVC \<longleftrightarrow> (\<exists>p. c = CPVC p)"
  "tag_of c = TS3 \<longleftrightarrow> (\<exists>p. c = CS3 p)"
  "tag_of c = TMinioEndpoint \<longleftrightarrow> (\<exists>p. c = CMinioEndpoint p)"
  "tag_of c = TRestServer \<longleftrightarrow> (\<exists>p. c = CRestServer p)"
  "tag_of c = TSFTP \<longleftrightarrow> (\<exists>p. c = CSFTP p)"
  "tag_of c = TRclone \<longleftrightarrow> (\<exists>p. c = CRclone p)"
  "tag_of c = TAString \<longleftrightarrow> (\<exists>p. c = AString p)"
  "tag_of c = TAEnvVar \<longleftrightarrow> (\<exists>p. c = AEnvVar p)"
  "tag_of c = TABackupCondition \<longleftrightarrow> (\<exists>p. c = ABackupCondition p)"
  "tag_of c = TABackup \<longleftrightarrow> (\<exists>p. c = ABackup p)"
  "tag_of c = TStub k \<longleftrightarrow> (\<exists>p. c = CStub k p)"
  "tag_of c = TStubList k \<longleftrightarrow> (\<exists>p. c = CStubList k p)"
  "tag_of c = TStubSpec k \<longleftrightarrow> (\<exists>p. c = CStubSpec k p)"
  "tag_of c = TStubStatus k \<longleftrightarrow> (\<exists>p. c = CStubStatus k p)"
  "tag_of c = TAStub k \<longleftrightarrow> (\<exists>p. c = AStub k p)"
  by (cases c; simp; fail)+

interpretation cell_Backup: cell_type CBackup un_Backup TBackup pBackup_refs "\<lambda>_. 1"
  by unfold_locales (auto simp: unwrap_defs tag_of_exhausts split: cell.splits)

interpretation cell_BackupList: cell_type CBackupList un_BackupList TBackupList "pList_refs TABackup" "\<lambda>_. 1"
  by unfold_locales (auto simp: unwrap_defs tag_of_exhausts split: cell.splits)

interpretation cell_BackupSpec: cell_type CBackupSpec un_BackupSpec TBackupSpec pBackupSpec_refs "\<lambda>_. 1"
  by unfold_locales (auto simp: unwrap_defs tag_of_exhausts split: cell.splits)

interpretation cell_BackupStatus: cell_type CBackupStatus un_BackupStatus TBackupStatus pBackupStatus_refs "\<lambda>_. 1"
  by unfold_locales (auto simp: unwrap_defs tag_of_exhausts split: cell.splits)

interpretation cell_BackupTo: cell_type CBackupTo un_BackupTo TBackupTo pBackupTo_refs "\<lambda>_. 1"
  by unfold_locales (auto simp: unwrap_defs tag_of_exhausts split: cell.splits)

interpretation cell_CephFS: cell_type CCephFS un_CephFS TCephFS pCephFS_refs "\<lambda>_. 1"
  by unfold_locales (auto simp: unwrap_defs tag_of_exhausts split: cell.splits)

interpretation cell_MinIO: cell_type CMinIO un_MinIO TMinIO pMinIO_refs "\<lambda>_. 1"
  by unfold_locales (auto simp: unwrap_defs tag_of_exhausts split: cell.splits)

interpretation cell_BackupFrom: cell_type CBackupFrom un_BackupFrom TBackupFrom "\<lambda>_. []" "\<lambda>_. 1"
  by unfold_locales (auto simp: unwrap_defs tag_of_exhausts split: cell.splits)

interpretation cell_NFS: cell_type CNFS un_NFS TNFS "\<lambda>_. []" "\<lambda>_. 1"
  by unfold_locales (auto simp: unwrap_defs tag_of_exhausts split: cell.splits)

interpretation cell_PVC: cell_type CPVC un_PVC TPVC "\<lambda>_. []" "\<lambda>_. 1"
  by unfold_locales (auto simp: unwrap_defs tag_of_exhausts split: cell.splits)

interpretation cell_S3: cell_type CS3 un_S3 TS3 "\<lambda>_. []" "\<lambda>_. 1"
  by unfold_locales (auto simp: unwrap_defs tag_of_exhausts split: cell.splits)

interpretation cell_MinioEndpoint: cell_type CMinioEndpoint un_MinioEndpoint TMinioEndpoint "\<lambda>_. []" "\<lambda>_. 1"
  by unfold_locales (auto simp: unwrap_defs tag_of_exhausts split: cell.splits)

interpretation cell_RestServer: cell_type CRestServer un_RestServer TRestServer "\<lambda>_. []" "\<lambda>_. 1"
  by unfold_locales (auto simp: unwrap_defs tag_of_exhausts split: cell.splits)

interpretation cell_SFTP: cell_type CSFTP un_SFTP TSFTP "\<lambda>_. []" "\<lambda>_. 1"
  by unfold_locales (auto simp: unwrap_defs tag_of_exhausts split: cell.splits)

interpretation cell_Rclone: cell_type CRclone un_Rclone TRclone "\<lambda>_. []" "\<lambda>_. 1"
  by unfold_locales (auto simp: unwrap_defs tag_of_exhausts split: cell.splits)

interpretation cell_AString: cell_type AString un_AString TAString "list_refs (\<lambda>_. [])" length
  by unfold_locales (auto simp: unwrap_defs tag_of_exhausts list_refs_def split: cell.splits)

interpretation cell_AEnvVar: cell_type AEnvVar un_AEnvVar TAEnvVar "list_refs (\<lambda>_. [])" length
  by unfold_locales (auto simp: unwrap_defs tag_of_exhausts list_refs_def split: cell.splits)

interpretation cell_ABackupCondition: cell_type ABackupCondition un_ABackupCondition TABackupCondition "list_refs (\<lambda>_. [])" length
  by unfold_locales (auto simp: unwrap_defs tag_of_exhausts list_refs_def split: cell.splits)

interpretation cell_ABackup: cell_type ABackup un_ABackup TABackup "list_refs pBackup_refs" length
  by unfold_locales (auto simp: unwrap_defs tag_of_exhausts list_refs_def split: cell.splits)

interpretation cell_Stub: cell_type "CStub k" "un_Stub k" "TStub k" "\<lambda>_. []" "\<lambda>_. 1" for k
  by unfold_locales (auto simp: unwrap_defs tag_of_exhausts split: cell.splits if_splits)

interpretation cell_StubList: cell_type "CStubList k" "un_StubList k" "TStubList k" "pList_refs (TAStub k)" "\<lambda>_. 1" for k
  by unfold_locales (auto simp: unwrap_defs tag_of_exhausts split: cell.splits if_splits)

interpretation cell_StubSpec: cell_type "CStubSpec k" "un_StubSpec k" "TStubSpec k" "\<lambda>_. []" "\<lambda>_. 1" for k
  by unfold_locales (auto simp: unwrap_defs tag_of_exhausts split: cell.splits if_splits)

interpretation cell_StubStatus: cell_type "CStubStatus k" "un_StubStatus k" "TStubStatus k" "\<lambda>_. []" "\<lambda>_. 1" for k
  by unfold_locales (auto simp: unwrap_defs tag_of_exhausts split: cell.splits if_splits)

interpretation cell_AStub: cell_type "AStub k" "un_AStub k" "TAStub k" "list_refs (\<lambda>_. [])" length for k
  by unfold_locales
    (auto simp: unwrap_defs tag_of_exhausts list_refs_def split: cell.splits if_splits)

section \<open>The copy methods\<close>

record k8scopy =
  kc_ObjectMeta :: "ObjectMeta \<Rightarrow> ObjectMeta"
  kc_ListMeta :: "ListMeta \<Rightarrow> ListMeta"
  kc_EnvVar :: "EnvVar \<Rightarrow> EnvVar"
  kc_PersistentVolumeClaim :: "string \<Rightarrow> string"

type_synonym object = "(tag \<times> addr) option"

definition to_object :: "tag \<Rightarrow> (heap, addr option) go \<Rightarrow> (heap, object) go" where
  "to_object t m = gobind m (\<lambda>c. ret (case c of Some b \<Rightarrow> Some (t, b) | None \<Rightarrow> None))"

definition BackupFrom_DeepCopyInto :: "BackupFrom \<Rightarrow> (heap, BackupFrom) go" where
  "BackupFrom_DeepCopyInto p = ret p"

definition BackupFrom_DeepCopy :: "addr option \<Rightarrow> (heap, addr option) go" where
  "BackupFrom_DeepCopy = copy_pointer CBackupFrom un_BackupFrom BackupFrom_DeepCopyInto"

definition NFS_DeepCopyInto :: "NFS \<Rightarrow> (heap, NFS) go" where
  "NFS_DeepCopyInto p = ret p"

definition NFS_DeepCopy :: "addr option \<Rightarrow> (heap, addr option) go" where
  "NFS_DeepCopy = copy_pointer CNFS un_NFS NFS_DeepCopyInto"

definition S3_DeepCopyInto :: "S3 \<Rightarrow> (heap, S3) go" where
  "S3_DeepCopyInto p = ret p"

definition S3_DeepCopy :: "addr option \<Rightarrow> (heap, addr option) go" where
  "S3_DeepCopy = copy_pointer CS3 un_S3 S3_DeepCopyInto"

definition MinioEndpoint_DeepCopyInto :: "MinioEndpoint \<Rightarrow> (heap, MinioEndpoint) go" where
  "MinioEndpoint_DeepCopyInto p = ret p"

definition MinioEndpoint_DeepCopy :: "addr option \<Rightarrow> (heap, addr option) go" where
  "MinioEndpoint_DeepCopy = copy_pointer CMinioEndpoint un_MinioEndpoint MinioEndpoint_DeepCopyInto"

definition RestServer_DeepCopyInto :: "RestServer \<Rightarrow> (heap, RestServer) go" where
  "RestServer_DeepCopyInto p = ret p"

definition RestServer_DeepCopy :: "addr option \<Rightarrow> (heap, addr option) go" where
  "RestServer_DeepCopy = copy_pointer CRestServer un_RestServer RestServer_DeepCopyInto"

definition SFTP_DeepCopyInto :: "SFTP \<Rightarrow> (heap, SFTP) go" where
  "SFTP_DeepCopyInto p = ret p"

definition SFTP_DeepCopy :: "addr option \<Rightarrow> (heap, addr option) go" where
  "SFTP_DeepCopy = copy_pointer CSFTP un_SFTP SFTP_DeepCopyInto"

definition Rclone_DeepCopyInto :: "Rclone \<Rightarrow> (heap, Rclone) go" where
  "Rclone_DeepCopyInto p = ret p"

definition Rclone_DeepCopy :: "addr option \<Rightarrow> (heap, addr option) go" where
  "Rclone_DeepCopy = copy_pointer CRclone un_Rclone Rclone_DeepCopyInto"

definition PVC_DeepCopyInto :: "k8scopy \<Rightarrow> PVC \<Rightarrow> (heap, PVC) go" where
  "PVC_DeepCopyInto K p = ret (p\<lparr>pvc_claim := kc_PersistentVolumeClaim K (pvc_claim p)\<rparr>)"

definition PVC_DeepCopy :: "k8scopy \<Rightarrow> addr option \<Rightarrow> (heap, addr option) go" where
  "PVC_DeepCopy K = copy_pointer CPVC un_PVC (PVC_DeepCopyInto K)"

definition CephFS_DeepCopyInto :: "pCephFS \<Rightarrow> (heap, pCephFS) go" where
  "CephFS_DeepCopyInto p =
     gobind (copy_slice AString un_AString ret (pc_Monitors p)) (\<lambda>monitors.
     ret (p\<lparr>pc_Monitors := monitors\<rparr>))"

definition CephFS_DeepCopy :: "addr option \<Rightarrow> (heap, addr option) go" where
  "CephFS_DeepCopy = copy_pointer CCephFS un_CephFS CephFS_DeepCopyInto"

definition MinIO_DeepCopyInto :: "pMinIO \<Rightarrow> (heap, pMinIO) go" where
  "MinIO_DeepCopyInto p =
     gobind (copy_pointer CMinioEndpoint un_MinioEndpoint ret (pm_Endpoint p)) (\<lambda>endpoint.
     ret (p\<lparr>pm_Endpoint := endpoint\<rparr>))"

definition MinIO_DeepCopy :: "addr option \<Rightarrow> (heap, addr option) go" where
  "MinIO_DeepCopy = copy_pointer CMinIO un_MinIO MinIO_DeepCopyInto"

definition BackupTo_DeepCopyInto :: "k8scopy \<Rightarrow> pBackupTo \<Rightarrow> (heap, pBackupTo) go" where
  "BackupTo_DeepCopyInto K p =
     gobind (copy_pointer CNFS un_NFS ret (pt_NFS p)) (\<lambda>nfs.
     gobind (copy_pointer CPVC un_PVC (PVC_DeepCopyInto K) (pt_PVC p)) (\<lambda>pvc.
     gobind (copy_pointer CCephFS un_CephFS CephFS_DeepCopyInto (pt_CephFS p)) (\<lambda>cephfs.
     gobind (copy_pointer CS3 un_S3 ret (pt_S3 p)) (\<lambda>s3.
     gobind (copy_pointer CMinIO un_MinIO MinIO_DeepCopyInto (pt_MinIO p)) (\<lambda>minio.
     gobind (copy_pointer CRestServer un_RestServer ret (pt_RestServer p)) (\<lambda>restServer.
     gobind (copy_pointer CSFTP un_SFTP ret (pt_SFTP p)) (\<lambda>sftp.
     gobind (copy_pointer CRclone un_Rclone ret (pt_Rclone p)) (\<lambda>rclone.
     ret (p\<lparr>pt_NFS := nfs, pt_PVC := pvc, pt_CephFS := cephfs, pt_S3 := s3, pt_MinIO := minio,
            pt_RestServer := restServer, pt_SFTP := sftp, pt_Rclone := rclone\<rparr>)))))))))"

definition BackupTo_DeepCopy :: "k8scopy \<Rightarrow> addr option \<Rightarrow> (heap, addr option) go" where
  "BackupTo_DeepCopy K = copy_pointer CBackupTo un_BackupTo (BackupTo_DeepCopyInto K)"

definition BackupSpec_DeepCopyInto :: "k8scopy \<Rightarrow> pBackupSpec \<Rightarrow> (heap, pBackupSpec) go" where
  "BackupSpec_DeepCopyInto K p =
     gobind (copy_pointer CBackupFrom un_BackupFrom ret (ps_BackupFrom p)) (\<lambda>bfrom.
     gobind (copy_pointer CBackupTo un_BackupTo (BackupTo_DeepCopyInto K) (ps_BackupTo p)) (\<lambda>bto.
     gobind (copy_slice AEnvVar un_AEnvVar (\<lambda>e. ret (kc_EnvVar K e)) (ps_Env p)) (\<lambda>env.
     ret (p\<lparr>ps_BackupFrom := bfrom, ps_BackupTo := bto, ps_Timeout := ps_Timeout p,
            ps_Env := env\<rparr>))))"

definition BackupSpec_DeepCopy :: "k8scopy \<Rightarrow> addr option \<Rightarrow> (heap, addr option) go" where
  "BackupSpec_DeepCopy K = copy_pointer CBackupSpec un_BackupSpec (BackupSpec_DeepCopyInto K)"

definition BackupStatus_DeepCopyInto :: "pBackupStatus \<Rightarrow> (heap, pBackupStatus) go" where
  "BackupStatus_DeepCopyInto p = ret p"

definition BackupStatus_DeepCopy :: "addr option \<Rightarrow> (heap, addr option) go" where
  "BackupStatus_DeepCopy = copy_pointer CBackupStatus un_BackupStatus BackupStatus_DeepCopyInto"

definition Backup_DeepCopyInto :: "k8scopy \<Rightarrow> pBackup \<Rightarrow> (heap, pBackup) go" where
  "Backup_DeepCopyInto K p =
     gobind (BackupSpec_DeepCopyInto K (pb_Spec p)) (\<lambda>spec.
     ret (p\<lparr>pb_TypeMeta := pb_TypeMeta p, pb_ObjectMeta := kc_ObjectMeta K (pb_ObjectMeta p),
            pb_Spec := spec, pb_Status := pb_Status p\<rparr>))"

definition Backup_DeepCopy :: "k8scopy \<Rightarrow> addr option \<Rightarrow> (heap, addr option) go" where
  "Backup_DeepCopy K = copy_pointer CBackup un_Backup (Backup_DeepCopyInto K)"

definition Backup_DeepCopyObject :: "k8scopy \<Rightarrow> addr option \<Rightarrow> (heap, object) go" where
  "Backup_DeepCopyObject K q = to_object TBackup (Backup_DeepCopy K q)"

definition BackupList_DeepCopyInto :: "k8scopy \<Rightarrow> BackupList \<Rightarrow> (heap, BackupList) go" where
  "BackupList_DeepCopyInto K p =
     gobind (copy_slice ABackup un_ABackup (Backup_DeepCopyInto K) (pl_Items p)) (\<lambda>items.
     ret (p\<lparr>pl_TypeMeta := pl_TypeMeta p, pl_ListMeta := kc_ListMeta K (pl_ListMeta p),
            pl_Items := items\<rparr>))"

definition BackupList_DeepCopy :: "k8scopy \<Rightarrow> addr option \<Rightarrow> (heap, addr option) go" where
  "BackupList_DeepCopy K = copy_pointer CBackupList un_BackupList (BackupList_DeepCopyInto K)"

definition BackupList_DeepCopyObject :: "k8scopy \<Rightarrow> addr option \<Rightarrow> (heap, object) go" where
  "BackupList_DeepCopyObject K q = to_object TBackupList (BackupList_DeepCopy K q)"

text \<open>
  The methods of the four scaffolded kinds, each with its own cells. The statements are those of
  \<^verbatim>\<open>Backup\<close>'s methods, with \<^verbatim>\<open>out.Spec = in.Spec\<close> because their specs hold no reference.
\<close>

definition CloneSpec_DeepCopyInto :: "CloneSpec \<Rightarrow> (heap, CloneSpec) go" where
  "CloneSpec_DeepCopyInto p = ret p"

definition CloneSpec_DeepCopy :: "addr option \<Rightarrow> (heap, addr option) go" where
  "CloneSpec_DeepCopy = copy_pointer (CStubSpec KClone) (un_StubSpec KClone) CloneSpec_DeepCopyInto"

definition CloneStatus_DeepCopyInto :: "CloneStatus \<Rightarrow> (heap, CloneStatus) go" where
  "CloneStatus_DeepCopyInto p = ret p"

definition CloneStatus_DeepCopy :: "addr option \<Rightarrow> (heap, addr option) go" where
  "CloneStatus_DeepCopy =
     copy_pointer (CStubStatus KClone) (un_StubStatus KClone) CloneStatus_DeepCopyInto"

definition Clone_DeepCopyInto :: "k8scopy \<Rightarrow> Clone \<Rightarrow> (heap, Clone) go" where
  "Clone_DeepCopyInto K p =
     ret (p\<lparr>sb_TypeMeta := sb_TypeMeta p, sb_ObjectMeta := kc_ObjectMeta K (sb_ObjectMeta p),
            sb_Spec := sb_Spec p, sb_Status := sb_Status p\<rparr>)"

definition Clone_DeepCopy :: "k8scopy \<Rightarrow> addr option \<Rightarrow> (heap, addr option) go" where
  "Clone_DeepCopy K = copy_pointer (CStub KClone) (un_Stub KClone) (Clone_DeepCopyInto K)"

definition Clone_DeepCopyObject :: "k8scopy \<Rightarrow> addr option \<Rightarrow> (heap, object) go" where
  "Clone_DeepCopyObject K q = to_object (TStub KClone) (Clone_DeepCopy K q)"

definition CloneList_DeepCopyInto :: "k8scopy \<Rightarrow> CloneList \<Rightarrow> (heap, CloneList) go" where
  "CloneList_DeepCopyInto K p =
     gobind (copy_slice (AStub KClone) (un_AStub KClone) (Clone_DeepCopyInto K) (pl_Items p)) (\<lambda>items.
     ret (p\<lparr>pl_TypeMeta := pl_TypeMeta p, pl_ListMeta := kc_ListMeta K (pl_ListMeta p),
            pl_Items := items\<rparr>))"

definition CloneList_DeepCopy :: "k8scopy \<Rightarrow> addr option \<Rightarrow> (heap, addr option) go" where
  "CloneList_DeepCopy K =
     copy_pointer (CStubList KClone) (un_StubList KClone) (CloneList_DeepCopyInto K)"

definition CloneList_DeepCopyObject :: "k8scopy \<Rightarrow> addr option \<Rightarrow> (heap, object) go" where
  "CloneList_DeepCopyObject K q = to_object (TStubList KClone) (CloneList_DeepCopy K q)"

definition MigrationSpec_DeepCopyInto :: "MigrationSpec \<Rightarrow> (heap, MigrationSpec) go" where
  "MigrationSpec_DeepCopyInto p = ret p"

definition MigrationSpec_DeepCopy :: "addr option \<Rightarrow> (heap, addr option) go" where
  "MigrationSpec_DeepCopy = copy_pointer (CStubSpec KMigration) (un_StubSpec KMigration) MigrationSpec_DeepCopyInto"

definition MigrationStatus_DeepCopyInto :: "MigrationStatus \<Rightarrow> (heap, MigrationStatus) go" where
  "MigrationStatus_DeepCopyInto p = ret p"

definition MigrationStatus_DeepCopy :: "addr option \<Rightarrow> (heap, addr option) go" where
  "MigrationStatus_DeepCopy =
     copy_pointer (CStubStatus KMigration) (un_StubStatus KMigration) MigrationStatus_DeepCopyInto"

definition Migration_DeepCopyInto :: "k8scopy \<Rightarrow> Migration \<Rightarrow> (heap, Migration) go" where
  "Migration_DeepCopyInto K p =
     ret (p\<lparr>sb_TypeMeta := sb_TypeMeta p, sb_ObjectMeta := kc_ObjectMeta K (sb_ObjectMeta p),
            sb_Spec := sb_Spec p, sb_Status := sb_Status p\<rparr>)"

definition Migration_DeepCopy :: "k8scopy \<Rightarrow> addr option \<Rightarrow> (heap, addr option) go" where
  "Migration_DeepCopy K = copy_pointer (CStub KMigration) (un_Stub KMigration) (Migration_DeepCopyInto K)"

definition Migration_DeepCopyObject :: "k8scopy \<Rightarrow> addr option \<Rightarrow> (heap, object) go" where
  "Migration_DeepCopyObject K q = to_object (TStub KMigration) (Migration_DeepCopy K q)"

definition MigrationList_DeepCopyInto :: "k8scopy \<Rightarrow> MigrationList \<Rightarrow> (heap, MigrationList) go" where
  "MigrationList_DeepCopyInto K p =
     gobind (copy_slice (AStub KMigration) (un_AStub KMigration) (Migration_DeepCopyInto K) (pl_Items p)) (\<lambda>items.
     ret (p\<lparr>pl_TypeMeta := pl_TypeMeta p, pl_ListMeta := kc_ListMeta K (pl_ListMeta p),
            pl_Items := items\<rparr>))"

definition MigrationList_DeepCopy :: "k8scopy \<Rightarrow> addr option \<Rightarrow> (heap, addr option) go" where
  "MigrationList_DeepCopy K =
     copy_pointer (CStubList KMigration) (un_StubList KMigration) (MigrationList_DeepCopyInto K)"

definition MigrationList_DeepCopyObject :: "k8scopy \<Rightarrow> addr option \<Rightarrow> (heap, object) go" where
  "MigrationList_DeepCopyObject K q = to_object (TStubList KMigration) (MigrationList_DeepCopy K q)"

definition RestoreSpec_DeepCopyInto :: "RestoreSpec \<Rightarrow> (heap, RestoreSpec) go" where
  "RestoreSpec_DeepCopyInto p = ret p"

definition RestoreSpec_DeepCopy :: "addr option \<Rightarrow> (heap, addr option) go" where
  "RestoreSpec_DeepCopy = copy_pointer (CStubSpec KRestore) (un_StubSpec KRestore) RestoreSpec_DeepCopyInto"

definition RestoreStatus_DeepCopyInto :: "RestoreStatus \<Rightarrow> (heap, RestoreStatus) go" where
  "RestoreStatus_DeepCopyInto p = ret p"

definition RestoreStatus_DeepCopy :: "addr option \<Rightarrow> (heap, addr option) go" where
  "RestoreStatus_DeepCopy =
     copy_pointer (CStubStatus KRestore) (un_StubStatus KRestore) RestoreStatus_DeepCopyInto"

definition Restore_DeepCopyInto :: "k8scopy \<Rightarrow> Restore \<Rightarrow> (heap, Restore) go" where
  "Restore_DeepCopyInto K p =
     ret (p\<lparr>sb_TypeMeta := sb_TypeMeta p, sb_ObjectMeta := kc_ObjectMeta K (sb_ObjectMeta p),
            sb_Spec := sb_Spec p, sb_Status := sb_Status p\<rparr>)"

definition Restore_DeepCopy :: "k8scopy \<Rightarrow> addr option \<Rightarrow> (heap, addr option) go" where
  "Restore_DeepCopy K = copy_pointer (CStub KRestore) (un_Stub KRestore) (Restore_DeepCopyInto K)"

definition Restore_DeepCopyObject :: "k8scopy \<Rightarrow> addr option \<Rightarrow> (heap, object) go" where
  "Restore_DeepCopyObject K q = to_object (TStub KRestore) (Restore_DeepCopy K q)"

definition RestoreList_DeepCopyInto :: "k8scopy \<Rightarrow> RestoreList \<Rightarrow> (heap, RestoreList) go" where
  "RestoreList_DeepCopyInto K p =
     gobind (copy_slice (AStub KRestore) (un_AStub KRestore) (Restore_DeepCopyInto K) (pl_Items p)) (\<lambda>items.
     ret (p\<lparr>pl_TypeMeta := pl_TypeMeta p, pl_ListMeta := kc_ListMeta K (pl_ListMeta p),
            pl_Items := items\<rparr>))"

definition RestoreList_DeepCopy :: "k8scopy \<Rightarrow> addr option \<Rightarrow> (heap, addr option) go" where
  "RestoreList_DeepCopy K =
     copy_pointer (CStubList KRestore) (un_StubList KRestore) (RestoreList_DeepCopyInto K)"

definition RestoreList_DeepCopyObject :: "k8scopy \<Rightarrow> addr option \<Rightarrow> (heap, object) go" where
  "RestoreList_DeepCopyObject K q = to_object (TStubList KRestore) (RestoreList_DeepCopy K q)"

definition TrafficSpec_DeepCopyInto :: "TrafficSpec \<Rightarrow> (heap, TrafficSpec) go" where
  "TrafficSpec_DeepCopyInto p = ret p"

definition TrafficSpec_DeepCopy :: "addr option \<Rightarrow> (heap, addr option) go" where
  "TrafficSpec_DeepCopy = copy_pointer (CStubSpec KTraffic) (un_StubSpec KTraffic) TrafficSpec_DeepCopyInto"

definition TrafficStatus_DeepCopyInto :: "TrafficStatus \<Rightarrow> (heap, TrafficStatus) go" where
  "TrafficStatus_DeepCopyInto p = ret p"

definition TrafficStatus_DeepCopy :: "addr option \<Rightarrow> (heap, addr option) go" where
  "TrafficStatus_DeepCopy =
     copy_pointer (CStubStatus KTraffic) (un_StubStatus KTraffic) TrafficStatus_DeepCopyInto"

definition Traffic_DeepCopyInto :: "k8scopy \<Rightarrow> Traffic \<Rightarrow> (heap, Traffic) go" where
  "Traffic_DeepCopyInto K p =
     ret (p\<lparr>sb_TypeMeta := sb_TypeMeta p, sb_ObjectMeta := kc_ObjectMeta K (sb_ObjectMeta p),
            sb_Spec := sb_Spec p, sb_Status := sb_Status p\<rparr>)"

definition Traffic_DeepCopy :: "k8scopy \<Rightarrow> addr option \<Rightarrow> (heap, addr option) go" where
  "Traffic_DeepCopy K = copy_pointer (CStub KTraffic) (un_Stub KTraffic) (Traffic_DeepCopyInto K)"

definition Traffic_DeepCopyObject :: "k8scopy \<Rightarrow> addr option \<Rightarrow> (heap, object) go" where
  "Traffic_DeepCopyObject K q = to_object (TStub KTraffic) (Traffic_DeepCopy K q)"

definition TrafficList_DeepCopyInto :: "k8scopy \<Rightarrow> TrafficList \<Rightarrow> (heap, TrafficList) go" where
  "TrafficList_DeepCopyInto K p =
     gobind (copy_slice (AStub KTraffic) (un_AStub KTraffic) (Traffic_DeepCopyInto K) (pl_Items p)) (\<lambda>items.
     ret (p\<lparr>pl_TypeMeta := pl_TypeMeta p, pl_ListMeta := kc_ListMeta K (pl_ListMeta p),
            pl_Items := items\<rparr>))"

definition TrafficList_DeepCopy :: "k8scopy \<Rightarrow> addr option \<Rightarrow> (heap, addr option) go" where
  "TrafficList_DeepCopy K =
     copy_pointer (CStubList KTraffic) (un_StubList KTraffic) (TrafficList_DeepCopyInto K)"

definition TrafficList_DeepCopyObject :: "k8scopy \<Rightarrow> addr option \<Rightarrow> (heap, object) go" where
  "TrafficList_DeepCopyObject K q = to_object (TStubList KTraffic) (TrafficList_DeepCopy K q)"

end
