(* ===== verification/DeepCopyProps.thy ===== *)
theory DeepCopyProps
  imports DeepCopy
begin

text \<open>
  What the generated copy methods do: the value each struct denotes, the instances of \<open>copier\<close>, and
  the properties of \<^verbatim>\<open>DeepCopy\<close> that follow. \<open>k8s_copies\<close> is the hypothesis on the copy methods of the
  Kubernetes packages.
\<close>

section \<open>What the structs denote\<close>

abbreviation value_view :: "heap \<Rightarrow> 'p \<Rightarrow> 'p" where "value_view \<equiv> \<lambda>_ p. p"
abbreviation no_addr :: "heap \<Rightarrow> 'p \<Rightarrow> addr set" where "no_addr \<equiv> \<lambda>_ _. {}"

definition CephFS_view :: "heap \<Rightarrow> pCephFS \<Rightarrow> CephFS" where
  "CephFS_view h p =
     \<lparr>ceph_Monitors = view_slice un_AString value_view h (pc_Monitors p), ceph_Path = pc_Path p,
      ceph_ReadOnly = pc_ReadOnly p, ceph_SecretFile = pc_SecretFile p,
      ceph_SecretRef = pc_SecretRef p, ceph_User = pc_User p,
      ceph_CredentialName = pc_CredentialName p,
      ceph_CredentialNamespace = pc_CredentialNamespace p\<rparr>"

definition CephFS_reach :: "heap \<Rightarrow> pCephFS \<Rightarrow> addr set" where
  "CephFS_reach h p = reach_slice un_AString no_addr h (pc_Monitors p)"

definition MinIO_view :: "heap \<Rightarrow> pMinIO \<Rightarrow> MinIO" where
  "MinIO_view h p =
     \<lparr>minio_Endpoint = view_ptr un_MinioEndpoint value_view h (pm_Endpoint p),
      minio_Bucket = pm_Bucket p, minio_Folder = pm_Folder p,
      minio_InsecureTLSSkipVerify = pm_InsecureTLSSkipVerify p, minio_Region = pm_Region p\<rparr>"

definition MinIO_reach :: "heap \<Rightarrow> pMinIO \<Rightarrow> addr set" where
  "MinIO_reach h p = reach_ptr un_MinioEndpoint no_addr h (pm_Endpoint p)"

definition BackupTo_view :: "heap \<Rightarrow> pBackupTo \<Rightarrow> BackupTo" where
  "BackupTo_view h p =
     \<lparr>bt_NFS = view_ptr un_NFS value_view h (pt_NFS p),
      bt_PVC = view_ptr un_PVC value_view h (pt_PVC p),
      bt_CephFS = view_ptr un_CephFS CephFS_view h (pt_CephFS p),
      bt_S3 = view_ptr un_S3 value_view h (pt_S3 p),
      bt_MinIO = view_ptr un_MinIO MinIO_view h (pt_MinIO p),
      bt_RestServer = view_ptr un_RestServer value_view h (pt_RestServer p),
      bt_SFTP = view_ptr un_SFTP value_view h (pt_SFTP p),
      bt_Rclone = view_ptr un_Rclone value_view h (pt_Rclone p)\<rparr>"

definition BackupTo_reach :: "heap \<Rightarrow> pBackupTo \<Rightarrow> addr set" where
  "BackupTo_reach h p =
     reach_ptr un_NFS no_addr h (pt_NFS p) \<union> (reach_ptr un_PVC no_addr h (pt_PVC p) \<union>
     (reach_ptr un_CephFS CephFS_reach h (pt_CephFS p) \<union> (reach_ptr un_S3 no_addr h (pt_S3 p) \<union>
     (reach_ptr un_MinIO MinIO_reach h (pt_MinIO p) \<union>
     (reach_ptr un_RestServer no_addr h (pt_RestServer p) \<union>
     (reach_ptr un_SFTP no_addr h (pt_SFTP p) \<union> reach_ptr un_Rclone no_addr h (pt_Rclone p)))))))"

definition BackupSpec_view :: "heap \<Rightarrow> pBackupSpec \<Rightarrow> BackupSpec" where
  "BackupSpec_view h p =
     \<lparr>sp_Schedule = ps_Schedule p, sp_Retention = ps_Retention p,
      sp_BackupFrom = view_ptr un_BackupFrom value_view h (ps_BackupFrom p),
      sp_BackupTo = view_ptr un_BackupTo BackupTo_view h (ps_BackupTo p),
      sp_Timeout = ps_Timeout p, sp_Env = view_slice un_AEnvVar value_view h (ps_Env p),
      sp_TimeZone = ps_TimeZone p, sp_Cluster = ps_Cluster p,
      sp_CredentialName = ps_CredentialName p, sp_LogLevel = ps_LogLevel p,
      sp_LogFormat = ps_LogFormat p,
      sp_SuccessfulJobsHistoryLimit = ps_SuccessfulJobsHistoryLimit p,
      sp_FailedJobsHistoryLimit = ps_FailedJobsHistoryLimit p\<rparr>"

definition BackupSpec_reach :: "heap \<Rightarrow> pBackupSpec \<Rightarrow> addr set" where
  "BackupSpec_reach h p =
     reach_ptr un_BackupFrom no_addr h (ps_BackupFrom p) \<union>
     (reach_ptr un_BackupTo BackupTo_reach h (ps_BackupTo p) \<union>
     reach_slice un_AEnvVar no_addr h (ps_Env p))"

definition BackupStatus_view :: "heap \<Rightarrow> pBackupStatus \<Rightarrow> BackupStatus" where
  "BackupStatus_view h p =
     \<lparr>st_Conditions = view_slice un_ABackupCondition value_view h (pu_Conditions p),
      st_LastBackupTime = pu_LastBackupTime p, st_NextBackupTime = pu_NextBackupTime p,
      st_ObservedGeneration = pu_ObservedGeneration p,
      st_Storage = view_slice un_AString value_view h (pu_Storage p),
      st_Message = pu_Message p, st_Reason = pu_Reason p,
      st_ResourceType = pu_ResourceType p, st_ResourceName = pu_ResourceName p\<rparr>"

definition BackupStatus_reach :: "heap \<Rightarrow> pBackupStatus \<Rightarrow> addr set" where
  "BackupStatus_reach h p =
     reach_slice un_ABackupCondition no_addr h (pu_Conditions p) \<union>
     reach_slice un_AString no_addr h (pu_Storage p)"

definition Backup_view :: "heap \<Rightarrow> pBackup \<Rightarrow> TypeMeta \<times> Backup" where
  "Backup_view h p =
     (pb_TypeMeta p,
      \<lparr>b_ObjectMeta = pb_ObjectMeta p, b_Spec = BackupSpec_view h (pb_Spec p),
       b_Status = BackupStatus_view h (pb_Status p)\<rparr>)"

definition Backup_reach :: "heap \<Rightarrow> pBackup \<Rightarrow> addr set" where
  "Backup_reach h p = BackupSpec_reach h (pb_Spec p) \<union> BackupStatus_reach h (pb_Status p)"

text \<open>The part of a Backup that its copy aliases: the arrays of the slices in its status.\<close>

definition Backup_shared :: "heap \<Rightarrow> pBackup \<Rightarrow> addr set" where
  "Backup_shared h p = BackupStatus_reach h (pb_Status p)"

definition BackupList_view :: "heap \<Rightarrow> pList \<Rightarrow> TypeMeta \<times> ListMeta \<times> (TypeMeta \<times> Backup) list" where
  "BackupList_view h p =
     (pl_TypeMeta p, pl_ListMeta p, view_slice un_ABackup Backup_view h (pl_Items p))"

definition BackupList_reach :: "heap \<Rightarrow> pList \<Rightarrow> addr set" where
  "BackupList_reach h p = reach_slice un_ABackup Backup_reach h (pl_Items p)"

definition BackupList_shared :: "heap \<Rightarrow> pList \<Rightarrow> addr set" where
  "BackupList_shared h p = shared_slice un_ABackup Backup_shared h (pl_Items p)"

definition StubList_view :: "StubKind \<Rightarrow> heap \<Rightarrow> pList \<Rightarrow> TypeMeta \<times> ListMeta \<times> Stub list" where
  "StubList_view k h p =
     (pl_TypeMeta p, pl_ListMeta p, view_slice (un_AStub k) value_view h (pl_Items p))"

definition StubList_reach :: "StubKind \<Rightarrow> heap \<Rightarrow> pList \<Rightarrow> addr set" where
  "StubList_reach k h p = reach_slice (un_AStub k) no_addr h (pl_Items p)"

section \<open>The copies\<close>

lemma shares_nothing [simp]:
  "shared_ptr unwrap no_addr = no_addr"
  "shared_slice unwrap' no_addr = no_addr"
  "pair_reach no_addr no_addr = no_addr"
  by (auto simp: fun_eq_iff ptr_defs slice_defs pair_defs list_defs split: option.splits)

lemmas copier_value = copier_flat [of "\<lambda>p. p", OF refl]
lemmas copier_value_ptr = copier_ptr [OF copier_value, unfolded shares_nothing]
lemmas copier_value_slice = copier_slice [OF copier_value, unfolded shares_nothing]

interpretation CephFS_copy: copier pCephFS_refs CephFS_view CephFS_reach no_addr CephFS_DeepCopyInto
  using copier_struct [OF copier_value_slice [OF cell_AString.cell_type_axioms],
      where parts = pc_Monitors and put = "\<lambda>p x. p\<lparr>pc_Monitors := x\<rparr>"
        and build = "\<lambda>p x. (CephFS_view [] p)\<lparr>ceph_Monitors := x\<rparr>"]
  by (simp add: CephFS_view_def pCephFS_refs_def [abs_def] CephFS_reach_def [abs_def]
      CephFS_view_def [abs_def] CephFS_DeepCopyInto_def [abs_def])

interpretation MinIO_copy: copier pMinIO_refs MinIO_view MinIO_reach no_addr MinIO_DeepCopyInto
  using copier_struct [OF copier_value_ptr [OF cell_MinioEndpoint.cell_type_axioms],
      where parts = pm_Endpoint and put = "\<lambda>p x. p\<lparr>pm_Endpoint := x\<rparr>"
        and build = "\<lambda>p x. (MinIO_view [] p)\<lparr>minio_Endpoint := x\<rparr>"]
  by (simp add: MinIO_view_def pMinIO_refs_def [abs_def] MinIO_reach_def [abs_def]
      MinIO_view_def [abs_def] MinIO_DeepCopyInto_def [abs_def])

text \<open>The documented behaviour of the Kubernetes copy methods: the copy has the value copied.\<close>

locale k8s_copies =
  fixes K :: k8scopy
  assumes k8s_values: "kc_ObjectMeta K m = m" "kc_ListMeta K lm = lm" "kc_EnvVar K e = e"
    "kc_PersistentVolumeClaim K c = c"
begin

lemma copier_PVC: "copier (\<lambda>_. []) value_view no_addr no_addr (PVC_DeepCopyInto K)"
  using copier_flat [where f = "\<lambda>p. p\<lparr>pvc_claim := kc_PersistentVolumeClaim K (pvc_claim p)\<rparr>"]
  by (simp add: PVC_DeepCopyInto_def [abs_def] k8s_values)

lemma copier_EnvVar: "copier (\<lambda>_. []) value_view no_addr no_addr (\<lambda>e. ret (kc_EnvVar K e))"
  by (rule copier_flat) (rule k8s_values)

lemmas BackupTo_fields =
  copier_pair [OF copier_value_ptr [OF cell_NFS.cell_type_axioms]
  copier_pair [OF copier_ptr [OF copier_PVC cell_PVC.cell_type_axioms]
  copier_pair [OF copier_ptr [OF CephFS_copy.copier_axioms cell_CephFS.cell_type_axioms]
  copier_pair [OF copier_value_ptr [OF cell_S3.cell_type_axioms]
  copier_pair [OF copier_ptr [OF MinIO_copy.copier_axioms cell_MinIO.cell_type_axioms]
  copier_pair [OF copier_value_ptr [OF cell_RestServer.cell_type_axioms]
  copier_pair [OF copier_value_ptr [OF cell_SFTP.cell_type_axioms]
    copier_value_ptr [OF cell_Rclone.cell_type_axioms]]]]]]]]

end

sublocale k8s_copies \<subseteq> BackupTo_copy:
  copier pBackupTo_refs BackupTo_view BackupTo_reach no_addr "BackupTo_DeepCopyInto K"
  using copier_struct [OF BackupTo_fields, unfolded shares_nothing,
      where parts = "\<lambda>p. (pt_NFS p, pt_PVC p, pt_CephFS p, pt_S3 p, pt_MinIO p, pt_RestServer p,
              pt_SFTP p, pt_Rclone p)"
        and put = "\<lambda>p (nfs, pvc, cephfs, s3, minio, restServer, sftp, rclone).
              p\<lparr>pt_NFS := nfs, pt_PVC := pvc, pt_CephFS := cephfs, pt_S3 := s3, pt_MinIO := minio,
                pt_RestServer := restServer, pt_SFTP := sftp, pt_Rclone := rclone\<rparr>"
        and build = "\<lambda>_ (nfs, pvc, cephfs, s3, minio, restServer, sftp, rclone).
              \<lparr>bt_NFS = nfs, bt_PVC = pvc, bt_CephFS = cephfs, bt_S3 = s3, bt_MinIO = minio,
               bt_RestServer = restServer, bt_SFTP = sftp, bt_Rclone = rclone\<rparr>"]
  by (simp add: pBackupTo_refs_def [abs_def] BackupTo_reach_def [abs_def] BackupTo_view_def [abs_def]
      BackupTo_DeepCopyInto_def [abs_def] pair_defs gobind_assoc split_paired_all)

context k8s_copies
begin

lemmas BackupSpec_fields =
  copier_pair [OF copier_value_ptr [OF cell_BackupFrom.cell_type_axioms]
  copier_pair [OF copier_ptr [OF BackupTo_copy.copier_axioms cell_BackupTo.cell_type_axioms]
    copier_slice [OF copier_EnvVar cell_AEnvVar.cell_type_axioms]]]

end

sublocale k8s_copies \<subseteq> BackupSpec_copy:
  copier pBackupSpec_refs BackupSpec_view BackupSpec_reach no_addr "BackupSpec_DeepCopyInto K"
  using copier_struct [OF BackupSpec_fields, unfolded shares_nothing,
      where parts = "\<lambda>p. (ps_BackupFrom p, ps_BackupTo p, ps_Env p)"
        and put = "\<lambda>p (bfrom, bto, env).
              p\<lparr>ps_BackupFrom := bfrom, ps_BackupTo := bto, ps_Timeout := ps_Timeout p, ps_Env := env\<rparr>"
        and build = "\<lambda>p (bfrom, bto, env).
              (BackupSpec_view [] p)\<lparr>sp_BackupFrom := bfrom, sp_BackupTo := bto, sp_Env := env\<rparr>"]
  by (simp add: pBackupSpec_refs_def [abs_def] BackupSpec_reach_def [abs_def]
      BackupSpec_view_def BackupSpec_view_def [abs_def]
      BackupSpec_DeepCopyInto_def [abs_def] pair_defs gobind_assoc split_paired_all)

text \<open>
  \<^verbatim>\<open>out.Status = in.Status\<close> copies the slice headers: the copy keeps the status of the original and
  shares its arrays.
\<close>

lemmas BackupStatus_fields =
  copier_pair [OF copier_assign [OF copier_value_slice [OF cell_ABackupCondition.cell_type_axioms]]
    copier_assign [OF copier_value_slice [OF cell_AString.cell_type_axioms]]]

interpretation BackupStatus_copy:
  copier pBackupStatus_refs BackupStatus_view BackupStatus_reach BackupStatus_reach
    BackupStatus_DeepCopyInto
  using copier_struct [OF BackupStatus_fields,
      where parts = "\<lambda>p. (pu_Conditions p, pu_Storage p)"
        and put = "\<lambda>p (conditions, storage). p\<lparr>pu_Conditions := conditions, pu_Storage := storage\<rparr>"
        and build = "\<lambda>p (conditions, storage).
              (BackupStatus_view [] p)\<lparr>st_Conditions := conditions, st_Storage := storage\<rparr>"]
  by (simp add: pBackupStatus_refs_def [abs_def] BackupStatus_reach_def [abs_def]
      BackupStatus_view_def BackupStatus_view_def [abs_def]
      BackupStatus_DeepCopyInto_def [abs_def] pair_defs split_paired_all)

context k8s_copies
begin

lemmas Backup_fields = copier_pair [OF BackupSpec_copy.copier_axioms BackupStatus_copy.copier_axioms]

end

sublocale k8s_copies \<subseteq> Backup_copy:
  copier pBackup_refs Backup_view Backup_reach Backup_shared "Backup_DeepCopyInto K"
  using copier_struct [OF Backup_fields,
      where parts = "\<lambda>p. (pb_Spec p, pb_Status p)"
        and put = "\<lambda>p (spec, status). p\<lparr>pb_TypeMeta := pb_TypeMeta p,
              pb_ObjectMeta := kc_ObjectMeta K (pb_ObjectMeta p), pb_Spec := spec, pb_Status := status\<rparr>"
        and build = "\<lambda>p (spec, status). (pb_TypeMeta p,
              \<lparr>b_ObjectMeta = pb_ObjectMeta p, b_Spec = spec, b_Status = status\<rparr>)"]
  by (simp add: pBackup_refs_def [abs_def] Backup_reach_def [abs_def] Backup_shared_def [abs_def]
      Backup_view_def [abs_def] Backup_DeepCopyInto_def [abs_def] BackupStatus_DeepCopyInto_def
      pair_defs gobind_assoc split_paired_all k8s_values)

sublocale k8s_copies \<subseteq> BackupList_copy:
  copier "pList_refs TABackup" BackupList_view BackupList_reach BackupList_shared
    "BackupList_DeepCopyInto K"
  using copier_struct [OF copier_slice [OF Backup_copy.copier_axioms cell_ABackup.cell_type_axioms],
      where parts = pl_Items
        and put = "\<lambda>p items. p\<lparr>pl_TypeMeta := pl_TypeMeta p,
              pl_ListMeta := kc_ListMeta K (pl_ListMeta p), pl_Items := items\<rparr>"
        and build = "\<lambda>p items. (pl_TypeMeta p, pl_ListMeta p, items)"]
  by (simp add: pList_refs_def [abs_def] BackupList_reach_def [abs_def] BackupList_shared_def [abs_def]
      BackupList_view_def [abs_def] BackupList_DeepCopyInto_def [abs_def] k8s_values)

sublocale k8s_copies \<subseteq> Stub_copy:
  copier "\<lambda>_. []" value_view no_addr no_addr
    "\<lambda>p. ret (p\<lparr>sb_TypeMeta := sb_TypeMeta p, sb_ObjectMeta := kc_ObjectMeta K (sb_ObjectMeta p),
       sb_Spec := sb_Spec p, sb_Status := sb_Status p\<rparr>)"
  by (rule copier_flat) (simp add: k8s_values)

lemmas Stub_DeepCopyInto_defs = Clone_DeepCopyInto_def [abs_def] Migration_DeepCopyInto_def [abs_def]
  Restore_DeepCopyInto_def [abs_def] Traffic_DeepCopyInto_def [abs_def]

lemmas StubList_DeepCopyInto_defs = CloneList_DeepCopyInto_def [abs_def]
  MigrationList_DeepCopyInto_def [abs_def] RestoreList_DeepCopyInto_def [abs_def]
  TrafficList_DeepCopyInto_def [abs_def]

context k8s_copies
begin

lemma copier_StubList:
  "copier (pList_refs (TAStub k)) (StubList_view k) (StubList_reach k) no_addr
     (\<lambda>p. gobind (copy_slice (AStub k) (un_AStub k)
         (\<lambda>p. ret (p\<lparr>sb_TypeMeta := sb_TypeMeta p, sb_ObjectMeta := kc_ObjectMeta K (sb_ObjectMeta p),
            sb_Spec := sb_Spec p, sb_Status := sb_Status p\<rparr>)) (pl_Items p)) (\<lambda>items.
       ret (p\<lparr>pl_TypeMeta := pl_TypeMeta p, pl_ListMeta := kc_ListMeta K (pl_ListMeta p),
         pl_Items := items\<rparr>)))"
  using copier_struct [OF copier_slice [OF Stub_copy.copier_axioms cell_AStub.cell_type_axioms],
      where parts = pl_Items
        and put = "\<lambda>p items. p\<lparr>pl_TypeMeta := pl_TypeMeta p,
              pl_ListMeta := kc_ListMeta K (pl_ListMeta p), pl_Items := items\<rparr>"
        and build = "\<lambda>p items. (pl_TypeMeta p, pl_ListMeta p, items)"]
  by (simp add: pList_refs_def [abs_def] StubList_reach_def [abs_def] StubList_view_def [abs_def]
      k8s_values)

end

section \<open>Every copy method\<close>

text \<open>The \<^verbatim>\<open>DeepCopy\<close> and \<^verbatim>\<open>DeepCopyObject\<close> methods of the two packages, by the receiver's type.\<close>

fun DeepCopy_of :: "k8scopy \<Rightarrow> tag \<Rightarrow> (addr option \<Rightarrow> (heap, addr option) go) option" where
  "DeepCopy_of K TBackup = Some (Backup_DeepCopy K)"
| "DeepCopy_of K TBackupList = Some (BackupList_DeepCopy K)"
| "DeepCopy_of K TBackupSpec = Some (BackupSpec_DeepCopy K)"
| "DeepCopy_of K TBackupStatus = Some BackupStatus_DeepCopy"
| "DeepCopy_of K TBackupFrom = Some BackupFrom_DeepCopy"
| "DeepCopy_of K TBackupTo = Some (BackupTo_DeepCopy K)"
| "DeepCopy_of K TNFS = Some NFS_DeepCopy"
| "DeepCopy_of K TPVC = Some (PVC_DeepCopy K)"
| "DeepCopy_of K TCephFS = Some CephFS_DeepCopy"
| "DeepCopy_of K TS3 = Some S3_DeepCopy"
| "DeepCopy_of K TMinIO = Some MinIO_DeepCopy"
| "DeepCopy_of K TMinioEndpoint = Some MinioEndpoint_DeepCopy"
| "DeepCopy_of K TRestServer = Some RestServer_DeepCopy"
| "DeepCopy_of K TSFTP = Some SFTP_DeepCopy"
| "DeepCopy_of K TRclone = Some Rclone_DeepCopy"
| "DeepCopy_of K (TStub KClone) = Some (Clone_DeepCopy K)"
| "DeepCopy_of K (TStub KMigration) = Some (Migration_DeepCopy K)"
| "DeepCopy_of K (TStub KRestore) = Some (Restore_DeepCopy K)"
| "DeepCopy_of K (TStub KTraffic) = Some (Traffic_DeepCopy K)"
| "DeepCopy_of K (TStubList KClone) = Some (CloneList_DeepCopy K)"
| "DeepCopy_of K (TStubList KMigration) = Some (MigrationList_DeepCopy K)"
| "DeepCopy_of K (TStubList KRestore) = Some (RestoreList_DeepCopy K)"
| "DeepCopy_of K (TStubList KTraffic) = Some (TrafficList_DeepCopy K)"
| "DeepCopy_of K (TStubSpec KClone) = Some CloneSpec_DeepCopy"
| "DeepCopy_of K (TStubSpec KMigration) = Some MigrationSpec_DeepCopy"
| "DeepCopy_of K (TStubSpec KRestore) = Some RestoreSpec_DeepCopy"
| "DeepCopy_of K (TStubSpec KTraffic) = Some TrafficSpec_DeepCopy"
| "DeepCopy_of K (TStubStatus KClone) = Some CloneStatus_DeepCopy"
| "DeepCopy_of K (TStubStatus KMigration) = Some MigrationStatus_DeepCopy"
| "DeepCopy_of K (TStubStatus KRestore) = Some RestoreStatus_DeepCopy"
| "DeepCopy_of K (TStubStatus KTraffic) = Some TrafficStatus_DeepCopy"
| "DeepCopy_of K _ = None"

fun DeepCopyObject_of :: "k8scopy \<Rightarrow> tag \<Rightarrow> (addr option \<Rightarrow> (heap, object) go) option" where
  "DeepCopyObject_of K TBackup = Some (Backup_DeepCopyObject K)"
| "DeepCopyObject_of K TBackupList = Some (BackupList_DeepCopyObject K)"
| "DeepCopyObject_of K (TStub KClone) = Some (Clone_DeepCopyObject K)"
| "DeepCopyObject_of K (TStub KMigration) = Some (Migration_DeepCopyObject K)"
| "DeepCopyObject_of K (TStub KRestore) = Some (Restore_DeepCopyObject K)"
| "DeepCopyObject_of K (TStub KTraffic) = Some (Traffic_DeepCopyObject K)"
| "DeepCopyObject_of K (TStubList KClone) = Some (CloneList_DeepCopyObject K)"
| "DeepCopyObject_of K (TStubList KMigration) = Some (MigrationList_DeepCopyObject K)"
| "DeepCopyObject_of K (TStubList KRestore) = Some (RestoreList_DeepCopyObject K)"
| "DeepCopyObject_of K (TStubList KTraffic) = Some (TrafficList_DeepCopyObject K)"
| "DeepCopyObject_of K _ = None"

text \<open>\<open>m\<close> copies pointers to cells of type \<open>t\<close>: it ends, keeps the heap typed, and is nil only on nil.\<close>

definition copies_at :: "tag \<Rightarrow> (addr option \<Rightarrow> (heap, addr option) go) \<Rightarrow> bool" where
  "copies_at t m \<longleftrightarrow> (\<forall>h q. typed h \<and> refs_ok h (ptr_refs t q) \<longrightarrow>
     (\<exists>h'. m q h = (Ret (map_option (\<lambda>_. length h) q), h') \<and>
           prefix h h' \<and> typed h' \<and> refs_ok h' (ptr_refs t (map_option (\<lambda>_. length h) q))))"

lemma copy_pointer_addr:
  assumes "copy_pointer wrap unwrap into q h = (Ret q', h')"
  shows "q' = map_option (\<lambda>_. length h) q"
  using assms
  by (auto simp: copy_pointer_def go_run load_def new_cell_def store_def
      split: option.splits if_splits prod.splits outcome.splits)

lemma copies_at_copy_pointer:
  assumes "copier refs view reach shared into" and "cell_type wrap unwrap t refs (\<lambda>_. 1)"
  shows "copies_at t (copy_pointer wrap unwrap into)"
proof -
  note c = copier_ptr [OF assms]
  show ?thesis
    unfolding copies_at_def
    by (metis (no_types, lifting) copier.copies [OF c] copied_def copy_pointer_addr)
qed

lemmas copies_value = copies_at_copy_pointer [OF copier_value]

lemmas copies_value_cell =
  copies_value [OF cell_BackupFrom.cell_type_axioms] copies_value [OF cell_NFS.cell_type_axioms]
  copies_value [OF cell_S3.cell_type_axioms] copies_value [OF cell_MinioEndpoint.cell_type_axioms]
  copies_value [OF cell_RestServer.cell_type_axioms] copies_value [OF cell_SFTP.cell_type_axioms]
  copies_value [OF cell_Rclone.cell_type_axioms] copies_value [OF cell_StubSpec.cell_type_axioms]
  copies_value [OF cell_StubStatus.cell_type_axioms]

lemmas stub_DeepCopy_defs = Clone_DeepCopy_def Migration_DeepCopy_def Restore_DeepCopy_def
  Traffic_DeepCopy_def CloneList_DeepCopy_def MigrationList_DeepCopy_def RestoreList_DeepCopy_def
  TrafficList_DeepCopy_def StubList_DeepCopyInto_defs Stub_DeepCopyInto_defs

lemmas value_DeepCopy_defs = BackupFrom_DeepCopy_def NFS_DeepCopy_def S3_DeepCopy_def
  MinioEndpoint_DeepCopy_def RestoreSpec_DeepCopy_def RestServer_DeepCopy_def SFTP_DeepCopy_def
  Rclone_DeepCopy_def CloneSpec_DeepCopy_def MigrationSpec_DeepCopy_def TrafficSpec_DeepCopy_def
  CloneStatus_DeepCopy_def MigrationStatus_DeepCopy_def RestoreStatus_DeepCopy_def
  TrafficStatus_DeepCopy_def
  BackupFrom_DeepCopyInto_def [abs_def] NFS_DeepCopyInto_def [abs_def] S3_DeepCopyInto_def [abs_def]
  MinioEndpoint_DeepCopyInto_def [abs_def] RestServer_DeepCopyInto_def [abs_def]
  SFTP_DeepCopyInto_def [abs_def] Rclone_DeepCopyInto_def [abs_def]
  CloneSpec_DeepCopyInto_def [abs_def] MigrationSpec_DeepCopyInto_def [abs_def]
  RestoreSpec_DeepCopyInto_def [abs_def] TrafficSpec_DeepCopyInto_def [abs_def]
  CloneStatus_DeepCopyInto_def [abs_def] MigrationStatus_DeepCopyInto_def [abs_def]
  RestoreStatus_DeepCopyInto_def [abs_def] TrafficStatus_DeepCopyInto_def [abs_def]

context k8s_copies
begin

lemma value_copies:
  "copies_at TBackupFrom BackupFrom_DeepCopy" "copies_at TNFS NFS_DeepCopy" "copies_at TS3 S3_DeepCopy"
  "copies_at TMinioEndpoint MinioEndpoint_DeepCopy" "copies_at TRestServer RestServer_DeepCopy"
  "copies_at TSFTP SFTP_DeepCopy" "copies_at TRclone Rclone_DeepCopy"
  unfolding value_DeepCopy_defs by (rule copies_value_cell)+

lemma stub_copies:
  "copies_at (TStubSpec KClone) CloneSpec_DeepCopy" "copies_at (TStubSpec KMigration) MigrationSpec_DeepCopy"
  "copies_at (TStubSpec KRestore) RestoreSpec_DeepCopy" "copies_at (TStubSpec KTraffic) TrafficSpec_DeepCopy"
  "copies_at (TStubStatus KClone) CloneStatus_DeepCopy"
  "copies_at (TStubStatus KMigration) MigrationStatus_DeepCopy"
  "copies_at (TStubStatus KRestore) RestoreStatus_DeepCopy"
  "copies_at (TStubStatus KTraffic) TrafficStatus_DeepCopy"
  "copies_at (TStub KClone) (Clone_DeepCopy K)" "copies_at (TStub KMigration) (Migration_DeepCopy K)"
  "copies_at (TStub KRestore) (Restore_DeepCopy K)" "copies_at (TStub KTraffic) (Traffic_DeepCopy K)"
  "copies_at (TStubList KClone) (CloneList_DeepCopy K)"
  "copies_at (TStubList KMigration) (MigrationList_DeepCopy K)"
  "copies_at (TStubList KRestore) (RestoreList_DeepCopy K)"
  "copies_at (TStubList KTraffic) (TrafficList_DeepCopy K)"
  unfolding value_DeepCopy_defs stub_DeepCopy_defs
  by (rule copies_value_cell
      copies_at_copy_pointer [OF Stub_copy.copier_axioms cell_Stub.cell_type_axioms]
      copies_at_copy_pointer [OF copier_StubList cell_StubList.cell_type_axioms])+

lemma struct_copies:
  "copies_at TBackup (Backup_DeepCopy K)" "copies_at TBackupList (BackupList_DeepCopy K)"
  "copies_at TBackupSpec (BackupSpec_DeepCopy K)" "copies_at TBackupStatus BackupStatus_DeepCopy"
  "copies_at TBackupTo (BackupTo_DeepCopy K)" "copies_at TPVC (PVC_DeepCopy K)"
  "copies_at TCephFS CephFS_DeepCopy" "copies_at TMinIO MinIO_DeepCopy"
  unfolding Backup_DeepCopy_def BackupList_DeepCopy_def BackupSpec_DeepCopy_def
    BackupStatus_DeepCopy_def BackupTo_DeepCopy_def PVC_DeepCopy_def CephFS_DeepCopy_def
    MinIO_DeepCopy_def
  by (rule copies_at_copy_pointer [OF Backup_copy.copier_axioms cell_Backup.cell_type_axioms]
      copies_at_copy_pointer [OF BackupList_copy.copier_axioms cell_BackupList.cell_type_axioms]
      copies_at_copy_pointer [OF BackupSpec_copy.copier_axioms cell_BackupSpec.cell_type_axioms]
      copies_at_copy_pointer [OF BackupStatus_copy.copier_axioms cell_BackupStatus.cell_type_axioms]
      copies_at_copy_pointer [OF BackupTo_copy.copier_axioms cell_BackupTo.cell_type_axioms]
      copies_at_copy_pointer [OF copier_PVC cell_PVC.cell_type_axioms]
      copies_at_copy_pointer [OF CephFS_copy.copier_axioms cell_CephFS.cell_type_axioms]
      copies_at_copy_pointer [OF MinIO_copy.copier_axioms cell_MinIO.cell_type_axioms])+

lemma Backup_ptr_copies:
  "\<lbrakk>typed h; refs_ok h (ptr_refs TBackup q)\<rbrakk> \<Longrightarrow> \<exists>q' h'. Backup_DeepCopy K q h = (Ret q', h') \<and>
     copied (ptr_refs TBackup) (view_ptr un_Backup Backup_view) (reach_ptr un_Backup Backup_reach)
       (shared_ptr un_Backup Backup_shared) h q h' q'"
  using copier.copies [OF copier_ptr [OF Backup_copy.copier_axioms cell_Backup.cell_type_axioms]]
  by (simp add: Backup_DeepCopy_def)

lemma every_DeepCopy: "DeepCopy_of K t = Some m \<Longrightarrow> copies_at t m"
  by (cases "(K, t)" rule: DeepCopy_of.cases) (auto simp: value_copies stub_copies struct_copies)

end

lemmas DeepCopyObject_defs = Backup_DeepCopyObject_def BackupList_DeepCopyObject_def
  Clone_DeepCopyObject_def Migration_DeepCopyObject_def Restore_DeepCopyObject_def
  Traffic_DeepCopyObject_def CloneList_DeepCopyObject_def MigrationList_DeepCopyObject_def
  RestoreList_DeepCopyObject_def TrafficList_DeepCopyObject_def

lemma DeepCopyObject_of_DeepCopy:
  "DeepCopyObject_of K t = Some ob \<Longrightarrow> \<exists>m. DeepCopy_of K t = Some m \<and> (\<forall>q. ob q = to_object t (m q))"
  by (cases "(K, t)" rule: DeepCopyObject_of.cases) (auto simp: DeepCopyObject_defs)

lemma to_object_run:
  "m h = (Ret q, h') \<Longrightarrow> to_object t m h = (Ret (map_option (Pair t) q), h')"
  by (simp add: to_object_def go_run split: option.split)

text \<open>Any sequence of writes, each of a whole cell.\<close>

definition writes :: "(addr \<times> cell) list \<Rightarrow> heap \<Rightarrow> heap" where
  "writes ws h = fold (\<lambda>(a, c) h. h[a := c]) ws h"

lemma writes_nth: "a \<notin> fst ` set ws \<Longrightarrow> writes ws h ! a = h ! a"
  by (induction ws arbitrary: h) (auto simp: writes_def)

context layout
begin

lemma writes_elsewhere:
  assumes "reach h p \<inter> fst ` set ws = {}"
  shows "view (writes ws h) p = view h p"
proof -
  have "writes ws h ! a = h ! a" if "a \<in> reach h p" for a
    using that assms by (intro writes_nth) blast
  from local [OF this] show ?thesis by blast
qed

end

context k8s_copies
begin

lemma Backup_DeepCopy_run:
  assumes h: "typed h" and a: "a < length h" "h ! a = CBackup p"
  obtains p' h' where "Backup_DeepCopy K (Some a) h = (Ret (Some (length h)), h')"
    "prefix h h'" "typed h'" "length h < length h'" "h' ! length h = CBackup p'"
    "refs_ok h (pBackup_refs p)" "refs_ok h' (pBackup_refs p')"
    "Backup_view h' p' = Backup_view h p" "pb_Status p' = pb_Status p"
    "\<And>x. x \<in> BackupSpec_reach h' (pb_Spec p') \<Longrightarrow> length h < x"
proof -
  let ?h0 = "h @ [CBackup p]"
  have ok: "refs_ok h (pBackup_refs p)" using typed_nth [OF h a(1)] a(2) by simp
  then have h0: "typed ?h0" "refs_ok ?h0 (pBackupSpec_refs (pb_Spec p))"
    using typed_snoc [OF h, of "CBackup p"] refs_ok_prefix [of h ?h0] by (auto simp: pBackup_refs_def)
  obtain spec h1 where spec: "BackupSpec_DeepCopyInto K (pb_Spec p) ?h0 = (Ret spec, h1)"
    "copied pBackupSpec_refs BackupSpec_view BackupSpec_reach no_addr ?h0 (pb_Spec p) h1 spec"
    using copier.copies [OF BackupSpec_copy.copier_axioms h0] by blast
  define p' where "p' = p\<lparr>pb_ObjectMeta := kc_ObjectMeta K (pb_ObjectMeta p), pb_Spec := spec\<rparr>"
  let ?h' = "h1[length h := CBackup p']"
  have run: "Backup_DeepCopy K (Some a) h = (Ret (Some (length h)), ?h')"
    using a spec(1)
    by (simp add: Backup_DeepCopy_def copy_pointer_def load_def new_cell_def store_def go_run
        un_Backup_def Backup_DeepCopyInto_def p'_def)
  have len: "length h < length h1"
    using spec(2) prefix_length_le by (fastforce simp: copied_def)
  note c = Backup_ptr_copies [OF h, of "Some a"]
  have cp: "copied (ptr_refs TBackup) (view_ptr un_Backup Backup_view) (reach_ptr un_Backup Backup_reach)
    (shared_ptr un_Backup Backup_shared) h (Some a) ?h' (Some (length h))"
    using c a run by (simp add: ptr_refs_def ref_ok_def)
  have "length h \<notin> BackupSpec_reach h1 spec"
    using spec(2) by (auto simp: copied_def)
  then have "BackupSpec_reach ?h' spec = BackupSpec_reach h1 spec"
    by (rule BackupSpec_copy.write_elsewhere)
  then have "length h < x" if "x \<in> BackupSpec_reach ?h' (pb_Spec p')" for x
    using that spec(2) by (auto simp: copied_def p'_def)
  moreover have "Backup_view ?h' p' = Backup_view h p"
    using cp a len by (simp add: copied_def view_ptr_def un_Backup_def)
  moreover have "pb_Status p' = pb_Status p" by (simp add: p'_def)
  ultimately show thesis
    using that [OF run, of p'] cp ok len typed_nth [of ?h' "length h"] by (simp add: copied_def)
qed

lemmas Backup_grow = Backup_copy.grow
lemmas Backup_reach_bound = Backup_copy.reach_bound
lemmas Backup_writes = Backup_copy.writes_elsewhere
lemmas BackupSpec_writes = BackupSpec_copy.writes_elsewhere

end

lemma elems_update:
  "elems s (xs[sl_off s + i := c]) = (elems s xs)[i := c]" if "i < sl_len s"
  using that by (simp add: elems_def drop_update_swap take_update_swap)

section \<open>An example heap\<close>

text \<open>A Backup to CephFS with one monitor, one environment variable and one condition.\<close>

definition value_k8s :: k8scopy where
  "value_k8s = \<lparr>kc_ObjectMeta = (\<lambda>m. m), kc_ListMeta = (\<lambda>m. m), kc_EnvVar = (\<lambda>e. e),
     kc_PersistentVolumeClaim = (\<lambda>c. c)\<rparr>"

interpretation value_k8s: k8s_copies value_k8s
  by unfold_locales (simp_all add: value_k8s_def)

definition ex_condition :: "string \<Rightarrow> BackupCondition" where
  "ex_condition st = \<lparr>bc_Type = ''Ready'', bc_Status = st, bc_LastProbeTime = 0,
     bc_LastTransitionTime = 0, bc_Reason = [], bc_Message = []\<rparr>"

definition ex_cephfs :: "addr \<Rightarrow> pCephFS" where
  "ex_cephfs m = \<lparr>pc_Monitors = Some \<lparr>sl_array = m, sl_off = 0, sl_len = 1\<rparr>, pc_Path = ''/'',
     pc_ReadOnly = False, pc_SecretFile = [], pc_SecretRef = [], pc_User = ''admin'',
     pc_CredentialName = ''ceph'', pc_CredentialNamespace = ''default''\<rparr>"

definition ex_to :: "addr \<Rightarrow> pBackupTo" where
  "ex_to c = \<lparr>pt_NFS = None, pt_PVC = None, pt_CephFS = Some c, pt_S3 = None, pt_MinIO = None,
     pt_RestServer = None, pt_SFTP = None, pt_Rclone = None\<rparr>"

definition ex_backup :: "addr \<Rightarrow> addr \<Rightarrow> pBackup" where
  "ex_backup bt env = \<lparr>pb_TypeMeta = \<lparr>tm_Kind = ''Backup'', tm_APIVersion = ''storage.hybfkuf.io/v1alpha1''\<rparr>,
     pb_ObjectMeta = emptyMeta\<lparr>om_Name := ''web''\<rparr>,
     pb_Spec = \<lparr>ps_Schedule = ''@daily'', ps_Retention = 3, ps_BackupFrom = None,
       ps_BackupTo = Some bt, ps_Timeout = 0,
       ps_Env = Some \<lparr>sl_array = env, sl_off = 0, sl_len = 1\<rparr>, ps_TimeZone = [], ps_Cluster = [],
       ps_CredentialName = ''restic'', ps_LogLevel = [], ps_LogFormat = [],
       ps_SuccessfulJobsHistoryLimit = 3, ps_FailedJobsHistoryLimit = 1\<rparr>,
     pb_Status = \<lparr>pu_Conditions = Some \<lparr>sl_array = 4, sl_off = 0, sl_len = 1\<rparr>,
       pu_LastBackupTime = 0, pu_NextBackupTime = 0, pu_ObservedGeneration = 1, pu_Storage = None,
       pu_Message = [], pu_Reason = [], pu_ResourceType = [], pu_ResourceName = []\<rparr>\<rparr>"

definition ex_heap :: heap where
  "ex_heap = [AString [''mon''], CCephFS (ex_cephfs 0), CBackupTo (ex_to 1),
     AEnvVar [\<lparr>ev_Name = ''A'', ev_Value = ''1''\<rparr>], ABackupCondition [ex_condition ''True''],
     CBackup (ex_backup 2 3)]"

definition ex_copied :: heap where
  "ex_copied = ex_heap @ [CBackup (ex_backup 7 10), CBackupTo (ex_to 8), CCephFS (ex_cephfs 9),
     AString [''mon''], AEnvVar [\<lparr>ev_Name = ''A'', ev_Value = ''1''\<rparr>]]"

lemmas ex_defs = ex_heap_def ex_copied_def ex_backup_def ex_to_def ex_cephfs_def ex_condition_def

lemma ex_typed: "typed ex_heap" "refs_ok ex_heap (ptr_refs TBackup (Some 5))"
  by code_simp+

lemma ex_run: "Backup_DeepCopy value_k8s (Some 5) ex_heap = (Ret (Some 6), ex_copied)"
  by code_simp

lemma ex_cells: "ex_heap ! 5 = CBackup (ex_backup 2 3)" "5 < length ex_heap"
  "ex_copied ! 6 = CBackup (ex_backup 7 10)"
  by (simp_all add: ex_heap_def ex_copied_def)

section \<open>Properties\<close>

text \<open>
  C19. \<^verbatim>\<open>Backup.DeepCopy\<close> refines the identity on values: in any typed heap it returns without a
  panic, the pointer it returns denotes exactly the Backup of the receiver (metadata, spec with every
  storage, and status), everything that was in the heap is unchanged, and a nil receiver gives nil
  while any other receiver gives a pointer to a new object.
\<close>

theorem Backup_DeepCopy_refines:
  assumes "k8s_copies K" and "typed h" and "refs_ok h (ptr_refs TBackup q)"
  shows "\<exists>q' h'. Backup_DeepCopy K q h = (Ret q', h') \<and> prefix h h' \<and>
    view_ptr un_Backup Backup_view h' q' = view_ptr un_Backup Backup_view h q \<and>
    (case q of None \<Rightarrow> q' = None \<and> h' = h | Some a \<Rightarrow> q' = Some (length h))"
proof -
  obtain q' h' where c: "Backup_DeepCopy K q h = (Ret q', h')"
    "copied (ptr_refs TBackup) (view_ptr un_Backup Backup_view) (reach_ptr un_Backup Backup_reach)
       (shared_ptr un_Backup Backup_shared) h q h' q'"
    using k8s_copies.Backup_ptr_copies [OF assms] by blast
  moreover have "q' = map_option (\<lambda>_. length h) q"
    using c(1) copy_pointer_addr by (simp add: Backup_DeepCopy_def)
  moreover have "h' = h" if "q = None"
    using c(1) that by (simp add: Backup_DeepCopy_def copy_pointer_def ret_run)
  ultimately show ?thesis by (cases q) (simp_all add: copied_def)
qed

theorem Backup_DeepCopy_refines_witness:
  "view_ptr un_Backup Backup_view ex_copied (Some 6) = view_ptr un_Backup Backup_view ex_heap (Some 5)"
  using Backup_DeepCopy_refines [OF value_k8s.k8s_copies_axioms ex_typed] by (simp add: ex_run)

text \<open>
  C20. The copy of a Backup's spec is deep: writing whatever cells through the copy or through any
  pointer and slice of its spec leaves the original Backup as it was, and writing whatever cells
  through the original leaves the spec of the copy as it was.
\<close>

theorem copied_spec_is_isolated:
  assumes K: "k8s_copies K" and h: "typed h" and a: "a < length h" "h ! a = CBackup p"
    and run: "Backup_DeepCopy K (Some a) h = (Ret (Some b), h')" and b: "h' ! b = CBackup p'"
    and ws: "fst ` set ws \<subseteq> insert b (BackupSpec_reach h' (pb_Spec p'))"
    and vs: "fst ` set vs \<subseteq> insert a (Backup_reach h' p)"
  shows "Backup_view (writes ws h') p = Backup_view h p \<and>
    BackupSpec_view (writes vs h') (pb_Spec p') = BackupSpec_view h (pb_Spec p)"
proof
  from K h a obtain p'' h'' where c: "Backup_DeepCopy K (Some a) h = (Ret (Some (length h)), h'')"
    "prefix h h''" "h'' ! length h = CBackup p''" "refs_ok h (pBackup_refs p)"
    "Backup_view h'' p'' = Backup_view h p"
    "\<And>x. x \<in> BackupSpec_reach h'' (pb_Spec p'') \<Longrightarrow> length h < x"
    by (rule k8s_copies.Backup_DeepCopy_run) blast
  with run b have eq: "b = length h" "h'' = h'" "p'' = p'" by simp_all
  note c = c [unfolded eq]
  have old: "Backup_view h' p = Backup_view h p" "Backup_reach h' p = Backup_reach h p"
    "Backup_reach h p \<subseteq> {..<length h}"
    using k8s_copies.Backup_grow [OF K h c(4,2)] k8s_copies.Backup_reach_bound [OF K h c(4)]
    by auto
  have "Backup_reach h' p \<inter> fst ` set ws = {}"
    using ws c(6) old(2,3) by (fastforce simp: eq)
  then show "Backup_view (writes ws h') p = Backup_view h p"
    using k8s_copies.Backup_writes [OF K] old(1) by simp
  have "BackupSpec_reach h' (pb_Spec p') \<inter> fst ` set vs = {}"
    using vs c(6) old(2,3) a(1) by fastforce
  then show "BackupSpec_view (writes vs h') (pb_Spec p') = BackupSpec_view h (pb_Spec p)"
    using k8s_copies.BackupSpec_writes [OF K] c(5) by (simp add: Backup_view_def)
qed

theorem copied_spec_is_isolated_witness:
  "Backup_view (writes [(9, AString [''other''])] ex_copied) (ex_backup 2 3) =
     Backup_view ex_heap (ex_backup 2 3) \<and>
   BackupSpec_view (writes [(0, AString [''other''])] ex_copied) (pb_Spec (ex_backup 7 10)) =
     BackupSpec_view ex_heap (pb_Spec (ex_backup 2 3))"
proof -
  have "9 \<in> BackupSpec_reach ex_copied (pb_Spec (ex_backup 7 10))"
    and "0 \<in> Backup_reach ex_copied (ex_backup 2 3)"
    by (simp_all add: ex_defs Backup_reach_def BackupSpec_reach_def BackupTo_reach_def CephFS_reach_def
        reach_ptr_def reach_slice_def unwrap_defs)
  then show ?thesis
    using copied_spec_is_isolated [OF value_k8s.k8s_copies_axioms ex_typed(1) ex_cells(2,1) ex_run
        ex_cells(3), of "[(9, AString [''other''])]" "[(0, AString [''other''])]"] by simp
qed

text \<open>
  C22. The copy of a Backup's status is not deep: \<^verbatim>\<open>out.Status = in.Status\<close> copies slice headers, so
  assigning \<^verbatim>\<open>copy.Status.Conditions[i]\<close> changes the same condition of the original.
\<close>

theorem copied_status_is_shared:
  assumes K: "k8s_copies K" and h: "typed h" and a: "a < length h" "h ! a = CBackup p"
    and run: "Backup_DeepCopy K (Some a) h = (Ret (Some b), h')" and b: "h' ! b = CBackup p'"
    and s: "pu_Conditions (pb_Status p') = Some s" and i: "i < sl_len s"
    and xs: "h' ! sl_array s = ABackupCondition xs"
    and h'': "h'' = h'[sl_array s := ABackupCondition (xs[sl_off s + i := c])]"
  shows "st_Conditions (b_Status (snd (Backup_view h'' p))) =
    (st_Conditions (b_Status (snd (Backup_view h p))))[i := c]"
proof -
  from K h a obtain p1 h1 where r: "Backup_DeepCopy K (Some a) h = (Ret (Some (length h)), h1)"
    "h1 ! length h = CBackup p1" "refs_ok h1 (pBackup_refs p1)"
    "Backup_view h1 p1 = Backup_view h p" "pb_Status p1 = pb_Status p"
    by (rule k8s_copies.Backup_DeepCopy_run) blast
  with run b have eq: "h1 = h'" "p1 = p'" by simp_all
  note r = r [unfolded eq]
  have arr: "sl_array s < length h'"
    using r(3) s by (simp add: pBackup_refs_def pBackupStatus_refs_def slice_refs_def ref_ok_def)
  have "st_Conditions (b_Status (snd (Backup_view h p))) = elems s xs"
    unfolding r(4) [symmetric]
    by (simp add: Backup_view_def BackupStatus_view_def view_slice_def s xs un_ABackupCondition_def)
  moreover have "st_Conditions (b_Status (snd (Backup_view h'' p))) = elems s (xs[sl_off s + i := c])"
    using s arr r(5)
    by (simp add: Backup_view_def BackupStatus_view_def view_slice_def h'' un_ABackupCondition_def)
  ultimately show ?thesis using i by (simp add: elems_update)
qed

theorem copied_status_is_shared_witness:
  "st_Conditions (b_Status (snd (Backup_view (ex_copied[4 := ABackupCondition [ex_condition ''False'']])
     (ex_backup 2 3)))) = [ex_condition ''False'']"
  using copied_status_is_shared [OF value_k8s.k8s_copies_axioms ex_typed(1) ex_cells(2,1) ex_run
      ex_cells(3), of "\<lparr>sl_array = 4, sl_off = 0, sl_len = 1\<rparr>" 0 "[ex_condition ''True'']" _
      "ex_condition ''False''"]
  by (simp add: ex_heap_def ex_copied_def ex_backup_def Backup_view_def BackupStatus_view_def
      view_slice_def un_ABackupCondition_def elems_def)

text \<open>
  C21. Type safety of all the generated methods of both packages: on a typed heap and a receiver of
  the method's type, \<^verbatim>\<open>DeepCopy\<close> returns, only adds cells, keeps the heap typed (every stored pointer
  leads to a cell of its type and every slice lies within its array), and returns a pointer of the
  same type that is nil exactly when the receiver is. \<^verbatim>\<open>DeepCopyObject\<close> returns the same copy in an
  interface, and the nil interface, not an interface holding a nil pointer, for a nil receiver.
\<close>

theorem every_DeepCopy_keeps_types:
  assumes "k8s_copies K" and "DeepCopy_of K t = Some m" and "typed h" and "refs_ok h (ptr_refs t q)"
  shows "\<exists>h'. m q h = (Ret (map_option (\<lambda>_. length h) q), h') \<and> prefix h h' \<and> typed h' \<and>
    refs_ok h' (ptr_refs t (map_option (\<lambda>_. length h) q)) \<and>
    (\<forall>ob. DeepCopyObject_of K t = Some ob \<longrightarrow>
       ob q h = (Ret (map_option (\<lambda>_. (t, length h)) q), h'))"
proof -
  from k8s_copies.every_DeepCopy [OF assms(1,2)] assms(3,4)
  obtain h' where h': "m q h = (Ret (map_option (\<lambda>_. length h) q), h')" "prefix h h'" "typed h'"
    "refs_ok h' (ptr_refs t (map_option (\<lambda>_. length h) q))"
    by (auto simp: copies_at_def)
  have "ob q h = (Ret (map_option (\<lambda>_. (t, length h)) q), h')"
    if "DeepCopyObject_of K t = Some ob" for ob
    using DeepCopyObject_of_DeepCopy [OF that] assms(2) to_object_run [of "m q" h, OF h'(1), of t]
    by (auto simp: option.map_comp o_def)
  with h' show ?thesis by blast
qed

theorem every_DeepCopy_keeps_types_witness:
  "\<exists>h'. Backup_DeepCopyObject value_k8s (Some 5) ex_heap = (Ret (Some (TBackup, 6)), h') \<and> typed h'"
  using every_DeepCopy_keeps_types [OF value_k8s.k8s_copies_axioms, of TBackup, OF _ ex_typed]
  by (auto simp: ex_heap_def)

end
