(* ===== verification/Scaffold.thy ===== *)
theory Scaffold
  imports GoHeap
begin

text \<open>
  What the repository declares and does not use yet: the webhooks of \<^verbatim>\<open>Clone\<close>, \<^verbatim>\<open>Migration\<close>, \<^verbatim>\<open>Restore\<close> and
  \<^verbatim>\<open>Traffic\<close>, which leave every object as it is and accept everything, the records of \<^verbatim>\<open>pkg/restic/types.go\<close>
  for the JSON output of restic, and the resource of \<^verbatim>\<open>pkg/mysql\<close> with its empty methods.
\<close>

section \<open>Webhooks\<close>

definition Clone_Default :: "Clone \<Rightarrow> Clone" where "Clone_Default r = r"
definition Clone_ValidateCreate :: "Clone \<Rightarrow> goerr option" where "Clone_ValidateCreate r = None"
definition Clone_ValidateUpdate :: "Clone \<Rightarrow> (tag \<times> addr) option \<Rightarrow> goerr option" where
  "Clone_ValidateUpdate r old = None"
definition Clone_ValidateDelete :: "Clone \<Rightarrow> goerr option" where "Clone_ValidateDelete r = None"

definition Migration_Default :: "Migration \<Rightarrow> Migration" where "Migration_Default r = r"
definition Migration_ValidateCreate :: "Migration \<Rightarrow> goerr option" where "Migration_ValidateCreate r = None"
definition Migration_ValidateUpdate :: "Migration \<Rightarrow> (tag \<times> addr) option \<Rightarrow> goerr option" where
  "Migration_ValidateUpdate r old = None"
definition Migration_ValidateDelete :: "Migration \<Rightarrow> goerr option" where "Migration_ValidateDelete r = None"

definition Restore_Default :: "Restore \<Rightarrow> Restore" where "Restore_Default r = r"
definition Restore_ValidateCreate :: "Restore \<Rightarrow> goerr option" where "Restore_ValidateCreate r = None"
definition Restore_ValidateUpdate :: "Restore \<Rightarrow> (tag \<times> addr) option \<Rightarrow> goerr option" where
  "Restore_ValidateUpdate r old = None"
definition Restore_ValidateDelete :: "Restore \<Rightarrow> goerr option" where "Restore_ValidateDelete r = None"

definition Traffic_Default :: "Traffic \<Rightarrow> Traffic" where "Traffic_Default r = r"
definition Traffic_ValidateCreate :: "Traffic \<Rightarrow> goerr option" where "Traffic_ValidateCreate r = None"
definition Traffic_ValidateUpdate :: "Traffic \<Rightarrow> (tag \<times> addr) option \<Rightarrow> goerr option" where
  "Traffic_ValidateUpdate r old = None"
definition Traffic_ValidateDelete :: "Traffic \<Rightarrow> goerr option" where "Traffic_ValidateDelete r = None"

section \<open>pkg/restic/types.go\<close>

type_synonym i64 = "64 word"
type_synonym FileMode = "32 word"

record NodeStat =
  ns_TotalSize :: i64
  ns_TotalFileCount :: i64
  ns_SnapshotsCount :: i64

record NodeSnapshot =
  nsn_Time :: Time
  nsn_Tree :: string
  nsn_Paths :: "string list"
  nsn_Hostname :: string
  nsn_Username :: string
  nsn_UID :: u32
  nsn_GID :: u32
  nsn_Tags :: "string list"
  nsn_ID :: string
  nsn_ShortID :: string

record Matche =
  ma_Path :: string
  ma_Permissions :: string
  ma_Type :: string
  ma_Mode :: FileMode
  ma_Mtime :: Time
  ma_Atime :: Time
  ma_Ctime :: Time
  ma_UID :: u64
  ma_GID :: u64
  ma_User :: string
  ma_Group :: string
  ma_DeviceID :: i64
  ma_Size :: u64
  ma_Links :: u64

record NodeFind =
  nf_Matches :: "Matche list"
  nf_Hits :: u64
  nf_Snapshot :: string

record NodeLs =
  nl_UID :: u32
  nl_GID :: u32
  nl_Name :: string
  nl_Type :: string
  nl_Path :: string
  nl_Size :: u64
  nl_Mode :: FileMode
  nl_Permissions :: string
  nl_ModTime :: Time
  nl_AccessTime :: Time
  nl_ChangeTime :: Time
  nl_Time :: Time
  nl_Parent :: string
  nl_Tree :: string
  nl_Paths :: "string list"
  nl_HostName :: string
  nl_Username :: string
  nl_Tags :: "string list"
  nl_ID :: string
  nl_ShortID :: string
  nl_StructType :: string

section \<open>pkg/mysql\<close>

text \<open>The embedded \<^verbatim>\<open>gorm.Model\<close> belongs to another package and is kept opaque.\<close>

record 'm MysqlResource =
  my_Model :: 'm
  my_Type :: string
  my_Data :: string
  my_PVCName :: string
  my_PVName :: string
  my_Tags :: string
  my_Hosts :: string

definition MysqlResource_Create :: "'m MysqlResource \<Rightarrow> 'm MysqlResource" where
  "MysqlResource_Create r = r"
definition MysqlResource_Update :: "'m MysqlResource \<Rightarrow> 'm MysqlResource" where
  "MysqlResource_Update r = r"
definition MysqlResource_Read :: "'m MysqlResource \<Rightarrow> 'm MysqlResource" where
  "MysqlResource_Read r = r"
definition MysqlResource_Delete :: "'m MysqlResource \<Rightarrow> 'm MysqlResource" where
  "MysqlResource_Delete r = r"

end
