(* ===== verification/Base64.thy ===== *)
theory Base64
  imports GoStd
begin

text \<open>
  \<^verbatim>\<open>pkg/util/base64.go\<close> with the part of \<^verbatim>\<open>encoding/base64\<close> it uses: \<^verbatim>\<open>StdEncoding\<close>, padded and not strict.
  A string is a list of bytes. \<^verbatim>\<open>EncodeToString\<close> works on three bytes at a time in an unsigned 64-bit
  integer; \<^verbatim>\<open>DecodeString\<close> decodes one quantum of four letters at a time, skips line ends between letters,
  and reports the input byte at which the data is corrupt together with the bytes decoded before it. The
  fast paths of the library give the result of the loop modelled here.
\<close>

unbundle bit_operations_syntax

section \<open>encoding/base64\<close>

definition encodeStd :: string where
  "encodeStd = ''ABCDEFGHIJKLMNOPQRSTUVWXYZabcdefghijklmnopqrstuvwxyz0123456789+/''"

definition padChar :: char where "padChar = CHR ''=''"

definition enc_char :: "64 word \<Rightarrow> char" where
  "enc_char v = encodeStd ! unat (v AND 0x3F)"

definition byte :: "char \<Rightarrow> 64 word" where
  "byte c = of_nat (of_char c)"

definition to_byte :: "64 word \<Rightarrow> char" where
  "to_byte v = char_of (unat (v AND 0xFF))"

fun EncodeToString :: "string \<Rightarrow> string" where
  "EncodeToString [] = []"
| "EncodeToString [a] =
     (let val = push_bit 16 (byte a) in
      [enc_char (drop_bit 18 val), enc_char (drop_bit 12 val), padChar, padChar])"
| "EncodeToString [a, b] =
     (let val = push_bit 16 (byte a) OR push_bit 8 (byte b) in
      [enc_char (drop_bit 18 val), enc_char (drop_bit 12 val), enc_char (drop_bit 6 val), padChar])"
| "EncodeToString (a # b # c # src) =
     (let val = push_bit 16 (byte a) OR push_bit 8 (byte b) OR byte c in
      [enc_char (drop_bit 18 val), enc_char (drop_bit 12 val), enc_char (drop_bit 6 val), enc_char val]
      @ EncodeToString src)"

text \<open>\<open>None\<close> is the entry 0xff of the table.\<close>

definition decodeMap :: "char \<Rightarrow> 64 word option" where
  "decodeMap c = map_of (zip encodeStd (map of_nat [0..<64])) c"

definition is_newline :: "char \<Rightarrow> bool" where
  "is_newline c \<longleftrightarrow> c = char_of (10 :: nat) \<or> c = char_of (13 :: nat)"

definition CorruptInputError :: "nat \<Rightarrow> goerr" where
  "CorruptInputError n = External (''illegal base64 data at input byte '' @ Itoa (int n))"

definition dec_val :: "64 word list \<Rightarrow> 64 word" where
  "dec_val dbuf =
     push_bit 18 (dbuf ! 0) OR push_bit 12 (dbuf ! 1) OR push_bit 6 (dbuf ! 2) OR dbuf ! 3"

definition quantum_bytes :: "64 word list \<Rightarrow> string" where
  "quantum_bytes dbuf =
     (let dlen = length dbuf; val = dec_val (dbuf @ replicate (4 - dlen) 0) in
      take (dlen - 1) [to_byte (drop_bit 16 val), to_byte (drop_bit 8 val), to_byte val])"

text \<open>The loop that skips line ends; the index follows the input.\<close>

fun skip_newlines :: "nat \<Rightarrow> string \<Rightarrow> nat \<times> string" where
  "skip_newlines si [] = (si, [])"
| "skip_newlines si (c # cs) = (if is_newline c then skip_newlines (Suc si) cs else (si, c # cs))"

text \<open>After the padding only line ends may follow; anything else is an error that keeps the bytes.\<close>

definition padded :: "64 word list \<Rightarrow> nat \<Rightarrow> string \<Rightarrow> string \<times> nat \<times> string \<times> goerr option" where
  "padded dbuf si src =
     (case skip_newlines si src of (si', rest) \<Rightarrow>
        (rest, si', quantum_bytes dbuf, if rest = [] then None else Some (CorruptInputError si')))"

text \<open>
  One quantum: \<open>dbuf\<close> holds the letters read so far and \<open>si\<close> is the index of the next byte of the input.
  The result is what is left of the input, its index, the bytes and the error.
\<close>

fun decodeQuantum :: "64 word list \<Rightarrow> nat \<Rightarrow> string \<Rightarrow> string \<times> nat \<times> string \<times> goerr option" where
  "decodeQuantum dbuf si [] =
     ([], si, [], if dbuf = [] then None else Some (CorruptInputError (si - length dbuf)))"
| "decodeQuantum dbuf si (c # src) =
     (case decodeMap c of
        Some v \<Rightarrow>
          if length dbuf = 3 then (src, Suc si, quantum_bytes (dbuf @ [v]), None)
          else decodeQuantum (dbuf @ [v]) (Suc si) src
      | None \<Rightarrow>
          if is_newline c then decodeQuantum dbuf (Suc si) src
          else if c \<noteq> padChar \<or> length dbuf < 2 then (src, Suc si, [], Some (CorruptInputError si))
          else if length dbuf = 2 then
            (case skip_newlines (Suc si) src of
               (si', []) \<Rightarrow> ([], si', [], Some (CorruptInputError si'))
             | (si', d # rest) \<Rightarrow>
                 if d \<noteq> padChar then (d # rest, si', [], Some (CorruptInputError (si' - 1)))
                 else padded dbuf (Suc si') rest)
          else padded dbuf (Suc si) src)"

lemma skip_newlines_length: "length (snd (skip_newlines si src)) \<le> length src"
  by (induction si src rule: skip_newlines.induct) auto

lemma padded_length: "length (fst (padded dbuf si src)) \<le> length src"
  using skip_newlines_length [of si src] by (auto simp: padded_def split: prod.split)

lemma decodeQuantum_le: "length (fst (decodeQuantum dbuf si src)) \<le> length src"
proof (induction dbuf si src rule: decodeQuantum.induct)
  case (2 dbuf si c src)
  have skip: "length (fst (case skip_newlines (Suc si) src of
      (si', []) \<Rightarrow> ([], si', [], Some (CorruptInputError si'))
    | (si', d # rest) \<Rightarrow>
        if d \<noteq> padChar then (d # rest, si', [], Some (CorruptInputError (si' - 1)))
        else padded dbuf (Suc si') rest)) \<le> length src"
    using skip_newlines_length [of "Suc si" src] padded_length [of dbuf]
    by (auto split: prod.split list.split) (meson Suc_leD le_trans)
  show ?case
    using 2 skip padded_length [of dbuf "Suc si" src]
    by (cases "decodeMap c") (auto intro: le_SucI)
qed simp

lemma decodeQuantum_shrinks:
  assumes "(rest, y) = decodeQuantum [] si src" and "src \<noteq> []"
  shows "length rest < length src"
proof -
  obtain c cs where src: "src = c # cs" using assms(2) by (cases src) auto
  have "length (fst (decodeQuantum [] si (c # cs))) \<le> length cs"
    using decodeQuantum_le by (simp split: option.split)
  with assms(1) show ?thesis by (metis src fst_conv le_imp_less_Suc length_Cons)
qed

function DecodeFrom :: "nat \<Rightarrow> string \<Rightarrow> string \<times> goerr option" where
  "DecodeFrom si src =
     (if src = [] then ([], None)
      else case decodeQuantum [] si src of (rest, si', bytes, err) \<Rightarrow>
        (case err of
           Some e \<Rightarrow> (bytes, Some e)
         | None \<Rightarrow> (case DecodeFrom si' rest of (bs, err') \<Rightarrow> (bytes @ bs, err'))))"
  by auto
termination
  by (relation "measure (\<lambda>(si, src). length src)") (auto dest: decodeQuantum_shrinks)

declare DecodeFrom.simps [simp del]

definition DecodeString :: "string \<Rightarrow> string \<times> goerr option" where
  "DecodeString s = DecodeFrom 0 s"

definition Base64Enc :: "string \<Rightarrow> string" where
  "Base64Enc str = EncodeToString str"

definition Base64Dec :: "string \<Rightarrow> string \<times> goerr option" where
  "Base64Dec str = DecodeString str"


section \<open>Round trip\<close>

lemma mask6: "(0x3F :: 64 word) = mask 6" and mask8: "(0xFF :: 64 word) = mask 8"
  by (simp_all add: mask_eq_exp_minus_1)

lemma decodeMap_enc_char: "decodeMap (enc_char v) = Some (v AND 0x3F)"
proof -
  have len: "length encodeStd = 64" and dist: "distinct encodeStd"
    by (simp_all add: encodeStd_def)
  have "v AND 0x3F < 64"
    using and_mask_less_size [of 6 v] by (simp add: mask6 word_size)
  then have "unat (v AND 0x3F) < 64" by (simp add: word_less_nat_alt)
  then show ?thesis
    using map_of_zip_nth [of encodeStd "map (of_nat :: nat \<Rightarrow> 64 word) [0..<64]" "unat (v AND 0x3F)"]
      len dist
    by (simp add: decodeMap_def enc_char_def)
qed

lemma padChar_no_code: "decodeMap padChar = None" "\<not> is_newline padChar"
  by code_simp+

lemma unat_byte: "unat (byte c) = of_char c"
  by (simp add: byte_def unat_of_nat order_less_trans [OF nat_of_char_less_256])

lemma byte_bit:
  assumes "bit (byte c) n"
  shows "n < 8"
proof -
  have "byte c < 2 ^ 8" by (simp add: word_less_nat_alt unat_byte)
  then have "byte c AND mask 8 = byte c" by (rule less_mask_eq)
  with assms show ?thesis by (metis bit_and_iff bit_mask_iff)
qed

lemma byte_high [simp]: "8 \<le> n \<Longrightarrow> \<not> bit (byte c) n"
  using byte_bit by (meson not_le)

lemma to_byte_byte:
  assumes "\<And>n. n < 8 \<Longrightarrow> bit v n = bit (byte c) n"
  shows "to_byte v = c"
proof -
  have "v AND 0xFF = byte c"
    by (rule bit_word_eqI) (use assms byte_bit [of c] in \<open>auto simp: mask8 bit_simps\<close>)
  then show ?thesis by (simp add: to_byte_def unat_byte)
qed

lemma dec_val_sextets:
  assumes "\<And>n. bit v n \<Longrightarrow> n < 24"
  shows "dec_val [drop_bit 18 v AND 0x3F, drop_bit 12 v AND 0x3F, drop_bit 6 v AND 0x3F, v AND 0x3F] = v"
proof (rule bit_word_eqI)
  fix n
  assume "n < LENGTH(64)"
  consider "n < 6" | "6 \<le> n" "n < 12" | "12 \<le> n" "n < 18" | "18 \<le> n" "n < 24" | "24 \<le> n"
    by linarith
  then show "bit (dec_val [drop_bit 18 v AND 0x3F, drop_bit 12 v AND 0x3F, drop_bit 6 v AND 0x3F,
      v AND 0x3F]) n = bit v n"
    using assms [of n] \<open>n < LENGTH(64)\<close> by cases (auto simp: dec_val_def mask6 bit_simps)
qed


lemma quantum_of_three:
  fixes a b c
  defines "val \<equiv> push_bit 16 (byte a) OR push_bit 8 (byte b) OR byte c"
  shows "quantum_bytes [drop_bit 18 val AND 0x3F, drop_bit 12 val AND 0x3F, drop_bit 6 val AND 0x3F,
    val AND 0x3F] = [a, b, c]"
proof -
  have b: "bit val n \<longleftrightarrow> (if 24 \<le> n then False else if 16 \<le> n then bit (byte a) (n - 16)
    else if 8 \<le> n then bit (byte b) (n - 8) else bit (byte c) n)" for n
    by (auto simp: val_def bit_simps)
  have "n < 24" if "bit val n" for n
    using that by (simp add: b split: if_splits)
  then have d: "dec_val [drop_bit 18 val AND 0x3F, drop_bit 12 val AND 0x3F, drop_bit 6 val AND 0x3F,
      val AND 0x3F] = val"
    by (rule dec_val_sextets)
  have "to_byte (drop_bit 16 val) = a" "to_byte (drop_bit 8 val) = b" "to_byte val = c"
    by (rule to_byte_byte, simp add: bit_simps b)+
  then show ?thesis by (simp add: quantum_bytes_def d)
qed

lemma byte_zero: "byte (char_of (0 :: nat)) = 0"
  by (simp add: byte_def)

lemma quantum_of_two:
  fixes a b
  defines "val \<equiv> push_bit 16 (byte a) OR push_bit 8 (byte b)"
  shows "quantum_bytes [drop_bit 18 val AND 0x3F, drop_bit 12 val AND 0x3F, drop_bit 6 val AND 0x3F]
    = [a, b]"
proof -
  have "val AND 0x3F = 0"
    by (rule bit_word_eqI) (auto simp: val_def mask6 bit_simps)
  then show ?thesis
    using quantum_of_three [of a b "char_of (0 :: nat)"]
    by (simp add: quantum_bytes_def byte_zero Let_def flip: val_def)
qed

lemma quantum_of_one:
  fixes a
  defines "val \<equiv> push_bit 16 (byte a)"
  shows "quantum_bytes [drop_bit 18 val AND 0x3F, drop_bit 12 val AND 0x3F] = [a]"
proof -
  have "drop_bit 6 val AND 0x3F = 0"
    by (rule bit_word_eqI) (auto simp: val_def mask6 bit_simps)
  then show ?thesis
    using quantum_of_two [of a "char_of (0 :: nat)"]
    by (simp add: quantum_bytes_def byte_zero Let_def numeral_2_eq_2 flip: val_def)
qed

lemmas decode_char = decodeMap_enc_char padChar_no_code

lemma Decode_Encode: "DecodeFrom si (EncodeToString s) = (s, None)"
proof (induction s arbitrary: si rule: EncodeToString.induct)
  case (2 a)
  then show ?case
    by (simp add: DecodeFrom.simps Let_def decode_char padded_def quantum_of_one del: drop_bit_push_bit)
next
  case (3 a b)
  then show ?case
    by (simp add: DecodeFrom.simps Let_def decode_char padded_def quantum_of_two del: drop_bit_or)
next
  case (4 a b c src)
  then show ?case
    by (subst DecodeFrom.simps) (simp add: Let_def decode_char quantum_of_three del: drop_bit_or)
qed (simp add: DecodeFrom.simps)

text \<open>
  C38. Decoding what \<^verbatim>\<open>Base64Enc\<close> made gives back the string, whatever bytes it has and whatever its length
  modulo three, and no error.
\<close>

theorem Base64_roundtrip: "Base64Dec (Base64Enc s) = (s, None)"
  by (simp add: Base64Dec_def Base64Enc_def DecodeString_def Decode_Encode)

end
