(* ===== verification/Spec2Isabelle.thy ===== *)
theory Spec2Isabelle
  imports Quiet Refinement BackupNames Permissions VolumePath Program Owners Tool DeepCopyProps Scaffold Base64
begin

text \<open>
  A verification of the horus operator, a Kubernetes operator that backs up the persistent volumes of workloads with
  restic.

  \<^bold>\<open>The program.\<close> A user creates a \<^verbatim>\<open>Backup\<close> object (\<^verbatim>\<open>apis/storage/v1alpha1\<close>). The operator (\<^verbatim>\<open>main.go\<close>) watches these objects; for
  each event that its predicates let through (\<^verbatim>\<open>controllers/common\<close>) the reconciler
  (\<^verbatim>\<open>controllers/storage/backup_controller.go\<close>) makes sure that a ServiceAccount, a ClusterRole, a ClusterRoleBinding and a
  CronJob exist, renders the last three from the manifests of \<^verbatim>\<open>pkg/template\<close>, and keeps a finalizer on the
  Backup. The CronJob runs the tool \<^verbatim>\<open>horusctl\<close> (\<^verbatim>\<open>cmd/horusctl\<close>), whose command \<^verbatim>\<open>backup\<close> calls \<^verbatim>\<open>Do\<close> of \<^verbatim>\<open>pkg/backup\<close>:
  it reads the Backup, finds the volumes of the workload's pods, finds the directory of each volume on its node
  with a search deployment that runs the program \<^verbatim>\<open>build/findpvdir\<close>, and for every storage and every volume
  starts a helper deployment and runs restic in its pod. A deferred cleanup deletes the deployments.

  \<^bold>\<open>How it is modelled.\<close> A Go function with effects is a state transformer that ends in an outcome: it returns, the
  process exits, or the goroutine panics (\<open>Prelude\<close>). Errors are values. A struct is a record, a pointer an
  option, an unsigned integer a word of its width, a string a list of bytes. The state of a run is the outside
  world, the trace of the calls made on it and the package variables. Everything outside the repository is a
  parameter: the record \<open>kube\<close> for the reconciler's client and helpers, \<open>cluster\<close> for the handlers of the backup
  run, \<open>predlib\<close>, \<open>resticlib\<close>, \<open>manager\<close> and \<open>schemelib\<close> for the smaller parts. Nothing is assumed about them in the definitions; where a
  theorem needs their documented behaviour it says so in a hypothesis (\<open>api_server\<close>, \<open>versioned_server\<close>, \<open>manifests_decode\<close>, \<open>metadata_helpers\<close>,
  \<open>labels_package\<close>, \<open>finalizer_helpers\<close>, \<open>range_law\<close>, \<open>predicate_package\<close>, \<open>scheme_package\<close>, \<open>manager_accepts\<close>, \<open>controller_references\<close>, \<open>event_sources\<close>), and a witness shows that it can hold, with the
  servers in memory \<open>mem_kube\<close> and \<open>busy_kube\<close> or the cluster \<open>demo_cluster\<close>.

  \<^bold>\<open>The theories.\<close>
  \<^item> \<open>Prelude\<close>: outcomes, sequencing, deferred calls, loops, calls of the outside world, weakest preconditions.
  \<^item> \<open>GoStd\<close>: what is used of \<^verbatim>\<open>strings\<close>, \<^verbatim>\<open>strconv\<close>, \<^verbatim>\<open>fmt\<close> and \<^verbatim>\<open>path/filepath\<close>, with their laws (Split and Join, Clean).
  \<^item> \<open>ApiTypes\<close>: the API types and constants (\<^verbatim>\<open>apis/storage/v1alpha1/backup_types.go\<close>, \<^verbatim>\<open>pkg/types\<close>).
  \<^item> \<open>Templates\<close>: the manifests and \<^verbatim>\<open>Parse\<close> of \<^verbatim>\<open>pkg/template\<close>, and what the reconciler's manifests render to.
  \<^item> \<open>Kube\<close>: the objects the operator writes, the parameter \<open>kube\<close>, \<^verbatim>\<open>pkg/util/labels.go\<close>.
  \<^item> \<open>ApiServer\<close>: the laws of the API server and of YAML decoding, and the server in memory.
  \<^item> \<open>Reconciler\<close>: \<^verbatim>\<open>backup_controller.go\<close>: constructors, stages, finalizer protocol, \<open>Reconcile\<close>.
  \<^item> \<open>ReconcilerTrace\<close>: one reconciliation against any server: the order of its calls, dropped update errors, the
    finalizer, exits, labels. The four stages interpret the locale \<open>stage_contract\<close>.
  \<^item> \<open>ReconcilerServer\<close>: several reconciliations against a server that keeps its laws: a Backup in namespace
    \<^verbatim>\<open>default\<close> settles and its deletion completes; in any other namespace it never settles.
  \<^item> \<open>Interference\<close>: reconciliations while users and other programs change the cluster between any two calls, reads are stale and
    calls fail: the laws of such a server (\<open>versioned_server\<close>: an Update needs the current resource version), triples in the
    rely-guarantee style in the locale \<open>guarantee\<close>, which \<open>safe\<close> interprets, the state machine \<open>fleet\<close> with its invariant,
    and a server in memory with a script of what the others do.
  \<^item> \<open>WorkQueue\<close>: the work queue with several Backups, which empties, and Backups that share a namespace.
  \<^item> \<open>Deletions\<close>: the same queue with Backups under deletion and requests for Backups that are gone, which empties too, and with a
    Backup of another namespace, which never does.
  \<^item> \<open>Quiet\<close>: the two views put together: once the others rest (\<open>stands_in\<close>: the server then answers as one that keeps its laws), the worker
    brings any state that operator and others have reached to what the users wrote last. Runs against the two servers are
    shown equal by rules on pairs of computations (\<open>same_run\<close>).
  \<^item> \<open>Refinement\<close>: the abstract machine of a Backup's progress (\<open>progress\<close>, \<open>spec_step\<close>) that any number of reconciliations refine.
  \<^item> \<open>Predicates\<close>: \<^verbatim>\<open>controllers/common/predicate.go\<close> and the event filter.
  \<^item> \<open>BackupEnv\<close>, \<open>BackupDeploy\<close>, \<open>BackupRun\<close>: \<^verbatim>\<open>pkg/backup\<close> with \<^verbatim>\<open>pkg/minio\<close> and the helpers of \<^verbatim>\<open>pkg/util\<close>: the parameter
    \<open>cluster\<close> and the package state; the helper deployments; the run.
  \<^item> \<open>BackupTrace\<close>: for every cluster, the cleanup of a run, its exits and its namespace. The locale \<open>trace_contract\<close> carries
    these proofs; it is interpreted for deletions, for the namespace and, in \<open>BackupProps\<close>, for the listing of pvcs.
  \<^item> \<open>BackupNames\<close>: whose deployments a run deletes: the package variables followed through a run, with the locale \<open>session_order\<close>,
    interpreted for the names made for the Backup of the run, for the cleanup and, in \<open>BackupResult\<close>, for the namespace of the pvcs;
    and the search deployments of other nodes, which no run deletes.
  \<^item> \<open>VolumeMap\<close>: what the map of volumes has to be, as a function of what the cluster answered about each pod (\<open>pod_report\<close>, \<open>volume_of\<close>, \<open>gathered\<close>).
  \<^item> \<open>BackupResult\<close>: what a run that succeeds has done: the restic protocol, the volumes of all pods collected, every volume
    backed up to every storage. The three storages with a helper pod interpret the locale \<open>pod_provider\<close>.
  \<^item> \<open>BackupProps\<close>: the choice of the storage, the manifests of the helpers, the search for the directory, paths, and
    inputs the code does not foresee (other storages, unreadable volumes), with runs on concrete clusters.
  \<^item> \<open>Permissions\<close>: the ClusterRole, ClusterRoleBinding and CronJob manifests read line by line, and what they say of each other: the role, the
    accounts, the permissions listed.
  \<^item> \<open>Cli\<close>: \<^verbatim>\<open>pkg/args\<close>, \<^verbatim>\<open>pkg/logger\<close>, \<^verbatim>\<open>cmd/horusctl\<close>, \<^verbatim>\<open>pkg/restic\<close>, \<^verbatim>\<open>pkg/version\<close>, \<^verbatim>\<open>build/findpvdir\<close>. The arguments interpret the locales
    \<open>setting\<close> and \<open>two_settings\<close>.
  \<^item> \<open>VolumePath\<close>: the flags of \<^verbatim>\<open>build/findpvdir\<close>, and the way from the search for a volume on its node (\<open>locateVolume\<close>, the program,
    its output) to the path restic is given (\<open>pv_path\<close>).
  \<^item> \<open>Startup\<close>: \<^verbatim>\<open>main\<close> of \<^verbatim>\<open>main.go\<close>, the registration of controllers and webhooks, the webhooks of the Backup and the
    reconcilers without logic. The parts of the start-up interpret the locale \<open>startup_part\<close>.
  \<^item> \<open>Program\<close>: the whole program: the initialisation of its packages, with the types registered in \<^verbatim>\<open>groupversion_info.go\<close> and
    the \<^verbatim>\<open>init\<close> functions, then \<^verbatim>\<open>main\<close>; it starts against a manager that knows its scheme.
  \<^item> \<open>Owners\<close>: the owner references that the reconciler's objects get and the requests that their events give.
  \<^item> \<open>Util\<close>: the rest of \<^verbatim>\<open>pkg/util\<close> and \<^verbatim>\<open>pkg/version\<close>, and the command \<^verbatim>\<open>horusctl restic snapshots\<close>.
  \<^item> \<open>Tool\<close>: \<^verbatim>\<open>horusctl\<close> as a program: its handlers, its tree of commands and \<^verbatim>\<open>Execute\<close>; the parameter \<open>parse\<close> reads the arguments.
  \<^item> \<open>Base64\<close>: \<^verbatim>\<open>pkg/util/base64.go\<close> with the part of \<^verbatim>\<open>encoding/base64\<close> it uses, and the round trip.
  \<^item> \<open>GoHeap\<close>: the API objects as Go keeps them in memory, with pointers and slices: cells, typed heaps, what a struct
    denotes and reaches. \<open>CopyContract\<close>: the locales \<open>layout\<close>, \<open>copier\<close> and \<open>cell_type\<close> and the constructions that keep their promises.
    \<open>DeepCopy\<close>: the methods of the two generated files \<^verbatim>\<open>zz_generated.deepcopy.go\<close>. \<open>DeepCopyProps\<close>: each method as a \<open>copier\<close>; copies
    are equal and typed, the copied spec is isolated, the copied status is not. The copies made by the Kubernetes
    packages are the parameter \<open>k8scopy\<close> with the locale \<open>k8s_copies\<close>.
  \<^item> \<open>Scaffold\<close>: the webhooks of the four scaffolded kinds and the records that nothing uses yet.
  \<^item> This theory: properties that span the operator and the tool.

  \<^bold>\<open>Bounds.\<close> Every loop of the program is over a list or counts to a constant, so the model needs no fuel for it: the search
  for a directory counts down from twelve, as the source does. \<open>drain\<close> follows the requeues of the reconciler with a
  bound of four; the theorems show that four are enough, one for each object that can be missing. \<open>runs\<close> takes any
  number of reconciliations, and \<open>spec_runs\<close> as many steps of the abstract machine. \<open>worker\<close>, the loop over the work
  queue, has no bound: it is a partial function, and C4 shows that it
  returns, with the missing objects plus the length of the queue as measure; with deletions in the queue, the Backups that wait for
  their release come before these two. The decoder of base64 recurses on the
  length of its input.

  \<^bold>\<open>Not modelled.\<close> Logging and the durations only logging reads; the pauses between tries; standard input of commands; the parsing of arguments by
  cobra and pflag; locks of the argument builder, which one goroutine uses; two reconciliations of the same request at once (the work queue of
  controller-runtime never runs them); the interfaces
  of \<^verbatim>\<open>pkg/types/interfaces.go\<close>, which nothing implements; the encoder configuration of zap; deployment files.
  The garbage collection of owned objects is one of the steps of the others (\<open>object\<close>), not a component of its own. What the map leaves of the Go files is
  package clauses, imports, licence headers, comments, the fields of the reconcilers that hold client, log and scheme, and tests.
\<close>

section \<open>Admission and the backup run\<close>

text \<open>
  C31. The webhooks of the Backup let every object through unchanged. A Backup whose source is none of pod, deployment,
  statefulset and daemonset, spelled like this, is therefore admitted, and each run for it fails before
  it has made any call on the workload; the documented sources persistentvolume and
  persistentvolumeclaim are among them.
\<close>

theorem admitted_but_unsupported:
  assumes "sp_BackupFrom (b_Spec b) = Some frm"
    and "bf_Resource frm \<notin> {PodResource, DeploymentResource, StatefulSetResource, DaemonSetResource}"
  shows "ValidateCreate (Default b) = None \<and> ValidateUpdate (Default b) old = None \<and>
    sp_BackupFrom (b_Spec (Default b)) = Some frm \<and>
    fst (constructPvcpvMap X (Default b) s) = Ret (Inl (Errorf
      ''Backup.spec.backupFrom.resource field value must be pod, deployment, statefulset or daemonset'')) \<and>
    calls (snd (constructPvcpvMap X (Default b) s)) = calls s"
  using assms
  by (simp add: ValidateCreate_def ValidateUpdate_def Default_def constructPvcpvMap_def podsOf_def deref_def
      bindE_def throw_def go_run)

theorem admitted_but_unsupported_witness:
  "let b = demo_backup\<lparr>b_Spec := (b_Spec demo_backup)\<lparr>sp_BackupFrom :=
      Some \<lparr>bf_Name = ''data'', bf_Resource = PersistentVolumeClaim\<rparr>\<rparr>\<rparr>
   in ValidateCreate (Default b) = None \<and>
     calls (snd (constructPvcpvMap one_node (Default b) (init_session ()))) = []"
proof -
  let ?frm = "\<lparr>bf_Name = ''data'', bf_Resource = PersistentVolumeClaim\<rparr>"
  let ?b = "demo_backup\<lparr>b_Spec := (b_Spec demo_backup)\<lparr>sp_BackupFrom := Some ?frm\<rparr>\<rparr>"
  have "bf_Resource ?frm \<notin> {PodResource, DeploymentResource, StatefulSetResource, DaemonSetResource}"
    by (simp add: resource_defs)
  from admitted_but_unsupported [OF _ this, of ?b demo_backup one_node "init_session ()"] show ?thesis
    by (simp add: Let_def init_session_def)
qed

section \<open>The CronJob and the command it runs\<close>

text \<open>The arguments of the container in a CronJob manifest, as they stand in its lines.\<close>

definition job_args :: "string \<Rightarrow> string list" where
  "job_args man = map (drop 14) (takeWhile (\<lambda>l. l \<noteq> ''            env:'')
     (drop 1 (dropWhile (\<lambda>l. l \<noteq> ''            args:'') (Split man newline))))"

lemma Split_unlines: "one_line l \<Longrightarrow> Split (unlines (l # ls)) newline = l # Split (unlines ls) newline"
  by (simp only: unlines_Cons Split_line)

lemma cronjob_args:
  assumes "one_line (b_Name b)" "one_line (sp_LogLevel (b_Spec b))" "one_line (sp_LogFormat (b_Spec b))"
    "one_line (b_Namespace b)" "one_line name"
  shows "job_args (cronjob_text b name) =
    [''--log-level='' @ sp_LogLevel (b_Spec b), ''--log-format='' @ sp_LogFormat (b_Spec b), ''backup'',
     ''--namespace='' @ b_Namespace b, name]"
  using assms unfolding job_args_def cronjob_text_def
  by (simp add: Split_unlines one_line_def del: Split.simps)

text \<open>
  C26. The CronJob of a Backup runs \<^verbatim>\<open>horusctl backup\<close> in the namespace of the Backup with the name of the workload as
  argument, not with the name of the Backup. Unless a Backup happens to have the name of the workload, the run
  cannot read its Backup and returns an error, which the command drops.
\<close>

theorem cronjob_names_the_workload:
  assumes "sp_BackupFrom (b_Spec b) = Some frm" "one_line (b_Name b)" "one_line (sp_LogLevel (b_Spec b))"
    "one_line (sp_LogFormat (b_Spec b))" "one_line (b_Namespace b)" "one_line (bf_Name frm)"
    and "fst (x_DynGet X (GroupStorage, VersionStorage, KindBackup) (b_Namespace b) (bf_Name frm) (ext (pr_session p))) = Inl e"
  shows "\<exists>man err. Parse CronJobForBackup b = Inr man \<and>
    job_args man = [''--log-level='' @ sp_LogLevel (b_Spec b), ''--log-format='' @ sp_LogFormat (b_Spec b), ''backup'',
      ''--namespace='' @ b_Namespace b, bf_Name frm] \<and>
    fst (Do X (b_Namespace b) (bf_Name frm) (pr_session p)) = Ret (Inl err) \<and>
    fst (backupEach X (b_Namespace b) [bf_Name frm] p) = Ret ()"
proof -
  have "Parse CronJobForBackup b = Inr (cronjob_text b (bf_Name frm))"
    using assms(1) by (intro Parse_render(1)) (simp add: CronJob_render)
  moreover obtain err where err: "fst (Do X (b_Namespace b) (bf_Name frm) (pr_session p)) = Ret (Inl err)"
    using run_without_backup [OF assms(7)] by blast
  moreover from err have "fst (backupEach X (b_Namespace b) [bf_Name frm] p) = Ret ()"
    by (cases "Do X (b_Namespace b) (bf_Name frm) (pr_session p)") (simp add: in_session_def go_run)
  ultimately show ?thesis using cronjob_args [OF assms(2-6)] by blast
qed

theorem cronjob_names_the_workload_witness:
  "\<exists>man. Parse CronJobForBackup demo_backup = Inr man \<and> last (job_args man) = ''web'' \<and> b_Name demo_backup = ''daily''"
proof -
  let ?p = "\<lparr>pr_holder = newHolder, pr_logger = demo_logger, pr_session = init_session ()\<rparr>"
  have "\<exists>man err. Parse CronJobForBackup demo_backup = Inr man \<and>
    job_args man = [''--log-level='' @ sp_LogLevel (b_Spec demo_backup), ''--log-format='' @ sp_LogFormat (b_Spec demo_backup),
      ''backup'', ''--namespace='' @ b_Namespace demo_backup, bf_Name \<lparr>bf_Name = ''web'', bf_Resource = ''deployment''\<rparr>] \<and>
    fst (Do offline (b_Namespace demo_backup) (bf_Name \<lparr>bf_Name = ''web'', bf_Resource = ''deployment''\<rparr>) (pr_session ?p)) = Ret (Inl err) \<and>
    fst (backupEach offline (b_Namespace demo_backup) [bf_Name \<lparr>bf_Name = ''web'', bf_Resource = ''deployment''\<rparr>] ?p) = Ret ()"
    by (rule cronjob_names_the_workload [where e = notFound])
      (simp_all add: demo_spec one_line_def offline_def demo_backup_def sample_backup_def sample_spec_def emptyMeta_def)
  then show ?thesis by (auto simp: demo_spec)
qed

end
